(* ===== verification/Prelude.thy ===== *)
theory Prelude
  imports Main "HOL-Library.Char_ord" "HOL-Library.List_Lexorder"
begin

text \<open>
  What every theory of the development shares: the byte strings and clock readings of the
  Go program, its errors as values, the sequencing of fallible steps, the collections of
  simplification rules, and a few generic lemmas on lists.

  A Go \<open>string\<close> and a \<open>[]byte\<close> are both a HOL \<open>string\<close>, a list of
  characters each standing for one byte. A \<open>time.Time\<close> is the number of nanoseconds
  since the Unix epoch, so \<open>Before\<close>, \<open>After\<close> and \<open>Add\<close> are
  the order and the addition of integers; the zero value of the type is \<open>zeroTime\<close>.
\<close>

section \<open>Types\<close>

type_synonym bytes = string
type_synonym time = int
type_synonym duration = int

text \<open>The units of package time, in nanoseconds, and the zero value (1 January of year 1).\<close>

definition Second :: duration where "Second = 1000000000"
definition Millisecond :: duration where "Millisecond = 1000000"
definition Minute :: duration where "Minute = 60 * Second"
definition Hour :: duration where "Hour = 60 * Minute"

definition zeroTime :: time where "zeroTime = - 62135596800 * 1000000000"

definition IsZero :: "time \<Rightarrow> bool" where "IsZero t \<longleftrightarrow> t = zeroTime"

text \<open>\<open>Time.Sub\<close> saturates at the ends of the int64 range of a Duration.\<close>

definition timeSub :: "time \<Rightarrow> time \<Rightarrow> duration" where
  "timeSub t u = max (- (2 ^ 63)) (min (2 ^ 63 - 1) (t - u))"

text \<open>\<open>Time.Unix\<close>: whole seconds, rounded down.\<close>

definition toUnix :: "time \<Rightarrow> int" where "toUnix t = t div Second"
definition ofUnix :: "int \<Rightarrow> time" where "ofUnix s = s * Second"

named_theorems duration_defs
lemmas [duration_defs] = Second_def Millisecond_def Minute_def Hour_def

section \<open>Errors as values\<close>

text \<open>
  The sentinel errors of the packages modelled here. An error that wraps a sentinel with
  \<open>%w\<close> is that sentinel (the code only ever tests errors with \<open>errors.Is\<close>);
  an error with no sentinel is \<open>ErrMessage\<close> with its text, and a failure the
  database driver reports is \<open>ErrDriver\<close> with its text. \<open>ErrSentinel\<close> names a sentinel
  of a package whose callers only pass it on.
\<close>

datatype err =
    ErrNotFound | ErrConflict | ErrDriver string | ErrMessage string
  | ErrInvalidCredentials | ErrAccountLocked | ErrInvalidRefreshToken | ErrGuestUnavailable
  | ErrUnsupportedAuthDomain | ErrInvalidSessionToken
  | ErrForbidden | ErrBuiltInRole | ErrUnknownPermission
  | ErrLastAdministrator
  | ErrInvalidResetCredential | ErrInvalidLifetime | ErrInvalidToken
  | ErrUnauthenticated | ErrInvalidCredential | ErrAlreadyInitialized
  | ErrCursorInvalid | ErrCursorExpired
  | ErrOwnershipConflict | ErrInvalidName | ErrInvalidIPv4
  | ErrIdempotencyKeyReused | ErrIdempotencyInProgress | ErrWorkflowNotFound
  | ErrSessionCapacityReached
  | ErrSentinel string

type_synonym 'a result = "err + 'a"

text \<open>\<open>if err != nil { return err }\<close> after a fallible step.\<close>

fun andThen :: "'e + 'a \<Rightarrow> ('a \<Rightarrow> 'e + 'b) \<Rightarrow> 'e + 'b" where
  "andThen (Inl e) f = Inl e"
| "andThen (Inr a) f = f a"

lemma andThen_Inr_iff: "andThen m f = Inr r \<longleftrightarrow> (\<exists>a. m = Inr a \<and> f a = Inr r)"
  by (cases m) auto

lemma andThen_Inl_iff: "andThen m f = Inl e \<longleftrightarrow> m = Inl e \<or> (\<exists>a. m = Inr a \<and> f a = Inl e)"
  by (cases m) auto

lemma andThen_Inr_E [elim!]:
  assumes "andThen m f = Inr r"
  obtains a where "m = Inr a" and "f a = Inr r"
  using assms by (auto simp: andThen_Inr_iff)

lemma andThen_cong [fundef_cong]:
  "m = m' \<Longrightarrow> (\<And>a. m' = Inr a \<Longrightarrow> f a = g a) \<Longrightarrow> andThen m f = andThen m' g"
  by (cases m') auto

text \<open>A guard that returns an error when its condition fails.\<close>

definition require :: "bool \<Rightarrow> 'e \<Rightarrow> 'e + unit" where
  "require b e = (if b then Inr () else Inl e)"

lemma require_simps [simp]:
  "require True e = Inr ()" "require False e = Inl e"
  "require b e = Inr u \<longleftrightarrow> b" "require b e = Inl e' \<longleftrightarrow> \<not> b \<and> e = e'"
  by (auto simp: require_def)

lemma sum_bool_eq_Inl [simp]:
  "(if b then Inl x else Inr y) = Inl z \<longleftrightarrow> b \<and> x = z"
  "(if b then Inr y else Inl x) = Inl z \<longleftrightarrow> \<not> b \<and> x = z"
  by auto

lemma sum_bool_eq_Inr [simp]:
  "(if b then Inl x else Inr y) = Inr z \<longleftrightarrow> \<not> b \<and> y = z"
  "(if b then Inr y else Inl x) = Inr z \<longleftrightarrow> b \<and> y = z"
  by auto

section \<open>Rows of a table\<close>

text \<open>
  A table is the list of its rows in insertion order. \<open>updateWhere\<close> is a SQL UPDATE;
  the number of affected rows is the number of rows the condition selects.
\<close>

definition selectFirst :: "('a \<Rightarrow> bool) \<Rightarrow> 'a list \<Rightarrow> 'a option" where
  "selectFirst P xs = List.find P xs"

definition updateWhere :: "('a \<Rightarrow> bool) \<Rightarrow> ('a \<Rightarrow> 'a) \<Rightarrow> 'a list \<Rightarrow> 'a list" where
  "updateWhere P f xs = map (\<lambda>x. if P x then f x else x) xs"

definition affected :: "('a \<Rightarrow> bool) \<Rightarrow> 'a list \<Rightarrow> nat" where
  "affected P xs = length (filter P xs)"

lemma affected_0_iff [simp]: "affected P xs = 0 \<longleftrightarrow> (\<forall>x\<in>set xs. \<not> P x)"
  by (auto simp: affected_def filter_empty_conv)

lemma affected_0_less_iff [simp]: "0 < affected P xs \<longleftrightarrow> (\<exists>x\<in>set xs. P x)"
  using affected_0_iff [of P xs] by (metis gr0I not_gr_zero)

lemma length_updateWhere [simp]: "length (updateWhere P f xs) = length xs"
  by (simp add: updateWhere_def)

lemma set_updateWhere: "set (updateWhere P f xs) = (\<lambda>x. if P x then f x else x) ` set xs"
  by (simp add: updateWhere_def)

lemma map_updateWhere_same:
  "(\<And>x. P x \<Longrightarrow> g (f x) = g x) \<Longrightarrow> map g (updateWhere P f xs) = map g xs"
  by (auto simp: updateWhere_def)

lemma filter_updateWhere_length:
  "(\<And>x. x \<in> set xs \<Longrightarrow> P x \<Longrightarrow> Q (f x) = Q x) \<Longrightarrow>
   length (filter Q (updateWhere P f xs)) = length (filter Q xs)"
  by (induction xs) (auto simp: updateWhere_def)

lemma selectFirst_Some_iff:
  "selectFirst P xs = Some x \<longleftrightarrow> (\<exists>i<length xs. P (xs ! i) \<and> x = xs ! i \<and> (\<forall>j<i. \<not> P (xs ! j)))"
  by (simp add: selectFirst_def find_Some_iff)

lemma selectFirst_SomeD: "selectFirst P xs = Some x \<Longrightarrow> x \<in> set xs \<and> P x"
  by (auto simp: selectFirst_Some_iff)

lemma selectFirst_None_iff: "selectFirst P xs = None \<longleftrightarrow> (\<forall>x\<in>set xs. \<not> P x)"
  by (auto simp: selectFirst_def find_None_iff)

lemma selectFirst_updateWhere:
  assumes "\<And>x. P x \<Longrightarrow> Q (f x) = Q x"
  shows "selectFirst Q (updateWhere P f xs)
         = map_option (\<lambda>x. if P x then f x else x) (selectFirst Q xs)"
  using assms by (induction xs) (auto simp: selectFirst_def updateWhere_def)

lemma selectFirst_key_unique:
  assumes "distinct (map key xs)" and "x \<in> set xs"
  shows "selectFirst (\<lambda>y. key y = key x) xs = Some x"
  using assms
proof (induction xs)
  case (Cons a xs)
  then show ?case by (cases "a = x") (auto simp: selectFirst_def rev_image_eqI)
qed simp

lemma distinct_map_append1:
  "distinct (map key (xs @ [x])) \<longleftrightarrow> distinct (map key xs) \<and> (\<forall>y\<in>set xs. key y \<noteq> key x)"
  by (force simp: image_iff)

end
