(* ===== verification/GoLib.thy ===== *)
theory GoLib
  imports Prelude
begin

text \<open>
  The part of the Go standard library the control plane's own logic rests on, as
  executable functions on byte strings: UTF-8 decoding (unicode/utf8), the functions of
  package strings the code calls, strconv decimal formatting, raw URL-safe base64
  (encoding/base64), the RFC 3339 text of a time (package time) and the JSON encoder
  (encoding/json). The lower-case table of the non-ASCII code points is the only
  argument left open (\<open>ulower\<close>, unicode.ToLower on code points from 128).
\<close>

section \<open>UTF-8\<close>

abbreviation byteAt :: "string \<Rightarrow> nat \<Rightarrow> int" where
  "byteAt s i \<equiv> (if i < length s then of_char (s ! i) else 0)"

definition runeError :: int where "runeError = 65533"

definition inRange :: "int \<Rightarrow> int \<Rightarrow> int \<Rightarrow> bool" where
  "inRange lo hi b \<longleftrightarrow> lo \<le> b \<and> b \<le> hi"

text \<open>
  \<open>utf8.DecodeRune\<close> of a non-empty string: the code point and its width, width 1 and
  \<open>runeError\<close> for an invalid encoding. The second byte's range depends on the first.
\<close>

definition decodeRune :: "string \<Rightarrow> int \<times> nat" where
  "decodeRune s =
    (let p0 = byteAt s 0; b1 = byteAt s 1; b2 = byteAt s 2; b3 = byteAt s 3; n = length s;
         lo = (if p0 = 224 then 160 else if p0 = 240 then 144 else 128);
         hi = (if p0 = 237 then 159 else if p0 = 244 then 143 else 191)
     in if p0 < 128 then (p0, 1)
        else if inRange 194 223 p0 then
          (if 2 \<le> n \<and> inRange 128 191 b1 then ((p0 mod 32) * 64 + b1 mod 64, 2) else (runeError, 1))
        else if inRange 224 239 p0 then
          (if 3 \<le> n \<and> inRange lo hi b1 \<and> inRange 128 191 b2
           then ((p0 mod 16) * 4096 + (b1 mod 64) * 64 + b2 mod 64, 3) else (runeError, 1))
        else if inRange 240 244 p0 then
          (if 4 \<le> n \<and> inRange lo hi b1 \<and> inRange 128 191 b2 \<and> inRange 128 191 b3
           then ((p0 mod 8) * 262144 + (b1 mod 64) * 4096 + (b2 mod 64) * 64 + b3 mod 64, 4)
           else (runeError, 1))
        else (runeError, 1))"

text \<open>The runes of a string, each with the bytes it was decoded from.\<close>

fun runeChunks :: "string \<Rightarrow> (int \<times> string) list" where
  "runeChunks [] = []"
| "runeChunks (c # cs) =
     (fst (decodeRune (c # cs)), c # take (snd (decodeRune (c # cs)) - 1) cs)
       # runeChunks (drop (snd (decodeRune (c # cs)) - 1) cs)"

definition runes :: "string \<Rightarrow> int list" where "runes s = map fst (runeChunks s)"

definition encodeRune :: "int \<Rightarrow> string" where
  "encodeRune r =
    (if r < 128 then [char_of r]
     else if r < 2048 then [char_of (192 + r div 64), char_of (128 + r mod 64)]
     else if 1114111 < r \<or> inRange 55296 57343 r then map char_of [239::int, 191, 189]
     else if r < 65536
       then [char_of (224 + r div 4096), char_of (128 + r div 64 mod 64), char_of (128 + r mod 64)]
     else [char_of (240 + r div 262144), char_of (128 + r div 4096 mod 64),
           char_of (128 + r div 64 mod 64), char_of (128 + r mod 64)])"

definition ascii :: "string \<Rightarrow> bool" where "ascii s \<longleftrightarrow> list_all (\<lambda>c. (of_char c :: int) < 128) s"

lemma decodeRune_ascii: "(of_char c :: int) < 128 \<Longrightarrow> decodeRune (c # cs) = (of_char c, 1)"
  by (simp add: decodeRune_def Let_def)

lemma runeChunks_ascii: "ascii s \<Longrightarrow> runeChunks s = map (\<lambda>c. (of_char c, [c])) s"
  by (induction s) (auto simp: ascii_def decodeRune_ascii)

lemma runeChunks_bytes: "concat (map snd (runeChunks s)) = s"
  by (induction s rule: runeChunks.induct) auto

lemma runeChunks_append_ascii:
  assumes "(of_char c :: int) < 128"
  shows "runeChunks (c # cs) = (of_char c, [c]) # runeChunks cs"
  using assms by (simp add: decodeRune_ascii)

lemma decodeRune_width: "1 \<le> snd (decodeRune s) \<and> snd (decodeRune s) \<le> 4"
  by (simp add: decodeRune_def Let_def)

lemma length_runeChunks: "length (runeChunks s) \<le> length s"
  by (induction s rule: runeChunks.induct) (auto intro: le_trans [OF _ diff_le_self])

lemma length_runeChunks_lower: "length s \<le> 4 * length (runeChunks s)"
proof (induction s rule: runeChunks.induct)
  case (2 c cs)
  have "snd (decodeRune (c # cs)) - 1 \<le> 3" using decodeRune_width [of "c # cs"] by linarith
  with 2 show ?case by simp
qed simp

section \<open>Package strings\<close>

text \<open>\<open>unicode.IsSpace\<close>.\<close>

definition isSpace :: "int \<Rightarrow> bool" where
  "isSpace r \<longleftrightarrow> inRange 9 13 r \<or> r = 32 \<or> r = 133 \<or> r = 160 \<or> r = 5760
     \<or> inRange 8192 8202 r \<or> r = 8232 \<or> r = 8233 \<or> r = 8239 \<or> r = 8287 \<or> r = 12288"

definition dropSpaces :: "(int \<times> string) list \<Rightarrow> (int \<times> string) list" where
  "dropSpaces = dropWhile (\<lambda>c. isSpace (fst c))"

definition TrimSpace :: "string \<Rightarrow> string" where
  "TrimSpace s = concat (map snd (rev (dropSpaces (rev (dropSpaces (runeChunks s))))))"

definition lowerRune :: "(int \<Rightarrow> int) \<Rightarrow> int \<Rightarrow> int" where
  "lowerRune ulower r = (if r < 128 then (if inRange 65 90 r then r + 32 else r) else ulower r)"

definition ToLower :: "(int \<Rightarrow> int) \<Rightarrow> string \<Rightarrow> string" where
  "ToLower ulower s = concat (map (\<lambda>r. encodeRune (lowerRune ulower r)) (runes s))"

definition upperAscii :: "char \<Rightarrow> char" where
  "upperAscii c = (if inRange 97 122 (of_char c) then char_of ((of_char c :: int) - 32) else c)"

definition HasPrefix :: "string \<Rightarrow> string \<Rightarrow> bool" where
  "HasPrefix s p \<longleftrightarrow> take (length p) s = p"

definition HasSuffix :: "string \<Rightarrow> string \<Rightarrow> bool" where
  "HasSuffix s p \<longleftrightarrow> length p \<le> length s \<and> drop (length s - length p) s = p"

definition TrimPrefix :: "string \<Rightarrow> string \<Rightarrow> string" where
  "TrimPrefix s p = (if HasPrefix s p then drop (length p) s else s)"

definition TrimSuffix :: "string \<Rightarrow> string \<Rightarrow> string" where
  "TrimSuffix s p = (if HasSuffix s p then take (length s - length p) s else s)"

fun Contains :: "string \<Rightarrow> string \<Rightarrow> bool" where
  "Contains [] p = (p = [])"
| "Contains (c # cs) p = (HasPrefix (c # cs) p \<or> Contains cs p)"

text \<open>\<open>strings.Cut\<close> and \<open>strings.Split\<close> at a one-byte separator.\<close>

definition Cut :: "string \<Rightarrow> char \<Rightarrow> string \<times> string \<times> bool" where
  "Cut s c = (let a = takeWhile (\<lambda>x. x \<noteq> c) s
              in if length a < length s then (a, drop (Suc (length a)) s, True) else (s, [], False))"

fun Split :: "string \<Rightarrow> char \<Rightarrow> string list" where
  "Split [] c = [[]]"
| "Split (x # xs) c = (if x = c then [] # Split xs c
     else (case Split xs c of [] \<Rightarrow> [[x]] | y # ys \<Rightarrow> (x # y) # ys))"

text \<open>\<open>strings.SplitN s c n\<close> for a positive \<open>n\<close>: at most \<open>n\<close> parts.\<close>

fun SplitN :: "string \<Rightarrow> char \<Rightarrow> nat \<Rightarrow> string list" where
  "SplitN s c 0 = []"
| "SplitN s c (Suc 0) = [s]"
| "SplitN s c (Suc (Suc n)) =
     (case Cut s c of (a, b, found) \<Rightarrow> if found then a # SplitN b c (Suc n) else [s])"

lemma HasPrefix_iff: "HasPrefix s p \<longleftrightarrow> (\<exists>r. s = p @ r)"
  unfolding HasPrefix_def by (metis append_eq_conv_conj append_take_drop_id)

lemma HasPrefix_append [simp]: "HasPrefix (p @ s) p"
  by (simp add: HasPrefix_def)

lemma TrimPrefix_append [simp]: "TrimPrefix (p @ s) p = s"
  by (simp add: TrimPrefix_def)

lemma HasPrefix_trans: "HasPrefix s p \<Longrightarrow> HasPrefix p q \<Longrightarrow> HasPrefix s q"
  by (auto simp: HasPrefix_iff)

lemma Cut_append:
  assumes "c \<notin> set a"
  shows "Cut (a @ c # b) c = (a, b, True)"
proof -
  have "takeWhile (\<lambda>x. x \<noteq> c) (a @ c # b) = a"
    using assms by (auto simp: takeWhile_append)
  then show ?thesis by (simp add: Cut_def)
qed

lemma Cut_TrueD:
  assumes "Cut s c = (a, b, True)"
  shows "s = a @ c # b \<and> c \<notin> set a"
proof -
  let ?a = "takeWhile (\<lambda>x. x \<noteq> c) s"
  from assms have len: "length ?a < length s" and ab: "a = ?a" "b = drop (Suc (length ?a)) s"
    by (auto simp: Cut_def Let_def split: if_splits)
  have "s ! length ?a = c" using nth_length_takeWhile [OF len] by simp
  then have "drop (length ?a) s = c # drop (Suc (length ?a)) s"
    using Cons_nth_drop_Suc [OF len] by simp
  then have "s = ?a @ c # b" using ab
    by (metis append_take_drop_id takeWhile_eq_take)
  moreover have "c \<notin> set ?a" by (auto dest: set_takeWhileD)
  ultimately show ?thesis using ab by simp
qed

lemma Split_not_Nil [simp]: "Split s c \<noteq> []"
  by (induction s) (auto split: list.splits)

lemma Split_no_sep: "c \<notin> set s \<Longrightarrow> Split s c = [s]"
  by (induction s) auto

lemma Split_append_sep: "c \<notin> set a \<Longrightarrow> Split (a @ c # b) c = a # Split b c"
  by (induction a) auto

fun joinWith :: "char \<Rightarrow> string list \<Rightarrow> string" where
  "joinWith c [] = []"
| "joinWith c [s] = s"
| "joinWith c (s # t # ts) = s @ c # joinWith c (t # ts)"

lemma Split_join: "joinWith c (Split s c) = s"
proof (induction s)
  case (Cons x xs)
  obtain y ys where "Split xs c = y # ys" by (cases "Split xs c") auto
  with Cons show ?case by (cases ys) auto
qed simp

lemma Split_parts_no_sep: "p \<in> set (Split s c) \<Longrightarrow> c \<notin> set p"
proof (induction s arbitrary: p)
  case (Cons x xs)
  then show ?case by (fastforce split: if_splits list.splits)
qed simp

lemma Contains_append: "HasPrefix s p \<Longrightarrow> Contains (u @ s) p"
  by (induction u) (cases s, auto simp: HasPrefix_def)

text \<open>On ASCII text TrimSpace and ToLower work byte by byte.\<close>

definition asciiSpace :: "char \<Rightarrow> bool" where "asciiSpace c \<longleftrightarrow> isSpace (of_char c)"

definition lowerAscii :: "char \<Rightarrow> char" where
  "lowerAscii c = (if inRange 65 90 (of_char c) then char_of ((of_char c :: int) + 32) else c)"

lemma concat_singletons: "concat (map (\<lambda>c. [f c]) xs) = map f xs"
  by (induction xs) auto

lemma TrimSpace_ascii:
  assumes "ascii s"
  shows "TrimSpace s = rev (dropWhile asciiSpace (rev (dropWhile asciiSpace s)))"
proof -
  have *: "dropSpaces (map (\<lambda>c. (of_char c, [c])) t) = map (\<lambda>c. (of_char c, [c])) (dropWhile asciiSpace t)"
    for t :: string
    by (simp add: dropSpaces_def dropWhile_map asciiSpace_def [abs_def] o_def)
  show ?thesis
    using assms by (simp add: TrimSpace_def runeChunks_ascii * rev_map o_def)
qed

lemma ToLower_ascii: "ascii s \<Longrightarrow> ToLower ulower s = map lowerAscii s"
proof -
  assume a: "ascii s"
  have "encodeRune (lowerRune ulower (of_char c)) = [lowerAscii c]" if "(of_char c :: int) < 128" for c
    using that by (auto simp: encodeRune_def lowerRune_def lowerAscii_def inRange_def)
  with a have "map (\<lambda>c. encodeRune (lowerRune ulower (of_char c))) s = map (\<lambda>c. [lowerAscii c]) s"
    by (auto simp: ascii_def list_all_iff)
  with a show ?thesis
    by (simp add: ToLower_def runes_def runeChunks_ascii o_def cong: map_cong)
qed

lemma TrimSpace_id:
  assumes "ascii s" and "list_all (\<lambda>c. \<not> asciiSpace c) s"
  shows "TrimSpace s = s"
proof -
  have "dropWhile asciiSpace t = t" if "list_all (\<lambda>c. \<not> asciiSpace c) t" for t
    using that by (cases t) auto
  with assms show ?thesis by (simp add: TrimSpace_ascii)
qed

lemma lowerAscii_id: "\<not> inRange 65 90 (of_char c) \<Longrightarrow> lowerAscii c = c"
  by (simp add: lowerAscii_def)

section \<open>TrimSpace is idempotent\<close>

text \<open>Cutting off bytes after a decoded rune does not change how it decodes.\<close>

lemma decodeRune_prefix:
  assumes "p \<noteq> []" and w: "snd (decodeRune (p @ t)) \<le> length p"
  shows "decodeRune p = decodeRune (p @ t)"
proof -
  have b: "byteAt (p @ t) i = byteAt p i" if "i < length p" for i using that by (simp add: nth_append)
  have p0: "byteAt (p @ t) 0 = byteAt p 0" using assms(1) b [of 0] by simp
  define q where "q = byteAt p 0"
  consider "q < 128" | "\<not> q < 128" "inRange 194 223 q" | "\<not> q < 128" "\<not> inRange 194 223 q" "inRange 224 239 q"
    | "\<not> q < 128" "\<not> inRange 194 223 q" "\<not> inRange 224 239 q" "inRange 240 244 q"
    | "\<not> q < 128" "\<not> inRange 194 223 q" "\<not> inRange 224 239 q" "\<not> inRange 240 244 q" by blast
  then show ?thesis
  proof cases
    case 1
    then show ?thesis unfolding decodeRune_def Let_def p0 q_def [symmetric] by simp
  next
    case 2
    then show ?thesis using w b [of 1] unfolding decodeRune_def Let_def p0 q_def [symmetric] by (cases "2 \<le> length p") auto
  next
    case 3
    then show ?thesis using w b [of 1] b [of 2] unfolding decodeRune_def Let_def p0 q_def [symmetric] by (cases "3 \<le> length p") auto
  next
    case 4
    then show ?thesis using w b [of 1] b [of 2] b [of 3] unfolding decodeRune_def Let_def p0 q_def [symmetric] by (cases "4 \<le> length p") auto
  next
    case 5
    then show ?thesis unfolding decodeRune_def Let_def p0 q_def [symmetric] by simp
  qed
qed

lemma runeChunks_drop: "runeChunks (concat (map snd (drop k (runeChunks s)))) = drop k (runeChunks s)"
proof (induction s arbitrary: k rule: runeChunks.induct)
  case (2 c cs)
  then show ?case by (cases k) (simp_all only: drop_0 runeChunks_bytes, simp)
qed simp

lemma runeChunks_take: "runeChunks (concat (map snd (take k (runeChunks s)))) = take k (runeChunks s)"
proof (induction s arbitrary: k rule: runeChunks.induct)
  case (2 c cs)
  define n where "n = snd (decodeRune (c # cs)) - 1"
  show ?case
  proof (cases k)
    case (Suc j)
    define q where "q = concat (map snd (take j (runeChunks (drop n cs))))"
    define u where "u = concat (map snd (drop j (runeChunks (drop n cs))))"
    have "q @ u = drop n cs" unfolding q_def u_def by (metis append_take_drop_id concat_append map_append runeChunks_bytes)
    then have cs: "c # cs = (c # take n cs @ q) @ u" by (metis append.assoc append_Cons append_take_drop_id)
    have "snd (decodeRune (c # cs)) \<le> length (c # cs)"
      by (auto simp: decodeRune_def Let_def)
    then have n: "n \<le> length cs" "snd (decodeRune (c # cs)) = Suc n" using decodeRune_width [of "c # cs"] by (auto simp: n_def)
    then have "decodeRune (c # take n cs @ q) = decodeRune (c # cs)"
      using decodeRune_prefix [of "c # take n cs @ q" u] cs by simp
    then show ?thesis using 2 [of j] n by (simp add: Suc n_def [symmetric] q_def [symmetric])
  qed simp
qed simp

lemma TrimSpace_idem: "TrimSpace (TrimSpace s) = TrimSpace s"
proof -
  define ws where "ws = dropSpaces (runeChunks s)"
  define vs where "vs = rev (dropSpaces (rev ws))"
  obtain k where k: "ws = drop k (runeChunks s)" unfolding ws_def dropSpaces_def by (metis dropWhile_eq_drop)
  have pre: "vs = take (length vs) ws"
    unfolding vs_def dropSpaces_def by (metis append_eq_conv_conj rev_append rev_rev_ident takeWhile_dropWhile_id)
  have "runeChunks (concat (map snd ws)) = ws" by (simp add: k runeChunks_drop)
  then have vs: "runeChunks (TrimSpace s) = vs"
    using runeChunks_take [of "length vs" "concat (map snd ws)"] pre unfolding TrimSpace_def ws_def [symmetric] vs_def [symmetric] by simp
  have hd: "ws \<noteq> [] \<Longrightarrow> \<not> isSpace (fst (hd ws))" unfolding ws_def dropSpaces_def by (metis hd_dropWhile)
  have "dropSpaces vs = vs"
  proof (cases vs)
    case (Cons v vs')
    then have "hd ws = v" "ws \<noteq> []" using pre by (metis hd_take length_greater_0_conv list.discI list.sel(1), auto)
    with hd Cons show ?thesis by (simp add: dropSpaces_def)
  qed (simp add: dropSpaces_def)
  moreover have "rev (dropSpaces (rev vs)) = vs" unfolding vs_def by (simp add: dropSpaces_def)
  ultimately show ?thesis by (simp add: TrimSpace_def [of "TrimSpace s"] vs) (simp add: TrimSpace_def vs_def ws_def)
qed

lemma set_TrimSpace: "set (TrimSpace s) \<subseteq> set s"
proof -
  have "set (dropSpaces cs) \<subseteq> set cs" for cs unfolding dropSpaces_def by (auto dest: set_dropWhileD)
  then have "set (rev (dropSpaces (rev (dropSpaces (runeChunks s))))) \<subseteq> set (runeChunks s)" by (metis dual_order.trans set_rev)
  then have "set (TrimSpace s) \<subseteq> set (concat (map snd (runeChunks s)))" by (auto simp: TrimSpace_def)
  then show ?thesis by (simp add: runeChunks_bytes)
qed

lemma set_TrimSuffix: "set (TrimSuffix s p) \<subseteq> set s"
  by (auto simp: TrimSuffix_def dest: in_set_takeD)

lemma Split_lines:
  assumes "\<And>l. l \<in> set ls \<Longrightarrow> c \<notin> set l"
  shows "Split (concat (map (\<lambda>l. l @ [c]) ls)) c = ls @ [[]]"
  using assms by (induction ls) (simp_all add: Split_append_sep)

lemma Contains_iff: "Contains s p \<longleftrightarrow> (\<exists>a b. s = a @ p @ b)"
proof (induction s)
  case (Cons c cs)
  have "(\<exists>a b. c # cs = a @ p @ b) \<longleftrightarrow> (\<exists>b. c # cs = p @ b) \<or> (\<exists>a b. cs = a @ p @ b)"
    by (metis Cons_eq_append_conv append_Cons append_Nil)
  with Cons show ?case by (simp add: HasPrefix_iff)
qed auto

section \<open>Decimal text\<close>

text \<open>The ten digits; \<open>decDigits\<close> is the decimal text of a non-negative integer.\<close>

definition digitChar :: "int \<Rightarrow> char" where
  "digitChar d = (if d = 0 then CHR ''0'' else if d = 1 then CHR ''1'' else if d = 2 then CHR ''2''
     else if d = 3 then CHR ''3'' else if d = 4 then CHR ''4'' else if d = 5 then CHR ''5''
     else if d = 6 then CHR ''6'' else if d = 7 then CHR ''7'' else if d = 8 then CHR ''8''
     else CHR ''9'')"

function decDigits :: "int \<Rightarrow> string" where
  "decDigits n = (if n < 10 then [digitChar n] else decDigits (n div 10) @ [digitChar (n mod 10)])"
  by pat_completeness auto
termination
  by (relation "measure nat") auto

declare decDigits.simps [simp del]

lemma decDigits_small: "n < 10 \<Longrightarrow> decDigits n = [digitChar n]"
  by (simp add: decDigits.simps)

lemma decDigits_big: "\<not> n < 10 \<Longrightarrow> decDigits n = decDigits (n div 10) @ [digitChar (n mod 10)]"
  by (subst decDigits.simps) simp

definition Itoa :: "int \<Rightarrow> string" where
  "Itoa i = (if i < 0 then CHR ''-'' # decDigits (- i) else decDigits i)"

definition padLeft :: "nat \<Rightarrow> string \<Rightarrow> string" where
  "padLeft w s = replicate (w - length s) (CHR ''0'') @ s"

section \<open>The RFC 3339 text of a UTC time\<close>

text \<open>Civil date of a day number (days since 1 January 1970, proleptic Gregorian).\<close>

definition yearOfEra :: "int \<Rightarrow> int" where
  "yearOfEra doe = (doe - doe div 1460 + doe div 36524 - doe div 146096) div 365"

definition dayOfYear :: "int \<Rightarrow> int \<Rightarrow> int" where
  "dayOfYear doe yoe = doe - (365 * yoe + yoe div 4 - yoe div 100)"

definition monthDay :: "int \<Rightarrow> int \<times> int" where
  "monthDay doy = (let mp = (5 * doy + 2) div 153
     in (if mp < 10 then mp + 3 else mp - 9, doy - (153 * mp + 2) div 5 + 1))"

definition civilFromDays :: "int \<Rightarrow> int \<times> int \<times> int" where
  "civilFromDays z =
    (let doe = (z + 719468) mod 146097; yoe = yearOfEra doe
     in case monthDay (dayOfYear doe yoe) of
          (m, d) \<Rightarrow> (yoe + (z + 719468) div 146097 * 400 + (if m \<le> 2 then 1 else 0), m, d))"

definition fracText :: "int \<Rightarrow> string" where
  "fracText ns = (if ns = 0 then []
     else CHR ''.'' # rev (dropWhile (\<lambda>c. c = CHR ''0'') (rev (padLeft 9 (decDigits ns)))))"

definition twoDigits :: "int \<Rightarrow> string" where "twoDigits i = padLeft 2 (decDigits i)"

definition dateText :: "int \<times> int \<times> int \<Rightarrow> string" where
  "dateText ymd = (case ymd of (y, m, d) \<Rightarrow>
     padLeft 4 (Itoa y) @ CHR ''-'' # twoDigits m @ CHR ''-'' # twoDigits d)"

definition clockText :: "int \<Rightarrow> string" where
  "clockText s = twoDigits (s div 3600) @ CHR '':'' # twoDigits (s div 60 mod 60)
     @ CHR '':'' # twoDigits (s mod 60)"

text \<open>\<open>t.UTC().Format(time.RFC3339Nano)\<close>: the fraction drops its trailing zeros.\<close>

definition RFC3339Nano :: "time \<Rightarrow> string" where
  "RFC3339Nano t = dateText (civilFromDays (t div 86400000000000)) @ CHR ''T''
     # clockText (t div 1000000000 mod 86400) @ fracText (t mod 1000000000) @ [CHR ''Z'']"

named_theorems time_text
lemmas [time_text] = RFC3339Nano_def dateText_def clockText_def twoDigits_def fracText_def
  civilFromDays_def monthDay_def dayOfYear_def yearOfEra_def Itoa_def padLeft_def digitChar_def
  decDigits_small decDigits_big Let_def

section \<open>The JSON encoder\<close>

datatype json = JNull | JBool bool | JStr string | JInt int | JArr "json list" | JObj "(string \<times> json) list"

definition hexDigit :: "int \<Rightarrow> char" where "hexDigit n = ''0123456789abcdef'' ! nat n"

text \<open>One rune inside a JSON string literal, with HTML escaping as json.Marshal does.\<close>

definition jsonRune :: "int \<times> string \<Rightarrow> string" where
  "jsonRune c =
    (let r = fst c; b = CHR 0x5C
     in if r = 34 then [b, CHR 0x22] else if r = 92 then [b, b]
        else if r = 8 then [b, CHR ''b''] else if r = 12 then [b, CHR ''f'']
        else if r = 10 then [b, CHR ''n''] else if r = 13 then [b, CHR ''r'']
        else if r = 9 then [b, CHR ''t'']
        else if r < 32 \<or> r = 60 \<or> r = 62 \<or> r = 38
          then b # ''u00'' @ [hexDigit (r div 16), hexDigit (r mod 16)]
        else if r = runeError \<and> length (snd c) = 1 then b # ''ufffd''
        else if r = 8232 then b # ''u2028'' else if r = 8233 then b # ''u2029''
        else snd c)"

definition jsonQuote :: "string \<Rightarrow> string" where
  "jsonQuote s = CHR 0x22 # concat (map jsonRune (runeChunks s)) @ [CHR 0x22]"

fun joinComma :: "string list \<Rightarrow> string" where
  "joinComma [] = []"
| "joinComma [x] = x"
| "joinComma (x # xs) = x @ CHR '','' # joinComma xs"

fun jsonMarshal :: "json \<Rightarrow> string" where
  "jsonMarshal (JStr s) = jsonQuote s"
| "jsonMarshal JNull = ''null''"
| "jsonMarshal (JBool b) = (if b then ''true'' else ''false'')"
| "jsonMarshal (JInt i) = Itoa i"
| "jsonMarshal (JArr xs) = CHR ''['' # joinComma (map jsonMarshal xs) @ [CHR '']'']"
| "jsonMarshal (JObj kvs) =
     CHR ''{'' # joinComma (map (\<lambda>kv. jsonQuote (fst kv) @ CHR '':'' # jsonMarshal (snd kv)) kvs) @ [CHR ''}'']"

text \<open>A Go map is encoded with its keys in byte order.\<close>

definition jsonMap :: "(string \<times> json) list \<Rightarrow> json" where "jsonMap kvs = JObj (sort_key fst kvs)"

end
