(* ===== verification/Base64.thy ===== *)
theory Base64
  imports GoLib
begin

text \<open>
  \<open>base64.RawURLEncoding\<close> (encoding/base64): the URL-safe alphabet without padding.
  Every secret the control plane hands out is rendered with it, so that the round trip
  and the absence of the separators in the encoded text carry the credential formats.
  The decoder skips carriage returns and newlines, and ignores the unused low bits of the
  last character, as the Go decoder does outside strict mode.
\<close>

definition b64Char :: "int \<Rightarrow> char" where
  "b64Char d = (if d < 26 then char_of (d + 65) else if d < 52 then char_of (d + 71)
     else if d < 62 then char_of (d - 4) else if d = 62 then CHR ''-'' else CHR ''_'')"

definition b64Val :: "char \<Rightarrow> int option" where
  "b64Val c = (let v = of_char c
     in if inRange 65 90 v then Some (v - 65) else if inRange 97 122 v then Some (v - 71)
        else if inRange 48 57 v then Some (v + 4)
        else if c = CHR ''-'' then Some 62 else if c = CHR ''_'' then Some 63 else None)"

fun b64Groups :: "int list \<Rightarrow> int list" where
  "b64Groups [] = []"
| "b64Groups [a] = [a div 4, (a mod 4) * 16]"
| "b64Groups [a, b] = [a div 4, (a mod 4) * 16 + b div 16, (b mod 16) * 4]"
| "b64Groups (a # b # c # r) =
     a div 4 # ((a mod 4) * 16 + b div 16) # ((b mod 16) * 4 + c div 64) # c mod 64 # b64Groups r"

definition EncodeToString :: "bytes \<Rightarrow> string" where
  "EncodeToString bs = map b64Char (b64Groups (map of_char bs))"

fun b64Ungroup :: "int list \<Rightarrow> int list option" where
  "b64Ungroup [] = Some []"
| "b64Ungroup [x] = None"
| "b64Ungroup [x, y] = Some [x * 4 + y div 16]"
| "b64Ungroup [x, y, z] = Some [x * 4 + y div 16, (y mod 16) * 16 + z div 4]"
| "b64Ungroup (x # y # z # w # r) =
     map_option (\<lambda>bs. (x * 4 + y div 16) # ((y mod 16) * 16 + z div 4) # ((z mod 4) * 64 + w) # bs)
       (b64Ungroup r)"

definition DecodeString :: "string \<Rightarrow> bytes option" where
  "DecodeString s =
    (case those (map b64Val (filter (\<lambda>c. c \<noteq> CHR 0x0A \<and> c \<noteq> CHR 0x0D) s)) of
       None \<Rightarrow> None | Some vs \<Rightarrow> map_option (map char_of) (b64Ungroup vs))"

section \<open>The alphabet\<close>

definition b64Alphabet :: "char \<Rightarrow> bool" where "b64Alphabet c \<longleftrightarrow> b64Val c \<noteq> None"

lemma of_char_char_of_int: "0 \<le> n \<Longrightarrow> n < 256 \<Longrightarrow> of_char (char_of (n :: int)) = n"
  by (simp add: take_bit_eq_mod)

lemma of_char_bounds: "0 \<le> (of_char c :: int) \<and> (of_char c :: int) < 256"
proof -
  have "(of_char c :: int) = int (of_char c)" by (rule of_nat_of_char [symmetric])
  moreover have "(of_char c :: nat) < 256" by (rule nat_of_char_less_256)
  ultimately show ?thesis by linarith
qed

lemma b64Val_b64Char: "0 \<le> d \<Longrightarrow> d < 64 \<Longrightarrow> b64Val (b64Char d) = Some d"
  by (auto simp: b64Val_def b64Char_def inRange_def of_char_char_of_int Let_def)

lemma b64Alphabet_b64Char: "0 \<le> d \<Longrightarrow> d < 64 \<Longrightarrow> b64Alphabet (b64Char d)"
  by (simp add: b64Alphabet_def b64Val_b64Char)

lemma b64Groups_bound:
  "list_all (\<lambda>x. 0 \<le> x \<and> x < 256) xs \<Longrightarrow> list_all (\<lambda>x. 0 \<le> x \<and> x < 64) (b64Groups xs)"
  by (induction xs rule: b64Groups.induct) auto

lemma bytes_bound: "list_all (\<lambda>x. 0 \<le> x \<and> x < 256) (map of_char bs :: int list)"
  using of_char_bounds by (induction bs) auto

lemma EncodeToString_alphabet: "c \<in> set (EncodeToString bs) \<Longrightarrow> b64Alphabet c"
  using b64Groups_bound [OF bytes_bound [of bs]]
  by (auto simp: EncodeToString_def list_all_iff intro: b64Alphabet_b64Char)

lemma separator_not_in_alphabet [simp]:
  "\<not> b64Alphabet (CHR ''.'')" "\<not> b64Alphabet (CHR 0x0A)" "\<not> b64Alphabet (CHR 0x0D)"
  by (simp_all add: b64Alphabet_def b64Val_def inRange_def)

lemma EncodeToString_no_dot [simp]: "CHR ''.'' \<notin> set (EncodeToString bs)"
  using EncodeToString_alphabet by force

lemma EncodeToString_Nil_iff [simp]: "EncodeToString bs = [] \<longleftrightarrow> bs = []"
  by (cases "map of_char bs :: int list" rule: b64Groups.cases) (auto simp: EncodeToString_def)

lemma length_b64Groups: "length (b64Groups xs) = (4 * length xs + 2) div 3"
  by (induction xs rule: b64Groups.induct) auto

lemma length_EncodeToString: "length (EncodeToString bs) = (4 * length bs + 2) div 3"
  by (simp add: EncodeToString_def length_b64Groups)

section \<open>Round trip\<close>

lemma pack_div_mod:
  fixes q r k :: int
  assumes "0 \<le> r" and "r < k"
  shows "(q * k + r) div k = q" and "(q * k + r) mod k = r"
  using assms by (simp_all add: div_pos_pos_trivial mod_pos_pos_trivial)

lemma b64Ungroup_b64Groups:
  "list_all (\<lambda>x. 0 \<le> x \<and> x < 256) xs \<Longrightarrow> b64Ungroup (b64Groups xs) = Some xs"
proof (induction xs rule: b64Groups.induct)
  case (3 a b)
  then have "0 \<le> b div 16" "b div 16 < 16" by auto
  then show ?case by (simp add: pack_div_mod)
next
  case (4 a b c r)
  then have "0 \<le> b div 16" "b div 16 < 16" "0 \<le> c div 64" "c div 64 < 4" by auto
  then show ?case using 4 by (simp add: pack_div_mod)
qed simp_all

lemma those_map_Some: "(\<And>x. x \<in> set xs \<Longrightarrow> f x = Some (g x)) \<Longrightarrow> those (map f xs) = Some (map g xs)"
  by (induction xs) auto

lemma those_map_b64Val:
  "list_all (\<lambda>x. 0 \<le> x \<and> x < 64) vs \<Longrightarrow> those (map b64Val (map b64Char vs)) = Some vs"
  by (induction vs) (auto simp: b64Val_b64Char)

lemma DecodeString_EncodeToString [simp]: "DecodeString (EncodeToString bs) = Some bs"
proof -
  have "filter (\<lambda>c. c \<noteq> CHR 0x0A \<and> c \<noteq> CHR 0x0D) (EncodeToString bs) = EncodeToString bs"
    using EncodeToString_alphabet [of _ bs] by (force intro: filter_True)
  moreover have "those (map b64Val (EncodeToString bs)) = Some (b64Groups (map of_char bs))"
    using those_map_b64Val [OF b64Groups_bound [OF bytes_bound [of bs]]]
    by (simp add: EncodeToString_def)
  moreover have "b64Ungroup (b64Groups (map of_char bs)) = Some (map of_char bs :: int list)"
    by (rule b64Ungroup_b64Groups [OF bytes_bound])
  ultimately show ?thesis by (simp add: DecodeString_def o_def)
qed

lemma EncodeToString_inj: "EncodeToString a = EncodeToString b \<Longrightarrow> a = b"
  by (metis DecodeString_EncodeToString option.inject)

end
