(* ===== verification/Extern.thy ===== *)
theory Extern
  imports Base64
begin

text \<open>
  The code outside the repository that the control plane calls and the model does not
  define: the cryptographic primitives (crypto/sha256, crypto/hmac, crypto/ed25519,
  golang.org/x/crypto/argon2), the non-ASCII part of the Unicode lower-case and case-folding
  tables, the JSON decoder that reads a JWT header, its claims and stored password parameters,
  and the scheme and host name that net/url finds in a URL. They are the fields of one
  record that every definition using them takes as its argument.

  What the code relies on is stated as named conditions, each the documented behaviour of
  the primitive: \<open>ed25519_ok\<close> (a signature made with a private key verifies under its public
  key), \<open>argon2_ok\<close> (the derived key has the requested length), \<open>collision_free\<close> (SHA-256 maps no two of the given inputs to one digest) and, in
  SessionJWT, \<open>decoder_ok\<close> (the decoder reads back what the encoder wrote).
\<close>

record jwtPayload =
  jp_Issuer :: string
  jp_Audience :: string
  jp_Subject :: string
  jp_JTI :: string
  jp_FamilyID :: string
  jp_AuthDomain :: string
  jp_DisplayName :: string
  jp_CredentialVersion :: int
  jp_IssuedAt :: int
  jp_NotBefore :: int
  jp_ExpiresAt :: int

record jwtHeader =
  h_Alg :: string
  h_Typ :: string
  h_Kid :: string

record Argon2idParams =
  ap_MemoryKiB :: int
  ap_Iterations :: int
  ap_Parallelism :: int
  ap_SaltLength :: int
  ap_KeyLength :: int

record ext =
  x_ulower :: "int \<Rightarrow> int"
  x_sha256 :: "bytes \<Rightarrow> bytes"
  x_hmac :: "bytes \<Rightarrow> bytes \<Rightarrow> bytes"
  x_argon2id :: "bytes \<Rightarrow> bytes \<Rightarrow> int \<Rightarrow> int \<Rightarrow> int \<Rightarrow> nat \<Rightarrow> bytes"
  x_public :: "bytes \<Rightarrow> bytes"
  x_sign :: "bytes \<Rightarrow> bytes \<Rightarrow> bytes"
  x_verify :: "bytes \<Rightarrow> bytes \<Rightarrow> bytes \<Rightarrow> bool"
  x_decodeHeader :: "bytes \<Rightarrow> jwtHeader option"
  x_decodePayload :: "bytes \<Rightarrow> jwtPayload option"
  x_decodeParams :: "string \<Rightarrow> Argon2idParams option"
  x_ufold :: "int \<Rightarrow> int"
  x_urlParse :: "string \<Rightarrow> (string \<times> string) option"

text \<open>crypto/ed25519: \<open>Verify\<close> accepts what \<open>Sign\<close> made, for the key's own public half.\<close>

definition ed25519_ok :: "ext \<Rightarrow> bool" where
  "ed25519_ok x \<longleftrightarrow> (\<forall>k m. x_verify x (x_public x k) m (x_sign x k m))"

text \<open>golang.org/x/crypto/argon2: \<open>IDKey\<close> derives a key of the requested length.\<close>

definition argon2_ok :: "ext \<Rightarrow> bool" where
  "argon2_ok x \<longleftrightarrow> (\<forall>p s t m n l. length (x_argon2id x p s t m n l) = l)"

text \<open>No two of the given inputs collide.\<close>

definition collision_free :: "(bytes \<Rightarrow> bytes) \<Rightarrow> bytes set \<Rightarrow> bool" where
  "collision_free h inputs \<longleftrightarrow> inj_on h inputs"

text \<open>
  A concrete instance, for evaluating the model: every primitive is a transparent function
  that satisfies the conditions above.
\<close>

definition sampleExt :: ext where
  "sampleExt = \<lparr>x_ulower = (\<lambda>r. r), x_sha256 = (\<lambda>b. b), x_hmac = (\<lambda>k m. k @ m),
     x_argon2id = (\<lambda>p s t m n l. take l (p @ s @ replicate l (CHR 0x00))), x_public = (\<lambda>k. k), x_sign = (\<lambda>k m. k @ m),
     x_verify = (\<lambda>k m s. s = k @ m), x_decodeHeader = (\<lambda>b. None), x_decodePayload = (\<lambda>b. None),
     x_decodeParams = (\<lambda>b. Some \<lparr>ap_MemoryKiB = 65536, ap_Iterations = 3, ap_Parallelism = 2,
       ap_SaltLength = 16, ap_KeyLength = 32\<rparr>),
     x_ufold = (\<lambda>r. r), x_urlParse = (\<lambda>s. if HasPrefix s ''https://''
       then Some (''https'', takeWhile (\<lambda>c. c \<noteq> CHR ''/'') (drop 8 s)) else None)\<rparr>"

lemma sampleExt_simps [simp]:
  "x_ulower sampleExt r = r" "x_sha256 sampleExt b = b" "x_hmac sampleExt k m = k @ m"
  "x_argon2id sampleExt p s t mem n l = take l (p @ s @ replicate l (CHR 0x00))" "x_public sampleExt k = k" "x_sign sampleExt k m = k @ m"
  "x_verify sampleExt k m sg \<longleftrightarrow> sg = k @ m" "x_decodeHeader sampleExt b = None" "x_decodePayload sampleExt b = None"
  "x_decodeParams sampleExt b = Some \<lparr>ap_MemoryKiB = 65536, ap_Iterations = 3, ap_Parallelism = 2,
       ap_SaltLength = 16, ap_KeyLength = 32\<rparr>"
  "x_ufold sampleExt r = r"
  by (simp_all add: sampleExt_def)

lemma sampleExt_ok: "ed25519_ok sampleExt" "argon2_ok sampleExt"
  by (auto simp: ed25519_ok_def argon2_ok_def min_def)

end
