(* ===== verification/Store.thy ===== *)
theory Store
  imports Extern
begin

text \<open>
  The control plane's database (internal/storage, implemented by
  internal/storage/sqlstore): the rows of each table as records, the database as a record
  of tables in insertion order, and one function per store method.

  A store method runs one or more SQL statements. \<open>Inr\<close> carries the changed database (or
  the rows read), \<open>Inl\<close> the error; an error carries no database, because the statement
  that failed changed nothing and an enclosing transaction is rolled back. The key, unique
  and foreign-key constraints of migrations/0001_schema.sql are checked by every statement
  that can violate them. Any statement may also fail in the driver: \<open>io_fault\<close> says which
  methods do during a request, so that every \<open>err != nil\<close> branch of the code is
  a branch of the model.

  Times are stored as RFC 3339 text and read back unchanged; where SQL orders or compares
  that text, so does the model.
\<close>

section \<open>Rows\<close>

datatype UserState = UserStateActive | UserStateDisabled

record User =
  u_ID :: string
  u_Username :: string
  u_DisplayName :: string
  u_State :: UserState
  u_CredentialVersion :: int
  u_CreatedAt :: time
  u_UpdatedAt :: time

record PasswordCredential =
  pc_UserID :: string
  pc_Algorithm :: string
  pc_Params :: string
  pc_Salt :: bytes
  pc_Hash :: bytes
  pc_UpdatedAt :: time

record PasswordResetCredential =
  pr_ID :: string
  pr_UserID :: string
  pr_LookupID :: string
  pr_Digest :: bytes
  pr_CreatedAt :: time
  pr_ExpiresAt :: time
  pr_UsedAt :: "time option"

record Permission =
  p_Name :: string
  p_Description :: string

record Role =
  r_ID :: string
  r_Name :: string
  r_BuiltIn :: bool
  r_CreatedAt :: time
  r_UpdatedAt :: time

record RolePermission =
  rp_RoleID :: string
  rp_Permission :: string

record UserRole =
  ur_UserID :: string
  ur_RoleID :: string
  ur_CreatedAt :: time

record APIToken =
  t_ID :: string
  t_UserID :: string
  t_Name :: string
  t_LookupID :: string
  t_Digest :: bytes
  t_Scopes :: "string list option"
  t_CreatedAt :: time
  t_ExpiresAt :: time
  t_LastUsedAt :: "time option"
  t_RevokedAt :: "time option"

record SessionFamily =
  f_ID :: string
  f_UserID :: string
  f_AuthDomain :: string
  f_DisplayName :: string
  f_CreatedAt :: time
  f_LastUsedAt :: time
  f_AbsoluteExpiresAt :: time
  f_RevokedAt :: "time option"
  f_RevokedReason :: string

record RefreshCredential =
  rc_FamilyID :: string
  rc_CurrentDigest :: bytes
  rc_PreviousDigest :: "bytes option"
  rc_Version :: int
  rc_ExpiresAt :: time
  rc_RotatedAt :: time

record ThrottleState =
  th_Username :: string
  th_FailureCount :: int
  th_FirstFailureAt :: time
  th_LastFailureAt :: time
  th_LockedUntil :: time

text \<open>
  An audit row. The columns that may be NULL are options: the store writes NULL for an
  empty string and reads NULL back as the empty string.
\<close>

record AuditRow =
  ar_ID :: string
  ar_Sequence :: int
  ar_OccurredAt :: time
  ar_ActorUserID :: "string option"
  ar_ActorType :: string
  ar_AuthMethod :: "string option"
  ar_CredentialID :: "string option"
  ar_Action :: string
  ar_TargetType :: "string option"
  ar_TargetID :: "string option"
  ar_Outcome :: string
  ar_ReasonCode :: "string option"
  ar_RequestID :: "string option"
  ar_SourceAddr :: "string option"
  ar_Severity :: string
  ar_Details :: bytes
  ar_PrevHash :: bytes
  ar_Hash :: bytes

record AuditCheckpoint =
  cp_ID :: string
  cp_CreatedAt :: time
  cp_LastSequence :: int
  cp_ChainHash :: bytes

record WebUILaunchGrant =
  lg_ID :: string
  lg_LookupID :: string
  lg_Digest :: bytes
  lg_UserID :: string
  lg_FamilyID :: string
  lg_CreatedAt :: time
  lg_ExpiresAt :: time
  lg_UsedAt :: "time option"

record WebUIBridgeSession =
  bs_ID :: string
  bs_LookupID :: string
  bs_Digest :: bytes
  bs_UserID :: string
  bs_FamilyID :: string
  bs_CreatedAt :: time
  bs_ExpiresAt :: time
  bs_RevokedAt :: "time option"

record RegistryGrant =
  rg_ID :: string
  rg_SubjectType :: string
  rg_SubjectID :: string
  rg_PathPrefix :: string
  rg_Actions :: "string list"
  rg_CreatedAt :: time

text \<open>Durable operations, idempotency keys, maintenance cursors, DNS records and builds.\<close>

datatype OperationStatus = OperationStatusPending | OperationStatusRunning | OperationStatusSucceeded | OperationStatusFailed

record Operation =
  op_ID :: string
  op_Kind :: string
  op_OwnerID :: string
  op_Status :: OperationStatus
  op_ResultBody :: bytes
  op_ProblemBody :: bytes
  op_CreatedAt :: time
  op_UpdatedAt :: time

record IdempotencyRecord =
  ir_Scope :: string
  ir_Key :: string
  ir_RequestHash :: string
  ir_ResponseStatus :: int
  ir_ResponseBody :: bytes
  ir_CreatedAt :: time
  ir_ExpiresAt :: time

record MaintenanceCheckpoint =
  mc_TaskName :: string
  mc_LastRunAt :: time
  mc_Cursor :: string
  mc_UpdatedAt :: time

record DNSRecord =
  dn_Name :: string
  dn_IPv4 :: string
  dn_TTL :: int
  dn_Source :: string
  dn_Owner :: string
  dn_CreatedAt :: time
  dn_UpdatedAt :: time
  dn_LeaseExpiresAt :: "time option"

datatype BuildStatus = BuildStatusPending | BuildStatusRunning | BuildStatusSucceeded | BuildStatusFailed
  | BuildStatusCancelled | BuildStatusTimedOut

record Build =
  b_ID :: string
  b_OwnerID :: string
  b_Status :: BuildStatus
  b_SourceRepoURL :: string
  b_SourceCommitSHA :: string
  b_ContainerfilePath :: string
  b_ImageRepository :: string
  b_ImageTag :: string
  b_BuilderImageDigest :: string
  b_WorkflowName :: string
  b_CancelRequested :: bool
  b_ReasonCode :: string
  b_ErrorMessage :: string
  b_PushTokenID :: string
  b_RegistrySecretName :: string
  b_CreatedAt :: time
  b_UpdatedAt :: time
  b_StartedAt :: "time option"
  b_CompletedAt :: "time option"
  b_DeadlineAt :: time

text \<open>Licensing, activation of a profile and acknowledged notifications (storage/licensing.go).\<close>

datatype LicensingState = LicensingUnresolved | LicensingBaseFree | LicensingLicensed

record LicensingRecord =
  lr_State :: LicensingState
  lr_LicenseDocument :: string
  lr_LicenseSummaryJSON :: string
  lr_AcceptedAt :: "time option"
  lr_AcceptedByUserID :: string
  lr_UpdatedAt :: time

record CustomApplianceProfile =
  ca_ID :: string
  ca_DisplayName :: string
  ca_Description :: string
  ca_CapabilitiesJSON :: string
  ca_CreatedAt :: time
  ca_UpdatedAt :: time
  ca_CreatedByUserID :: string

datatype ProfileActivationStatus = ProfileActivationActive | ProfileActivationPendingRestart | ProfileActivationFailed

record ProfileActivationRecord =
  pa_DesiredProfileID :: string
  pa_Status :: ProfileActivationStatus
  pa_Message :: string
  pa_UpdatedAt :: time
  pa_UpdatedByUserID :: string

record NotificationAck =
  na_NotificationID :: string
  na_UserID :: string
  na_AcknowledgedAt :: time

text \<open>Developer workspaces and jobs (storage/developer.go), and the builder catalog (storage/buildercatalog.go).\<close>

datatype WorkspaceStatus = WorkspaceStatusPending | WorkspaceStatusReady | WorkspaceStatusFailed | WorkspaceStatusDeleted

record Workspace =
  wk_ID :: string
  wk_OwnerID :: string
  wk_Name :: string
  wk_WorkProfile :: string
  wk_SourceRepoURL :: string
  wk_SourceRef :: string
  wk_SourceCredentialRef :: string
  wk_Status :: WorkspaceStatus
  wk_ReasonCode :: string
  wk_ErrorMessage :: string
  wk_CreatedAt :: time
  wk_UpdatedAt :: time
  wk_DeletedAt :: "time option"

record CurrentWorkspace =
  cw_UserID :: string
  cw_WorkspaceID :: string
  cw_UpdatedAt :: time

datatype JobType = JobTypeWorkspacePrepare | JobTypeBuild | JobTypeDeploy

datatype JobStatus = JobStatusQueued | JobStatusRunning | JobStatusSucceeded | JobStatusFailed | JobStatusCancelled

record Job =
  jb_ID :: string
  jb_OwnerID :: string
  jb_WorkspaceID :: string
  jb_BuildID :: string
  jb_Type :: JobType
  jb_Status :: JobStatus
  jb_TargetName :: string
  jb_ArtifactRef :: string
  jb_ReasonCode :: string
  jb_ErrorMessage :: string
  jb_CreatedAt :: time
  jb_UpdatedAt :: time
  jb_StartedAt :: "time option"
  jb_CompletedAt :: "time option"

record JobStep =
  js_ID :: string
  js_JobID :: string
  js_Name :: string
  js_Status :: JobStatus
  js_Message :: string
  js_CreatedAt :: time
  js_StartedAt :: "time option"
  js_CompletedAt :: "time option"

record BuilderCatalogRecord =
  bk_DocumentText :: string
  bk_ContentType :: string
  bk_UpdatedAt :: time

text \<open>
  \<open>db_UniqueMsg\<close> is the text the connection's driver reports for a violated unique
  constraint; SQLite and PostgreSQL differ there, and the code looks at that text.
\<close>

record db =
  db_UniqueMsg :: string
  db_users :: "User list"
  db_passwords :: "PasswordCredential list"
  db_resets :: "PasswordResetCredential list"
  db_permissions :: "Permission list"
  db_roles :: "Role list"
  db_rolePermissions :: "RolePermission list"
  db_userRoles :: "UserRole list"
  db_tokens :: "APIToken list"
  db_families :: "SessionFamily list"
  db_refresh :: "RefreshCredential list"
  db_throttle :: "ThrottleState list"
  db_audit :: "AuditRow list"
  db_checkpoints :: "AuditCheckpoint list"
  db_launchGrants :: "WebUILaunchGrant list"
  db_bridges :: "WebUIBridgeSession list"
  db_registryGrants :: "RegistryGrant list"
  db_operations :: "Operation list"
  db_idempotency :: "IdempotencyRecord list"
  db_maintenance :: "MaintenanceCheckpoint list"
  db_dns :: "DNSRecord list"
  db_builds :: "Build list"
  db_licensing :: LicensingRecord
  db_customProfiles :: "CustomApplianceProfile list"
  db_activation :: ProfileActivationRecord
  db_acks :: "NotificationAck list"
  db_workspaces :: "Workspace list"
  db_currentWorkspaces :: "CurrentWorkspace list"
  db_jobs :: "Job list"
  db_jobSteps :: "JobStep list"
  db_builderCatalog :: BuilderCatalogRecord

section \<open>What one request takes from outside\<close>

text \<open>
  The clock reading, the fresh UUIDs and random bytes, and the statements that fail in the
  driver while one request runs. A request is short against every lifetime the code
  compares with, and is run at a single clock reading.
\<close>

record io =
  io_now :: time
  io_newID :: string
  io_eventID :: string
  io_jti :: string
  io_lookupRand :: bytes
  io_secretRand :: bytes
  io_saltRand :: bytes
  io_fault :: "string \<Rightarrow> bool"

definition stmt :: "io \<Rightarrow> string \<Rightarrow> unit result" where
  "stmt io name = require (\<not> io_fault io name) (ErrDriver name)"

section \<open>Transactions\<close>

text \<open>
  \<open>DB.WithTx\<close>: begin, run, commit; any error rolls back, so the database a caller sees
  is the old one. A nested call joins the running transaction, which is plain sequencing
  of the inner function.
\<close>

definition WithTx :: "io \<Rightarrow> (db \<Rightarrow> ('a \<times> db) result) \<Rightarrow> db \<Rightarrow> db \<times> 'a result" where
  "WithTx io fn d =
    (if io_fault io ''BeginTx'' then (d, Inl (ErrDriver ''BeginTx''))
     else case fn d of
            Inl e \<Rightarrow> (d, Inl e)
          | Inr (a, d') \<Rightarrow> if io_fault io ''Commit'' then (d, Inl (ErrDriver ''Commit'')) else (d', Inr a))"

text \<open>A function of the store that returns nothing but the error, inside a transaction.\<close>

definition unitTx :: "(db \<Rightarrow> db result) \<Rightarrow> db \<Rightarrow> (unit \<times> db) result" where
  "unitTx f d = andThen (f d) (\<lambda>d'. Inr ((), d'))"

text \<open>A statement outside a transaction commits by itself.\<close>

definition autoCommit :: "(db \<Rightarrow> db result) \<Rightarrow> db \<Rightarrow> db \<times> unit result" where
  "autoCommit f d = (case f d of Inl e \<Rightarrow> (d, Inl e) | Inr d' \<Rightarrow> (d', Inr ()))"

lemma WithTx_Inl: "WithTx io fn d = (d', Inl e) \<Longrightarrow> d' = d"
  by (auto simp: WithTx_def split: if_splits sum.splits)

lemma WithTx_Inr: "WithTx io fn d = (d', Inr a) \<Longrightarrow> fn d = Inr (a, d')"
  by (auto simp: WithTx_def split: if_splits sum.splits)

lemma WithTx_ok:
  "\<not> io_fault io ''BeginTx'' \<Longrightarrow> \<not> io_fault io ''Commit'' \<Longrightarrow> fn d = Inr (a, d')
   \<Longrightarrow> WithTx io fn d = (d', Inr a)"
  by (simp add: WithTx_def)

lemma WithTx_fn_Inl:
  "fn d = Inl e \<Longrightarrow> fst (WithTx io fn d) = d \<and> (\<exists>e'. snd (WithTx io fn d) = Inl e')"
  by (auto simp: WithTx_def)

lemma unitTx_Inr [simp]: "unitTx f d = Inr (a, d') \<longleftrightarrow> f d = Inr d'"
  by (auto simp: unitTx_def andThen_Inr_iff)

lemma unitTx_Inl [simp]: "unitTx f d = Inl e \<longleftrightarrow> f d = Inl e"
  by (auto simp: unitTx_def andThen_Inl_iff)

text \<open>\<open>isUniqueConstraintErr\<close> searches the driver's text.\<close>

definition isUniqueConstraintErr :: "string \<Rightarrow> bool" where
  "isUniqueConstraintErr msg \<longleftrightarrow> Contains msg ''UNIQUE constraint failed''"

definition uniqueViolation :: "db \<Rightarrow> err" where
  "uniqueViolation d =
     (if isUniqueConstraintErr (db_UniqueMsg d) then ErrConflict else ErrDriver (db_UniqueMsg d))"

definition userExists :: "db \<Rightarrow> string \<Rightarrow> bool" where
  "userExists d i \<longleftrightarrow> i \<in> u_ID ` set (db_users d)"

definition roleExists :: "db \<Rightarrow> string \<Rightarrow> bool" where
  "roleExists d i \<longleftrightarrow> i \<in> r_ID ` set (db_roles d)"

definition foreignKey :: "bool \<Rightarrow> unit result" where
  "foreignKey ok = require ok (ErrDriver ''FOREIGN KEY constraint failed'')"

lemma stmt_simps [simp]:
  "stmt io n = Inr u \<longleftrightarrow> \<not> io_fault io n" "stmt io n = Inl e \<longleftrightarrow> io_fault io n \<and> e = ErrDriver n"
  by (auto simp: stmt_def)

lemma foreignKey_simps [simp]:
  "foreignKey b = Inr u \<longleftrightarrow> b"
  "foreignKey b = Inl e \<longleftrightarrow> \<not> b \<and> e = ErrDriver ''FOREIGN KEY constraint failed''"
  by (auto simp: foreignKey_def)

end
