(* ===== verification/Schema.thy ===== *)
theory Schema
  imports IdentityStore
begin

text \<open>
  The schema invariant of the identity database: primary keys and unique columns are
  distinct and every foreign key points at a row (migrations/0001_schema.sql and
  0002_webui_sessions.sql). \<open>store_step\<close> is one successful mutating store method;
  every such step keeps the invariant, so every database reachable from the empty one
  satisfies it.
\<close>

definition users_ok :: "db \<Rightarrow> bool" where
  "users_ok d \<longleftrightarrow> distinct (map u_ID (db_users d)) \<and> distinct (map u_Username (db_users d))"

definition credentials_ok :: "db \<Rightarrow> bool" where
  "credentials_ok d \<longleftrightarrow>
     distinct (map pc_UserID (db_passwords d)) \<and> (\<forall>c\<in>set (db_passwords d). userExists d (pc_UserID c))
   \<and> distinct (map pr_ID (db_resets d)) \<and> distinct (map pr_LookupID (db_resets d))
   \<and> (\<forall>c\<in>set (db_resets d). userExists d (pr_UserID c))"

definition roles_ok :: "db \<Rightarrow> bool" where
  "roles_ok d \<longleftrightarrow>
     distinct (map p_Name (db_permissions d))
   \<and> distinct (map r_ID (db_roles d)) \<and> distinct (map r_Name (db_roles d))
   \<and> distinct (db_rolePermissions d)
   \<and> (\<forall>x\<in>set (db_rolePermissions d). roleExists d (rp_RoleID x) \<and> rp_Permission x \<in> p_Name ` set (db_permissions d))
   \<and> distinct (map (\<lambda>x. (ur_UserID x, ur_RoleID x)) (db_userRoles d))
   \<and> (\<forall>x\<in>set (db_userRoles d). userExists d (ur_UserID x) \<and> roleExists d (ur_RoleID x))"

definition tokens_ok :: "db \<Rightarrow> bool" where
  "tokens_ok d \<longleftrightarrow> distinct (map t_ID (db_tokens d)) \<and> distinct (map t_LookupID (db_tokens d))
     \<and> (\<forall>t\<in>set (db_tokens d). userExists d (t_UserID t))"

definition sessions_ok :: "db \<Rightarrow> bool" where
  "sessions_ok d \<longleftrightarrow> distinct (map f_ID (db_families d)) \<and> (\<forall>f\<in>set (db_families d). userExists d (f_UserID f))
     \<and> distinct (map rc_FamilyID (db_refresh d)) \<and> (\<forall>r\<in>set (db_refresh d). familyExists d (rc_FamilyID r))
     \<and> distinct (map th_Username (db_throttle d))"

definition webui_ok :: "db \<Rightarrow> bool" where
  "webui_ok d \<longleftrightarrow>
     distinct (map lg_ID (db_launchGrants d)) \<and> distinct (map lg_LookupID (db_launchGrants d))
   \<and> (\<forall>g\<in>set (db_launchGrants d). userExists d (lg_UserID g) \<and> familyExists d (lg_FamilyID g))
   \<and> distinct (map bs_ID (db_bridges d)) \<and> distinct (map bs_LookupID (db_bridges d))
   \<and> (\<forall>b\<in>set (db_bridges d). userExists d (bs_UserID b) \<and> familyExists d (bs_FamilyID b))
   \<and> distinct (map rg_ID (db_registryGrants d))"

definition schema_ok :: "db \<Rightarrow> bool" where
  "schema_ok d \<longleftrightarrow> users_ok d \<and> credentials_ok d \<and> roles_ok d \<and> tokens_ok d \<and> sessions_ok d \<and> webui_ok d"

lemmas schema_defs = schema_ok_def users_ok_def credentials_ok_def roles_ok_def tokens_ok_def
  sessions_ok_def webui_ok_def

section \<open>Replacing one table\<close>

text \<open>
  A table can be replaced when the new one satisfies its own constraints and keeps the
  keys other tables point at.
\<close>

lemma schema_users:
  assumes "schema_ok d" and "distinct (map u_ID us)" and "distinct (map u_Username us)"
    and "u_ID ` set (db_users d) \<subseteq> u_ID ` set us"
  shows "schema_ok (d\<lparr>db_users := us\<rparr>)"
proof -
  have keep: "userExists d i \<Longrightarrow> userExists (d\<lparr>db_users := us\<rparr>) i" for i
    using assms(4) by (auto simp: userExists_def)
  then show ?thesis
    using assms(1-3) by (simp add: schema_defs roleExists_def familyExists_def)
qed

lemma schema_roles:
  assumes "schema_ok d" and "distinct (map r_ID rs)" and "distinct (map r_Name rs)"
    and "r_ID ` set (db_roles d) \<subseteq> r_ID ` set rs"
  shows "schema_ok (d\<lparr>db_roles := rs\<rparr>)"
proof -
  have keep: "roleExists d i \<Longrightarrow> roleExists (d\<lparr>db_roles := rs\<rparr>) i" for i
    using assms(4) by (auto simp: roleExists_def)
  then show ?thesis
    using assms(1-3) by (simp add: schema_defs userExists_def familyExists_def)
qed

lemma schema_families:
  assumes "schema_ok d" and "distinct (map f_ID fs)" and "\<forall>f\<in>set fs. userExists d (f_UserID f)"
    and "f_ID ` set (db_families d) \<subseteq> f_ID ` set fs"
  shows "schema_ok (d\<lparr>db_families := fs\<rparr>)"
proof -
  have keep: "familyExists d i \<Longrightarrow> familyExists (d\<lparr>db_families := fs\<rparr>) i" for i
    using assms(4) by (auto simp: familyExists_def)
  then show ?thesis
    using assms(1-3) by (simp add: schema_defs userExists_def roleExists_def)
qed

lemma schema_permissions:
  assumes "schema_ok d" and "distinct (map p_Name ps)" and "p_Name ` set (db_permissions d) \<subseteq> p_Name ` set ps"
  shows "schema_ok (d\<lparr>db_permissions := ps\<rparr>)"
proof -
  have "roles_ok (d\<lparr>db_permissions := ps\<rparr>)"
    using assms unfolding schema_ok_def roles_ok_def by (simp add: userExists_def roleExists_def) blast
  then show ?thesis
    using assms(1) by (simp add: schema_ok_def users_ok_def credentials_ok_def tokens_ok_def sessions_ok_def
        webui_ok_def userExists_def familyExists_def)
qed

lemmas existence = userExists_def roleExists_def familyExists_def

lemma schema_leaf_tables:
  "schema_ok d \<Longrightarrow> distinct (map pc_UserID t1) \<Longrightarrow> \<forall>c\<in>set t1. userExists d (pc_UserID c)
     \<Longrightarrow> schema_ok (d\<lparr>db_passwords := t1\<rparr>)"
  "schema_ok d \<Longrightarrow> distinct (map pr_ID t2) \<Longrightarrow> distinct (map pr_LookupID t2)
     \<Longrightarrow> \<forall>c\<in>set t2. userExists d (pr_UserID c) \<Longrightarrow> schema_ok (d\<lparr>db_resets := t2\<rparr>)"
  "schema_ok d \<Longrightarrow> distinct t3
     \<Longrightarrow> \<forall>x\<in>set t3. roleExists d (rp_RoleID x) \<and> rp_Permission x \<in> p_Name ` set (db_permissions d)
     \<Longrightarrow> schema_ok (d\<lparr>db_rolePermissions := t3\<rparr>)"
  "schema_ok d \<Longrightarrow> distinct (map (\<lambda>x. (ur_UserID x, ur_RoleID x)) t4)
     \<Longrightarrow> \<forall>x\<in>set t4. userExists d (ur_UserID x) \<and> roleExists d (ur_RoleID x) \<Longrightarrow> schema_ok (d\<lparr>db_userRoles := t4\<rparr>)"
  "schema_ok d \<Longrightarrow> distinct (map t_ID t5) \<Longrightarrow> distinct (map t_LookupID t5)
     \<Longrightarrow> \<forall>t\<in>set t5. userExists d (t_UserID t) \<Longrightarrow> schema_ok (d\<lparr>db_tokens := t5\<rparr>)"
  "schema_ok d \<Longrightarrow> distinct (map rc_FamilyID t6) \<Longrightarrow> \<forall>r\<in>set t6. familyExists d (rc_FamilyID r)
     \<Longrightarrow> schema_ok (d\<lparr>db_refresh := t6\<rparr>)"
  "schema_ok d \<Longrightarrow> distinct (map th_Username t7) \<Longrightarrow> schema_ok (d\<lparr>db_throttle := t7\<rparr>)"
  "schema_ok d \<Longrightarrow> distinct (map lg_ID t8) \<Longrightarrow> distinct (map lg_LookupID t8)
     \<Longrightarrow> \<forall>g\<in>set t8. userExists d (lg_UserID g) \<and> familyExists d (lg_FamilyID g)
     \<Longrightarrow> schema_ok (d\<lparr>db_launchGrants := t8\<rparr>)"
  "schema_ok d \<Longrightarrow> distinct (map bs_ID t9) \<Longrightarrow> distinct (map bs_LookupID t9)
     \<Longrightarrow> \<forall>b\<in>set t9. userExists d (bs_UserID b) \<and> familyExists d (bs_FamilyID b)
     \<Longrightarrow> schema_ok (d\<lparr>db_bridges := t9\<rparr>)"
  "schema_ok d \<Longrightarrow> distinct (map rg_ID t10) \<Longrightarrow> schema_ok (d\<lparr>db_registryGrants := t10\<rparr>)"
  by (simp_all only: schema_defs existence, simp_all)

section \<open>Keys under updates and deletions\<close>

lemma distinct_map_filter_rows: "distinct (map g xs) \<Longrightarrow> distinct (map g (filter P xs))"
  by (induction xs) auto

lemma image_updateWhere_same:
  "(\<And>x. P x \<Longrightarrow> g (f x) = g x) \<Longrightarrow> g ` set (updateWhere P f xs) = g ` set xs"
  by (metis map_updateWhere_same list.set_map)

lemma in_updateWhere_E [elim!]:
  assumes "y \<in> set (updateWhere P f xs)"
  obtains "y \<in> set xs" and "\<not> P y" | x where "x \<in> set xs" and "P x" and "y = f x"
  using assms by (auto simp: set_updateWhere split: if_splits)

section \<open>Each store method keeps the invariant\<close>

lemmas row_keys = map_updateWhere_same distinct_map_filter_rows image_updateWhere_same

lemma usersExec1_schema:
  assumes "schema_ok d" and "usersExec1 io name uid f d = Inr d'"
    and "\<And>u. u_ID (f u) = u_ID u" and "\<And>u. u_Username (f u) = u_Username u"
  shows "schema_ok d'"
proof -
  have d': "d' = d\<lparr>db_users := updateWhere (\<lambda>u. u_ID u = uid) f (db_users d)\<rparr>"
    using assms(2) by (auto simp: usersExec1_def)
  show ?thesis
    unfolding d' using assms(1) by (intro schema_users)
      (simp_all add: map_updateWhere_same image_updateWhere_same assms(3,4) schema_ok_def users_ok_def)
qed

lemma UserStore_Create_schema:
  assumes "schema_ok d" and "UserStore_Create io u d = Inr d'"
  shows "schema_ok d'"
  using assms by (auto simp: UserStore_Create_def schema_ok_def [of d] users_ok_def intro!: schema_users)
     
lemma UserStore_SetPassword_schema:
  assumes "schema_ok d" and "UserStore_SetPassword io c d = Inr d'"
  shows "schema_ok d'"
proof -
  have "distinct (map pc_UserID (db_passwords d))" "\<forall>c\<in>set (db_passwords d). userExists d (pc_UserID c)"
    using assms(1) by (simp_all add: schema_ok_def credentials_ok_def)
  then show ?thesis
    using assms by (auto simp: UserStore_SetPassword_def Let_def map_updateWhere_same 
        intro!: schema_leaf_tables(1) split: if_splits)
qed

lemma UserStore_CreatePasswordReset_schema:
  assumes "schema_ok d" and "UserStore_CreatePasswordReset io c d = Inr d'"
  shows "schema_ok d'"
  using assms by (auto simp: UserStore_CreatePasswordReset_def Let_def schema_ok_def [of d] credentials_ok_def [of d] row_keys
      intro!: schema_leaf_tables(2) split: if_splits)

lemma UserStore_MarkPasswordResetUsed_schema:
  assumes "schema_ok d" and "UserStore_MarkPasswordResetUsed io c d = Inr d'"
  shows "schema_ok d'"
  using assms by (auto simp: UserStore_MarkPasswordResetUsed_def Let_def schema_ok_def [of d] credentials_ok_def [of d] row_keys
      intro!: schema_leaf_tables(2) split: if_splits)

lemma RoleStore_UpsertPermission_schema:
  assumes "schema_ok d" and "RoleStore_UpsertPermission io p d = Inr d'"
  shows "schema_ok d'"
  using assms by (auto simp: RoleStore_UpsertPermission_def Let_def schema_ok_def [of d] roles_ok_def [of d] row_keys
      intro!: schema_permissions split: if_splits)

lemma insertRolePermission_schema:
  assumes "schema_ok d" and "insertRolePermission rid n d = Inr d'"
  shows "schema_ok d'"
  using assms by (auto simp: insertRolePermission_def Let_def schema_ok_def [of d] roles_ok_def [of d] row_keys
      intro!: schema_leaf_tables(3) split: if_splits)

lemma insertUserRole_schema:
  assumes "schema_ok d" and "insertUserRole now uid rid d = Inr d'"
  shows "schema_ok d'"
  using assms by (auto simp: insertUserRole_def Let_def schema_ok_def [of d] roles_ok_def [of d] row_keys
      intro!: schema_leaf_tables(4) split: if_splits)

lemma RoleStore_RemoveUserRole_schema:
  assumes "schema_ok d" and "RoleStore_RemoveUserRole io uid rid d = Inr d'"
  shows "schema_ok d'"
  using assms by (auto simp: RoleStore_RemoveUserRole_def Let_def schema_ok_def [of d] roles_ok_def [of d] row_keys
      intro!: schema_leaf_tables(4) split: if_splits)

lemma TokenStore_Create_schema:
  assumes "schema_ok d" and "TokenStore_Create io t d = Inr d'"
  shows "schema_ok d'"
  using assms by (auto simp: TokenStore_Create_def Let_def schema_ok_def [of d] tokens_ok_def [of d] row_keys
      intro!: schema_leaf_tables(5) split: if_splits)

lemma TokenStore_Revoke_schema:
  assumes "schema_ok d" and "TokenStore_Revoke io tid d = Inr d'"
  shows "schema_ok d'"
  using assms by (auto simp: TokenStore_Revoke_def Let_def schema_ok_def [of d] tokens_ok_def [of d] row_keys
      intro!: schema_leaf_tables(5) split: if_splits)

lemma TokenStore_RevokeAllForUser_schema:
  assumes "schema_ok d" and "TokenStore_RevokeAllForUser io uid d = Inr d'"
  shows "schema_ok d'"
  using assms by (auto simp: TokenStore_RevokeAllForUser_def Let_def schema_ok_def [of d] tokens_ok_def [of d] row_keys
      intro!: schema_leaf_tables(5) split: if_splits)

lemma TokenStore_TouchLastUsed_schema:
  assumes "schema_ok d" and "TokenStore_TouchLastUsed io tid at d = Inr d'"
  shows "schema_ok d'"
  using assms by (auto simp: TokenStore_TouchLastUsed_def Let_def schema_ok_def [of d] tokens_ok_def [of d] row_keys
      intro!: schema_leaf_tables(5) split: if_splits)

lemma SessionStore_RevokeFamily_schema:
  assumes "schema_ok d" and "SessionStore_RevokeFamily io fid reason d = Inr d'"
  shows "schema_ok d'"
  using assms by (auto simp: SessionStore_RevokeFamily_def Let_def schema_ok_def [of d] sessions_ok_def [of d] row_keys
      intro!: schema_families split: if_splits)

lemma SessionStore_RevokeAllFamiliesForUser_schema:
  assumes "schema_ok d" and "SessionStore_RevokeAllFamiliesForUser io uid reason d = Inr d'"
  shows "schema_ok d'"
  using assms by (auto simp: SessionStore_RevokeAllFamiliesForUser_def Let_def schema_ok_def [of d] sessions_ok_def [of d] row_keys
      intro!: schema_families split: if_splits)

lemma SessionStore_TouchFamily_schema:
  assumes "schema_ok d" and "SessionStore_TouchFamily io fid at d = Inr d'"
  shows "schema_ok d'"
  using assms by (auto simp: SessionStore_TouchFamily_def Let_def schema_ok_def [of d] sessions_ok_def [of d] row_keys
      intro!: schema_families split: if_splits)

lemma SessionStore_RotateRefresh_schema:
  assumes "schema_ok d" and "SessionStore_RotateRefresh io fid newDigest expiresAt d = Inr d'"
  shows "schema_ok d'"
  using assms by (auto simp: SessionStore_RotateRefresh_def Let_def schema_ok_def [of d] sessions_ok_def [of d] row_keys
      intro!: schema_leaf_tables(6) split: if_splits)

lemma ThrottleStore_Reset_schema:
  assumes "schema_ok d" and "ThrottleStore_Reset io name d = Inr d'"
  shows "schema_ok d'"
  using assms by (auto simp: ThrottleStore_Reset_def Let_def schema_ok_def [of d] sessions_ok_def [of d] row_keys
      intro!: schema_leaf_tables(7) split: if_splits)

lemma RegistryGrantStore_Create_schema:
  assumes "schema_ok d" and "RegistryGrantStore_Create io g d = Inr d'"
  shows "schema_ok d'"
  using assms by (auto simp: RegistryGrantStore_Create_def Let_def schema_ok_def [of d] webui_ok_def [of d] row_keys
      intro!: schema_leaf_tables(10) split: if_splits)

lemma RegistryGrantStore_Delete_schema:
  assumes "schema_ok d" and "RegistryGrantStore_Delete io gid d = Inr d'"
  shows "schema_ok d'"
  using assms by (auto simp: RegistryGrantStore_Delete_def Let_def schema_ok_def [of d] webui_ok_def [of d] row_keys
      intro!: schema_leaf_tables(10) split: if_splits)

lemma CreateWebUILaunchGrant_schema:
  assumes "schema_ok d" and "CreateWebUILaunchGrant io g d = Inr d'"
  shows "schema_ok d'"
  using assms by (auto simp: CreateWebUILaunchGrant_def Let_def schema_ok_def [of d] webui_ok_def [of d] row_keys
      intro!: schema_leaf_tables(8) split: if_splits)

lemma ConsumeWebUILaunchGrant_schema:
  assumes "schema_ok d" and "ConsumeWebUILaunchGrant io gid at d = Inr d'"
  shows "schema_ok d'"
  using assms by (auto simp: ConsumeWebUILaunchGrant_def Let_def schema_ok_def [of d] webui_ok_def [of d] row_keys
      intro!: schema_leaf_tables(8) split: if_splits)

lemma CreateWebUIBridgeSession_schema:
  assumes "schema_ok d" and "CreateWebUIBridgeSession io b d = Inr d'"
  shows "schema_ok d'"
  using assms by (auto simp: CreateWebUIBridgeSession_def Let_def schema_ok_def [of d] webui_ok_def [of d] row_keys
      intro!: schema_leaf_tables(9) split: if_splits)

lemma RevokeWebUIBridgeSession_schema:
  assumes "schema_ok d" and "RevokeWebUIBridgeSession io bid at d = Inr d'"
  shows "schema_ok d'"
  using assms by (auto simp: RevokeWebUIBridgeSession_def Let_def schema_ok_def [of d] webui_ok_def [of d] row_keys
      intro!: schema_leaf_tables(9) split: if_splits)

lemma distinct_updateWhere_other_key:
  assumes "distinct (map r_Name rs)" and "distinct (map r_ID rs)" and "\<forall>x\<in>set rs. r_Name x = n \<longrightarrow> r_ID x = i"
  shows "distinct (map r_Name (updateWhere (\<lambda>x. r_ID x = i) (\<lambda>x. x\<lparr>r_Name := n, r_BuiltIn := b, r_UpdatedAt := u\<rparr>) rs))"
proof -
  let ?f = "\<lambda>x. if r_ID x = i then x\<lparr>r_Name := n, r_BuiltIn := b, r_UpdatedAt := u\<rparr> else x"
  have inj: "inj_on r_Name (set rs)" "inj_on r_ID (set rs)" and "distinct rs"
    using assms by (auto simp: distinct_map)
  moreover have "inj_on (\<lambda>x. r_Name (?f x)) (set rs)"
    using assms(3) inj by (auto simp: inj_on_def)
  ultimately show ?thesis by (simp add: updateWhere_def distinct_map comp_def)
qed

lemma RoleStore_UpsertRole_schema:
  assumes "schema_ok d" and "RoleStore_UpsertRole io r d = Inr d'"
  shows "schema_ok d'"
  using assms by (auto simp: RoleStore_UpsertRole_def Let_def schema_ok_def [of d] roles_ok_def [of d] row_keys
      roleExists_def distinct_updateWhere_other_key intro!: schema_roles split: if_splits) (force simp: image_iff)

lemma RoleStore_Delete_schema:
  assumes "schema_ok d" and "RoleStore_Delete io rid d = Inr d'"
  shows "schema_ok d'"
proof -
  define d1 where "d1 = d\<lparr>db_rolePermissions := filter (\<lambda>x. rp_RoleID x \<noteq> rid) (db_rolePermissions d),
    db_userRoles := filter (\<lambda>x. ur_RoleID x \<noteq> rid) (db_userRoles d),
    db_roles := filter (\<lambda>r. r_ID r \<noteq> rid) (db_roles d)\<rparr>"
  have d': "d' = d1" using assms(2) by (auto simp: RoleStore_Delete_def d1_def)
  have keep: "roleExists d i \<Longrightarrow> i \<noteq> rid \<Longrightarrow> roleExists d1 i" for i
    by (auto simp: roleExists_def d1_def)
  have same: "userExists d1 = userExists d" "familyExists d1 = familyExists d"
    by (auto simp: userExists_def familyExists_def d1_def fun_eq_iff)
  have "roles_ok d1"
    using assms(1) keep unfolding schema_ok_def roles_ok_def same
    by (simp add: d1_def distinct_map_filter_rows)
  moreover have "users_ok d1" "credentials_ok d1" "tokens_ok d1" "sessions_ok d1" "webui_ok d1"
    using assms(1) unfolding schema_ok_def users_ok_def credentials_ok_def tokens_ok_def sessions_ok_def webui_ok_def same
    by (simp_all add: d1_def)
  ultimately show ?thesis by (simp add: d' schema_ok_def)
qed

lemma insertRolePermissions_schema:
  "schema_ok d \<Longrightarrow> insertRolePermissions rid ns d = Inr d' \<Longrightarrow> schema_ok d'"
  by (induction ns arbitrary: d) (auto dest: insertRolePermission_schema)

lemma insertUserRoles_schema:
  "schema_ok d \<Longrightarrow> insertUserRoles now uid rs d = Inr d' \<Longrightarrow> schema_ok d'"
  by (induction rs arbitrary: d) (auto dest: insertUserRole_schema)

lemma RoleStore_SetRolePermissions_schema:
  assumes "schema_ok d" and "RoleStore_SetRolePermissions io rid ns d = Inr d'"
  shows "schema_ok d'"
proof -
  have "schema_ok (d\<lparr>db_rolePermissions := filter (\<lambda>x. rp_RoleID x \<noteq> rid) (db_rolePermissions d)\<rparr>)"
    using assms(1) by (intro schema_leaf_tables(3)) (auto simp: schema_ok_def roles_ok_def)
  then show ?thesis
    using assms(2) by (auto simp: RoleStore_SetRolePermissions_def dest: insertRolePermissions_schema)
qed

lemma RoleStore_SetUserRoles_schema:
  assumes "schema_ok d" and "RoleStore_SetUserRoles io uid rs d = Inr d'"
  shows "schema_ok d'"
proof -
  have "schema_ok (d\<lparr>db_userRoles := filter (\<lambda>x. ur_UserID x \<noteq> uid) (db_userRoles d)\<rparr>)"
    using assms(1) by (intro schema_leaf_tables(4)) (auto simp: schema_ok_def roles_ok_def distinct_map_filter_rows)
  then show ?thesis
    using assms(2) by (auto simp: RoleStore_SetUserRoles_def dest: insertUserRoles_schema)
qed

lemma RoleStore_AssignUserRole_schema:
  "schema_ok d \<Longrightarrow> RoleStore_AssignUserRole io uid rid d = Inr d' \<Longrightarrow> schema_ok d'"
  by (auto simp: RoleStore_AssignUserRole_def dest: insertUserRole_schema split: if_splits)

lemma SessionStore_CreateFamily_schema:
  assumes "schema_ok d" and "SessionStore_CreateFamily io f rc d = Inr d'"
  shows "schema_ok d'"
proof -
  define row where "row = f\<lparr>f_AuthDomain := (if f_AuthDomain f = [] then ''local'' else f_AuthDomain f),
    f_RevokedAt := None, f_RevokedReason := []\<rparr>"
  have row: "f_ID row = f_ID f" "f_UserID row = f_UserID f" by (simp_all add: row_def)
  have d': "d' = d\<lparr>db_families := db_families d @ [row], db_refresh := db_refresh d @ [rc\<lparr>rc_PreviousDigest := None\<rparr>]\<rparr>"
    and ok: "userExists d (f_UserID f)" "f_ID f \<notin> f_ID ` set (db_families d)"
      "rc_FamilyID rc \<in> insert (f_ID f) (f_ID ` set (db_families d))" "rc_FamilyID rc \<notin> rc_FamilyID ` set (db_refresh d)"
    using assms(2) by (simp_all add: SessionStore_CreateFamily_def Let_def andThen_Inr_iff row_def)
  have s: "sessions_ok d" using assms(1) by (simp add: schema_ok_def)
  let ?d1 = "d\<lparr>db_families := db_families d @ [row]\<rparr>"
  have "schema_ok ?d1"
    using assms(1) s row ok by (intro schema_families) (auto simp: sessions_ok_def)
  then have "schema_ok (?d1\<lparr>db_refresh := db_refresh ?d1 @ [rc\<lparr>rc_PreviousDigest := None\<rparr>]\<rparr>)"
    using s row ok by (intro schema_leaf_tables(6)) (auto simp: sessions_ok_def familyExists_def)
  then show ?thesis by (simp add: d')
qed

lemma nextThrottle_Username [simp]: "th_Username (nextThrottle name now w l n c) = name"
  by (auto simp: nextThrottle_def Let_def)

lemma ThrottleStore_RecordFailure_schema:
  assumes "schema_ok d" and "ThrottleStore_RecordFailure io name now w l n d = Inr (s, d')"
  shows "schema_ok d'"
  using assms by (auto simp: ThrottleStore_RecordFailure_def Let_def schema_ok_def [of d] sessions_ok_def [of d]
      row_keys intro!: schema_leaf_tables(7) split: if_splits)

section \<open>The database as a state machine\<close>

text \<open>
  One step is one successful mutating store method of the identity tables, with any
  arguments. \<open>store_reachable\<close> are the databases such steps lead to from the freshly
  migrated, empty one.
\<close>

definition emptyDb :: "string \<Rightarrow> db" where
  "emptyDb uniqueMsg = \<lparr>db_UniqueMsg = uniqueMsg, db_users = [], db_passwords = [], db_resets = [],
     db_permissions = [], db_roles = [], db_rolePermissions = [], db_userRoles = [], db_tokens = [],
     db_families = [], db_refresh = [], db_throttle = [], db_audit = [], db_checkpoints = [],
     db_launchGrants = [], db_bridges = [], db_registryGrants = [], db_operations = [], db_idempotency = [],
     db_maintenance = [], db_dns = [], db_builds = [],
     db_licensing = \<lparr>lr_State = LicensingUnresolved, lr_LicenseDocument = [], lr_LicenseSummaryJSON = ''{}'', lr_AcceptedAt = None,
       lr_AcceptedByUserID = [], lr_UpdatedAt = 0\<rparr>,
     db_customProfiles = [],
     db_activation = \<lparr>pa_DesiredProfileID = [], pa_Status = ProfileActivationActive, pa_Message = [], pa_UpdatedAt = 0, pa_UpdatedByUserID = []\<rparr>,
     db_acks = [], db_workspaces = [], db_currentWorkspaces = [], db_jobs = [], db_jobSteps = [],
     db_builderCatalog = \<lparr>bk_DocumentText = [], bk_ContentType = ''application/json'', bk_UpdatedAt = 0\<rparr>\<rparr>"

inductive store_step :: "db \<Rightarrow> db \<Rightarrow> bool" where
  CreateUser: "UserStore_Create io u d = Inr d' \<Longrightarrow> store_step d d'"
| UpdateDisplayName: "UserStore_UpdateDisplayName io uid name d = Inr d' \<Longrightarrow> store_step d d'"
| SetState: "UserStore_SetState io uid st d = Inr d' \<Longrightarrow> store_step d d'"
| BumpVersion: "UserStore_BumpCredentialVersion io uid d = Inr d' \<Longrightarrow> store_step d d'"
| SetPassword: "UserStore_SetPassword io c d = Inr d' \<Longrightarrow> store_step d d'"
| CreateReset: "UserStore_CreatePasswordReset io r d = Inr d' \<Longrightarrow> store_step d d'"
| MarkResetUsed: "UserStore_MarkPasswordResetUsed io rid d = Inr d' \<Longrightarrow> store_step d d'"
| UpsertPermission: "RoleStore_UpsertPermission io p d = Inr d' \<Longrightarrow> store_step d d'"
| UpsertRole: "RoleStore_UpsertRole io role d = Inr d' \<Longrightarrow> store_step d d'"
| DeleteRole: "RoleStore_Delete io rid d = Inr d' \<Longrightarrow> store_step d d'"
| SetRolePermissions: "RoleStore_SetRolePermissions io rid names d = Inr d' \<Longrightarrow> store_step d d'"
| AssignUserRole: "RoleStore_AssignUserRole io uid rid d = Inr d' \<Longrightarrow> store_step d d'"
| RemoveUserRole: "RoleStore_RemoveUserRole io uid rid d = Inr d' \<Longrightarrow> store_step d d'"
| SetUserRoles: "RoleStore_SetUserRoles io uid rids d = Inr d' \<Longrightarrow> store_step d d'"
| CreateToken: "TokenStore_Create io t d = Inr d' \<Longrightarrow> store_step d d'"
| RevokeToken: "TokenStore_Revoke io tid d = Inr d' \<Longrightarrow> store_step d d'"
| RevokeTokens: "TokenStore_RevokeAllForUser io uid d = Inr d' \<Longrightarrow> store_step d d'"
| TouchToken: "TokenStore_TouchLastUsed io tid at d = Inr d' \<Longrightarrow> store_step d d'"
| CreateFamily: "SessionStore_CreateFamily io f rc d = Inr d' \<Longrightarrow> store_step d d'"
| RevokeFamily: "SessionStore_RevokeFamily io fid reason d = Inr d' \<Longrightarrow> store_step d d'"
| RevokeFamilies: "SessionStore_RevokeAllFamiliesForUser io uid reason d = Inr d' \<Longrightarrow> store_step d d'"
| TouchFamily: "SessionStore_TouchFamily io fid at d = Inr d' \<Longrightarrow> store_step d d'"
| RotateRefresh: "SessionStore_RotateRefresh io fid digest at d = Inr d' \<Longrightarrow> store_step d d'"
| RecordFailure: "ThrottleStore_RecordFailure io name now w l n d = Inr (s, d') \<Longrightarrow> store_step d d'"
| ResetThrottle: "ThrottleStore_Reset io name d = Inr d' \<Longrightarrow> store_step d d'"
| CreateRegistryGrant: "RegistryGrantStore_Create io g d = Inr d' \<Longrightarrow> store_step d d'"
| DeleteRegistryGrant: "RegistryGrantStore_Delete io gid d = Inr d' \<Longrightarrow> store_step d d'"
| CreateLaunchGrant: "CreateWebUILaunchGrant io lg d = Inr d' \<Longrightarrow> store_step d d'"
| ConsumeLaunchGrant: "ConsumeWebUILaunchGrant io gid at d = Inr d' \<Longrightarrow> store_step d d'"
| CreateBridge: "CreateWebUIBridgeSession io b d = Inr d' \<Longrightarrow> store_step d d'"
| RevokeBridge: "RevokeWebUIBridgeSession io bid at d = Inr d' \<Longrightarrow> store_step d d'"

inductive store_reachable :: "string \<Rightarrow> db \<Rightarrow> bool" for m where
  init: "store_reachable m (emptyDb m)"
| step: "store_reachable m d \<Longrightarrow> store_step d d' \<Longrightarrow> store_reachable m d'"

lemma usersExec1_steps_schema:
  "schema_ok d \<Longrightarrow> UserStore_UpdateDisplayName io uid name d = Inr d' \<Longrightarrow> schema_ok d'"
  "schema_ok d \<Longrightarrow> UserStore_SetState io uid st d = Inr d' \<Longrightarrow> schema_ok d'"
  "schema_ok d \<Longrightarrow> UserStore_BumpCredentialVersion io uid d = Inr d' \<Longrightarrow> schema_ok d'"
  by (auto simp: UserStore_UpdateDisplayName_def UserStore_SetState_def UserStore_BumpCredentialVersion_def
      elim!: usersExec1_schema)

lemmas store_schema = usersExec1_steps_schema UserStore_Create_schema UserStore_SetPassword_schema
  UserStore_CreatePasswordReset_schema UserStore_MarkPasswordResetUsed_schema RoleStore_UpsertPermission_schema
  RoleStore_UpsertRole_schema RoleStore_Delete_schema RoleStore_SetRolePermissions_schema
  RoleStore_AssignUserRole_schema RoleStore_RemoveUserRole_schema RoleStore_SetUserRoles_schema
  TokenStore_Create_schema TokenStore_Revoke_schema TokenStore_RevokeAllForUser_schema
  TokenStore_TouchLastUsed_schema SessionStore_CreateFamily_schema SessionStore_RevokeFamily_schema
  SessionStore_RevokeAllFamiliesForUser_schema SessionStore_TouchFamily_schema SessionStore_RotateRefresh_schema
  ThrottleStore_RecordFailure_schema ThrottleStore_Reset_schema RegistryGrantStore_Create_schema
  RegistryGrantStore_Delete_schema CreateWebUILaunchGrant_schema ConsumeWebUILaunchGrant_schema
  CreateWebUIBridgeSession_schema RevokeWebUIBridgeSession_schema

lemma store_step_schema: "store_step d d' \<Longrightarrow> schema_ok d \<Longrightarrow> schema_ok d'"
  by (induction rule: store_step.induct) (erule (1) store_schema [rotated])+

text \<open>A request with no failing statement, and a user row, for evaluating the model.\<close>

definition sampleIO :: io where
  "sampleIO = \<lparr>io_now = 1767225600000000000, io_newID = ''0194-id'', io_eventID = ''0194-ev'', io_jti = ''0194-jti'',
     io_lookupRand = ''lookup-bytes-16b'', io_secretRand = ''secret-bytes-secret-bytes-32byte'',
     io_saltRand = ''salt-bytes-16byt'', io_fault = (\<lambda>_. False)\<rparr>"

lemma sampleIO_simps [simp]:
  "io_fault sampleIO n = False" "io_now sampleIO = 1767225600000000000" "io_newID sampleIO = ''0194-id''"
  "io_eventID sampleIO = ''0194-ev''" "io_jti sampleIO = ''0194-jti''"
  by (simp_all add: sampleIO_def)

definition sampleUser :: User where
  "sampleUser = \<lparr>u_ID = ''u1'', u_Username = ''alice'', u_DisplayName = ''Alice'', u_State = UserStateActive,
     u_CredentialVersion = 1, u_CreatedAt = 1767225600000000000, u_UpdatedAt = 1767225600000000000\<rparr>"

definition sampleDb :: db where
  "sampleDb = (emptyDb ''UNIQUE constraint failed: users.username'')\<lparr>db_users := [sampleUser]\<rparr>"

lemma sampleDb_reachable: "store_reachable ''UNIQUE constraint failed: users.username'' sampleDb"
proof (rule store_reachable.step [OF store_reachable.init])
  show "store_step (emptyDb ''UNIQUE constraint failed: users.username'') sampleDb"
    by (rule store_step.CreateUser [where io = sampleIO and u = sampleUser])
      (simp add: UserStore_Create_def stmt_def emptyDb_def sampleDb_def sampleUser_def userDefaults_def IsZero_def zeroTime_def)
qed



end
