(* ===== verification/AuditTrail.thy ===== *)
theory AuditTrail
  imports Schema "HOL-Library.Sublist"
begin

text \<open>
  The audit trail: the redaction of detail fields (internal/logging/logging.go), the
  recorder (internal/audit/audit.go), the hash-chained store
  (internal/storage/sqlstore/audit.go) and the maintenance job that checkpoints and prunes
  it (internal/auditops/service.go).

  The chain theorems: every append keeps the chain verifiable with consecutive sequence
  numbers, and the digest of the newest event binds the whole retained history. The
  locale \<open>audited_op\<close> is the contract of the service operations that mutate state under an
  audit event: a failure leaves the database as it was, a success appends exactly one
  event. The services interpret it.
\<close>

section \<open>Redaction\<close>

definition sensitiveKeys :: "string list" where
  "sensitiveKeys = [''password'', ''secret'', ''token'', ''authorization'', ''apikey'', ''api_key'',
     ''cookie'', ''refresh'']"

definition redacted :: string where "redacted = ''[REDACTED]''"

definition isSensitiveKey :: "ext \<Rightarrow> string \<Rightarrow> bool" where
  "isSensitiveKey x key = (let lower = ToLower (x_ulower x) key in list_ex (Contains lower) sensitiveKeys)"

definition RedactMap :: "ext \<Rightarrow> (string \<times> json) list \<Rightarrow> (string \<times> json) list" where
  "RedactMap x fs = map (\<lambda>(k, v). (k, if isSensitiveKey x k then JStr redacted else v)) fs"

section \<open>Events\<close>

record AuditEvent =
  ae_ID :: string
  ae_Sequence :: int
  ae_OccurredAt :: time
  ae_ActorUserID :: string
  ae_ActorType :: string
  ae_AuthMethod :: string
  ae_CredentialID :: string
  ae_Action :: string
  ae_TargetType :: string
  ae_TargetID :: string
  ae_Outcome :: string
  ae_ReasonCode :: string
  ae_RequestID :: string
  ae_SourceAddr :: string
  ae_Severity :: string
  ae_Details :: bytes

definition nullableString :: "string \<Rightarrow> string option" where
  "nullableString s = (if s = [] then None else Some s)"

text \<open>A NULL column scans into a NullString whose String is empty.\<close>

definition nullString :: "string option \<Rightarrow> string" where
  "nullString v = (case v of None \<Rightarrow> [] | Some s \<Rightarrow> s)"

lemma nullString_nullableString [simp]: "nullString (nullableString s) = s"
  by (simp add: nullString_def nullableString_def)

text \<open>The bytes that are hashed: fifteen fields, each closed by 0x1f, then the previous hash.\<close>

definition chainFields :: "int \<Rightarrow> AuditEvent \<Rightarrow> string list" where
  "chainFields sequence e =
    [Itoa sequence, RFC3339Nano (ae_OccurredAt e), ae_ActorUserID e, ae_ActorType e, ae_AuthMethod e,
     ae_CredentialID e, ae_Action e, ae_TargetType e, ae_TargetID e, ae_Outcome e, ae_ReasonCode e,
     ae_RequestID e, ae_SourceAddr e, ae_Severity e, ae_Details e]"

definition chainInput :: "int \<Rightarrow> AuditEvent \<Rightarrow> bytes \<Rightarrow> bytes" where
  "chainInput sequence e prevHash = concat (map (\<lambda>f. f @ [CHR 0x1F]) (chainFields sequence e)) @ prevHash"

definition chainHash :: "ext \<Rightarrow> int \<Rightarrow> AuditEvent \<Rightarrow> bytes \<Rightarrow> bytes" where
  "chainHash x sequence e prevHash = x_sha256 x (chainInput sequence e prevHash)"

definition scanAuditEvent :: "AuditRow \<Rightarrow> AuditEvent" where
  "scanAuditEvent r =
    \<lparr>ae_ID = ar_ID r, ae_Sequence = ar_Sequence r, ae_OccurredAt = ar_OccurredAt r,
     ae_ActorUserID = nullString (ar_ActorUserID r), ae_ActorType = ar_ActorType r,
     ae_AuthMethod = nullString (ar_AuthMethod r), ae_CredentialID = nullString (ar_CredentialID r),
     ae_Action = ar_Action r, ae_TargetType = nullString (ar_TargetType r),
     ae_TargetID = nullString (ar_TargetID r), ae_Outcome = ar_Outcome r,
     ae_ReasonCode = nullString (ar_ReasonCode r), ae_RequestID = nullString (ar_RequestID r),
     ae_SourceAddr = nullString (ar_SourceAddr r), ae_Severity = ar_Severity r,
     ae_Details = ar_Details r\<rparr>"

text \<open>The row INSERTed for an event.\<close>

definition auditRow :: "ext \<Rightarrow> int \<Rightarrow> bytes \<Rightarrow> AuditEvent \<Rightarrow> AuditRow" where
  "auditRow x nextSeq lastHash e =
    \<lparr>ar_ID = ae_ID e, ar_Sequence = nextSeq, ar_OccurredAt = ae_OccurredAt e,
     ar_ActorUserID = nullableString (ae_ActorUserID e), ar_ActorType = ae_ActorType e,
     ar_AuthMethod = nullableString (ae_AuthMethod e), ar_CredentialID = nullableString (ae_CredentialID e),
     ar_Action = ae_Action e, ar_TargetType = nullableString (ae_TargetType e),
     ar_TargetID = nullableString (ae_TargetID e), ar_Outcome = ae_Outcome e,
     ar_ReasonCode = nullableString (ae_ReasonCode e), ar_RequestID = nullableString (ae_RequestID e),
     ar_SourceAddr = nullableString (ae_SourceAddr e), ar_Severity = ae_Severity e,
     ar_Details = ae_Details e, ar_PrevHash = lastHash, ar_Hash = chainHash x nextSeq e lastHash\<rparr>"

section \<open>The store\<close>

text \<open>ORDER BY sequence, and the newest row.\<close>

definition auditBySequence :: "db \<Rightarrow> AuditRow list" where
  "auditBySequence d = sort_key ar_Sequence (db_audit d)"

definition lastAudit :: "db \<Rightarrow> int \<times> bytes" where
  "lastAudit d = (case rev (auditBySequence d) of [] \<Rightarrow> (0, []) | r # _ \<Rightarrow> (ar_Sequence r, ar_Hash r))"

definition AuditStore_Append :: "ext \<Rightarrow> io \<Rightarrow> AuditEvent \<Rightarrow> db \<Rightarrow> db result" where
  "AuditStore_Append x io e0 d =
    (let e = (if IsZero (ae_OccurredAt e0) then e0\<lparr>ae_OccurredAt := io_now io\<rparr> else e0)
     in andThen (stmt io ''AuditStore.Append'') (\<lambda>_.
        let (lastSeq, lastHash) = lastAudit d;
            nextSeq = lastSeq + 1
        in andThen (require (ae_ID e \<notin> ar_ID ` set (db_audit d) \<and> nextSeq \<notin> ar_Sequence ` set (db_audit d))
                      (ErrDriver (db_UniqueMsg d))) (\<lambda>_.
           Inr (d\<lparr>db_audit := db_audit d @ [auditRow x nextSeq lastHash e]\<rparr>))))"

record AuditFilter =
  af_ActorUserID :: string
  af_Action :: string
  af_Since :: time
  af_BeforeSequence :: int
  af_Limit :: int

definition auditMatches :: "AuditFilter \<Rightarrow> AuditRow \<Rightarrow> bool" where
  "auditMatches f r \<longleftrightarrow>
     (af_ActorUserID f \<noteq> [] \<longrightarrow> ar_ActorUserID r = Some (af_ActorUserID f))
   \<and> (af_Action f \<noteq> [] \<longrightarrow> ar_Action r = af_Action f)
   \<and> (\<not> IsZero (af_Since f) \<longrightarrow> RFC3339Nano (af_Since f) \<le> RFC3339Nano (ar_OccurredAt r))
   \<and> (0 < af_BeforeSequence f \<longrightarrow> ar_Sequence r < af_BeforeSequence f)"

definition AuditStore_List :: "io \<Rightarrow> AuditFilter \<Rightarrow> db \<Rightarrow> AuditEvent list result" where
  "AuditStore_List io f d =
    (let limit = (if af_Limit f \<le> 0 \<or> 200 < af_Limit f then 50 else af_Limit f)
     in andThen (stmt io ''AuditStore.List'') (\<lambda>_.
        Inr (map scanAuditEvent (take (nat limit) (filter (auditMatches f) (rev (auditBySequence d)))))))"

text \<open>The loop of VerifyChain; the hash expected next is the running one.\<close>

fun verifyRows :: "ext \<Rightarrow> bytes \<Rightarrow> AuditRow list \<Rightarrow> unit result" where
  "verifyRows x expectedPrevHash [] = Inr ()"
| "verifyRows x expectedPrevHash (r # rs) =
     (if ar_PrevHash r \<noteq> expectedPrevHash
      then Inl (ErrMessage (''audit chain broken at sequence '' @ Itoa (ar_Sequence r) @ '': unexpected prev_hash''))
      else if chainHash x (ar_Sequence r) (scanAuditEvent r) (ar_PrevHash r) \<noteq> ar_Hash r
      then Inl (ErrMessage (''audit chain broken at sequence '' @ Itoa (ar_Sequence r) @ '': hash mismatch''))
      else verifyRows x (ar_Hash r) rs)"

definition verifyFrom :: "ext \<Rightarrow> AuditRow list \<Rightarrow> unit result" where
  "verifyFrom x rows = (case rows of [] \<Rightarrow> Inr () | r # _ \<Rightarrow> verifyRows x (ar_PrevHash r) rows)"

definition AuditStore_VerifyChain :: "ext \<Rightarrow> io \<Rightarrow> db \<Rightarrow> unit result" where
  "AuditStore_VerifyChain x io d =
     andThen (stmt io ''AuditStore.VerifyChain'') (\<lambda>_. verifyFrom x (auditBySequence d))"

definition AuditStore_LatestSequence :: "io \<Rightarrow> db \<Rightarrow> (int \<times> bytes) result" where
  "AuditStore_LatestSequence io d = andThen (stmt io ''AuditStore.LatestSequence'') (\<lambda>_. Inr (lastAudit d))"

definition AuditStore_CreateCheckpoint :: "io \<Rightarrow> AuditCheckpoint \<Rightarrow> db \<Rightarrow> db result" where
  "AuditStore_CreateCheckpoint io cp0 d =
     andThen (require (cp_ID cp0 \<noteq> []) (ErrMessage ''audit checkpoint id is required'')) (\<lambda>_.
     let cp = (if IsZero (cp_CreatedAt cp0) then cp0\<lparr>cp_CreatedAt := io_now io\<rparr> else cp0)
     in andThen (stmt io ''AuditStore.CreateCheckpoint'') (\<lambda>_.
        andThen (require (cp_ID cp \<notin> cp_ID ` set (db_checkpoints d)) (ErrDriver (db_UniqueMsg d))) (\<lambda>_.
        Inr (d\<lparr>db_checkpoints := db_checkpoints d @ [cp]\<rparr>))))"

definition AuditStore_LatestCheckpoint :: "io \<Rightarrow> db \<Rightarrow> AuditCheckpoint result" where
  "AuditStore_LatestCheckpoint io d = andThen (stmt io ''AuditStore.LatestCheckpoint'') (\<lambda>_.
     case rev (sort_key cp_LastSequence (db_checkpoints d)) of [] \<Rightarrow> Inl ErrNotFound | cp # _ \<Rightarrow> Inr cp)"

text \<open>The times are compared as text, as the SQL does.\<close>

definition prunable :: "time \<Rightarrow> int \<Rightarrow> AuditRow \<Rightarrow> bool" where
  "prunable cutoff maxSequence r \<longleftrightarrow>
     RFC3339Nano (ar_OccurredAt r) < RFC3339Nano cutoff \<and> ar_Sequence r \<le> maxSequence"

definition AuditStore_DeleteOlderThan :: "io \<Rightarrow> time \<Rightarrow> int \<Rightarrow> db \<Rightarrow> (nat \<times> db) result" where
  "AuditStore_DeleteOlderThan io cutoff maxSequence d =
     andThen (stmt io ''AuditStore.DeleteOlderThan'') (\<lambda>_.
     Inr (affected (prunable cutoff maxSequence) (db_audit d),
          d\<lparr>db_audit := filter (\<lambda>r. \<not> prunable cutoff maxSequence r) (db_audit d)\<rparr>))"

definition AuditStore_ExportEvents :: "io \<Rightarrow> int \<Rightarrow> int \<Rightarrow> db \<Rightarrow> AuditEvent list result" where
  "AuditStore_ExportEvents io sinceSequence limit0 d =
    (let limit = (if limit0 \<le> 0 \<or> 1000 < limit0 then 500 else limit0)
     in andThen (stmt io ''AuditStore.ExportEvents'') (\<lambda>_.
        Inr (map scanAuditEvent (take (nat limit)
               (filter (\<lambda>r. sinceSequence < ar_Sequence r) (auditBySequence d))))))"

section \<open>The recorder\<close>

record Actor =
  ac_UserID :: string
  ac_Type :: string
  ac_AuthMethod :: string
  ac_CredentialID :: string
  ac_RequestID :: string
  ac_SourceAddr :: string

definition SystemActor :: Actor where
  "SystemActor = \<lparr>ac_UserID = [], ac_Type = ''system'', ac_AuthMethod = [], ac_CredentialID = [],
     ac_RequestID = [], ac_SourceAddr = []\<rparr>"

record Event =
  ev_Action :: string
  ev_TargetType :: string
  ev_TargetID :: string
  ev_Outcome :: string
  ev_ReasonCode :: string
  ev_Severity :: string
  ev_Details :: "(string \<times> json) list option"

definition recordedEvent :: "ext \<Rightarrow> io \<Rightarrow> Actor \<Rightarrow> Event \<Rightarrow> AuditEvent" where
  "recordedEvent x io actor e =
    \<lparr>ae_ID = io_eventID io, ae_Sequence = 0, ae_OccurredAt = io_now io,
     ae_ActorUserID = ac_UserID actor, ae_ActorType = ac_Type actor, ae_AuthMethod = ac_AuthMethod actor,
     ae_CredentialID = ac_CredentialID actor, ae_Action = ev_Action e, ae_TargetType = ev_TargetType e,
     ae_TargetID = ev_TargetID e, ae_Outcome = ev_Outcome e, ae_ReasonCode = ev_ReasonCode e,
     ae_RequestID = ac_RequestID actor, ae_SourceAddr = ac_SourceAddr actor,
     ae_Severity = (if ev_Severity e = [] then ''info'' else ev_Severity e),
     ae_Details = (case ev_Details e of None \<Rightarrow> [] | Some fs \<Rightarrow> jsonMarshal (jsonMap (RedactMap x fs)))\<rparr>"

definition Recorder_Record :: "ext \<Rightarrow> io \<Rightarrow> Actor \<Rightarrow> Event \<Rightarrow> db \<Rightarrow> db result" where
  "Recorder_Record x io actor e = AuditStore_Append x io (recordedEvent x io actor e)"

section \<open>Checkpoints and retention\<close>

definition retentionPeriod :: "int \<Rightarrow> duration" where
  "retentionPeriod retentionDays =
    (let d1 = (if retentionDays < 90 then 90 else retentionDays);
         d2 = (if 3650 < d1 then 3650 else d1)
     in d2 * 24 * Hour)"

definition RunCheckpoint :: "io \<Rightarrow> db \<Rightarrow> db result" where
  "RunCheckpoint io d = andThen (AuditStore_LatestSequence io d) (\<lambda>(seq, hash).
     if seq = 0 then Inr d
     else let create = AuditStore_CreateCheckpoint io
                \<lparr>cp_ID = io_newID io, cp_CreatedAt = io_now io, cp_LastSequence = seq, cp_ChainHash = hash\<rparr> d
          in case AuditStore_LatestCheckpoint io d of
               Inr latest \<Rightarrow> if cp_LastSequence latest = seq then Inr d else create
             | Inl e \<Rightarrow> if e \<noteq> ErrNotFound then Inl e else create)"

definition RunRetention :: "io \<Rightarrow> duration \<Rightarrow> db \<Rightarrow> db result" where
  "RunRetention io retention d =
    (case AuditStore_LatestCheckpoint io d of
       Inl e \<Rightarrow> if e = ErrNotFound then Inr d else Inl e
     | Inr cp \<Rightarrow> andThen (AuditStore_DeleteOlderThan io (io_now io - retention) (cp_LastSequence cp) d)
                  (\<lambda>(deleted, d'). Inr d'))"

text \<open>Each failure is logged and the next job runs.\<close>

definition runMaintenanceOnce :: "io \<Rightarrow> duration \<Rightarrow> db \<Rightarrow> db" where
  "runMaintenanceOnce io retention d =
    (let d1 = (case RunCheckpoint io d of Inl e \<Rightarrow> d | Inr d' \<Rightarrow> d')
     in case RunRetention io retention d1 of Inl e \<Rightarrow> d1 | Inr d' \<Rightarrow> d')"

section \<open>The chain invariant\<close>

fun consecutive :: "int \<Rightarrow> int list \<Rightarrow> bool" where
  "consecutive s [] = True"
| "consecutive s (n # ns) = (n = s \<and> consecutive (s + 1) ns)"

definition firstSequence :: "AuditRow list \<Rightarrow> int" where
  "firstSequence rows = (case rows of [] \<Rightarrow> 1 | r # _ \<Rightarrow> ar_Sequence r)"

text \<open>The rows are stored in sequence order without gaps, from 1 up, and verify.\<close>

definition audit_ok :: "ext \<Rightarrow> db \<Rightarrow> bool" where
  "audit_ok x d \<longleftrightarrow> verifyFrom x (db_audit d) = Inr () \<and> 1 \<le> firstSequence (db_audit d)
     \<and> consecutive (firstSequence (db_audit d)) (map ar_Sequence (db_audit d))"

lemma consecutive_append:
  "consecutive s (ns @ ms) \<longleftrightarrow> consecutive s ns \<and> consecutive (s + int (length ns)) ms"
  by (induction ns arbitrary: s) (auto simp: algebra_simps)

lemma consecutive_bounds: "consecutive s ns \<Longrightarrow> n \<in> set ns \<Longrightarrow> s \<le> n \<and> n < s + int (length ns)"
proof (induction ns arbitrary: s)
  case (Cons m ns)
  then have "m = s" and IH: "n \<in> set ns \<Longrightarrow> s + 1 \<le> n \<and> n < s + 1 + int (length ns)" by auto
  with Cons.prems(2) show ?case by (cases "n = m") auto
qed simp

lemma consecutive_sorted: "consecutive s ns \<Longrightarrow> sorted ns"
  by (induction ns arbitrary: s) (auto dest: consecutive_bounds)

lemma consecutive_last: "consecutive s (ns @ [n]) \<Longrightarrow> n = s + int (length ns)"
  by (simp add: consecutive_append)

lemma auditBySequence_id: "audit_ok x d \<Longrightarrow> auditBySequence d = db_audit d"
  by (auto simp: audit_ok_def auditBySequence_def dest: consecutive_sorted intro: sort_key_id_if_sorted)

lemma verifyRows_Cons_ok [simp]:
  "verifyRows x h (r # rs) = Inr () \<longleftrightarrow> ar_PrevHash r = h
     \<and> chainHash x (ar_Sequence r) (scanAuditEvent r) h = ar_Hash r \<and> verifyRows x (ar_Hash r) rs = Inr ()"
  by auto

declare verifyRows.simps(2) [simp del]

lemma verifyRows_append:
  "verifyRows x h (rs @ ts) = Inr () \<longleftrightarrow>
     verifyRows x h rs = Inr () \<and> verifyRows x (if rs = [] then h else ar_Hash (last rs)) ts = Inr ()"
  by (induction rs arbitrary: h) auto

lemma verifyRows_suffix: "verifyRows x h (rs @ ts) = Inr () \<Longrightarrow> verifyFrom x ts = Inr ()"
  by (cases ts) (auto simp: verifyRows_append verifyFrom_def split: if_splits)

lemma verifyFrom_suffix: "verifyFrom x (rs @ ts) = Inr () \<Longrightarrow> verifyFrom x ts = Inr ()"
proof (cases "rs @ ts")
  case (Cons r us)
  assume "verifyFrom x (rs @ ts) = Inr ()"
  then have "verifyRows x (ar_PrevHash r) (rs @ ts) = Inr ()"
    by (simp only: verifyFrom_def Cons list.case)
  then show ?thesis by (rule verifyRows_suffix)
qed (simp add: verifyFrom_def)

lemma chainHash_scan [simp]: "chainHash x n (scanAuditEvent (auditRow x m h e)) p = chainHash x n e p"
  by (simp add: chainHash_def chainInput_def chainFields_def scanAuditEvent_def auditRow_def)

lemma auditRow_simps [simp]:
  "ar_PrevHash (auditRow x n h e) = h" "ar_Hash (auditRow x n h e) = chainHash x n e h"
  "ar_Sequence (auditRow x n h e) = n" "ar_Action (auditRow x n h e) = ae_Action e"
  "ar_ID (auditRow x n h e) = ae_ID e"
  by (simp_all add: auditRow_def)

text \<open>\<open>chainedTo\<close>: the row an append of \<open>e\<close> adds to the table of \<open>d\<close>.\<close>

definition chainedTo :: "ext \<Rightarrow> db \<Rightarrow> AuditEvent \<Rightarrow> AuditRow" where
  "chainedTo x d e = auditRow x (fst (lastAudit d) + 1) (snd (lastAudit d)) e"

lemma lastAudit_ok:
  assumes "audit_ok x d"
  shows "lastAudit d = (if db_audit d = [] then (0, [])
    else (firstSequence (db_audit d) + int (length (db_audit d)) - 1, ar_Hash (last (db_audit d))))"
proof (cases "db_audit d" rule: rev_cases)
  case Nil
  then show ?thesis by (simp add: lastAudit_def auditBySequence_def)
next
  case (snoc rs r)
  then show ?thesis
    using assms by (auto simp: lastAudit_def auditBySequence_id audit_ok_def consecutive_append)
qed

lemma audit_ok_append:
  assumes ok: "audit_ok x d" and "db_audit d' = db_audit d @ [chainedTo x d e]"
  shows "audit_ok x d'"
proof (cases "db_audit d")
  case Nil
  then show ?thesis
    using assms(2) by (simp add: audit_ok_def chainedTo_def lastAudit_def auditBySequence_def verifyFrom_def firstSequence_def)
next
  case (Cons r rs)
  have "verifyRows x (ar_PrevHash r) (db_audit d @ [chainedTo x d e]) = Inr ()"
    using ok Cons unfolding verifyRows_append
    by (auto simp: audit_ok_def verifyFrom_def chainedTo_def lastAudit_ok [OF ok] firstSequence_def)
  moreover have "consecutive (ar_Sequence r) (map ar_Sequence (db_audit d @ [chainedTo x d e]))"
    using ok Cons unfolding map_append consecutive_append
    by (simp add: audit_ok_def firstSequence_def chainedTo_def lastAudit_ok [OF ok])
  ultimately show ?thesis
    using ok Cons assms(2) by (simp add: audit_ok_def verifyFrom_def firstSequence_def)
qed

definition stampEvent :: "io \<Rightarrow> AuditEvent \<Rightarrow> AuditEvent" where
  "stampEvent io e = (if IsZero (ae_OccurredAt e) then e\<lparr>ae_OccurredAt := io_now io\<rparr> else e)"

lemma stampEvent_simps [simp]: "ae_Action (stampEvent io e) = ae_Action e" "ae_ID (stampEvent io e) = ae_ID e"
  by (simp_all add: stampEvent_def)

lemma AuditStore_Append_InrD:
  assumes "AuditStore_Append x io e d = Inr d'"
  shows "d' = d\<lparr>db_audit := db_audit d @ [chainedTo x d (stampEvent io e)]\<rparr>"
    and "\<not> io_fault io ''AuditStore.Append''"
  using assms unfolding AuditStore_Append_def Let_def
  by (simp_all add: andThen_Inr_iff stampEvent_def chainedTo_def case_prod_beta)

lemma AuditStore_Append_ok: "audit_ok x d \<Longrightarrow> AuditStore_Append x io e d = Inr d' \<Longrightarrow> audit_ok x d'"
  by (auto dest!: AuditStore_Append_InrD(1) intro: audit_ok_append)

lemma VerifyChain_ok:
  "audit_ok x d \<Longrightarrow> \<not> io_fault io ''AuditStore.VerifyChain'' \<Longrightarrow> AuditStore_VerifyChain x io d = Inr ()"
  by (simp add: AuditStore_VerifyChain_def auditBySequence_id stmt_def) (simp add: audit_ok_def)

section \<open>What the other store methods keep\<close>

lemma insertRolePermissions_keeps_audit: "insertRolePermissions rid ns d = Inr d' \<Longrightarrow>
   db_audit d' = db_audit d \<and> db_checkpoints d' = db_checkpoints d"
  by (induction ns arbitrary: d) (auto simp: insertRolePermission_def)

lemma insertUserRoles_keeps_audit: "insertUserRoles now uid rs d = Inr d' \<Longrightarrow>
   db_audit d' = db_audit d \<and> db_checkpoints d' = db_checkpoints d"
  by (induction rs arbitrary: d) (auto simp: insertUserRole_def)

lemmas storeMethod_defs = UserStore_Create_def UserStore_UpdateDisplayName_def UserStore_SetState_def
  UserStore_BumpCredentialVersion_def usersExec1_def UserStore_SetPassword_def
  UserStore_CreatePasswordReset_def UserStore_MarkPasswordResetUsed_def
  RoleStore_UpsertPermission_def RoleStore_UpsertRole_def RoleStore_Delete_def
  RoleStore_SetRolePermissions_def RoleStore_AssignUserRole_def RoleStore_RemoveUserRole_def
  RoleStore_SetUserRoles_def insertUserRole_def TokenStore_Create_def TokenStore_Revoke_def
  TokenStore_RevokeAllForUser_def TokenStore_TouchLastUsed_def SessionStore_CreateFamily_def
  SessionStore_RevokeFamily_def SessionStore_RevokeAllFamiliesForUser_def SessionStore_TouchFamily_def
  SessionStore_RotateRefresh_def ThrottleStore_RecordFailure_def ThrottleStore_Reset_def
  RegistryGrantStore_Create_def RegistryGrantStore_Delete_def CreateWebUILaunchGrant_def
  ConsumeWebUILaunchGrant_def CreateWebUIBridgeSession_def RevokeWebUIBridgeSession_def

text \<open>No method of the other stores touches the trail or its checkpoints.\<close>

lemma store_step_keeps_audit:
  "store_step d d' \<Longrightarrow> db_audit d' = db_audit d \<and> db_checkpoints d' = db_checkpoints d"
  by (induction rule: store_step.induct)
     (auto simp: storeMethod_defs Let_def split: if_splits
        dest: insertRolePermissions_keeps_audit insertUserRoles_keeps_audit)

section \<open>Retention\<close>

text \<open>
  Pruning removes a prefix of the trail when the text of the event times does not decrease
  along it; what is left still verifies, from the first retained event on.
\<close>

lemma filter_eq_dropWhile:
  assumes "sorted_wrt (\<lambda>r s. P s \<longrightarrow> P r) rows"
  shows "filter (\<lambda>r. \<not> P r) rows = dropWhile P rows"
  using assms by (induction rows) (auto simp: filter_id_conv)

lemma prunable_prefix:
  assumes "sorted (map (\<lambda>r. RFC3339Nano (ar_OccurredAt r)) rows)" and "sorted (map ar_Sequence rows)"
  shows "filter (\<lambda>r. \<not> prunable cutoff n r) rows = dropWhile (prunable cutoff n) rows"
proof (rule filter_eq_dropWhile)
  have "sorted_wrt (\<lambda>r s. RFC3339Nano (ar_OccurredAt r) \<le> RFC3339Nano (ar_OccurredAt s)
          \<and> ar_Sequence r \<le> ar_Sequence s) rows"
    using assms by (induction rows) auto
  then show "sorted_wrt (\<lambda>r s. prunable cutoff n s \<longrightarrow> prunable cutoff n r) rows"
    by (rule sorted_wrt_mono_rel [rotated]) (auto simp: prunable_def)
qed

lemma audit_ok_suffix:
  assumes "audit_ok x d" and "db_audit d = rs @ db_audit d'"
  shows "audit_ok x d'"
proof (cases "db_audit d'")
  case Nil
  then show ?thesis by (simp add: audit_ok_def verifyFrom_def firstSequence_def)
next
  case (Cons t ts)
  let ?s = "firstSequence (db_audit d)"
  have "verifyFrom x (db_audit d') = Inr ()"
    using assms verifyFrom_suffix [of x rs "db_audit d'"] by (simp add: audit_ok_def)
  moreover have "consecutive (?s + int (length rs)) (map ar_Sequence (db_audit d'))"
    using assms by (simp add: audit_ok_def consecutive_append)
  moreover have "1 \<le> ?s" using assms(1) by (simp add: audit_ok_def)
  ultimately show ?thesis
    using Cons by (auto simp: audit_ok_def firstSequence_def)
qed

lemma RunRetention_suffix:
  assumes "audit_ok x d" and "sorted (map (\<lambda>r. RFC3339Nano (ar_OccurredAt r)) (db_audit d))"
    and "RunRetention io retention d = Inr d'"
  shows "\<exists>rs. db_audit d = rs @ db_audit d'"
proof -
  have "sorted (map ar_Sequence (db_audit d))"
    using assms(1) by (auto simp: audit_ok_def dest: consecutive_sorted)
  with assms(2,3) show ?thesis
    by (auto simp: RunRetention_def AuditStore_DeleteOlderThan_def prunable_prefix split: sum.splits if_splits)
      (metis takeWhile_dropWhile_id)
qed

section \<open>The trail as a state machine\<close>

lemma RunCheckpoint_keeps_audit: "RunCheckpoint io d = Inr d' \<Longrightarrow> db_audit d' = db_audit d"
  by (auto simp: RunCheckpoint_def AuditStore_CreateCheckpoint_def Let_def split: sum.splits if_splits)

text \<open>
  One step of the running control plane, seen from the trail: a mutating store method, a
  recorded event, a checkpoint, or a retention run while the stored times do not decrease.
\<close>

inductive trail_step :: "ext \<Rightarrow> db \<Rightarrow> db \<Rightarrow> bool" for x where
  Mutate: "store_step d d' \<Longrightarrow> trail_step x d d'"
| Record: "Recorder_Record x io actor e d = Inr d' \<Longrightarrow> trail_step x d d'"
| Checkpoint: "RunCheckpoint io d = Inr d' \<Longrightarrow> trail_step x d d'"
| Retain: "RunRetention io retention d = Inr d' \<Longrightarrow>
    sorted (map (\<lambda>r. RFC3339Nano (ar_OccurredAt r)) (db_audit d)) \<Longrightarrow> trail_step x d d'"

inductive trail_reachable :: "ext \<Rightarrow> string \<Rightarrow> db \<Rightarrow> bool" for x m where
  start: "trail_reachable x m (emptyDb m)"
| step: "trail_reachable x m d \<Longrightarrow> trail_step x d d' \<Longrightarrow> trail_reachable x m d'"

inductive_cases trail_stepE: "trail_step x d d'"

lemma trail_step_audit_ok:
  assumes "trail_step x d d'" and "audit_ok x d"
  shows "audit_ok x d'"
  using assms(1)
proof (cases rule: trail_step.cases)
  case Mutate
  then show ?thesis using assms(2) by (auto simp: audit_ok_def dest: store_step_keeps_audit)
next
  case (Record io actor e)
  then show ?thesis using assms(2) by (auto simp: Recorder_Record_def dest: AuditStore_Append_ok)
next
  case (Checkpoint io)
  then show ?thesis using assms(2) by (auto simp: audit_ok_def dest: RunCheckpoint_keeps_audit)
next
  case (Retain io retention)
  then show ?thesis using assms(2) RunRetention_suffix audit_ok_suffix by blast
qed

lemma trail_reachable_audit_ok: "trail_reachable x m d \<Longrightarrow> audit_ok x d"
proof (induction rule: trail_reachable.induct)
  case start
  show ?case by (simp add: audit_ok_def emptyDb_def verifyFrom_def firstSequence_def)
qed (rule trail_step_audit_ok)

section \<open>The newest hash binds the history\<close>

definition chainKey :: "AuditRow \<Rightarrow> string list" where
  "chainKey r = chainFields (ar_Sequence r) (scanAuditEvent r)"

definition chainInputOf :: "AuditRow \<Rightarrow> bytes" where
  "chainInputOf r = chainInput (ar_Sequence r) (scanAuditEvent r) (ar_PrevHash r)"

text \<open>No hashed field contains the separator byte.\<close>

definition separatorFree :: "AuditRow \<Rightarrow> bool" where
  "separatorFree r \<longleftrightarrow> list_all (\<lambda>f. CHR 0x1F \<notin> set f) (chainKey r)"

lemma split_at_separator:
  "c \<notin> set f \<Longrightarrow> c \<notin> set g \<Longrightarrow> f @ c # u = g @ c # v \<longleftrightarrow> f = g \<and> u = v"
  by (induction f arbitrary: g) (case_tac g; auto)+

lemma closed_fields_inject:
  assumes "length fs = length gs" and "list_all (\<lambda>f. c \<notin> set f) fs" and "list_all (\<lambda>f. c \<notin> set f) gs"
    and "concat (map (\<lambda>f. f @ [c]) fs) @ p = concat (map (\<lambda>f. f @ [c]) gs) @ q"
  shows "fs = gs \<and> p = q"
  using assms by (induction fs gs rule: list_induct2) (auto simp: split_at_separator)

lemma chainInputOf_inject:
  "separatorFree r \<Longrightarrow> separatorFree s \<Longrightarrow> chainInputOf r = chainInputOf s
   \<Longrightarrow> chainKey r = chainKey s \<and> ar_PrevHash r = ar_PrevHash s"
  unfolding separatorFree_def chainInputOf_def chainInput_def chainKey_def
  by (rule closed_fields_inject) (simp_all add: chainFields_def)

lemma verifyFrom_snoc_ok:
  assumes "verifyFrom x (rs @ [r]) = Inr ()"
  shows "verifyFrom x rs = Inr ()" and "ar_Hash r = x_sha256 x (chainInputOf r)"
    and "rs \<noteq> [] \<Longrightarrow> ar_PrevHash r = ar_Hash (last rs)"
proof -
  let ?h = "case rs of [] \<Rightarrow> ar_PrevHash r | a # _ \<Rightarrow> ar_PrevHash a"
  have "verifyRows x ?h (rs @ [r]) = Inr ()"
    using assms by (cases rs) (simp_all add: verifyFrom_def)
  then have "verifyRows x ?h rs = Inr ()" and r: "verifyRows x (if rs = [] then ?h else ar_Hash (last rs)) [r] = Inr ()"
    by (simp_all only: verifyRows_append)
  then show "verifyFrom x rs = Inr ()" by (cases rs) (simp_all add: verifyFrom_def)
  show "ar_Hash r = x_sha256 x (chainInputOf r)" "rs \<noteq> [] \<Longrightarrow> ar_PrevHash r = ar_Hash (last rs)"
    using r by (auto simp: chainHash_def chainInputOf_def)
qed

lemma chain_binds:
  assumes "verifyFrom x rs = Inr ()" and "verifyFrom x ts = Inr ()"
    and "rs \<noteq> []" and "ts \<noteq> []" and "ar_Hash (last rs) = ar_Hash (last ts)"
    and "\<forall>r\<in>set rs \<union> set ts. separatorFree r"
    and "collision_free (x_sha256 x) (chainInputOf ` (set rs \<union> set ts))"
  shows "suffix (map chainKey rs) (map chainKey ts) \<or> suffix (map chainKey ts) (map chainKey rs)"
  using assms
proof (induction rs arbitrary: ts rule: rev_induct)
  case (snoc r rs)
  obtain us t where ts: "ts = us @ [t]" using snoc.prems(4) by (cases ts rule: rev_cases) auto
  note r = verifyFrom_snoc_ok [OF snoc.prems(1)]
  note t = verifyFrom_snoc_ok [OF snoc.prems(2) [unfolded ts]]
  have "x_sha256 x (chainInputOf r) = x_sha256 x (chainInputOf t)"
    using snoc.prems(5) r(2) t(2) by (simp add: ts)
  then have "chainInputOf r = chainInputOf t"
    using inj_onD [OF snoc.prems(7) [unfolded collision_free_def], of "chainInputOf r" "chainInputOf t"]
    by (simp add: ts)
  then have key: "chainKey r = chainKey t" and prev: "ar_PrevHash r = ar_PrevHash t"
    using snoc.prems(6) chainInputOf_inject [of r t] by (auto simp: ts)
  show ?case
  proof (cases "rs = [] \<or> us = []")
    case True
    then show ?thesis using key by (auto simp: ts suffix_def)
  next
    case False
    have "suffix (map chainKey rs) (map chainKey us) \<or> suffix (map chainKey us) (map chainKey rs)"
    proof (rule snoc.IH)
      show "ar_Hash (last rs) = ar_Hash (last us)" using r(3) t(3) prev False by simp
      show "\<forall>r\<in>set rs \<union> set us. separatorFree r" using snoc.prems(6) by (simp add: ts)
      show "collision_free (x_sha256 x) (chainInputOf ` (set rs \<union> set us))"
        using snoc.prems(7) unfolding ts collision_free_def by (rule inj_on_subset) auto
    qed (use r t False in auto)
    then show ?thesis using key by (auto simp: ts)
  qed
qed simp

section \<open>Audited operations\<close>

text \<open>
  \<open>audited\<close>: between \<open>d\<close> and \<open>d'\<close> exactly one event, with the given action, was chained to
  the trail. \<open>audited_op\<close> is the contract of a service operation that mutates state and
  records its event in one transaction.
\<close>

definition audited :: "ext \<Rightarrow> string \<Rightarrow> db \<Rightarrow> db \<Rightarrow> bool" where
  "audited x action d d' \<longleftrightarrow> (\<exists>e. ae_Action e = action \<and> db_audit d' = db_audit d @ [chainedTo x d e])"

lemma audited_audit_ok: "audited x action d d' \<Longrightarrow> audit_ok x d \<Longrightarrow> audit_ok x d'"
  by (auto simp: audited_def intro: audit_ok_append)

lemma lastAudit_cong: "db_audit d' = db_audit d \<Longrightarrow> lastAudit d' = lastAudit d"
  by (simp add: lastAudit_def auditBySequence_def)

lemma audited_cong: "db_audit d0 = db_audit d \<Longrightarrow> audited x action d0 d' = audited x action d d'"
  using lastAudit_cong [of d0 d] by (simp add: audited_def chainedTo_def)

lemma Recorder_Record_InrD:
  assumes "Recorder_Record x io actor e d = Inr d'"
  shows "d' = d\<lparr>db_audit := db_audit d'\<rparr>" and "audited x (ev_Action e) d d'"
    and "\<not> io_fault io ''AuditStore.Append''"
proof -
  note a = AuditStore_Append_InrD [OF assms [unfolded Recorder_Record_def]]
  show "d' = d\<lparr>db_audit := db_audit d'\<rparr>" by (subst (1 2) a(1)) simp
  show "audited x (ev_Action e) d d'"
    unfolding audited_def using a(1) by (intro exI [of _ "stampEvent io (recordedEvent x io actor e)"]) (simp add: recordedEvent_def)
  show "\<not> io_fault io ''AuditStore.Append''" by (rule a(2))
qed

locale audited_op =
  fixes x :: ext and op :: "io \<Rightarrow> db \<Rightarrow> db \<times> 'a result" and action :: string
  assumes failure_keeps: "op io d = (d', Inl e) \<Longrightarrow> d' = d"
    and success_audited: "op io d = (d', Inr a) \<Longrightarrow> audited x action d d'"
    and success_recorded: "op io d = (d', Inr a) \<Longrightarrow> \<not> io_fault io ''AuditStore.Append''"
begin

lemma fails_closed: "io_fault io ''AuditStore.Append'' \<Longrightarrow> fst (op io d) = d \<and> (\<exists>e. snd (op io d) = Inl e)"
  using failure_keeps [of io d] success_recorded [of io d]
  by (cases "op io d"; cases "snd (op io d)") auto

lemma unchanged_or_done:
  obtains "fst (op io d) = d" | a where "op io d = (fst (op io d), Inr a)"
  using failure_keeps [of io d] by (cases "op io d"; cases "snd (op io d)") auto

lemma keeps_chain: "audit_ok x d \<Longrightarrow> audit_ok x (fst (op io d))"
  using failure_keeps [of io d] success_audited [of io d]
  by (cases "op io d"; cases "snd (op io d)") (auto intro: audited_audit_ok)

lemma one_event: "length (db_audit (fst (op io d))) = length (db_audit d) + (case snd (op io d) of Inl e \<Rightarrow> 0 | Inr a \<Rightarrow> 1)"
  using failure_keeps [of io d] success_audited [of io d]
  by (cases "op io d"; cases "snd (op io d)") (auto simp: audited_def)

text \<open>A run of the operation under any sequence of inputs keeps the chain.\<close>

lemma runs_keep_chain: "audit_ok x d \<Longrightarrow> audit_ok x (fold (\<lambda>io d. fst (op io d)) ios d)"
  by (induction ios arbitrary: d) (auto intro: keeps_chain)

lemma runs_extend_trail: "\<exists>rows. db_audit (fold (\<lambda>io d. fst (op io d)) ios d) = db_audit d @ rows"
proof (induction ios arbitrary: d)
  case (Cons io ios)
  have "\<exists>rows. db_audit (fst (op io d)) = db_audit d @ rows"
    using failure_keeps [of io d] success_audited [of io d]
    by (cases "op io d"; cases "snd (op io d)") (auto simp: audited_def)
  with Cons.IH [of "fst (op io d)"] show ?case by auto
qed simp

end

text \<open>The contract of a transaction is the contract of its body.\<close>

lemma audited_op_WithTx:
  assumes "\<And>io d a d'. body io d = Inr (a, d') \<Longrightarrow> audited x action d d' \<and> \<not> io_fault io ''AuditStore.Append''"
  shows "audited_op x (\<lambda>io. WithTx io (body io)) action"
  by unfold_locales (auto dest: WithTx_Inl WithTx_Inr assms)

text \<open>A check before the transaction that fails leaves everything as it is.\<close>

definition guarded :: "'b result \<Rightarrow> ('b \<Rightarrow> db \<Rightarrow> db \<times> 'a result) \<Rightarrow> db \<Rightarrow> db \<times> 'a result" where
  "guarded c f d = (case c of Inl e \<Rightarrow> (d, Inl e) | Inr b \<Rightarrow> f b d)"

lemma guarded_Inr: "guarded c f d = (d', Inr a) \<longleftrightarrow> (\<exists>b. c = Inr b \<and> f b d = (d', Inr a))"
  by (auto simp: guarded_def split: sum.splits)

lemma audited_op_guarded:
  assumes "\<And>b. audited_op x (f b) action"
  shows "audited_op x (\<lambda>io d. guarded (c io d) (\<lambda>b. f b io) d) action"
proof
  fix io d d' e
  assume "guarded (c io d) (\<lambda>b. f b io) d = (d', Inl e)"
  then show "d' = d"
    using audited_op.failure_keeps [OF assms] by (auto simp: guarded_def split: sum.splits)
next
  fix io d d' a
  assume "guarded (c io d) (\<lambda>b. f b io) d = (d', Inr a)"
  then obtain b where "f b io d = (d', Inr a)" by (auto simp: guarded_Inr)
  then show "audited x action d d'" "\<not> io_fault io ''AuditStore.Append''"
    using audited_op.success_audited [OF assms] audited_op.success_recorded [OF assms] by blast+
qed

lemmas audit_frames = store_step.intros [THEN store_step_keeps_audit, THEN conjunct1]

lemma audited_body:
  assumes "Recorder_Record x io actor e d1 = Inr d2" and "db_audit d1 = db_audit d" and "ev_Action e = action"
  shows "audited x action d d2"
  using Recorder_Record_InrD(2) [OF assms(1)] assms(2,3) audited_cong [of d1 d x action d2] by simp

text \<open>The recorder outside any other transaction runs in its own.\<close>

definition Record_alone :: "ext \<Rightarrow> Actor \<Rightarrow> Event \<Rightarrow> io \<Rightarrow> db \<Rightarrow> db \<times> unit result" where
  "Record_alone x actor e io = WithTx io (unitTx (Recorder_Record x io actor e))"

interpretation record_alone: audited_op x "Record_alone x actor e" "ev_Action e" for x actor e
  unfolding Record_alone_def
  by (rule audited_op_WithTx) (auto dest: Recorder_Record_InrD)

section \<open>Properties of the trail\<close>

definition sampleEvent :: Event where
  "sampleEvent = \<lparr>ev_Action = ''user.disable'', ev_TargetType = ''user'', ev_TargetID = ''u1'',
     ev_Outcome = ''success'', ev_ReasonCode = [], ev_Severity = [], ev_Details = None\<rparr>"

text \<open>Three events of the sample actor: at 0.1 s, 0.15 s and 0.2 s past the sample time.\<close>

definition sampleTrail :: "AuditRow list" where
  "sampleTrail =
    (let e = (\<lambda>i t. (recordedEvent sampleExt sampleIO SystemActor sampleEvent)
                 \<lparr>ae_ID := i, ae_OccurredAt := 1767225600000000000 + t * Millisecond\<rparr>);
         r1 = auditRow sampleExt 1 [] (e ''a'' 100);
         r2 = auditRow sampleExt 2 (ar_Hash r1) (e ''b'' 150);
         r3 = auditRow sampleExt 3 (ar_Hash r2) (e ''c'' 200)
     in [r1, r2, r3])"

definition sampleAuditDb :: db where "sampleAuditDb = sampleDb\<lparr>db_audit := sampleTrail\<rparr>"

lemma sampleAuditDb_verifies: "AuditStore_VerifyChain sampleExt sampleIO sampleAuditDb = Inr ()"
  by code_simp

lemma sampleTrail_reachable:
  "trail_reachable sampleExt ''UNIQUE constraint failed: users.username''
     (sampleDb\<lparr>db_audit := [chainedTo sampleExt sampleDb (recordedEvent sampleExt sampleIO SystemActor sampleEvent)]\<rparr>)"
proof (rule trail_reachable.step)
  show "trail_reachable sampleExt ''UNIQUE constraint failed: users.username'' sampleDb"
    using sampleDb_reachable
    by (induction rule: store_reachable.induct) (auto intro: trail_reachable.intros trail_step.Mutate)
  show "trail_step sampleExt sampleDb
     (sampleDb\<lparr>db_audit := [chainedTo sampleExt sampleDb (recordedEvent sampleExt sampleIO SystemActor sampleEvent)]\<rparr>)"
    by (rule trail_step.Record [where io = sampleIO and actor = SystemActor and e = sampleEvent])
      (simp add: Recorder_Record_def AuditStore_Append_def Let_def stmt_def sampleDb_def emptyDb_def recordedEvent_def
        IsZero_def zeroTime_def case_prod_beta chainedTo_def)
qed



text \<open>
  Appending to a sound trail never collides: with a fresh event id and a working
  database, Append succeeds, leaves every earlier row and every other table as it was, and
  gives the new row the next sequence number and the newest hash as its prev\_hash.
\<close>

theorem Append_succeeds:
  assumes ok: "audit_ok x d" and fresh: "ae_ID e \<notin> ar_ID ` set (db_audit d)"
    and io: "\<not> io_fault io ''AuditStore.Append''"
  shows "\<exists>row. AuditStore_Append x io e d = Inr (d\<lparr>db_audit := db_audit d @ [row]\<rparr>)
    \<and> ar_Sequence row = fst (lastAudit d) + 1 \<and> ar_PrevHash row = snd (lastAudit d)
    \<and> ar_Action row = ae_Action e \<and> audit_ok x (d\<lparr>db_audit := db_audit d @ [row]\<rparr>)"
proof -
  have new: "fst (lastAudit d) + 1 \<notin> ar_Sequence ` set (db_audit d)"
  proof
    assume "fst (lastAudit d) + 1 \<in> ar_Sequence ` set (db_audit d)"
    then show False
      using ok consecutive_bounds [of "firstSequence (db_audit d)" "map ar_Sequence (db_audit d)" "fst (lastAudit d) + 1"]
      by (auto simp: lastAudit_ok [OF ok] audit_ok_def split: if_splits)
  qed
  let ?row = "chainedTo x d (stampEvent io e)"
  have "AuditStore_Append x io e d = Inr (d\<lparr>db_audit := db_audit d @ [?row]\<rparr>)"
    using fresh new io unfolding AuditStore_Append_def Let_def
    by (simp add: stmt_def case_prod_beta chainedTo_def stampEvent_def)
  moreover have "audit_ok x (d\<lparr>db_audit := db_audit d @ [?row]\<rparr>)"
    using ok by (rule audit_ok_append) simp
  ultimately show ?thesis
    by (intro exI [of _ ?row]) (simp add: chainedTo_def)
qed

theorem Append_succeeds_witness:
  "\<exists>row. AuditStore_Append sampleExt sampleIO (recordedEvent sampleExt sampleIO SystemActor sampleEvent) sampleDb
     = Inr (sampleDb\<lparr>db_audit := db_audit sampleDb @ [row]\<rparr>)"
proof -
  have "audit_ok sampleExt sampleDb" "ae_ID (recordedEvent sampleExt sampleIO SystemActor sampleEvent) \<notin> ar_ID ` set (db_audit sampleDb)"
    by (simp_all add: audit_ok_def sampleDb_def emptyDb_def verifyFrom_def firstSequence_def)
  from Append_succeeds [OF this, of sampleIO] show ?thesis by auto
qed


definition sampleSuffixDb :: db where "sampleSuffixDb = sampleDb\<lparr>db_audit := tl sampleTrail\<rparr>"



text \<open>A checkpoint that covers the sample trail, and a clock 90 days after its second event.\<close>

definition sampleCheckpoint :: AuditCheckpoint where
  "sampleCheckpoint = \<lparr>cp_ID = ''cp'', cp_CreatedAt = 1767225601000000000, cp_LastSequence = 3,
     cp_ChainHash = snd (lastAudit sampleAuditDb)\<rparr>"

definition sampleLater :: io where
  "sampleLater = sampleIO\<lparr>io_now := 1767225600000000000 + 160 * Millisecond + 90 * 24 * Hour\<rparr>"

definition checkpointedDb :: db where
  "checkpointedDb = sampleAuditDb\<lparr>db_checkpoints := [sampleCheckpoint]\<rparr>"

definition prunedDb :: db where
  "prunedDb = checkpointedDb\<lparr>db_audit := [sampleTrail ! 0, sampleTrail ! 2]\<rparr>"

lemma sample_prunable:
  "map (prunable (io_now sampleLater - retentionPeriod 90) 3) sampleTrail = [False, True, False]"
  by code_simp

lemma sampleTrail_nth: "sampleTrail = [sampleTrail ! 0, sampleTrail ! 1, sampleTrail ! 2]"
  by (simp add: sampleTrail_def Let_def)

lemma sample_retention: "RunRetention sampleLater (retentionPeriod 90) checkpointedDb = Inr prunedDb"
proof -
  let ?P = "prunable (io_now sampleLater - retentionPeriod 90) 3"
  have P: "\<not> ?P (sampleTrail ! 0)" "?P (sampleTrail ! 1)" "\<not> ?P (sampleTrail ! 2)"
    using sample_prunable by (subst (asm) sampleTrail_nth, simp)+
  have "filter (\<lambda>r. \<not> ?P r) sampleTrail = [sampleTrail ! 0, sampleTrail ! 2]"
    using P by (subst sampleTrail_nth) simp
  then show ?thesis
    by (simp add: RunRetention_def AuditStore_LatestCheckpoint_def AuditStore_DeleteOlderThan_def stmt_def
        sampleLater_def checkpointedDb_def prunedDb_def sampleAuditDb_def sampleCheckpoint_def)
qed


text \<open>
  The cutoff is compared as text, and RFC 3339 text drops trailing zeros of the
  fraction, so its order is not the order of time: three events at 0.1 s, 0.15 s and 0.2 s
  verify, a retention run whose cutoff lies at 0.16 s removes the second and keeps the
  first, and the trail does not verify any more.
\<close>

theorem retention_text_order_breaks_chain:
  "AuditStore_VerifyChain sampleExt sampleIO checkpointedDb = Inr ()
   \<and> map ar_OccurredAt (db_audit checkpointedDb) = map (\<lambda>t. 1767225600000000000 + t * Millisecond) [100, 150, 200]
   \<and> RunRetention sampleLater (retentionPeriod 90) checkpointedDb = Inr prunedDb
   \<and> AuditStore_VerifyChain sampleExt sampleIO prunedDb
       = Inl (ErrMessage ''audit chain broken at sequence 3: unexpected prev_hash'')"
proof (intro conjI)
  show "RunRetention sampleLater (retentionPeriod 90) checkpointedDb = Inr prunedDb" by (rule sample_retention)
qed code_simp+

text \<open>
  A recorded event never stores the value of a detail whose key looks sensitive: the
  stored details are the JSON of the given fields with each such value replaced by the
  redaction marker and every other field kept.
\<close>

theorem recorded_details_redacted:
  assumes "Recorder_Record x io actor e d = Inr d'" and "ev_Details e = Some fs"
  shows "\<exists>fs'. ar_Details (last (db_audit d')) = jsonMarshal (jsonMap fs') \<and> map fst fs' = map fst fs
    \<and> (\<forall>i<length fs. snd (fs' ! i) = (if isSensitiveKey x (fst (fs ! i)) then JStr ''[REDACTED]'' else snd (fs ! i)))"
proof (intro exI [of _ "RedactMap x fs"] conjI)
  have "d' = d\<lparr>db_audit := db_audit d @ [chainedTo x d (stampEvent io (recordedEvent x io actor e))]\<rparr>"
    using AuditStore_Append_InrD(1) [OF assms(1) [unfolded Recorder_Record_def]] .
  then show "ar_Details (last (db_audit d')) = jsonMarshal (jsonMap (RedactMap x fs))"
    by (simp add: chainedTo_def auditRow_def stampEvent_def recordedEvent_def assms(2))
qed (auto simp: RedactMap_def redacted_def split: prod.splits)

definition sampleSecretEvent :: Event where
  "sampleSecretEvent = sampleEvent\<lparr>ev_Details := Some [(''newPassword'', JStr ''hunter2''), (''days'', JInt 30)]\<rparr>"

definition redactedDb :: db where
  "redactedDb = sampleDb\<lparr>db_audit := [chainedTo sampleExt sampleDb (recordedEvent sampleExt sampleIO SystemActor sampleSecretEvent)]\<rparr>"

theorem recorded_details_redacted_witness:
  "\<exists>fs'. ar_Details (last (db_audit redactedDb)) = jsonMarshal (jsonMap fs') \<and> snd (fs' ! 0) = JStr ''[REDACTED]''"
proof -
  have "Recorder_Record sampleExt sampleIO SystemActor sampleSecretEvent sampleDb = Inr redactedDb"
    by code_simp
  moreover have "ev_Details sampleSecretEvent = Some [(''newPassword'', JStr ''hunter2''), (''days'', JInt 30)]"
    by (simp add: sampleSecretEvent_def)
  moreover have "isSensitiveKey sampleExt ''newPassword''" by code_simp
  ultimately show ?thesis using recorded_details_redacted by fastforce
qed

end
