(* ===== verification/Credentials.thy ===== *)
theory Credentials
  imports AuditTrail
begin

text \<open>
  Package authn without its session machinery: authentication domains and usernames
  (domain.go, username.go), passwords (password.go), and the opaque credentials
  (opaquecred.go, apitoken.go, reset.go). The locale \<open>credential_codec\<close> is what the
  services rely on: parsing a generated credential gives its lookup id and secret back.
  API tokens and password-reset credentials both interpret it.
\<close>

section \<open>Domains and usernames\<close>

definition AuthDomainLocal :: string where "AuthDomainLocal = ''local''"

definition SupportedAuthDomains :: "string list" where "SupportedAuthDomains = [AuthDomainLocal]"

definition NormalizeAuthDomain :: "ext \<Rightarrow> string \<Rightarrow> string result" where
  "NormalizeAuthDomain x domain =
    (let n0 = ToLower (x_ulower x) (TrimSpace domain);
         normalized = (if n0 = [] then AuthDomainLocal else n0)
     in if List.member SupportedAuthDomains normalized then Inr normalized else Inl ErrUnsupportedAuthDomain)"

definition lowerLetter :: "char \<Rightarrow> bool" where "lowerLetter c \<longleftrightarrow> inRange 97 122 (of_char c)"
definition digit :: "char \<Rightarrow> bool" where "digit c \<longleftrightarrow> inRange 48 57 (of_char c)"

definition usernameChar :: "char \<Rightarrow> bool" where
  "usernameChar c \<longleftrightarrow> lowerLetter c \<or> digit c \<or> c = CHR ''.'' \<or> c = CHR ''_'' \<or> c = CHR ''-''"

text \<open>The regular expression \<open>[a-z][a-z0-9._-]*\<close>, anchored at both ends.\<close>

definition usernamePattern :: "string \<Rightarrow> bool" where
  "usernamePattern s = (case s of [] \<Rightarrow> False | c # cs \<Rightarrow> lowerLetter c \<and> list_all usernameChar cs)"

definition NormalizeUsername :: "ext \<Rightarrow> string \<Rightarrow> string result" where
  "NormalizeUsername x raw =
    (let normalized = ToLower (x_ulower x) (TrimSpace raw)
     in if length normalized < 3 \<or> 64 < length normalized then Inl (ErrMessage ''username must be 3 to 64 characters'')
        else if \<not> usernamePattern normalized
        then Inl (ErrMessage ''username must start with a letter and contain only lowercase letters, digits, dot, underscore or dash'')
        else Inr normalized)"

section \<open>Passwords\<close>

definition DefaultArgon2idParams :: Argon2idParams where
  "DefaultArgon2idParams = \<lparr>ap_MemoryKiB = 64 * 1024, ap_Iterations = 3, ap_Parallelism = 2,
     ap_SaltLength = 16, ap_KeyLength = 32\<rparr>"

definition PasswordAlgorithmArgon2id :: string where "PasswordAlgorithmArgon2id = ''argon2id''"

text \<open>
  \<open>rand.Read\<close> into a buffer of \<open>n\<close> bytes, from the bytes the request's random source holds.
\<close>

definition randRead :: "io \<Rightarrow> nat \<Rightarrow> bytes \<Rightarrow> bytes result" where
  "randRead io n source = andThen (stmt io ''rand.Read'') (\<lambda>_. Inr (take n (source @ replicate n (CHR 0x00))))"

definition HashPassword :: "ext \<Rightarrow> io \<Rightarrow> string \<Rightarrow> Argon2idParams \<Rightarrow> (bytes \<times> bytes) result" where
  "HashPassword x io password p = andThen (randRead io (nat (ap_SaltLength p)) (io_saltRand io)) (\<lambda>salt.
     Inr (salt, x_argon2id x password salt (ap_Iterations p) (ap_MemoryKiB p) (ap_Parallelism p) (nat (ap_KeyLength p))))"

definition VerifyPassword :: "ext \<Rightarrow> string \<Rightarrow> bytes \<Rightarrow> bytes \<Rightarrow> Argon2idParams \<Rightarrow> bool" where
  "VerifyPassword x password salt hash p \<longleftrightarrow>
     x_argon2id x password salt (ap_Iterations p) (ap_MemoryKiB p) (ap_Parallelism p) (length hash) = hash"

definition EncodeParams :: "Argon2idParams \<Rightarrow> string" where
  "EncodeParams p = jsonMarshal (JObj [(''memoryKiB'', JInt (ap_MemoryKiB p)), (''iterations'', JInt (ap_Iterations p)),
     (''parallelism'', JInt (ap_Parallelism p)), (''saltLength'', JInt (ap_SaltLength p)),
     (''keyLength'', JInt (ap_KeyLength p))])"

definition DecodeParams :: "ext \<Rightarrow> string \<Rightarrow> Argon2idParams result" where
  "DecodeParams x raw = (case x_decodeParams x raw of None \<Rightarrow> Inl (ErrMessage ''decoding argon2id params'') | Some p \<Rightarrow> Inr p)"

definition ValidatePasswordPolicy :: "string \<Rightarrow> unit result" where
  "ValidatePasswordPolicy password =
    (let n = length (runes password)
     in if n < 8 then Inl (ErrMessage ''password must be at least 8 characters'')
        else if 128 < n then Inl (ErrMessage ''password must be at most 128 characters'')
        else if 1024 < length password then Inl (ErrMessage ''password must be at most 1024 bytes'')
        else Inr ())"

section \<open>Opaque credentials\<close>

definition opaqueCredentialBytes :: nat where "opaqueCredentialBytes = 32"

definition GenerateOpaqueCredential :: "io \<Rightarrow> (string \<times> bytes) result" where
  "GenerateOpaqueCredential io = andThen (randRead io opaqueCredentialBytes (io_secretRand io)) (\<lambda>rawBytes.
     Inr (EncodeToString rawBytes, rawBytes))"

definition DecodeOpaqueCredential :: "string \<Rightarrow> bytes result" where
  "DecodeOpaqueCredential raw = (case DecodeString raw of
     None \<Rightarrow> Inl (ErrMessage ''malformed opaque credential encoding'') | Some b \<Rightarrow> Inr b)"

definition DigestOpaqueCredential :: "ext \<Rightarrow> bytes \<Rightarrow> bytes \<Rightarrow> bytes" where
  "DigestOpaqueCredential x rawBytes pepper = x_hmac x pepper rawBytes"

definition VerifyOpaqueCredential :: "ext \<Rightarrow> bytes \<Rightarrow> bytes \<Rightarrow> bytes \<Rightarrow> bool" where
  "VerifyOpaqueCredential x rawBytes pepper storedDigest \<longleftrightarrow> DigestOpaqueCredential x rawBytes pepper = storedDigest"

definition APITokenPrefix :: string where "APITokenPrefix = ''apt_''"
definition ResetCredentialPrefix :: string where "ResetCredentialPrefix = ''rst_''"
definition lookupIDBytes :: nat where "lookupIDBytes = 9"
definition secretBytes :: nat where "secretBytes = 32"

definition generateLookupSecretPair :: "io \<Rightarrow> string \<Rightarrow> (string \<times> string \<times> bytes) result" where
  "generateLookupSecretPair io prfx =
     andThen (randRead io lookupIDBytes (io_lookupRand io)) (\<lambda>lookupRaw.
     andThen (randRead io secretBytes (io_secretRand io)) (\<lambda>secret.
     let lookupID = EncodeToString lookupRaw; secretPart = EncodeToString secret
     in Inr (prfx @ lookupID @ CHR ''.'' # secretPart, lookupID, secret)))"

definition parseLookupSecretPair :: "string \<Rightarrow> string \<Rightarrow> (string \<times> bytes) result" where
  "parseLookupSecretPair raw prfx =
    (if \<not> HasPrefix raw prfx then Inl (ErrMessage ''credential missing prefix'')
     else case Cut (TrimPrefix raw prfx) (CHR ''.'') of (lookupID, secretPart, ok) \<Rightarrow>
       if \<not> ok \<or> lookupID = [] \<or> secretPart = [] then Inl (ErrMessage ''malformed credential'')
       else case DecodeString secretPart of
              None \<Rightarrow> Inl (ErrMessage ''malformed credential secret encoding'')
            | Some secret \<Rightarrow>
                if DecodeString lookupID = None then Inl (ErrMessage ''malformed credential lookup id encoding'')
                else Inr (lookupID, secret))"

definition GenerateAPIToken :: "io \<Rightarrow> (string \<times> string \<times> bytes) result" where
  "GenerateAPIToken io = generateLookupSecretPair io APITokenPrefix"

definition ParseAPIToken :: "string \<Rightarrow> (string \<times> bytes) result" where
  "ParseAPIToken raw = parseLookupSecretPair raw APITokenPrefix"

definition DigestAPITokenSecret :: "ext \<Rightarrow> bytes \<Rightarrow> bytes \<Rightarrow> bytes" where
  "DigestAPITokenSecret x secret pepper = x_hmac x pepper secret"

definition VerifyAPITokenDigest :: "ext \<Rightarrow> bytes \<Rightarrow> bytes \<Rightarrow> bytes \<Rightarrow> bool" where
  "VerifyAPITokenDigest x secret pepper storedDigest \<longleftrightarrow> DigestAPITokenSecret x secret pepper = storedDigest"

definition GenerateResetCredential :: "io \<Rightarrow> (string \<times> string \<times> bytes) result" where
  "GenerateResetCredential io = generateLookupSecretPair io ResetCredentialPrefix"

definition ParseResetCredential :: "string \<Rightarrow> (string \<times> bytes) result" where
  "ParseResetCredential raw = parseLookupSecretPair raw ResetCredentialPrefix"

section \<open>The codec\<close>

lemma length_randRead: "randRead io n src = Inr bs \<Longrightarrow> length bs = n"
  by (auto simp: randRead_def)

lemma randRead_ok: "\<not> io_fault io ''rand.Read'' \<Longrightarrow> randRead io n src = Inr (take n (src @ replicate n (CHR 0x00)))"
  by (simp add: randRead_def stmt_def)

lemma parse_generate:
  assumes "generateLookupSecretPair io prfx = Inr (raw, lookupID, secret)"
  shows "parseLookupSecretPair raw prfx = Inr (lookupID, secret)"
proof -
  obtain lookupRaw where raw: "raw = prfx @ lookupID @ CHR ''.'' # EncodeToString secret"
    and lid: "lookupID = EncodeToString lookupRaw" and len: "length lookupRaw = 9" "length secret = 32"
    using assms by (auto simp: generateLookupSecretPair_def Let_def lookupIDBytes_def secretBytes_def dest: length_randRead)
  have "Cut (lookupID @ CHR ''.'' # EncodeToString secret) (CHR ''.'') = (lookupID, EncodeToString secret, True)"
    by (rule Cut_append) (simp add: lid)
  moreover have "lookupID \<noteq> []" "secret \<noteq> []" using len by (auto simp: lid)
  ultimately show ?thesis
    by (simp add: parseLookupSecretPair_def raw lid)
qed

locale credential_codec =
  fixes generate :: "io \<Rightarrow> (string \<times> string \<times> bytes) result" and parse :: "string \<Rightarrow> (string \<times> bytes) result"
    and prfx :: string
  assumes parse_gen: "generate io = Inr (raw, lookupID, secret) \<Longrightarrow> parse raw = Inr (lookupID, secret)"
    and parse_prefixed: "parse raw = Inr p \<Longrightarrow> HasPrefix raw prfx"
    and gen_total: "\<not> io_fault io ''rand.Read'' \<Longrightarrow> \<exists>r. generate io = Inr r"
begin

text \<open>A raw credential determines its lookup id and secret.\<close>

lemma raw_determines:
  "generate io1 = Inr (raw, l1, s1) \<Longrightarrow> generate io2 = Inr (raw, l2, s2) \<Longrightarrow> l1 = l2 \<and> s1 = s2"
  by (auto dest!: parse_gen)

lemma generated_prefix: "generate io = Inr (raw, l, s) \<Longrightarrow> HasPrefix raw prfx"
  by (auto dest!: parse_gen intro: parse_prefixed)

end

text \<open>Two codecs whose prefixes exclude each other never accept each other's credentials.\<close>

locale codec_pair = a: credential_codec gen1 parse1 p1 + b: credential_codec gen2 parse2 p2
  for gen1 parse1 p1 gen2 parse2 p2 +
  assumes apart: "length p1 = length p2" "p1 \<noteq> p2"
begin

lemma not_confused: "gen1 io = Inr (raw, l, s) \<Longrightarrow> \<exists>e. parse2 raw = Inl e"
  using apart a.generated_prefix [of io raw l s] b.parse_prefixed [of raw]
  by (cases "parse2 raw") (auto simp: HasPrefix_def)

end

lemma parseLookupSecretPair_prefix: "parseLookupSecretPair raw prfx = Inr p \<Longrightarrow> HasPrefix raw prfx"
  by (auto simp: parseLookupSecretPair_def split: if_splits)

lemma generateLookupSecretPair_total: "\<not> io_fault io ''rand.Read'' \<Longrightarrow> \<exists>r. generateLookupSecretPair io prfx = Inr r"
  by (simp add: generateLookupSecretPair_def randRead_ok Let_def)

interpretation api_token_codec: credential_codec GenerateAPIToken ParseAPIToken APITokenPrefix
  by unfold_locales (auto simp: GenerateAPIToken_def ParseAPIToken_def
      generateLookupSecretPair_total [simplified] dest: parse_generate parseLookupSecretPair_prefix)

interpretation reset_codec: credential_codec GenerateResetCredential ParseResetCredential ResetCredentialPrefix
  by unfold_locales (auto simp: GenerateResetCredential_def ParseResetCredential_def
      generateLookupSecretPair_total [simplified] dest: parse_generate parseLookupSecretPair_prefix)

interpretation token_not_reset: codec_pair GenerateAPIToken ParseAPIToken APITokenPrefix
    GenerateResetCredential ParseResetCredential ResetCredentialPrefix
  by unfold_locales (simp_all add: APITokenPrefix_def ResetCredentialPrefix_def)

interpretation reset_not_token: codec_pair GenerateResetCredential ParseResetCredential ResetCredentialPrefix
    GenerateAPIToken ParseAPIToken APITokenPrefix
  by unfold_locales (simp_all add: APITokenPrefix_def ResetCredentialPrefix_def)

section \<open>Properties\<close>

text \<open>
  C5. An API token or reset credential handed out by the generator parses back to exactly
  the lookup id and secret it was made of, and neither kind is ever accepted as the other.
\<close>

theorem credentials_round_trip:
  "(GenerateAPIToken io = Inr (raw, l, s) \<longrightarrow> ParseAPIToken raw = Inr (l, s) \<and> (\<exists>e. ParseResetCredential raw = Inl e))
 \<and> (GenerateResetCredential io = Inr (raw, l, s) \<longrightarrow> ParseResetCredential raw = Inr (l, s) \<and> (\<exists>e. ParseAPIToken raw = Inl e))"
  using api_token_codec.parse_gen reset_codec.parse_gen token_not_reset.not_confused reset_not_token.not_confused
  by blast

definition sampleToken :: "string \<times> string \<times> bytes" where
  "sampleToken = (''apt_bG9va3VwLWJ5.c2VjcmV0LWJ5dGVzLXNlY3JldC1ieXRlcy0zMmJ5dGU'', ''bG9va3VwLWJ5'',
     ''secret-bytes-secret-bytes-32byte'')"

lemma sampleToken_generated: "GenerateAPIToken sampleIO = Inr sampleToken"
  by code_simp

theorem credentials_round_trip_witness:
  "ParseAPIToken ''apt_bG9va3VwLWJ5.c2VjcmV0LWJ5dGVzLXNlY3JldC1ieXRlcy0zMmJ5dGU''
     = Inr (''bG9va3VwLWJ5'', ''secret-bytes-secret-bytes-32byte'')"
  using credentials_round_trip [of sampleIO] sampleToken_generated by (simp add: sampleToken_def)

lemma usernameChar_ascii: "usernameChar c \<Longrightarrow> (of_char c :: int) < 128 \<and> \<not> asciiSpace c \<and> lowerAscii c = c"
  by (auto simp: usernameChar_def lowerLetter_def digit_def inRange_def asciiSpace_def isSpace_def lowerAscii_def)

lemma usernamePattern_chars: "usernamePattern s \<Longrightarrow> list_all usernameChar s"
  by (auto simp: usernamePattern_def usernameChar_def split: list.splits)

lemma usernameChars_fixed:
  assumes "list_all usernameChar s"
  shows "ToLower u (TrimSpace s) = s"
proof -
  have a: "ascii s" "list_all (\<lambda>c. \<not> asciiSpace c) s" "map lowerAscii s = s"
    using assms by (auto simp: ascii_def list_all_iff map_idI usernameChar_ascii)
  then show ?thesis by (simp add: TrimSpace_id ToLower_ascii)
qed

text \<open>
  A normalized username is 3 to 64 bytes of lower-case ASCII letters, digits, dot,
  underscore and dash starting with a letter, and normalizing it again changes nothing, so
  a stored username is found by any spelling that normalizes to it.
\<close>

theorem NormalizeUsername_canonical:
  assumes "NormalizeUsername x raw = Inr name"
  shows "3 \<le> length name \<and> length name \<le> 64 \<and> lowerLetter (hd name) \<and> list_all usernameChar name
    \<and> NormalizeUsername x name = Inr name"
proof -
  have "usernamePattern name" "3 \<le> length name" "length name \<le> 64"
    using assms by (auto simp: NormalizeUsername_def Let_def split: if_splits)
  then show ?thesis
    by (auto simp: NormalizeUsername_def Let_def usernameChars_fixed usernamePattern_chars)
      (auto simp: usernamePattern_def split: list.splits)
qed

theorem NormalizeUsername_canonical_witness:
  "NormalizeUsername sampleExt '' Alice.B-1 '' = Inr ''alice.b-1'' \<and> NormalizeUsername sampleExt ''alice.b-1'' = Inr ''alice.b-1''"
proof -
  have "NormalizeUsername sampleExt '' Alice.B-1 '' = Inr ''alice.b-1''" by code_simp
  from NormalizeUsername_canonical [OF this] this show ?thesis by simp
qed

text \<open>
  The password policy accepts exactly the passwords of 8 to 128 characters. The limit
  of 1024 bytes never decides: 128 characters have at most 512 bytes.
\<close>

theorem ValidatePasswordPolicy_iff:
  "(ValidatePasswordPolicy p = Inr () \<longleftrightarrow> 8 \<le> length (runes p) \<and> length (runes p) \<le> 128)
   \<and> ValidatePasswordPolicy p \<noteq> Inl (ErrMessage ''password must be at most 1024 bytes'')"
  using length_runeChunks_lower [of p] by (simp add: ValidatePasswordPolicy_def Let_def runes_def)

text \<open>
  A password verifies against its own fresh hash, and the salt has the length the
  parameters ask for.
\<close>

theorem HashPassword_verifies:
  assumes "argon2_ok x" and "HashPassword x io password p = Inr (salt, hash)"
  shows "VerifyPassword x password salt hash p \<and> length salt = nat (ap_SaltLength p) \<and> length hash = nat (ap_KeyLength p)"
proof -
  have "hash = x_argon2id x password salt (ap_Iterations p) (ap_MemoryKiB p) (ap_Parallelism p) (nat (ap_KeyLength p))"
    and "length salt = nat (ap_SaltLength p)"
    using assms(2) by (auto simp: HashPassword_def dest: length_randRead)
  with assms(1) show ?thesis by (simp add: VerifyPassword_def argon2_ok_def)
qed

theorem HashPassword_verifies_witness:
  "VerifyPassword sampleExt ''correct horse'' ''salt-bytes-16byt'' (take 32 (''correct horse'' @ ''salt-bytes-16byt'' @ replicate 32 (CHR 0x00))) DefaultArgon2idParams"
proof -
  have "HashPassword sampleExt sampleIO ''correct horse'' DefaultArgon2idParams
    = Inr (''salt-bytes-16byt'', take 32 (''correct horse'' @ ''salt-bytes-16byt'' @ replicate 32 (CHR 0x00)))"
    by code_simp
  from HashPassword_verifies [OF sampleExt_ok(2) this] show ?thesis by simp
qed

end
