(* ===== verification/SessionJWT.thy ===== *)
theory SessionJWT
  imports Credentials
begin

text \<open>
  The session access token (internal/authn/session.go): a compact EdDSA JWT with a fixed
  claim set, issued and validated by hand-written code. The JSON encoder and base64 are
  those of GoLib and Base64; the decoder and the signature scheme are the external ones.
\<close>

definition SessionAccessLifetime :: duration where "SessionAccessLifetime = 15 * Minute"
definition SessionClockSkew :: duration where "SessionClockSkew = 60 * Second"

record SessionClaims =
  sc_Issuer :: string
  sc_Audience :: string
  sc_Subject :: string
  sc_JTI :: string
  sc_FamilyID :: string
  sc_AuthDomain :: string
  sc_DisplayName :: string
  sc_CredentialVersion :: int
  sc_IssuedAt :: time
  sc_NotBefore :: time
  sc_ExpiresAt :: time

text \<open>The structs as json.Marshal writes them: fields in order, empty \<open>omitempty\<close> fields left out.\<close>

definition headerJSON :: "jwtHeader \<Rightarrow> bytes" where
  "headerJSON h = jsonMarshal (JObj [(''alg'', JStr (h_Alg h)), (''typ'', JStr (h_Typ h)), (''kid'', JStr (h_Kid h))])"

definition omitEmpty :: "string \<Rightarrow> string \<Rightarrow> (string \<times> json) list" where
  "omitEmpty k v = (if v = [] then [] else [(k, JStr v)])"

definition payloadJSON :: "jwtPayload \<Rightarrow> bytes" where
  "payloadJSON p = jsonMarshal (JObj ([(''iss'', JStr (jp_Issuer p)), (''aud'', JStr (jp_Audience p)),
      (''sub'', JStr (jp_Subject p)), (''jti'', JStr (jp_JTI p)), (''familyId'', JStr (jp_FamilyID p))]
      @ omitEmpty ''authDomain'' (jp_AuthDomain p) @ omitEmpty ''displayName'' (jp_DisplayName p)
      @ [(''credentialVersion'', JInt (jp_CredentialVersion p)), (''iat'', JInt (jp_IssuedAt p)),
         (''nbf'', JInt (jp_NotBefore p)), (''exp'', JInt (jp_ExpiresAt p))]))"

definition payloadOf :: "SessionClaims \<Rightarrow> jwtPayload" where
  "payloadOf c =
    \<lparr>jp_Issuer = sc_Issuer c, jp_Audience = sc_Audience c, jp_Subject = sc_Subject c, jp_JTI = sc_JTI c,
     jp_FamilyID = sc_FamilyID c, jp_AuthDomain = sc_AuthDomain c, jp_DisplayName = sc_DisplayName c,
     jp_CredentialVersion = sc_CredentialVersion c, jp_IssuedAt = toUnix (sc_IssuedAt c),
     jp_NotBefore = toUnix (sc_NotBefore c), jp_ExpiresAt = toUnix (sc_ExpiresAt c)\<rparr>"

definition IssueSessionJWT :: "ext \<Rightarrow> bytes \<Rightarrow> string \<Rightarrow> SessionClaims \<Rightarrow> string" where
  "IssueSessionJWT x priv kid c =
    (let h = headerJSON \<lparr>h_Alg = ''EdDSA'', h_Typ = ''JWT'', h_Kid = kid\<rparr>;
         signingInput = EncodeToString h @ CHR ''.'' # EncodeToString (payloadJSON (payloadOf c))
     in signingInput @ CHR ''.'' # EncodeToString (x_sign x priv signingInput))"

definition claimsOf :: "jwtPayload \<Rightarrow> SessionClaims" where
  "claimsOf p =
    \<lparr>sc_Issuer = jp_Issuer p, sc_Audience = jp_Audience p, sc_Subject = jp_Subject p, sc_JTI = jp_JTI p,
     sc_FamilyID = jp_FamilyID p,
     sc_AuthDomain = (if jp_AuthDomain p = [] then AuthDomainLocal else jp_AuthDomain p),
     sc_DisplayName = jp_DisplayName p, sc_CredentialVersion = jp_CredentialVersion p,
     sc_IssuedAt = ofUnix (jp_IssuedAt p), sc_NotBefore = ofUnix (jp_NotBefore p),
     sc_ExpiresAt = ofUnix (jp_ExpiresAt p)\<rparr>"

text \<open>The result is the claims and the kid of the header; every rejection is the same error.\<close>

definition ValidateSessionJWT ::
    "ext \<Rightarrow> io \<Rightarrow> bytes \<Rightarrow> string \<Rightarrow> string \<Rightarrow> string \<Rightarrow> string \<Rightarrow> (SessionClaims \<times> string) result" where
  "ValidateSessionJWT x io pub expectedKid issuer audience token =
    (case Split token (CHR ''.'') of
       [p0, p1, p2] \<Rightarrow>
         (case DecodeString p0 of None \<Rightarrow> Inl ErrInvalidSessionToken | Some headerBytes \<Rightarrow>
         (case x_decodeHeader x headerBytes of None \<Rightarrow> Inl ErrInvalidSessionToken | Some header \<Rightarrow>
          if h_Alg header \<noteq> ''EdDSA'' then Inl ErrInvalidSessionToken
          else if expectedKid \<noteq> [] \<and> h_Kid header \<noteq> expectedKid then Inl ErrInvalidSessionToken
          else (case DecodeString p2 of None \<Rightarrow> Inl ErrInvalidSessionToken | Some sig \<Rightarrow>
          if \<not> x_verify x pub (p0 @ CHR ''.'' # p1) sig then Inl ErrInvalidSessionToken
          else (case DecodeString p1 of None \<Rightarrow> Inl ErrInvalidSessionToken | Some payloadBytes \<Rightarrow>
          (case x_decodePayload x payloadBytes of None \<Rightarrow> Inl ErrInvalidSessionToken | Some payload \<Rightarrow>
          if jp_Issuer payload \<noteq> issuer \<or> jp_Audience payload \<noteq> audience then Inl ErrInvalidSessionToken
          else if io_now io + SessionClockSkew < ofUnix (jp_NotBefore payload) then Inl ErrInvalidSessionToken
          else if ofUnix (jp_ExpiresAt payload) < io_now io - SessionClockSkew then Inl ErrInvalidSessionToken
          else Inr (claimsOf payload, h_Kid header))))))
     | _ \<Rightarrow> Inl ErrInvalidSessionToken)"

section \<open>Issued and accepted tokens\<close>

text \<open>
  encoding/json reads back the header and the claim set that were written.
\<close>

definition decoder_ok :: "ext \<Rightarrow> string \<Rightarrow> SessionClaims \<Rightarrow> bool" where
  "decoder_ok x kid c \<longleftrightarrow>
     x_decodeHeader x (headerJSON \<lparr>h_Alg = ''EdDSA'', h_Typ = ''JWT'', h_Kid = kid\<rparr>)
       = Some \<lparr>h_Alg = ''EdDSA'', h_Typ = ''JWT'', h_Kid = kid\<rparr>
   \<and> x_decodePayload x (payloadJSON (payloadOf c)) = Some (payloadOf c)"

lemma Split_compact:
  "Split (EncodeToString a @ CHR ''.'' # EncodeToString b @ CHR ''.'' # EncodeToString c) (CHR ''.'')
   = [EncodeToString a, EncodeToString b, EncodeToString c]"
  by (simp add: Split_append_sep Split_no_sep)

lemma ofUnix_toUnix: "ofUnix (toUnix t) \<le> t \<and> t < ofUnix (toUnix t) + Second"
  using pos_mod_sign [of 1000000000 t] pos_mod_bound [of 1000000000 t] div_mult_mod_eq [of t 1000000000]
  unfolding ofUnix_def toUnix_def Second_def by linarith

lemma ValidateSessionJWT_issued:
  assumes "ed25519_ok x" and "decoder_ok x kid c" and "expectedKid = [] \<or> expectedKid = kid"
    and "sc_Issuer c = issuer" and "sc_Audience c = audience"
    and "ofUnix (toUnix (sc_NotBefore c)) \<le> io_now io + SessionClockSkew"
    and "io_now io - SessionClockSkew \<le> ofUnix (toUnix (sc_ExpiresAt c))"
  shows "ValidateSessionJWT x io (x_public x priv) expectedKid issuer audience (IssueSessionJWT x priv kid c)
    = Inr (claimsOf (payloadOf c), kid)"
  using assms unfolding ValidateSessionJWT_def IssueSessionJWT_def Let_def append_assoc append_Cons Split_compact
  by (auto simp: decoder_ok_def ed25519_ok_def payloadOf_def)

lemma ValidateSessionJWT_InrD:
  assumes "ValidateSessionJWT x io pub expectedKid issuer audience token = Inr (c, kid)"
  shows "\<exists>p0 p1 p2 sig. token = p0 @ CHR ''.'' # p1 @ CHR ''.'' # p2 \<and> DecodeString p2 = Some sig
      \<and> x_verify x pub (p0 @ CHR ''.'' # p1) sig"
    and "sc_Issuer c = issuer \<and> sc_Audience c = audience"
    and "io_now io - SessionClockSkew \<le> sc_ExpiresAt c \<and> sc_NotBefore c \<le> io_now io + SessionClockSkew"
    and "expectedKid \<noteq> [] \<Longrightarrow> kid = expectedKid"
    and "sc_AuthDomain c \<noteq> []"
proof -
  obtain p0 p1 p2 where parts: "Split token (CHR ''.'') = [p0, p1, p2]"
    using assms by (auto simp: ValidateSessionJWT_def split: list.splits)
  note v = assms [unfolded ValidateSessionJWT_def parts list.case]
  have tok: "token = p0 @ CHR ''.'' # p1 @ CHR ''.'' # p2"
    using parts Split_join [of "CHR ''.''" token] by simp
  obtain sig where "DecodeString p2 = Some sig" "x_verify x pub (p0 @ CHR ''.'' # p1) sig"
    using v by (auto split: option.splits if_splits)
  with tok show "\<exists>p0 p1 p2 sig. token = p0 @ CHR ''.'' # p1 @ CHR ''.'' # p2 \<and> DecodeString p2 = Some sig
      \<and> x_verify x pub (p0 @ CHR ''.'' # p1) sig" by blast
  show "sc_Issuer c = issuer \<and> sc_Audience c = audience"
    "io_now io - SessionClockSkew \<le> sc_ExpiresAt c \<and> sc_NotBefore c \<le> io_now io + SessionClockSkew"
    "expectedKid \<noteq> [] \<Longrightarrow> kid = expectedKid" "sc_AuthDomain c \<noteq> []"
    using v by (auto simp: claimsOf_def AuthDomainLocal_def split: option.splits if_splits)
qed

section \<open>Properties\<close>

text \<open>
  A token issued for some claims validates under the key's public half, from its not-before
  time (less the skew) until its expiry, and gives those claims back, with the times cut
  to whole seconds and an empty authentication domain read as the local one.
\<close>

theorem session_token_round_trip:
  assumes "ed25519_ok x" and "decoder_ok x kid c" and "expectedKid = [] \<or> expectedKid = kid"
    and "sc_NotBefore c \<le> io_now io + SessionClockSkew" and "io_now io \<le> sc_ExpiresAt c"
  shows "\<exists>c'. ValidateSessionJWT x io (x_public x priv) expectedKid (sc_Issuer c) (sc_Audience c) (IssueSessionJWT x priv kid c)
      = Inr (c', kid)
    \<and> c' = c\<lparr>sc_AuthDomain := (if sc_AuthDomain c = [] then ''local'' else sc_AuthDomain c),
              sc_IssuedAt := ofUnix (toUnix (sc_IssuedAt c)), sc_NotBefore := ofUnix (toUnix (sc_NotBefore c)),
              sc_ExpiresAt := ofUnix (toUnix (sc_ExpiresAt c))\<rparr>"
proof (intro exI conjI)
  show "ValidateSessionJWT x io (x_public x priv) expectedKid (sc_Issuer c) (sc_Audience c) (IssueSessionJWT x priv kid c)
      = Inr (claimsOf (payloadOf c), kid)"
    using assms ofUnix_toUnix [of "sc_NotBefore c"] ofUnix_toUnix [of "sc_ExpiresAt c"]
    by (intro ValidateSessionJWT_issued) (auto simp: SessionClockSkew_def Second_def)
qed (simp add: claimsOf_def payloadOf_def AuthDomainLocal_def)

definition sampleClaims :: SessionClaims where
  "sampleClaims = \<lparr>sc_Issuer = ''appliance'', sc_Audience = ''ui'', sc_Subject = ''u1'', sc_JTI = ''j1'',
     sc_FamilyID = ''f1'', sc_AuthDomain = ''local'', sc_DisplayName = [], sc_CredentialVersion = 1,
     sc_IssuedAt = 1767225600000000000, sc_NotBefore = 1767225600000000000,
     sc_ExpiresAt = 1767225600000000000 + SessionAccessLifetime\<rparr>"

text \<open>A decoder that reads the two documents of the sample.\<close>

definition jwtExt :: "string \<Rightarrow> SessionClaims \<Rightarrow> ext" where
  "jwtExt kid c = sampleExt
     \<lparr>x_decodeHeader := (\<lambda>b. if b = headerJSON \<lparr>h_Alg = ''EdDSA'', h_Typ = ''JWT'', h_Kid = kid\<rparr>
        then Some \<lparr>h_Alg = ''EdDSA'', h_Typ = ''JWT'', h_Kid = kid\<rparr> else None),
      x_decodePayload := (\<lambda>b. if b = payloadJSON (payloadOf c) then Some (payloadOf c) else None)\<rparr>"

lemma jwtExt_ok: "ed25519_ok (jwtExt kid c)" "decoder_ok (jwtExt kid c) kid c"
  by (simp_all add: ed25519_ok_def decoder_ok_def jwtExt_def)

theorem session_token_round_trip_witness:
  "\<exists>c'. ValidateSessionJWT (jwtExt ''k1'' sampleClaims) sampleIO ''priv'' ''k1'' ''appliance'' ''ui''
     (IssueSessionJWT (jwtExt ''k1'' sampleClaims) ''priv'' ''k1'' sampleClaims) = Inr (c', ''k1'') \<and> sc_Subject c' = ''u1''"
  using session_token_round_trip [OF jwtExt_ok, where kid = "''k1''" and expectedKid = "''k1''" and io = sampleIO
      and priv = "''priv''" and c = sampleClaims]
  by (simp add: sampleClaims_def SessionClockSkew_def SessionAccessLifetime_def duration_defs jwtExt_def)

text \<open>
  Only signed, current tokens of the right issuer and audience pass: whatever
  ValidateSessionJWT accepts splits into three parts whose third is a signature of the
  first two under the given key, names the expected kid when one is expected, carries the
  issuer and audience asked for, expired at most a minute ago and is not more than a
  minute early. Any other token gives the one error ErrInvalidSessionToken.
\<close>

theorem session_token_accepted_is_signed:
  "(\<exists>c kid p0 p1 p2 sig. ValidateSessionJWT x io pub expectedKid issuer audience token = Inr (c, kid)
      \<and> token = p0 @ CHR ''.'' # p1 @ CHR ''.'' # p2
      \<and> DecodeString p2 = Some sig \<and> x_verify x pub (p0 @ CHR ''.'' # p1) sig
      \<and> sc_Issuer c = issuer \<and> sc_Audience c = audience \<and> (expectedKid = [] \<or> kid = expectedKid)
      \<and> io_now io - 60 * Second \<le> sc_ExpiresAt c \<and> sc_NotBefore c \<le> io_now io + 60 * Second)
   \<or> ValidateSessionJWT x io pub expectedKid issuer audience token = Inl ErrInvalidSessionToken"
proof (cases "ValidateSessionJWT x io pub expectedKid issuer audience token")
  case (Inl e)
  then show ?thesis
    by (auto simp: ValidateSessionJWT_def split: list.splits option.splits if_splits)
next
  case (Inr r)
  obtain c kid where ok: "ValidateSessionJWT x io pub expectedKid issuer audience token = Inr (c, kid)"
    using Inr by (cases r) auto
  from ValidateSessionJWT_InrD(1) [OF ok] obtain p0 p1 p2 sig where
    "token = p0 @ CHR ''.'' # p1 @ CHR ''.'' # p2" "DecodeString p2 = Some sig" "x_verify x pub (p0 @ CHR ''.'' # p1) sig"
    by blast
  with ok ValidateSessionJWT_InrD(2-4) [OF ok] show ?thesis
    by (intro disjI1 exI [of _ c] exI [of _ kid] exI [of _ p0] exI [of _ p1] exI [of _ p2] exI [of _ sig])
      (auto simp: SessionClockSkew_def)
qed

end
