(* ===== verification/Authz.thy ===== *)
theory Authz
  imports SessionJWT
begin

text \<open>
  Role-based access control: the evaluation of permissions (internal/authz/authz.go), the
  published permission catalog with the built-in roles and their seeding
  (internal/roles/catalog.go), and the role service (internal/roles/service.go).

  authz depends on a role store through an interface; \<open>role_store\<close> is that interface as a
  locale, and the SQL store interprets it.
\<close>

section \<open>authz.go\<close>

text \<open>
  A \<open>map[string]bool\<close> whose entries are all true is the set of its keys. The two methods
  of the role store the service calls are its arguments.
\<close>

fun collectPermissions :: "(string \<Rightarrow> string list result) \<Rightarrow> Role list \<Rightarrow> string set \<Rightarrow> string set result" where
  "collectPermissions listRolePermissions [] perms = Inr perms"
| "collectPermissions listRolePermissions (role # rest) perms =
     andThen (listRolePermissions (r_ID role)) (\<lambda>names.
     collectPermissions listRolePermissions rest (perms \<union> set names))"

definition EffectivePermissions_of ::
    "(string \<Rightarrow> Role list result) \<Rightarrow> (string \<Rightarrow> string list result) \<Rightarrow> string \<Rightarrow> string set result" where
  "EffectivePermissions_of listUserRoles listRolePermissions userID =
     andThen (listUserRoles userID) (\<lambda>userRoles. collectPermissions listRolePermissions userRoles {})"

definition EffectivePermissions :: "io \<Rightarrow> string \<Rightarrow> db \<Rightarrow> string set result" where
  "EffectivePermissions io userID d =
     EffectivePermissions_of (\<lambda>u. RoleStore_ListUserRoles io u d) (\<lambda>r. RoleStore_ListRolePermissions io r d) userID"

definition Check :: "io \<Rightarrow> string \<Rightarrow> string \<Rightarrow> db \<Rightarrow> unit result" where
  "Check io userID permission d = andThen (EffectivePermissions io userID d) (\<lambda>perms.
     if permission \<notin> perms then Inl ErrForbidden else Inr ())"

text \<open>A nil slice of scopes is \<open>None\<close>.\<close>

definition IntersectScopes :: "string set \<Rightarrow> string list option \<Rightarrow> string set" where
  "IntersectScopes effective scopes =
     (case scopes of None \<Rightarrow> effective | Some ss \<Rightarrow> set (filter (\<lambda>s. s \<in> effective) ss))"

definition HasPermission :: "string set \<Rightarrow> string \<Rightarrow> bool" where
  "HasPermission perms permission \<longleftrightarrow> permission \<in> perms"

locale role_store =
  fixes listUserRoles :: "string \<Rightarrow> Role list result" and listRolePermissions :: "string \<Rightarrow> string list result"
    and assigned :: "string \<Rightarrow> string set" and granted :: "string \<Rightarrow> string set"
  assumes roles_listed: "listUserRoles u = Inr rs \<Longrightarrow> r_ID ` set rs = assigned u"
    and permissions_listed: "listRolePermissions r = Inr ns \<Longrightarrow> set ns = granted r"
begin

lemma collected: "collectPermissions listRolePermissions rs P = Inr Q \<Longrightarrow> Q = P \<union> (\<Union>r\<in>set rs. granted (r_ID r))"
proof (induction rs arbitrary: P)
  case (Cons r rs)
  then obtain ns where ns: "listRolePermissions (r_ID r) = Inr ns"
    and rest: "collectPermissions listRolePermissions rs (P \<union> set ns) = Inr Q" by auto
  show ?case using Cons.IH [OF rest] permissions_listed [OF ns] by auto
qed simp

lemma effective_union:
  assumes "EffectivePermissions_of listUserRoles listRolePermissions u = Inr P"
  shows "P = (\<Union>r\<in>assigned u. granted r)"
proof -
  obtain rs where "listUserRoles u = Inr rs" and "collectPermissions listRolePermissions rs {} = Inr P"
    using assms by (auto simp: EffectivePermissions_of_def)
  then have "P = (\<Union>r\<in>set rs. granted (r_ID r))" and "r_ID ` set rs = assigned u"
    using collected [of rs "{}" P] roles_listed by auto
  then show ?thesis by force
qed

end

definition assignedRoles :: "db \<Rightarrow> string \<Rightarrow> string set" where
  "assignedRoles d u = ur_RoleID ` set (filter (\<lambda>x. ur_UserID x = u \<and> roleExists d (ur_RoleID x)) (db_userRoles d))"

definition grantedPermissions :: "db \<Rightarrow> string \<Rightarrow> string set" where
  "grantedPermissions d r = rp_Permission ` set (filter (\<lambda>x. rp_RoleID x = r) (db_rolePermissions d))"

interpretation sql_roles: role_store "\<lambda>u. RoleStore_ListUserRoles io u d" "\<lambda>r. RoleStore_ListRolePermissions io r d"
    "assignedRoles d" "grantedPermissions d" for io d
  by unfold_locales
    (force simp: RoleStore_ListUserRoles_def RoleStore_ListRolePermissions_def userRolesOf_def assignedRoles_def
      grantedPermissions_def roleExists_def)+

section \<open>catalog.go\<close>

definition AdministratorRoleID :: string where "AdministratorRoleID = ''role-administrator''"
definition DeveloperRoleID :: string where "DeveloperRoleID = ''role-developer''"
definition ViewerRoleID :: string where "ViewerRoleID = ''role-viewer''"
definition AutomationRoleID :: string where "AutomationRoleID = ''role-automation''"
definition GuestRoleID :: string where "GuestRoleID = ''role-guest''"

definition AllPermissions :: "Permission list" where
  "AllPermissions = map (\<lambda>(n, t). \<lparr>p_Name = n, p_Description = t\<rparr>)
    [(''users.read'', ''Read user accounts''),
     (''users.create'', ''Create user accounts''),
     (''users.update'', ''Update user profile attributes''),
     (''users.disable'', ''Disable or enable user accounts''),
     (''roles.read'', ''Read roles and the permission catalog''),
     (''roles.create'', ''Create custom roles''),
     (''roles.update'', ''Update custom roles''),
     (''roles.delete'', ''Delete custom roles''),
     (''tokens.read.self'', ''Read own API tokens''),
     (''tokens.create.self'', ''Create own API tokens''),
     (''tokens.create.any'', ''Create API tokens for any user''),
     (''tokens.revoke.self'', ''Revoke own API tokens''),
     (''tokens.revoke.any'', ''Revoke any user's API tokens''),
     (''builds.create'', ''Submit builds''),
     (''builds.read.self'', ''Read own builds''),
     (''builds.read.any'', ''Read any build''),
     (''builds.cancel.self'', ''Cancel own builds''),
     (''builds.cancel.any'', ''Cancel any build''),
     (''work_profiles.read'', ''Read developer workflow profiles''),
     (''workspaces.create'', ''Create own developer workspaces''),
     (''workspaces.read.self'', ''Read own developer workspaces''),
     (''workspaces.read.any'', ''Read any developer workspace''),
     (''workspaces.delete.self'', ''Delete own developer workspaces''),
     (''workspaces.delete.any'', ''Delete any developer workspace''),
     (''build_targets.read'', ''Read configured build targets''),
     (''jobs.read.self'', ''Read own developer workflow jobs''),
     (''jobs.read.any'', ''Read any developer workflow job''),
     (''jobs.cancel.self'', ''Cancel own developer workflow jobs''),
     (''jobs.cancel.any'', ''Cancel any developer workflow job''),
     (''artifacts.read'', ''Read artifact metadata and OCI artifact content''),
     (''artifacts.write'', ''Push OCI artifacts to the appliance registry''),
     (''artifacts.delete.self'', ''Delete artifacts produced by own builds''),
     (''artifacts.delete.any'', ''Delete any artifact''),
     (''files.read'', ''Download appliance-managed files from named file spaces''),
     (''files.write'', ''Upload appliance-managed files into named file spaces''),
     (''operations.read.self'', ''Read own durable operations''),
     (''operations.read.any'', ''Read any durable operation''),
     (''artifacts.delete'', ''Delete artifact repository content''),
     (''artifacts.grants.read'', ''Read artifact repository-prefix grants''),
     (''artifacts.grants.write'', ''Manage artifact repository-prefix grants''),
     (''host.read'', ''Read host health, stats, identity, client Wi-Fi, Wi-Fi AP, and mDNS status information''),
     (''host.write'', ''Change host-managed capabilities such as client Wi-Fi and the management Wi-Fi access point''),
     (''dns.records.read'', ''Read LAN DNS A records''),
     (''dns.records.write'', ''Create, update, or delete any LAN DNS A record''),
     (''dns.records.register'', ''Register or renew owned LAN DNS A records''),
     (''dns.publish'', ''Publish this appliance's DNS name and IP to a remote DNS appliance''),
     (''inference.use'', ''Call inference chat and completion APIs''),
     (''inference.models.read'', ''List available inference models''),
     (''inference.admin'', ''Manage inference runtime and model packs''),
     (''video.library.read'', ''Browse the video library''),
     (''focus.content.manage'', ''Publish or clear current focus content''),
     (''video.library.write'', ''Upload or manage video library content''),
     (''video.play'', ''Stream and play video library items''),
     (''video.admin'', ''Administer the video runtime''),
     (''mcp.invoke'', ''Invoke MCP tools''),
     (''system.read'', ''Read system status and version''),
     (''system.operate'', ''Perform system operations''),
     (''audit.read'', ''Read audit events''),
     (''audit.export'', ''Export audit events''),
     (''licensing.read'', ''Read appliance licensing status and entitlements''),
     (''licensing.manage'', ''Import licenses and accept base entitlements''),
     (''metadata.read'', ''Read active appliance metadata bundle status''),
     (''metadata.manage'', ''Validate, install, or roll back appliance metadata bundles''),
     (''profiles.read'', ''Read appliance profile catalog from the active metadata bundle''),
     (''profiles.activate'', ''Validate and activate appliance profiles''),
     (''applications.read'', ''Read managed applications''),
     (''applications.manage'', ''Manage application definitions and instances''),
     (''notifications.read'', ''Read system notifications''),
     (''notifications.acknowledge'', ''Acknowledge system notifications'')]"

definition allPermissionNames :: "string list" where
  "allPermissionNames = map p_Name AllPermissions"

record BuiltInRole =
  br_ID :: string
  br_Name :: string
  br_Permissions :: "string list"

definition BuiltInRoles :: "BuiltInRole list" where
  "BuiltInRoles =
    [\<lparr>br_ID = ''role-administrator'', br_Name = ''administrator'',
       br_Permissions =
        allPermissionNames\<rparr>,
     \<lparr>br_ID = ''role-developer'', br_Name = ''developer'',
       br_Permissions =
        [''tokens.read.self'', ''tokens.create.self'', ''tokens.revoke.self'', ''work_profiles.read'',
         ''workspaces.create'', ''workspaces.read.self'', ''workspaces.delete.self'',
         ''build_targets.read'', ''builds.create'', ''builds.read.self'', ''builds.cancel.self'',
         ''jobs.read.self'', ''jobs.cancel.self'', ''artifacts.read'', ''artifacts.write'',
         ''artifacts.delete.self'', ''files.read'', ''files.write'', ''host.read'',
         ''operations.read.self'', ''inference.use'', ''inference.models.read'', ''video.library.read'',
         ''video.library.write'', ''video.play'', ''focus.content.manage'', ''mcp.invoke'']\<rparr>,
     \<lparr>br_ID = ''role-viewer'', br_Name = ''viewer'',
       br_Permissions =
        [''tokens.read.self'', ''tokens.create.self'', ''tokens.revoke.self'', ''work_profiles.read'',
         ''workspaces.read.any'', ''build_targets.read'', ''builds.read.any'', ''jobs.read.any'',
         ''artifacts.read'', ''files.read'', ''host.read'', ''operations.read.self'',
         ''dns.records.read'', ''inference.models.read'', ''video.library.read'', ''video.play'',
         ''notifications.read'', ''licensing.read'']\<rparr>,
     \<lparr>br_ID = ''role-guest'', br_Name = ''guest'',
       br_Permissions =
        [''files.read'', ''video.library.read'', ''video.play'']\<rparr>,
     \<lparr>br_ID = ''role-automation'', br_Name = ''automation'',
       br_Permissions =
        [''work_profiles.read'', ''workspaces.create'', ''workspaces.read.self'',
         ''build_targets.read'', ''builds.create'', ''builds.read.self'', ''builds.cancel.self'',
         ''jobs.read.self'', ''jobs.cancel.self'', ''artifacts.read'', ''artifacts.write'',
         ''files.read'', ''files.write'', ''host.read'', ''operations.read.self'',
         ''dns.records.register'', ''dns.publish'', ''inference.use'', ''inference.models.read'',
         ''video.library.read'', ''video.library.write'', ''video.play'']\<rparr>]"

text \<open>
  Statements that commit one after the other: the first that fails ends the run and what
  was committed before stays.
\<close>

fun runSteps :: "(db \<Rightarrow> db result) list \<Rightarrow> db \<Rightarrow> db \<times> unit result" where
  "runSteps [] d = (d, Inr ())"
| "runSteps (f # fs) d = (case f d of Inl e \<Rightarrow> (d, Inl e) | Inr d' \<Rightarrow> runSteps fs d')"

text \<open>A store method that opens its own transaction, called outside any.\<close>

definition txStep :: "io \<Rightarrow> (db \<Rightarrow> db result) \<Rightarrow> db \<Rightarrow> db result" where
  "txStep io f d = (case WithTx io (unitTx f) d of (d', Inl e) \<Rightarrow> Inl e | (d', Inr u) \<Rightarrow> Inr d')"

definition builtInRow :: "BuiltInRole \<Rightarrow> Role" where
  "builtInRow br = \<lparr>r_ID = br_ID br, r_Name = br_Name br, r_BuiltIn = True, r_CreatedAt = zeroTime, r_UpdatedAt = zeroTime\<rparr>"

definition seedRole :: "io \<Rightarrow> BuiltInRole \<Rightarrow> (db \<Rightarrow> db result) list" where
  "seedRole io br = [RoleStore_UpsertRole io (builtInRow br),
     txStep io (RoleStore_SetRolePermissions io (br_ID br) (br_Permissions br))]"

definition Seed :: "io \<Rightarrow> db \<Rightarrow> db \<times> unit result" where
  "Seed io = runSteps (map (RoleStore_UpsertPermission io) AllPermissions @ concat (map (seedRole io) BuiltInRoles))"

section \<open>service.go\<close>

definition validatePermissions :: "io \<Rightarrow> string list \<Rightarrow> db \<Rightarrow> unit result" where
  "validatePermissions io permissionNames d = andThen (RoleStore_ListPermissions io d) (\<lambda>catalog.
     require (list_all (\<lambda>n. n \<in> p_Name ` set catalog) permissionNames) ErrUnknownPermission)"

definition successEvent :: "string \<Rightarrow> string \<Rightarrow> string \<Rightarrow> (string \<times> json) list option \<Rightarrow> Event" where
  "successEvent action targetType targetID details = \<lparr>ev_Action = action, ev_TargetType = targetType, ev_TargetID = targetID,
     ev_Outcome = ''success'', ev_ReasonCode = [], ev_Severity = [], ev_Details = details\<rparr>"

definition Roles_Create :: "ext \<Rightarrow> Actor \<Rightarrow> string \<Rightarrow> string list \<Rightarrow> io \<Rightarrow> db \<Rightarrow> db \<times> Role result" where
  "Roles_Create x actor name permissionNames io d =
     guarded (validatePermissions io permissionNames d) (\<lambda>_.
       let role = \<lparr>r_ID = io_newID io, r_Name = name, r_BuiltIn = False, r_CreatedAt = zeroTime, r_UpdatedAt = zeroTime\<rparr>
       in WithTx io (\<lambda>d. andThen (RoleStore_UpsertRole io role d) (\<lambda>d1.
            andThen (RoleStore_SetRolePermissions io (r_ID role) permissionNames d1) (\<lambda>d2.
            andThen (Recorder_Record x io actor
                (successEvent ''roles.create'' ''role'' (r_ID role) (Some [(''name'', JStr name)])) d2) (\<lambda>d3.
            Inr (role, d3)))))) d"

definition Roles_Update :: "ext \<Rightarrow> Actor \<Rightarrow> string \<Rightarrow> string list \<Rightarrow> io \<Rightarrow> db \<Rightarrow> db \<times> unit result" where
  "Roles_Update x actor rid permissionNames io d =
     guarded (andThen (RoleStore_Get io rid d) (\<lambda>role.
         if r_BuiltIn role then Inl ErrBuiltInRole else validatePermissions io permissionNames d)) (\<lambda>_.
       WithTx io (unitTx (\<lambda>d. andThen (RoleStore_SetRolePermissions io rid permissionNames d) (\<lambda>d1.
         Recorder_Record x io actor (successEvent ''roles.update'' ''role'' rid None) d1)))) d"

definition Roles_Delete :: "ext \<Rightarrow> Actor \<Rightarrow> string \<Rightarrow> io \<Rightarrow> db \<Rightarrow> db \<times> unit result" where
  "Roles_Delete x actor rid io d =
     guarded (andThen (RoleStore_Get io rid d) (\<lambda>role. if r_BuiltIn role then Inl ErrBuiltInRole else Inr ())) (\<lambda>_.
       WithTx io (unitTx (\<lambda>d. andThen (RoleStore_Delete io rid d) (\<lambda>d1.
         Recorder_Record x io actor (successEvent ''roles.delete'' ''role'' rid None) d1)))) d"

text \<open>SetUserRoles checks first and writes in a transaction afterwards.\<close>

definition SetUserRoles_check :: "string \<Rightarrow> string list \<Rightarrow> io \<Rightarrow> db \<Rightarrow> unit result" where
  "SetUserRoles_check userID roleIDs io d =
     andThen (RoleStore_ListUserRoles io userID d) (\<lambda>current.
     let willHaveAdmin = list_ex (\<lambda>i. i = AdministratorRoleID) roleIDs;
         hadAdmin = list_ex (\<lambda>r. r_ID r = AdministratorRoleID) current
     in if hadAdmin \<and> \<not> willHaveAdmin
        then andThen (UserStore_CountEnabledAdministrators io AdministratorRoleID d) (\<lambda>count.
               if count \<le> 1 then Inl ErrLastAdministrator else Inr ())
        else Inr ())"

definition SetUserRoles_write :: "ext \<Rightarrow> Actor \<Rightarrow> string \<Rightarrow> string list \<Rightarrow> io \<Rightarrow> db \<Rightarrow> db \<times> unit result" where
  "SetUserRoles_write x actor userID roleIDs io =
     WithTx io (unitTx (\<lambda>d. andThen (RoleStore_SetUserRoles io userID roleIDs d) (\<lambda>d1.
       Recorder_Record x io actor
         (successEvent ''users.roles.update'' ''user'' userID (Some [(''roleIds'', JArr (map JStr roleIDs))])) d1)))"

definition Roles_SetUserRoles :: "ext \<Rightarrow> Actor \<Rightarrow> string \<Rightarrow> string list \<Rightarrow> io \<Rightarrow> db \<Rightarrow> db \<times> unit result" where
  "Roles_SetUserRoles x actor userID roleIDs io d =
     guarded (SetUserRoles_check userID roleIDs io d) (\<lambda>_. SetUserRoles_write x actor userID roleIDs io) d"

section \<open>The role operations are audited\<close>

lemma successEvent_Action [simp]: "ev_Action (successEvent a tt ti ds) = a"
  by (simp add: successEvent_def)

interpretation roles_create: audited_op x "Roles_Create x actor name ps" "''roles.create''" for x actor name ps
  unfolding Roles_Create_def Let_def
  by (rule audited_op_guarded, rule audited_op_WithTx) (auto dest!: audit_frames dest: Recorder_Record_InrD(3) intro!: audited_body)

interpretation roles_update: audited_op x "Roles_Update x actor rid ps" "''roles.update''" for x actor rid ps
  unfolding Roles_Update_def
  by (rule audited_op_guarded, rule audited_op_WithTx) (auto dest!: audit_frames dest: Recorder_Record_InrD(3) intro!: audited_body)

interpretation roles_delete: audited_op x "Roles_Delete x actor rid" "''roles.delete''" for x actor rid
  unfolding Roles_Delete_def
  by (rule audited_op_guarded, rule audited_op_WithTx) (auto dest!: audit_frames dest: Recorder_Record_InrD(3) intro!: audited_body)

interpretation set_user_roles: audited_op x "Roles_SetUserRoles x actor uid rids" "''users.roles.update''" for x actor uid rids
  unfolding Roles_SetUserRoles_def SetUserRoles_write_def
  by (rule audited_op_guarded, rule audited_op_WithTx) (auto dest!: audit_frames dest: Recorder_Record_InrD(3) intro!: audited_body)

section \<open>The last administrator\<close>

definition hasEnabledAdmin :: "db \<Rightarrow> bool" where
  "hasEnabledAdmin d \<longleftrightarrow> enabledAdministrators AdministratorRoleID d \<noteq> []"

lemma enabledAdministrators_set:
  "(u, ur) \<in> set (enabledAdministrators a d) \<longleftrightarrow> u \<in> set (db_users d) \<and> ur \<in> set (db_userRoles d)
     \<and> ur_UserID ur = u_ID u \<and> ur_RoleID ur = a \<and> u_State u = UserStateActive"
  by (auto simp: enabledAdministrators_def)

lemma hasEnabledAdmin_iff:
  "hasEnabledAdmin d \<longleftrightarrow> (\<exists>u\<in>set (db_users d). \<exists>ur\<in>set (db_userRoles d). ur_UserID ur = u_ID u
     \<and> ur_RoleID ur = AdministratorRoleID \<and> u_State u = UserStateActive)"
proof -
  have "hasEnabledAdmin d \<longleftrightarrow> (\<exists>p. p \<in> set (enabledAdministrators AdministratorRoleID d))"
    by (metis hasEnabledAdmin_def last_in_set list.set(1) empty_iff)
  then show ?thesis by (auto simp: enabledAdministrators_set split_paired_Ex)
qed

lemma enabledAdministrators_one_user:
  assumes "schema_ok d" and "\<forall>(u, ur)\<in>set (enabledAdministrators a d). u_ID u = uid"
  shows "length (enabledAdministrators a d) \<le> 1"
proof -
  have ks: "distinct (map u_ID (db_users d))" "distinct (map (\<lambda>x. (ur_UserID x, ur_RoleID x)) (db_userRoles d))"
    using assms(1) by (auto simp: schema_ok_def users_ok_def roles_ok_def)
  have same: "p = q" if p: "p \<in> set (enabledAdministrators a d)" and q: "q \<in> set (enabledAdministrators a d)" for p q
  proof -
    obtain u ur v vr where pq: "p = (u, ur)" "q = (v, vr)" by (cases p, cases q)
    have "u_ID u = uid" "u_ID v = uid" using assms(2) p q by (auto simp: pq)
    moreover have "u \<in> set (db_users d)" "v \<in> set (db_users d)" "ur \<in> set (db_userRoles d)" "vr \<in> set (db_userRoles d)"
      "(ur_UserID ur, ur_RoleID ur) = (u_ID u, a)" "(ur_UserID vr, ur_RoleID vr) = (u_ID v, a)"
      using p q by (auto simp: pq enabledAdministrators_set)
    ultimately show ?thesis
      using ks [unfolded distinct_map] by (auto simp: pq inj_on_def)
  qed
  have "distinct (enabledAdministrators a d)"
    using ks by (auto simp: enabledAdministrators_def distinct_map intro!: distinct_filter distinct_product)
  moreover have "card (set (enabledAdministrators a d)) \<le> 1"
    unfolding One_nat_def by (rule card_le_Suc0_iff_eq [THEN iffD2]) (use same in auto)
  ultimately show ?thesis by (simp add: distinct_card)
qed

lemma insertUserRoles_result:
  "insertUserRoles now uid rids d = Inr d' \<Longrightarrow>
   d' = d\<lparr>db_userRoles := db_userRoles d @ map (\<lambda>r. \<lparr>ur_UserID = uid, ur_RoleID = r, ur_CreatedAt = now\<rparr>) rids\<rparr>"
proof (induction rids arbitrary: d)
  case (Cons r rids)
  let ?d1 = "d\<lparr>db_userRoles := db_userRoles d @ [\<lparr>ur_UserID = uid, ur_RoleID = r, ur_CreatedAt = now\<rparr>]\<rparr>"
  have "insertUserRoles now uid rids ?d1 = Inr d'"
    using Cons.prems by (auto simp: insertUserRole_def)
  from Cons.IH [OF this] show ?case by simp
qed simp

lemma RoleStore_SetUserRoles_result:
  "RoleStore_SetUserRoles io uid rids d = Inr d' \<Longrightarrow>
   d' = d\<lparr>db_userRoles := filter (\<lambda>x. ur_UserID x \<noteq> uid) (db_userRoles d)
       @ map (\<lambda>r. \<lparr>ur_UserID = uid, ur_RoleID = r, ur_CreatedAt = io_now io\<rparr>) rids\<rparr>"
  by (auto simp: RoleStore_SetUserRoles_def dest!: insertUserRoles_result)

lemma SetUserRoles_write_result:
  assumes "SetUserRoles_write x actor uid rids io d = (d', Inr ())"
  shows "db_users d' = db_users d" "db_roles d' = db_roles d" "db_rolePermissions d' = db_rolePermissions d"
    and "db_userRoles d' = filter (\<lambda>x. ur_UserID x \<noteq> uid) (db_userRoles d)
       @ map (\<lambda>r. \<lparr>ur_UserID = uid, ur_RoleID = r, ur_CreatedAt = io_now io\<rparr>) rids"
proof -
  obtain d1 where 1: "RoleStore_SetUserRoles io uid rids d = Inr d1" and 2: "d' = d1\<lparr>db_audit := db_audit d'\<rparr>"
    using assms by (auto simp: SetUserRoles_write_def dest!: WithTx_Inr Recorder_Record_InrD(1))
  note r = RoleStore_SetUserRoles_result [OF 1]
  show "db_users d' = db_users d" "db_roles d' = db_roles d" "db_rolePermissions d' = db_rolePermissions d"
    and "db_userRoles d' = filter (\<lambda>x. ur_UserID x \<noteq> uid) (db_userRoles d)
       @ map (\<lambda>r. \<lparr>ur_UserID = uid, ur_RoleID = r, ur_CreatedAt = io_now io\<rparr>) rids"
    by (subst 2, simp add: r)+
qed

lemma SetUserRoles_check_ok:
  assumes ok: "SetUserRoles_check uid rids io d = Inr ()" and sch: "schema_ok d" and adm: "hasEnabledAdmin d"
    and no: "AdministratorRoleID \<notin> set rids"
  shows "\<exists>(u, ur)\<in>set (enabledAdministrators AdministratorRoleID d). u_ID u \<noteq> uid"
proof (rule ccontr)
  assume "\<not> ?thesis"
  then have only: "\<forall>(u, ur)\<in>set (enabledAdministrators AdministratorRoleID d). u_ID u = uid" by auto
  obtain u ur where a: "(u, ur) \<in> set (enabledAdministrators AdministratorRoleID d)"
    using adm by (cases "enabledAdministrators AdministratorRoleID d") (auto simp: hasEnabledAdmin_def)
  with only have ur: "ur \<in> set (db_userRoles d)" "ur_UserID ur = uid" "ur_RoleID ur = AdministratorRoleID"
    by (auto simp: enabledAdministrators_set)
  then have "roleExists d AdministratorRoleID"
    using sch by (auto simp: schema_ok_def roles_ok_def)
  then have "AdministratorRoleID \<in> assignedRoles d uid"
    using ur by (force simp: assignedRoles_def)
  moreover obtain rs where rs: "RoleStore_ListUserRoles io uid d = Inr rs"
    using ok by (auto simp: SetUserRoles_check_def)
  ultimately have had: "list_ex (\<lambda>r. r_ID r = AdministratorRoleID) rs"
    using sql_roles.roles_listed [OF rs] unfolding list_ex_iff by force
  have "\<not> length (enabledAdministrators AdministratorRoleID d) \<le> 1"
    using ok had no by (auto simp: SetUserRoles_check_def rs UserStore_CountEnabledAdministrators_def
        list_ex_iff andThen_Inr_iff split: if_splits)
  then show False using enabledAdministrators_one_user [OF sch only] by simp
qed

lemma Roles_SetUserRoles_keeps_admin:
  assumes "schema_ok d" and "hasEnabledAdmin d"
  shows "hasEnabledAdmin (fst (Roles_SetUserRoles x actor uid rids io d))"
proof (cases "snd (Roles_SetUserRoles x actor uid rids io d)")
  case (Inl e)
  then show ?thesis
    using set_user_roles.failure_keeps [of x actor uid rids io d] assms(2)
    by (cases "Roles_SetUserRoles x actor uid rids io d") auto
next
  case (Inr u)
  define d' where "d' = fst (Roles_SetUserRoles x actor uid rids io d)"
  have "Roles_SetUserRoles x actor uid rids io d = (d', Inr ())"
    using Inr by (cases "Roles_SetUserRoles x actor uid rids io d") (simp add: d'_def)
  then have check: "SetUserRoles_check uid rids io d = Inr ()"
    and w: "SetUserRoles_write x actor uid rids io d = (d', Inr ())"
    by (auto simp: Roles_SetUserRoles_def guarded_Inr)
  note d' = SetUserRoles_write_result [OF w]
  have "hasEnabledAdmin d'"
  proof (cases "\<exists>(u, ur)\<in>set (enabledAdministrators AdministratorRoleID d). u_ID u \<noteq> uid")
    case True
    then obtain u ur where "(u, ur) \<in> set (enabledAdministrators AdministratorRoleID d)" "u_ID u \<noteq> uid" by auto
    then show ?thesis unfolding hasEnabledAdmin_iff d' enabledAdministrators_set
      by (intro bexI [of _ u] bexI [of _ ur]) auto
  next
    case False
    then have will: "AdministratorRoleID \<in> set rids"
      using SetUserRoles_check_ok [OF check assms] by blast
    obtain u ur where "(u, ur) \<in> set (enabledAdministrators AdministratorRoleID d)"
      using assms(2) by (cases "enabledAdministrators AdministratorRoleID d") (auto simp: hasEnabledAdmin_def)
    with False have "u \<in> set (db_users d)" "u_ID u = uid" "u_State u = UserStateActive"
      by (auto simp: enabledAdministrators_set)
    with will show ?thesis unfolding hasEnabledAdmin_iff d'
      by (intro bexI [of _ u] bexI [of _ "\<lparr>ur_UserID = uid, ur_RoleID = AdministratorRoleID, ur_CreatedAt = io_now io\<rparr>"]) auto
  qed
  then show ?thesis by (simp add: d'_def)
qed

section \<open>What role operations leave alone\<close>

lemma insertRolePermissions_result:
  "insertRolePermissions rid ns d = Inr d' \<Longrightarrow>
   d' = d\<lparr>db_rolePermissions := db_rolePermissions d @ map (\<lambda>n. \<lparr>rp_RoleID = rid, rp_Permission = n\<rparr>) ns\<rparr>"
proof (induction ns arbitrary: d)
  case (Cons n ns)
  let ?d1 = "d\<lparr>db_rolePermissions := db_rolePermissions d @ [\<lparr>rp_RoleID = rid, rp_Permission = n\<rparr>]\<rparr>"
  have "insertRolePermissions rid ns ?d1 = Inr d'"
    using Cons.prems by (auto simp: insertRolePermission_def)
  from Cons.IH [OF this] show ?case by simp
qed simp

lemma RoleStore_SetRolePermissions_result:
  "RoleStore_SetRolePermissions io rid ns d = Inr d' \<Longrightarrow>
   d' = d\<lparr>db_rolePermissions := filter (\<lambda>x. rp_RoleID x \<noteq> rid) (db_rolePermissions d)
       @ map (\<lambda>n. \<lparr>rp_RoleID = rid, rp_Permission = n\<rparr>) ns\<rparr>"
  by (auto simp: RoleStore_SetRolePermissions_def dest!: insertRolePermissions_result)

lemma grantedPermissions_set:
  assumes "RoleStore_SetRolePermissions io rid ns d = Inr d'"
  shows "grantedPermissions d' r = (if r = rid then set ns else grantedPermissions d r)"
proof -
  let ?new = "map (\<lambda>n. \<lparr>rp_RoleID = rid, rp_Permission = n\<rparr>) ns"
  have "filter (\<lambda>x. rp_RoleID x = r) (filter (\<lambda>x. rp_RoleID x \<noteq> rid) xs @ ?new)
      = (if r = rid then ?new else filter (\<lambda>x. rp_RoleID x = r) xs)" for xs :: "RolePermission list"
    by (auto simp: filter_map o_def intro: filter_cong)
  then show ?thesis
    by (simp only: grantedPermissions_def RoleStore_SetRolePermissions_result [OF assms]) (simp add: image_image)
qed

lemma RoleStore_UpsertRole_result:
  assumes "RoleStore_UpsertRole io r d = Inr d'"
  shows "d' = d\<lparr>db_roles := db_roles d'\<rparr>"
    and "\<exists>r'\<in>set (db_roles d'). r_ID r' = r_ID r \<and> r_Name r' = r_Name r \<and> r_BuiltIn r' = r_BuiltIn r"
    and "filter (\<lambda>q. r_ID q \<noteq> r_ID r) (db_roles d') = filter (\<lambda>q. r_ID q \<noteq> r_ID r) (db_roles d)"
proof -
  have u: "filter (\<lambda>q. r_ID q \<noteq> i) (updateWhere (\<lambda>q. r_ID q = i) (\<lambda>q. q\<lparr>r_Name := n, r_BuiltIn := b, r_UpdatedAt := t\<rparr>) rs)
      = filter (\<lambda>q. r_ID q \<noteq> i) rs" for i n b t and rs :: "Role list"
    by (induction rs) (auto simp: updateWhere_def)
  have named: "\<exists>q\<in>set (updateWhere (\<lambda>q. r_ID q = i) (\<lambda>q. q\<lparr>r_Name := n, r_BuiltIn := b, r_UpdatedAt := t\<rparr>) rs).
      r_ID q = i \<and> r_Name q = n \<and> r_BuiltIn q = b" if i: "i \<in> r_ID ` set rs" for i n b t and rs :: "Role list"
  proof -
    obtain q where "q \<in> set rs" "r_ID q = i" using i by auto
    then show ?thesis
      by (intro bexI [of _ "q\<lparr>r_Name := n, r_BuiltIn := b, r_UpdatedAt := t\<rparr>"]) (auto simp: set_updateWhere image_iff)
  qed
  from assms show "d' = d\<lparr>db_roles := db_roles d'\<rparr>"
    and "filter (\<lambda>q. r_ID q \<noteq> r_ID r) (db_roles d') = filter (\<lambda>q. r_ID q \<noteq> r_ID r) (db_roles d)"
    by (auto simp: RoleStore_UpsertRole_def Let_def u split: if_splits)
  from assms show "\<exists>r'\<in>set (db_roles d'). r_ID r' = r_ID r \<and> r_Name r' = r_Name r \<and> r_BuiltIn r' = r_BuiltIn r"
    using named [of "r_ID r" "db_roles d"] unfolding roleExists_def [symmetric]
    by (auto simp: RoleStore_UpsertRole_def Let_def split: if_splits)
qed

definition installed :: "db \<Rightarrow> BuiltInRole \<Rightarrow> bool" where
  "installed d br \<longleftrightarrow> grantedPermissions d (br_ID br) = set (br_Permissions br)
     \<and> (\<exists>r\<in>set (db_roles d). r_ID r = br_ID br \<and> r_Name r = br_Name br \<and> r_BuiltIn r)"

text \<open>What seeding the roles in \<open>ids\<close> leaves alone.\<close>

definition seedFrame :: "string set \<Rightarrow> db \<Rightarrow> db \<Rightarrow> bool" where
  "seedFrame ids d d' \<longleftrightarrow> db_users d' = db_users d \<and> db_userRoles d' = db_userRoles d
     \<and> filter (\<lambda>r. r_ID r \<notin> ids) (db_roles d') = filter (\<lambda>r. r_ID r \<notin> ids) (db_roles d)
     \<and> (\<forall>r. r \<notin> ids \<longrightarrow> grantedPermissions d' r = grantedPermissions d r)"

lemma filter_narrow:
  assumes "filter P rs = filter P ts" and "\<And>q. Q q \<Longrightarrow> P q"
  shows "filter Q rs = filter Q ts"
proof -
  have "filter Q us = filter Q (filter P us)" for us using assms(2) by (induction us) auto
  then show ?thesis using assms(1) by metis
qed

lemma in_filter_other: "filter P rs = filter P ts \<Longrightarrow> P q \<Longrightarrow> q \<in> set rs \<longleftrightarrow> q \<in> set ts"
  by (metis mem_Collect_eq set_filter)

lemma seedRole_step:
  assumes "RoleStore_UpsertRole io (builtInRow br) d = Inr d1"
    and "RoleStore_SetRolePermissions io (br_ID br) (br_Permissions br) d1 = Inr d2"
  shows "installed d2 br" and "seedFrame {br_ID br} d d2"
    and "installed d other \<Longrightarrow> br_ID other \<noteq> br_ID br \<Longrightarrow> installed d2 other"
proof -
  note u = RoleStore_UpsertRole_result [OF assms(1)] and g = grantedPermissions_set [OF assms(2)]
  have roles: "db_roles d2 = db_roles d1" "db_users d2 = db_users d1" "db_userRoles d2 = db_userRoles d1"
    by (simp_all add: RoleStore_SetRolePermissions_result [OF assms(2)])
  have perms: "grantedPermissions d1 = grantedPermissions d" "db_users d1 = db_users d" "db_userRoles d1 = db_userRoles d"
    by (subst u(1), simp add: grantedPermissions_def fun_eq_iff)+
  show "installed d2 br" using u(2) g by (simp add: installed_def roles builtInRow_def)
  show "seedFrame {br_ID br} d d2"
    using u(3) g by (simp add: seedFrame_def roles perms builtInRow_def)
  assume "installed d other" "br_ID other \<noteq> br_ID br"
  then show "installed d2 other"
    using g in_filter_other [OF u(3)] by (auto simp: installed_def roles perms builtInRow_def)
qed

lemma runSteps_append:
  "runSteps (fs @ gs) d = (d', Inr ()) \<longleftrightarrow> (\<exists>d1. runSteps fs d = (d1, Inr ()) \<and> runSteps gs d1 = (d', Inr ()))"
  by (induction fs arbitrary: d) (auto split: sum.splits)

lemma txStep_Inr: "txStep io f d = Inr d' \<Longrightarrow> f d = Inr d'"
  by (auto simp: txStep_def dest: WithTx_Inr split: prod.splits sum.splits)

lemma seedFrame_mono_trans:
  "seedFrame {i} d d1 \<Longrightarrow> seedFrame ids d1 d2 \<Longrightarrow> seedFrame (insert i ids) d d2"
  using filter_narrow [of "\<lambda>r. r_ID r \<noteq> i" "db_roles d1" "db_roles d" "\<lambda>r. r_ID r \<notin> insert i ids"]
    filter_narrow [of "\<lambda>r. r_ID r \<notin> ids" "db_roles d2" "db_roles d1" "\<lambda>r. r_ID r \<notin> insert i ids"]
  by (simp add: seedFrame_def)

lemma seedRoles_installed:
  assumes "distinct (map br_ID brs)" and "runSteps (concat (map (seedRole io) brs)) d = (d', Inr ())"
  shows "(\<forall>br\<in>set brs. installed d' br) \<and> seedFrame (br_ID ` set brs) d d'
    \<and> (\<forall>br. installed d br \<longrightarrow> br_ID br \<notin> br_ID ` set brs \<longrightarrow> installed d' br)"
  using assms
proof (induction brs arbitrary: d)
  case Nil
  then show ?case by (simp add: seedFrame_def)
next
  case (Cons br brs)
  obtain d1 d2 where steps: "RoleStore_UpsertRole io (builtInRow br) d = Inr d1"
      "RoleStore_SetRolePermissions io (br_ID br) (br_Permissions br) d1 = Inr d2"
    and rest: "runSteps (concat (map (seedRole io) brs)) d2 = (d', Inr ())"
    using Cons.prems(2) by (auto simp: seedRole_def [of io br] dest: txStep_Inr split: sum.splits)
  note s = seedRole_step [OF steps]
  from Cons.IH [OF _ rest] Cons.prems(1) have IH: "\<forall>br\<in>set brs. installed d' br" "seedFrame (br_ID ` set brs) d2 d'"
    "\<forall>br. installed d2 br \<longrightarrow> br_ID br \<notin> br_ID ` set brs \<longrightarrow> installed d' br" by auto
  have "installed d' br" using IH(3) s(1) Cons.prems(1) by auto
  moreover have "seedFrame (insert (br_ID br) (br_ID ` set brs)) d d'"
    by (rule seedFrame_mono_trans [OF s(2) IH(2)])
  ultimately show ?case using IH s(3) by auto
qed

section \<open>Properties\<close>

text \<open>
  A user's effective permissions are exactly the union of the permissions of the roles
  assigned to the user, and Check admits a permission exactly when it is one of them.
\<close>

theorem EffectivePermissions_union:
  assumes "\<not> io_fault io ''RoleStore.ListUserRoles''" and "\<not> io_fault io ''RoleStore.ListRolePermissions''"
  shows "EffectivePermissions io uid d = Inr (\<Union>r\<in>assignedRoles d uid. grantedPermissions d r)
    \<and> (Check io uid p d = Inr () \<longleftrightarrow> (\<exists>r\<in>assignedRoles d uid. p \<in> grantedPermissions d r))"
proof -
  have total: "\<exists>P'. collectPermissions (\<lambda>r. RoleStore_ListRolePermissions io r d) rs P = Inr P'" for rs P
    using assms(2) by (induction rs arbitrary: P) (auto simp: RoleStore_ListRolePermissions_def stmt_def)
  then obtain P where P: "EffectivePermissions io uid d = Inr P"
    using assms(1) by (auto simp: EffectivePermissions_def EffectivePermissions_of_def RoleStore_ListUserRoles_def stmt_def)
  then have "P = (\<Union>r\<in>assignedRoles d uid. grantedPermissions d r)"
    unfolding EffectivePermissions_def by (rule sql_roles.effective_union)
  with P show ?thesis by (simp add: Check_def)
qed

theorem EffectivePermissions_union_witness:
  "EffectivePermissions sampleIO ''u1'' sampleDb = Inr (\<Union>r\<in>assignedRoles sampleDb ''u1''. grantedPermissions sampleDb r)"
  using EffectivePermissions_union [of sampleIO "''u1''" sampleDb "''users.read''"] by simp

text \<open>
  Token scopes only narrow: the permissions left by IntersectScopes are among the
  owner's effective ones, are exactly those the scopes name when scopes are given, and a
  permission withheld from the owner is withheld from every token.
\<close>

theorem IntersectScopes_narrows:
  "IntersectScopes P scopes \<subseteq> P
   \<and> IntersectScopes P None = P \<and> IntersectScopes P (Some ss) = P \<inter> set ss
   \<and> (HasPermission (IntersectScopes P scopes) p \<longrightarrow> HasPermission P p)"
  by (auto simp: IntersectScopes_def HasPermission_def split: option.splits)

theorem IntersectScopes_narrows_witness:
  "HasPermission (IntersectScopes {''files.read'', ''files.write''} (Some [''files.read'', ''users.read''])) ''files.read''
   \<and> HasPermission {''files.read'', ''files.write''} ''files.read''"
  using IntersectScopes_narrows [of "{''files.read'', ''files.write''}" "Some [''files.read'', ''users.read'']" _ "''files.read''"]
  by (simp add: IntersectScopes_def HasPermission_def)

text \<open>
  C6. Changing a user's roles never takes away the last enabled administrator: if the
  appliance has one before the request, it has one after it, whatever the request's
  outcome.
\<close>

theorem SetUserRoles_keeps_an_administrator:
  assumes "schema_ok d" and "hasEnabledAdmin d"
  shows "hasEnabledAdmin (fst (Roles_SetUserRoles x actor uid rids io d))"
  by (rule Roles_SetUserRoles_keeps_admin [OF assms])

text \<open>Two administrators, alice and bob.\<close>

definition adminRole :: Role where
  "adminRole = \<lparr>r_ID = AdministratorRoleID, r_Name = ''administrator'', r_BuiltIn = True, r_CreatedAt = 0, r_UpdatedAt = 0\<rparr>"

definition adminRow :: "string \<Rightarrow> UserRole" where
  "adminRow uid = \<lparr>ur_UserID = uid, ur_RoleID = AdministratorRoleID, ur_CreatedAt = 0\<rparr>"

definition twoAdmins :: db where
  "twoAdmins = (emptyDb ''UNIQUE constraint failed'')\<lparr>db_users := [sampleUser, sampleUser\<lparr>u_ID := ''u2'', u_Username := ''bob''\<rparr>],
     db_roles := [adminRole], db_userRoles := [adminRow ''u1'', adminRow ''u2'']\<rparr>"

definition oneAdmin :: db where
  "oneAdmin = twoAdmins\<lparr>db_userRoles := [adminRow ''u1'']\<rparr>"

lemma twoAdmins_ok: "schema_ok twoAdmins" "hasEnabledAdmin twoAdmins" "schema_ok oneAdmin" "hasEnabledAdmin oneAdmin"
  by code_simp+

theorem SetUserRoles_keeps_an_administrator_witness:
  "hasEnabledAdmin (fst (Roles_SetUserRoles sampleExt SystemActor ''u1'' [] sampleIO oneAdmin))
   \<and> snd (Roles_SetUserRoles sampleExt SystemActor ''u1'' [] sampleIO oneAdmin) = Inl ErrLastAdministrator"
proof
  show "hasEnabledAdmin (fst (Roles_SetUserRoles sampleExt SystemActor ''u1'' [] sampleIO oneAdmin))"
    by (rule SetUserRoles_keeps_an_administrator [OF twoAdmins_ok(3,4)])
  show "snd (Roles_SetUserRoles sampleExt SystemActor ''u1'' [] sampleIO oneAdmin) = Inl ErrLastAdministrator"
    by code_simp
qed

text \<open>
  The check runs before the transaction that writes. Two requests that interleave,
  each taking the administrator role from one of two administrators, both pass the check
  and both commit, and the appliance is left without an administrator.
\<close>

theorem SetUserRoles_interleaving_removes_all_administrators:
  "hasEnabledAdmin twoAdmins
   \<and> SetUserRoles_check ''u1'' [] sampleIO twoAdmins = Inr () \<and> SetUserRoles_check ''u2'' [] sampleIO twoAdmins = Inr ()
   \<and> (let (d1, r1) = SetUserRoles_write sampleExt SystemActor ''u1'' [] sampleIO twoAdmins;
          (d2, r2) = SetUserRoles_write sampleExt SystemActor ''u2'' [] (sampleIO\<lparr>io_eventID := ''0195-ev''\<rparr>) d1
      in r1 = Inr () \<and> r2 = Inr () \<and> \<not> hasEnabledAdmin d2)"
  by (intro conjI; code_simp)

text \<open>What a role keeps: its row and its permissions.\<close>

definition keepsRole :: "Role \<Rightarrow> db \<Rightarrow> db \<Rightarrow> bool" where
  "keepsRole r d d' \<longleftrightarrow> r \<in> set (db_roles d') \<and> grantedPermissions d' (r_ID r) = grantedPermissions d (r_ID r)"

lemma keepsRole_refl: "r \<in> set (db_roles d) \<Longrightarrow> keepsRole r d d" by (simp add: keepsRole_def)

lemma keepsRole_record:
  assumes "Recorder_Record x io actor e d1 = Inr d2" and "keepsRole r d d1"
  shows "keepsRole r d d2"
  using assms(2) unfolding keepsRole_def by (subst (1 2) Recorder_Record_InrD(1) [OF assms(1)]) (simp add: grantedPermissions_def)

lemma keepsRole_permissions:
  assumes "RoleStore_SetRolePermissions io i ns d1 = Inr d2" and "keepsRole r d d1" and "i \<noteq> r_ID r"
  shows "keepsRole r d d2"
  using assms grantedPermissions_set [OF assms(1)] by (simp add: keepsRole_def RoleStore_SetRolePermissions_result [OF assms(1)])

lemma keepsRole_delete:
  assumes "RoleStore_Delete io i d = Inr d1" and "r_ID r \<noteq> i" and "r \<in> set (db_roles d)"
  shows "keepsRole r d d1"
proof -
  have "filter (\<lambda>x. rp_RoleID x = r_ID r) (filter (\<lambda>x. rp_RoleID x \<noteq> i) xs) = filter (\<lambda>x. rp_RoleID x = r_ID r) xs"
    for xs :: "RolePermission list" using assms(2) by (induction xs) auto
  then show ?thesis using assms by (auto simp: keepsRole_def RoleStore_Delete_def grantedPermissions_def simp del: filter_filter)
qed

lemma keepsRole_upsert:
  assumes "RoleStore_UpsertRole io q d = Inr d1" and "r_ID q \<noteq> r_ID r" and "r \<in> set (db_roles d)"
  shows "keepsRole r d d1"
proof -
  have "r \<in> set (db_roles d1)" using assms(2,3) in_filter_other [OF RoleStore_UpsertRole_result(3) [OF assms(1)], of r] by simp
  moreover have "grantedPermissions d1 = grantedPermissions d"
    by (subst RoleStore_UpsertRole_result(1) [OF assms(1)]) (simp add: grantedPermissions_def fun_eq_iff)
  ultimately show ?thesis by (simp add: keepsRole_def)
qed

lemma builtin_not_custom:
  assumes "schema_ok d" and "r \<in> set (db_roles d)" and "r_BuiltIn r" and "RoleStore_Get io rid d = Inr q" and "\<not> r_BuiltIn q"
  shows "r_ID r \<noteq> rid"
  using assms selectFirst_key_unique [of r_ID "db_roles d" r]
  by (auto simp: RoleStore_Get_def schema_ok_def roles_ok_def split: option.splits)

lemma Roles_Create_keeps:
  assumes "r \<in> set (db_roles d)" and "io_newID io \<noteq> r_ID r"
  shows "keepsRole r d (fst (Roles_Create x actor name ps io d))"
proof (rule roles_create.unchanged_or_done [of x actor name ps io d])
  fix a assume "Roles_Create x actor name ps io d = (fst (Roles_Create x actor name ps io d), Inr a)"
  then show ?thesis using assms
    by (auto simp: Roles_Create_def guarded_Inr Let_def dest!: WithTx_Inr intro!: keepsRole_record [OF _ keepsRole_permissions [OF _ keepsRole_upsert]])
qed (use keepsRole_refl [OF assms(1)] in simp)

lemma Roles_Update_keeps:
  assumes "schema_ok d" and "r \<in> set (db_roles d)" and "r_BuiltIn r"
  shows "keepsRole r d (fst (Roles_Update x actor rid ps io d))"
proof (rule roles_update.unchanged_or_done [of x actor rid ps io d])
  fix a assume "Roles_Update x actor rid ps io d = (fst (Roles_Update x actor rid ps io d), Inr a)"
  then obtain q d1 where q: "RoleStore_Get io rid d = Inr q" "\<not> r_BuiltIn q"
    and d1: "RoleStore_SetRolePermissions io rid ps d = Inr d1"
    and d2: "Recorder_Record x io actor (successEvent ''roles.update'' ''role'' rid None) d1 = Inr (fst (Roles_Update x actor rid ps io d))"
    by (auto simp: Roles_Update_def guarded_Inr dest!: WithTx_Inr split: if_splits)
  from builtin_not_custom [OF assms q] show ?thesis by (intro keepsRole_record [OF d2 keepsRole_permissions [OF d1 keepsRole_refl [OF assms(2)]]]) simp
qed (use keepsRole_refl [OF assms(2)] in simp)

lemma Roles_Delete_keeps:
  assumes "schema_ok d" and "r \<in> set (db_roles d)" and "r_BuiltIn r"
  shows "keepsRole r d (fst (Roles_Delete x actor rid io d))"
proof (rule roles_delete.unchanged_or_done [of x actor rid io d])
  fix a assume "Roles_Delete x actor rid io d = (fst (Roles_Delete x actor rid io d), Inr a)"
  then obtain q d1 where q: "RoleStore_Get io rid d = Inr q" "\<not> r_BuiltIn q" and d1: "RoleStore_Delete io rid d = Inr d1"
    and d2: "Recorder_Record x io actor (successEvent ''roles.delete'' ''role'' rid None) d1 = Inr (fst (Roles_Delete x actor rid io d))"
    by (auto simp: Roles_Delete_def guarded_Inr dest!: WithTx_Inr split: if_splits)
  from builtin_not_custom [OF assms q] show ?thesis by (rule keepsRole_record [OF d2 keepsRole_delete [OF d1 _ assms(2)]])
qed (use keepsRole_refl [OF assms(2)] in simp)

lemma Roles_SetUserRoles_keeps:
  assumes "r \<in> set (db_roles d)"
  shows "keepsRole r d (fst (Roles_SetUserRoles x actor uid rids io d))"
proof (rule set_user_roles.unchanged_or_done [of x actor uid rids io d])
  let ?d = "fst (Roles_SetUserRoles x actor uid rids io d)"
  fix a assume "Roles_SetUserRoles x actor uid rids io d = (?d, Inr a)"
  then have "SetUserRoles_write x actor uid rids io d = (?d, Inr ())" by (auto simp: Roles_SetUserRoles_def guarded_Inr)
  from SetUserRoles_write_result(2,3) [OF this] show ?thesis using assms by (simp add: keepsRole_def grantedPermissions_def)
qed (use keepsRole_refl [OF assms] in simp)

text \<open>
  C7. Built-in roles cannot be changed through the service: whatever role operation is
  called with whatever arguments, each built-in role keeps its row and its permissions
  (new role ids being fresh).
\<close>

theorem builtin_roles_immutable:
  assumes "schema_ok d" and "r \<in> set (db_roles d)" and "r_BuiltIn r" and "io_newID io \<noteq> r_ID r"
    and "d' \<in> {fst (Roles_Create x actor name ps io d), fst (Roles_Update x actor rid ps io d),
               fst (Roles_Delete x actor rid io d), fst (Roles_SetUserRoles x actor uid rids io d)}"
  shows "r \<in> set (db_roles d') \<and> grantedPermissions d' (r_ID r) = grantedPermissions d (r_ID r)"
  using assms(5) Roles_Create_keeps [OF assms(2,4), of x actor name ps] Roles_Update_keeps [OF assms(1-3), of x actor rid ps io]
    Roles_Delete_keeps [OF assms(1-3), of x actor rid io] Roles_SetUserRoles_keeps [OF assms(2), of x actor uid rids io]
  by (auto simp: keepsRole_def)

theorem builtin_roles_immutable_witness:
  "adminRole \<in> set (db_roles (fst (Roles_Delete sampleExt SystemActor AdministratorRoleID sampleIO twoAdmins)))"
  using builtin_roles_immutable [OF twoAdmins_ok(1), of adminRole sampleIO _ sampleExt SystemActor _ _ AdministratorRoleID]
  by (simp add: twoAdmins_def adminRole_def AdministratorRoleID_def)

lemma upsertPermissions_frame:
  "runSteps (map (RoleStore_UpsertPermission io) ps) d = (d', Inr ()) \<Longrightarrow>
   db_users d' = db_users d \<and> db_userRoles d' = db_userRoles d \<and> db_roles d' = db_roles d
   \<and> db_rolePermissions d' = db_rolePermissions d"
proof (induction ps arbitrary: d)
  case (Cons p ps)
  then obtain d1 where d1: "RoleStore_UpsertPermission io p d = Inr d1"
    and rest: "runSteps (map (RoleStore_UpsertPermission io) ps) d1 = (d', Inr ())" by (auto split: sum.splits)
  have "db_users d1 = db_users d \<and> db_userRoles d1 = db_userRoles d \<and> db_roles d1 = db_roles d
    \<and> db_rolePermissions d1 = db_rolePermissions d"
    using d1 by (auto simp: RoleStore_UpsertPermission_def split: if_splits)
  with Cons.IH [OF rest] show ?case by simp
qed simp

lemma upsertPermissions_total:
  assumes "\<not> io_fault io ''RoleStore.UpsertPermission''"
  shows "\<exists>d'. runSteps (map (RoleStore_UpsertPermission io) ps) d = (d', Inr ())
    \<and> p_Name ` set (db_permissions d) \<union> p_Name ` set ps \<subseteq> p_Name ` set (db_permissions d')"
proof (induction ps arbitrary: d)
  case (Cons p ps)
  have "\<exists>d1. RoleStore_UpsertPermission io p d = Inr d1
      \<and> p_Name ` set (db_permissions d1) = insert (p_Name p) (p_Name ` set (db_permissions d))"
    using assms by (cases "p_Name p \<in> p_Name ` set (db_permissions d)")
      (simp_all add: RoleStore_UpsertPermission_def stmt_def image_updateWhere_same insert_absorb)
  then obtain d1 where d1: "RoleStore_UpsertPermission io p d = Inr d1"
    and keys: "p_Name ` set (db_permissions d1) = insert (p_Name p) (p_Name ` set (db_permissions d))" by blast
  from Cons.IH [of d1] d1 keys show ?case by auto
qed simp

lemma insertRolePermissions_total:
  assumes "distinct ns" and "set ns \<subseteq> p_Name ` set (db_permissions d)" and "roleExists d rid"
    and "\<forall>x\<in>set (db_rolePermissions d). rp_RoleID x = rid \<longrightarrow> rp_Permission x \<notin> set ns"
  shows "\<exists>d'. insertRolePermissions rid ns d = Inr d'"
  using assms
proof (induction ns arbitrary: d)
  case (Cons n ns)
  let ?d1 = "d\<lparr>db_rolePermissions := db_rolePermissions d @ [\<lparr>rp_RoleID = rid, rp_Permission = n\<rparr>]\<rparr>"
  have "insertRolePermission rid n d = Inr ?d1"
    using Cons.prems by (auto simp: insertRolePermission_def foreignKey_def require_def)
  moreover have "\<exists>d'. insertRolePermissions rid ns ?d1 = Inr d'"
    by (rule Cons.IH) (use Cons.prems in \<open>auto simp: roleExists_def\<close>)
  ultimately show ?case by simp
qed simp

text \<open>No role other than the built-in one carries a built-in name.\<close>

definition namesFree :: "BuiltInRole list \<Rightarrow> db \<Rightarrow> bool" where
  "namesFree brs d \<longleftrightarrow> (\<forall>br\<in>set brs. \<forall>r\<in>set (db_roles d). r_Name r = br_Name br \<longrightarrow> r_ID r = br_ID br)"

lemma UpsertRole_total:
  assumes "\<not> io_fault io ''RoleStore.UpsertRole''" and "namesFree [br] d"
  shows "\<exists>d1. RoleStore_UpsertRole io (builtInRow br) d = Inr d1 \<and> roleExists d1 (br_ID br)
    \<and> db_permissions d1 = db_permissions d
    \<and> (\<forall>r\<in>set (db_roles d1). r \<in> set (db_roles d) \<and> r_ID r \<noteq> br_ID br \<or> r_ID r = br_ID br \<and> r_Name r = br_Name br)"
proof -
  have ok: "\<forall>q\<in>set (db_roles d). r_Name q = br_Name br \<longrightarrow> r_ID q = br_ID br"
    using assms(2) by (simp add: namesFree_def)
  show ?thesis
  proof (cases "roleExists d (br_ID br)")
    case True
    then show ?thesis using assms(1) ok
      by (simp add: RoleStore_UpsertRole_def Let_def builtInRow_def stmt_def require_def)
        (auto simp: roleExists_def image_updateWhere_same)
  next
    case False
    then show ?thesis using assms(1) ok
      by (simp add: RoleStore_UpsertRole_def Let_def builtInRow_def stmt_def require_def)
        (force simp: roleExists_def)
  qed
qed

lemma SetRolePermissions_total:
  assumes "\<not> io_fault io ''RoleStore.SetRolePermissions''" and "\<not> io_fault io ''BeginTx''" and "\<not> io_fault io ''Commit''"
    and "distinct ns" and "set ns \<subseteq> p_Name ` set (db_permissions d)" and "roleExists d rid"
  shows "\<exists>d'. txStep io (RoleStore_SetRolePermissions io rid ns) d = Inr d'"
proof -
  let ?d0 = "d\<lparr>db_rolePermissions := filter (\<lambda>x. rp_RoleID x \<noteq> rid) (db_rolePermissions d)\<rparr>"
  obtain d' where "insertRolePermissions rid ns ?d0 = Inr d'"
    using insertRolePermissions_total [of ns ?d0 rid] assms(4-6) by (auto simp: roleExists_def)
  then have "unitTx (RoleStore_SetRolePermissions io rid ns) d = Inr ((), d')"
    using assms(1) by (simp add: RoleStore_SetRolePermissions_def stmt_def)
  from WithTx_ok [where fn = "unitTx (RoleStore_SetRolePermissions io rid ns)", OF assms(2,3) this] show ?thesis by (simp add: txStep_def)
qed

lemma seedRoles_total:
  assumes "\<And>n. \<not> io_fault io n"
    and "distinct (map br_Name brs)" and "distinct (map br_ID brs)" and "namesFree brs d"
    and "\<forall>br\<in>set brs. distinct (br_Permissions br) \<and> set (br_Permissions br) \<subseteq> p_Name ` set (db_permissions d)"
  shows "\<exists>d'. runSteps (concat (map (seedRole io) brs)) d = (d', Inr ())"
  using assms(2-5)
proof (induction brs arbitrary: d)
  case (Cons br brs)
  obtain d1 where d1: "RoleStore_UpsertRole io (builtInRow br) d = Inr d1" "roleExists d1 (br_ID br)"
    "db_permissions d1 = db_permissions d"
    and rows: "\<forall>r\<in>set (db_roles d1). r \<in> set (db_roles d) \<and> r_ID r \<noteq> br_ID br \<or> r_ID r = br_ID br \<and> r_Name r = br_Name br"
    using UpsertRole_total [of io br d] assms(1) Cons.prems(3) by (auto simp: namesFree_def)
  obtain d2 where d2: "txStep io (RoleStore_SetRolePermissions io (br_ID br) (br_Permissions br)) d1 = Inr d2"
    using SetRolePermissions_total [of io "br_Permissions br" d1 "br_ID br"] assms(1) Cons.prems(4) d1 by auto
  note same = RoleStore_SetRolePermissions_result [OF txStep_Inr [OF d2]]
  have "\<exists>d'. runSteps (concat (map (seedRole io) brs)) d2 = (d', Inr ())"
  proof (rule Cons.IH)
    show "namesFree brs d2"
      using Cons.prems(1,3) rows unfolding same namesFree_def by (auto simp: image_iff)
  qed (use Cons.prems d1(3) in \<open>auto simp: same\<close>)
  with d1(1) d2 show ?case by (simp add: seedRole_def [of io br])
qed simp

lemma catalog_facts:
  "distinct (map br_ID BuiltInRoles)" "distinct (map br_Name BuiltInRoles)"
  "\<forall>br\<in>set BuiltInRoles. distinct (br_Permissions br) \<and> set (br_Permissions br) \<subseteq> set allPermissionNames"
proof -
  show "distinct (map br_ID BuiltInRoles)" "distinct (map br_Name BuiltInRoles)" by (simp_all add: BuiltInRoles_def)
  have "distinct allPermissionNames" by (simp add: allPermissionNames_def AllPermissions_def)
  moreover have "\<forall>br\<in>set (tl BuiltInRoles). distinct (br_Permissions br) \<and> set (br_Permissions br) \<subseteq> set allPermissionNames"
    by (simp add: BuiltInRoles_def allPermissionNames_def AllPermissions_def)
  moreover have "set BuiltInRoles = insert (hd BuiltInRoles) (set (tl BuiltInRoles))"
    "br_Permissions (hd BuiltInRoles) = allPermissionNames"
    by (simp_all add: BuiltInRoles_def)
  ultimately show "\<forall>br\<in>set BuiltInRoles. distinct (br_Permissions br) \<and> set (br_Permissions br) \<subseteq> set allPermissionNames"
    by simp
qed

text \<open>
  Seeding a database in which no other role carries a built-in name succeeds. It
  installs every built-in role with its fixed name and exactly its published permissions,
  the administrator with the whole catalog, and leaves users, assignments, custom roles
  and their permissions as they were.
\<close>

theorem Seed_installs_builtin_roles:
  assumes "\<And>n. \<not> io_fault io n" and "namesFree BuiltInRoles d"
  shows "\<exists>d'. Seed io d = (d', Inr ()) \<and> (\<forall>br\<in>set BuiltInRoles. installed d' br)
    \<and> grantedPermissions d' AdministratorRoleID = p_Name ` set AllPermissions
    \<and> seedFrame (br_ID ` set BuiltInRoles) d d'"
proof -
  obtain d1 where perms: "runSteps (map (RoleStore_UpsertPermission io) AllPermissions) d = (d1, Inr ())"
    and keys: "p_Name ` set AllPermissions \<subseteq> p_Name ` set (db_permissions d1)"
    using upsertPermissions_total [of io AllPermissions d] assms(1) by auto
  note frame1 = upsertPermissions_frame [OF perms]
  obtain d' where roles: "runSteps (concat (map (seedRole io) BuiltInRoles)) d1 = (d', Inr ())"
  proof -
    have "namesFree BuiltInRoles d1" using assms(2) frame1 by (simp add: namesFree_def)
    moreover have "\<forall>br\<in>set BuiltInRoles. distinct (br_Permissions br) \<and> set (br_Permissions br) \<subseteq> p_Name ` set (db_permissions d1)"
      using catalog_facts(3) keys by (force simp: allPermissionNames_def)
    ultimately show ?thesis using seedRoles_total [OF assms(1) catalog_facts(2,1)] that by blast
  qed
  from seedRoles_installed [OF catalog_facts(1) roles] have
    inst: "\<forall>br\<in>set BuiltInRoles. installed d' br" and frame: "seedFrame (br_ID ` set BuiltInRoles) d1 d'" by auto
  have "hd BuiltInRoles \<in> set BuiltInRoles" by (simp add: BuiltInRoles_def)
  with inst have "installed d' (hd BuiltInRoles)" by blast
  then have "grantedPermissions d' AdministratorRoleID = p_Name ` set AllPermissions"
    by (simp add: installed_def BuiltInRoles_def AdministratorRoleID_def allPermissionNames_def)
  moreover have "seedFrame (br_ID ` set BuiltInRoles) d d'"
    using frame frame1 by (simp add: seedFrame_def grantedPermissions_def)
  moreover have "Seed io d = (d', Inr ())" using perms roles by (auto simp: Seed_def runSteps_append)
  ultimately show ?thesis using inst by blast
qed

theorem Seed_installs_builtin_roles_witness:
  "\<exists>d'. Seed sampleIO sampleDb = (d', Inr ()) \<and> grantedPermissions d' AdministratorRoleID = p_Name ` set AllPermissions"
  using Seed_installs_builtin_roles [of sampleIO sampleDb] by (auto simp: namesFree_def sampleDb_def emptyDb_def)

end
