(* ===== verification/Sessions.thy ===== *)
theory Sessions
  imports Authz
begin

text \<open>
  Interactive sessions (internal/authn/loginservice.go): login with throttling, the guest
  session, refresh rotation with reuse detection, logout, and the validation of access
  tokens. A session family is one login; its refresh credential rotates at every refresh
  and remembers the digest it replaced.

  A request that commits in several steps is a chain of \<open>thenTx\<close>: a later failure keeps what
  earlier steps committed.
\<close>

section \<open>Constants and records\<close>

definition RefreshIdleLifetime :: duration where "RefreshIdleLifetime = 12 * Hour"
definition RefreshAbsoluteLifetime :: duration where "RefreshAbsoluteLifetime = 7 * 24 * Hour"
definition MaxConcurrentFamilies :: nat where "MaxConcurrentFamilies = 5"
definition failureWindowReset :: duration where "failureWindowReset = Hour"
definition lockDuration :: duration where "lockDuration = 15 * Minute"
definition lockThreshold :: int where "lockThreshold = 20"
definition progressiveDelayAt :: int where "progressiveDelayAt = 5"
definition progressiveDelayStep :: duration where "progressiveDelayStep = 200 * Millisecond"
definition progressiveDelayMax :: duration where "progressiveDelayMax = 2 * Second"
definition GuestUsername :: string where "GuestUsername = ''guest''"

lemmas [duration_defs] = RefreshIdleLifetime_def RefreshAbsoluteLifetime_def failureWindowReset_def lockDuration_def
  progressiveDelayStep_def progressiveDelayMax_def SessionAccessLifetime_def SessionClockSkew_def

record Material =
  k_SessionPrivateKey :: bytes
  k_SessionPublicKey :: bytes
  k_SessionKeyID :: string
  k_RegistryPrivateKey :: bytes
  k_RegistryPublicKey :: bytes
  k_RegistryKeyID :: string
  k_APITokenPepper :: bytes
  k_RefreshPepper :: bytes
  k_CursorHMACKey :: bytes

record SessionService =
  ss_keys :: Material
  ss_issuer :: string
  ss_audience :: string

record LoginResult =
  lr_AccessToken :: string
  lr_RefreshToken :: string
  lr_FamilyID :: string
  lr_AccessExpiresAt :: time

fun thenTx :: "db \<times> 'a result \<Rightarrow> ('a \<Rightarrow> db \<Rightarrow> db \<times> 'b result) \<Rightarrow> db \<times> 'b result" where
  "thenTx (d, Inl e) f = (d, Inl e)"
| "thenTx (d, Inr a) f = f a d"

lemma thenTx_Inr: "thenTx p f = (d', Inr b) \<longleftrightarrow> (\<exists>d a. p = (d, Inr a) \<and> f a d = (d', Inr b))"
  by (cases p; cases "snd p") auto

section \<open>Creating a family\<close>

definition issueAccessToken :: "ext \<Rightarrow> SessionService \<Rightarrow> io \<Rightarrow> User \<Rightarrow> string \<Rightarrow> string \<Rightarrow> string \<Rightarrow> string" where
  "issueAccessToken x s io user familyID domain displayName =
     IssueSessionJWT x (k_SessionPrivateKey (ss_keys s)) (k_SessionKeyID (ss_keys s))
       \<lparr>sc_Issuer = ss_issuer s, sc_Audience = ss_audience s, sc_Subject = u_ID user, sc_JTI = io_jti io,
        sc_FamilyID = familyID, sc_AuthDomain = (if domain = [] then AuthDomainLocal else domain),
        sc_DisplayName = displayName, sc_CredentialVersion = u_CredentialVersion user,
        sc_IssuedAt = io_now io, sc_NotBefore = io_now io, sc_ExpiresAt = io_now io + SessionAccessLifetime\<rparr>"

definition familyScopedRefreshToken :: "string \<Rightarrow> string \<Rightarrow> string" where
  "familyScopedRefreshToken familyID opaqueRaw = familyID @ CHR ''.'' # opaqueRaw"

definition parseFamilyScopedRefreshToken :: "string \<Rightarrow> (string \<times> string) result" where
  "parseFamilyScopedRefreshToken token = (case Cut token (CHR ''.'') of (familyID, opaqueRaw, ok) \<Rightarrow>
     if \<not> ok \<or> familyID = [] \<or> opaqueRaw = [] then Inl ErrInvalidRefreshToken else Inr (familyID, opaqueRaw))"

text \<open>The loop that picks the family used longest ago, starting from the first.\<close>

definition oldestFamily :: "SessionFamily \<Rightarrow> SessionFamily list \<Rightarrow> SessionFamily" where
  "oldestFamily first active = fold (\<lambda>f oldest. if f_LastUsedAt f < f_LastUsedAt oldest then f else oldest) active first"

definition enforceFamilyLimit :: "io \<Rightarrow> string \<Rightarrow> db \<Rightarrow> db result" where
  "enforceFamilyLimit io userID d = andThen (SessionStore_ListActiveFamiliesForUser io userID d) (\<lambda>active.
     if MaxConcurrentFamilies \<le> length active
     then SessionStore_RevokeFamily io (f_ID (oldestFamily (hd active) active)) ''concurrent session family limit reached'' d
     else Inr d)"

definition newFamily :: "io \<Rightarrow> User \<Rightarrow> string \<Rightarrow> string \<Rightarrow> SessionFamily" where
  "newFamily io user domain displayName =
    \<lparr>f_ID = io_newID io, f_UserID = u_ID user, f_AuthDomain = domain,
     f_DisplayName = (if displayName = [] then u_DisplayName user else displayName),
     f_CreatedAt = io_now io, f_LastUsedAt = io_now io, f_AbsoluteExpiresAt = io_now io + RefreshAbsoluteLifetime,
     f_RevokedAt = None, f_RevokedReason = []\<rparr>"

definition createSessionFamily ::
    "ext \<Rightarrow> SessionService \<Rightarrow> io \<Rightarrow> User \<Rightarrow> string \<Rightarrow> string \<Rightarrow> db \<Rightarrow> db \<times> LoginResult result" where
  "createSessionFamily x s io user domain displayName d =
    (let family = newFamily io user domain displayName
     in guarded (GenerateOpaqueCredential io) (\<lambda>(refreshRaw, refreshSecret).
          let refresh = \<lparr>rc_FamilyID = f_ID family,
                rc_CurrentDigest = DigestOpaqueCredential x refreshSecret (k_RefreshPepper (ss_keys s)),
                rc_PreviousDigest = None, rc_Version = 1, rc_ExpiresAt = io_now io + RefreshIdleLifetime,
                rc_RotatedAt = io_now io\<rparr>
          in WithTx io (\<lambda>d. andThen (enforceFamilyLimit io (u_ID user) d) (\<lambda>d1.
               andThen (SessionStore_CreateFamily io family refresh d1) (\<lambda>d2.
               Inr (\<lparr>lr_AccessToken = issueAccessToken x s io user (f_ID family) domain (f_DisplayName family),
                     lr_RefreshToken = familyScopedRefreshToken (f_ID family) refreshRaw,
                     lr_FamilyID = f_ID family,
                     lr_AccessExpiresAt = io_now io + SessionAccessLifetime\<rparr>, d2))))) d)"

section \<open>Login\<close>

definition requestActor :: "string \<Rightarrow> string \<Rightarrow> string \<Rightarrow> string \<Rightarrow> string \<Rightarrow> Actor" where
  "requestActor userID actorType authMethod requestID sourceAddr =
    \<lparr>ac_UserID = userID, ac_Type = actorType, ac_AuthMethod = authMethod, ac_CredentialID = [],
     ac_RequestID = requestID, ac_SourceAddr = sourceAddr\<rparr>"

text \<open>How long the failing request sleeps, from the failure count.\<close>

definition progressiveDelay :: "int \<Rightarrow> duration" where
  "progressiveDelay failureCount =
    (if progressiveDelayAt \<le> failureCount
     then let delay = (failureCount - progressiveDelayAt + 1) * progressiveDelayStep
          in if progressiveDelayMax < delay then progressiveDelayMax else delay
     else 0)"

definition recordLoginFailure ::
    "ext \<Rightarrow> io \<Rightarrow> string \<Rightarrow> string \<Rightarrow> string \<Rightarrow> string \<Rightarrow> db \<Rightarrow> db \<times> duration result" where
  "recordLoginFailure x io domain normalizedUsername sourceAddr requestID d =
     thenTx (WithTx io (ThrottleStore_RecordFailure io normalizedUsername (io_now io)
               failureWindowReset lockDuration lockThreshold) d) (\<lambda>state d1.
     thenTx (Record_alone x (requestActor [] ''anonymous'' ''password'' requestID sourceAddr)
               \<lparr>ev_Action = ''auth.login'', ev_TargetType = ''user'', ev_TargetID = normalizedUsername,
                ev_Outcome = ''failure'', ev_ReasonCode = ''invalid_credentials'', ev_Severity = [],
                ev_Details = Some [(''domain'', JStr domain)]\<rparr> io d1) (\<lambda>_ d2.
     (d2, Inr (progressiveDelay (th_FailureCount state)))))"

text \<open>The password check of an active user; any error on the way counts as a wrong password.\<close>

definition passwordMatches :: "ext \<Rightarrow> io \<Rightarrow> User \<Rightarrow> string \<Rightarrow> db \<Rightarrow> bool" where
  "passwordMatches x io user password d =
    (case UserStore_GetPasswordCredential io (u_ID user) d of
       Inl e \<Rightarrow> False
     | Inr cred \<Rightarrow> (case DecodeParams x (pc_Params cred) of
                     Inl e \<Rightarrow> False
                   | Inr params \<Rightarrow> VerifyPassword x password (pc_Salt cred) (pc_Hash cred) params))"

definition loginSucceeds ::
    "ext \<Rightarrow> SessionService \<Rightarrow> io \<Rightarrow> string \<Rightarrow> string \<Rightarrow> User \<Rightarrow> string \<Rightarrow> db \<Rightarrow> db \<times> LoginResult result" where
  "loginSucceeds x s io sourceAddr requestID user normalized d =
     thenTx (autoCommit (ThrottleStore_Reset io normalized) d) (\<lambda>_ d1.
     thenTx (createSessionFamily x s io user AuthDomainLocal (u_DisplayName user) d1) (\<lambda>r d2.
     thenTx (Record_alone x (requestActor (u_ID user) ''user'' ''password'' requestID sourceAddr)
               (successEvent ''auth.login'' ''user'' (u_ID user) (Some [(''domain'', JStr AuthDomainLocal)])) io d2) (\<lambda>_ d3.
     (d3, Inr r))))"

definition loginFails ::
    "ext \<Rightarrow> io \<Rightarrow> string \<Rightarrow> string \<Rightarrow> string \<Rightarrow> db \<Rightarrow> db \<times> LoginResult result" where
  "loginFails x io sourceAddr requestID normalized d =
     thenTx (recordLoginFailure x io AuthDomainLocal normalized sourceAddr requestID d) (\<lambda>_ d1. (d1, Inl ErrInvalidCredentials))"

definition loginLocalPassword ::
    "ext \<Rightarrow> SessionService \<Rightarrow> io \<Rightarrow> string \<Rightarrow> string \<Rightarrow> string \<Rightarrow> string \<Rightarrow> db \<Rightarrow> db \<times> LoginResult result" where
  "loginLocalPassword x s io sourceAddr requestID username password d =
    (case NormalizeUsername x username of
       Inl e \<Rightarrow> (d, Inl ErrInvalidCredentials)
     | Inr normalized \<Rightarrow> guarded (ThrottleStore_Get io normalized d) (\<lambda>throttleState d.
         if \<not> IsZero (th_LockedUntil throttleState) \<and> io_now io < th_LockedUntil throttleState
         then (d, Inl ErrAccountLocked)
         else (case UserStore_GetByUsername io normalized d of
                 Inl e \<Rightarrow> if e \<noteq> ErrNotFound then (d, Inl e) else loginFails x io sourceAddr requestID normalized d
               | Inr user \<Rightarrow>
                   if u_State user \<noteq> UserStateActive \<or> \<not> passwordMatches x io user password d
                   then loginFails x io sourceAddr requestID normalized d
                   else loginSucceeds x s io sourceAddr requestID user normalized d)) d)"

definition Login ::
    "ext \<Rightarrow> SessionService \<Rightarrow> io \<Rightarrow> string \<Rightarrow> string \<Rightarrow> string \<Rightarrow> string \<Rightarrow> string \<Rightarrow> db \<Rightarrow> db \<times> LoginResult result" where
  "Login x s io sourceAddr requestID domain username password d =
    (case NormalizeAuthDomain x domain of
       Inl e \<Rightarrow> (d, Inl e)
     | Inr normalizedDomain \<Rightarrow>
         if normalizedDomain = AuthDomainLocal then loginLocalPassword x s io sourceAddr requestID username password d
         else (d, Inl ErrUnsupportedAuthDomain))"

definition Guest_session ::
    "ext \<Rightarrow> SessionService \<Rightarrow> io \<Rightarrow> string \<Rightarrow> string \<Rightarrow> string \<Rightarrow> db \<Rightarrow> db \<times> LoginResult result" where
  "Guest_session x s io sourceAddr requestID name d =
    (case UserStore_GetByUsername io GuestUsername d of
       Inl e \<Rightarrow> (d, Inl ErrGuestUnavailable)
     | Inr user \<Rightarrow>
         if u_State user \<noteq> UserStateActive then (d, Inl ErrGuestUnavailable)
         else thenTx (createSessionFamily x s io user AuthDomainLocal name d) (\<lambda>r d1.
              thenTx (Record_alone x (requestActor (u_ID user) ''anonymous'' ''guest'' requestID sourceAddr)
                        (successEvent ''auth.guest'' ''user'' (u_ID user) (Some [(''name'', JStr name)])) io d1) (\<lambda>_ d2.
              (d2, Inr r))))"

section \<open>Refresh, logout, validation\<close>

text \<open>The reads and checks of Refresh up to the credential itself.\<close>

definition refreshTarget :: "io \<Rightarrow> string \<Rightarrow> db \<Rightarrow> (SessionFamily \<times> RefreshCredential \<times> bytes) result" where
  "refreshTarget io refreshToken d =
     andThen (parseFamilyScopedRefreshToken refreshToken) (\<lambda>(familyID, opaqueRaw).
     case DecodeOpaqueCredential opaqueRaw of Inl e \<Rightarrow> Inl ErrInvalidRefreshToken | Inr secret \<Rightarrow>
     (case SessionStore_GetFamily io familyID d of
        Inl e \<Rightarrow> Inl (if e = ErrNotFound then ErrInvalidRefreshToken else e)
      | Inr family \<Rightarrow>
          if f_RevokedAt family \<noteq> None \<or> f_AbsoluteExpiresAt family < io_now io then Inl ErrInvalidRefreshToken
          else andThen (SessionStore_GetRefresh io familyID d) (\<lambda>current.
            if rc_ExpiresAt current < io_now io then Inl ErrInvalidRefreshToken
            else Inr (family, current, secret))))"

definition replayed :: "ext \<Rightarrow> SessionService \<Rightarrow> RefreshCredential \<Rightarrow> bytes \<Rightarrow> bool" where
  "replayed x s current secret = (case rc_PreviousDigest current of
     None \<Rightarrow> False | Some digest \<Rightarrow> VerifyOpaqueCredential x secret (k_RefreshPepper (ss_keys s)) digest)"

definition revokeReplayed :: "ext \<Rightarrow> io \<Rightarrow> string \<Rightarrow> string \<Rightarrow> SessionFamily \<Rightarrow> db \<Rightarrow> db \<times> unit result" where
  "revokeReplayed x io sourceAddr requestID family =
     WithTx io (unitTx (\<lambda>d. andThen (SessionStore_RevokeFamily io (f_ID family) ''refresh token reuse detected'' d) (\<lambda>d1.
       Recorder_Record x io (requestActor (f_UserID family) ''user'' ''refresh_token'' requestID sourceAddr)
         \<lparr>ev_Action = ''auth.refresh_reuse_detected'', ev_TargetType = ''session_family'', ev_TargetID = f_ID family,
          ev_Outcome = ''denied'', ev_ReasonCode = [], ev_Severity = ''high'', ev_Details = None\<rparr> d1)))"

definition rotateFamily ::
    "ext \<Rightarrow> SessionService \<Rightarrow> io \<Rightarrow> string \<Rightarrow> string \<Rightarrow> User \<Rightarrow> SessionFamily \<Rightarrow> string \<Rightarrow> bytes \<Rightarrow> db \<Rightarrow> db \<times> LoginResult result" where
  "rotateFamily x s io sourceAddr requestID user family newRaw newSecret =
     WithTx io (\<lambda>d. andThen (SessionStore_RotateRefresh io (f_ID family)
         (DigestOpaqueCredential x newSecret (k_RefreshPepper (ss_keys s))) (io_now io + RefreshIdleLifetime) d) (\<lambda>d1.
       andThen (SessionStore_TouchFamily io (f_ID family) (io_now io) d1) (\<lambda>d2.
       andThen (Recorder_Record x io (requestActor (u_ID user) ''user'' ''refresh_token'' requestID sourceAddr)
           (successEvent ''auth.refresh'' ''session_family'' (f_ID family) (Some [(''domain'', JStr (f_AuthDomain family))])) d2) (\<lambda>d3.
       Inr (\<lparr>lr_AccessToken = issueAccessToken x s io user (f_ID family) (f_AuthDomain family) (f_DisplayName family),
             lr_RefreshToken = familyScopedRefreshToken (f_ID family) newRaw, lr_FamilyID = f_ID family,
             lr_AccessExpiresAt = io_now io + SessionAccessLifetime\<rparr>, d3)))))"

definition Refresh :: "ext \<Rightarrow> SessionService \<Rightarrow> io \<Rightarrow> string \<Rightarrow> string \<Rightarrow> string \<Rightarrow> db \<Rightarrow> db \<times> LoginResult result" where
  "Refresh x s io sourceAddr requestID refreshToken d =
     guarded (refreshTarget io refreshToken d) (\<lambda>(family, current, secret) d.
       if replayed x s current secret
       then thenTx (revokeReplayed x io sourceAddr requestID family d) (\<lambda>_ d1. (d1, Inl ErrInvalidRefreshToken))
       else if \<not> VerifyOpaqueCredential x secret (k_RefreshPepper (ss_keys s)) (rc_CurrentDigest current)
       then (d, Inl ErrInvalidRefreshToken)
       else guarded (UserStore_Get io (f_UserID family) d) (\<lambda>user d.
         if u_State user \<noteq> UserStateActive then (d, Inl ErrInvalidRefreshToken)
         else guarded (GenerateOpaqueCredential io) (\<lambda>(newRaw, newSecret).
           rotateFamily x s io sourceAddr requestID user family newRaw newSecret) d) d) d"

definition Logout :: "ext \<Rightarrow> Actor \<Rightarrow> string \<Rightarrow> io \<Rightarrow> db \<Rightarrow> db \<times> unit result" where
  "Logout x actor familyID io =
     WithTx io (unitTx (\<lambda>d. andThen (SessionStore_RevokeFamily io familyID ''logout'' d) (\<lambda>d1.
       Recorder_Record x io actor (successEvent ''auth.logout'' ''session_family'' familyID None) d1)))"

definition ValidateAccessToken :: "ext \<Rightarrow> SessionService \<Rightarrow> io \<Rightarrow> string \<Rightarrow> db \<Rightarrow> (User \<times> SessionClaims) result" where
  "ValidateAccessToken x s io token d =
    (case ValidateSessionJWT x io (k_SessionPublicKey (ss_keys s)) (k_SessionKeyID (ss_keys s)) (ss_issuer s) (ss_audience s) token of
       Inl e \<Rightarrow> Inl ErrInvalidCredentials
     | Inr (claims, kid) \<Rightarrow>
         (case NormalizeAuthDomain x (sc_AuthDomain claims) of
            Inl e \<Rightarrow> Inl ErrInvalidCredentials
          | Inr domain \<Rightarrow>
              (case UserStore_Get io (sc_Subject claims) d of
                 Inl e \<Rightarrow> Inl (if e = ErrNotFound then ErrInvalidCredentials else e)
               | Inr user \<Rightarrow>
                   if u_State user \<noteq> UserStateActive \<or> u_CredentialVersion user \<noteq> sc_CredentialVersion claims
                   then Inl ErrInvalidCredentials
                   else Inr (user, claims\<lparr>sc_AuthDomain := domain\<rparr>))))"

section \<open>Families and their refresh credentials\<close>

definition familyRow :: "db \<Rightarrow> string \<Rightarrow> SessionFamily option" where
  "familyRow d fid = selectFirst (\<lambda>f. f_ID f = fid) (db_families d)"

definition refreshRow :: "db \<Rightarrow> string \<Rightarrow> RefreshCredential option" where
  "refreshRow d fid = selectFirst (\<lambda>r. rc_FamilyID r = fid) (db_refresh d)"

definition domainDefault :: "SessionFamily \<Rightarrow> SessionFamily" where
  "domainDefault f = (if f_AuthDomain f = [] then f\<lparr>f_AuthDomain := ''local''\<rparr> else f)"

lemma domainDefault_simps [simp]:
  "f_ID (domainDefault f) = f_ID f" "f_UserID (domainDefault f) = f_UserID f" "f_RevokedAt (domainDefault f) = f_RevokedAt f"
  "f_AbsoluteExpiresAt (domainDefault f) = f_AbsoluteExpiresAt f" "f_DisplayName (domainDefault f) = f_DisplayName f"
  by (simp_all add: domainDefault_def)

lemma SessionStore_GetFamily_Inr:
  "SessionStore_GetFamily io fid d = Inr f \<longleftrightarrow> \<not> io_fault io ''SessionStore.GetFamily''
     \<and> (\<exists>f0. familyRow d fid = Some f0 \<and> f = domainDefault f0)"
  by (auto simp: SessionStore_GetFamily_def familyRow_def domainDefault_def andThen_Inr_iff split: option.splits)

lemma SessionStore_GetRefresh_Inr:
  "SessionStore_GetRefresh io fid d = Inr r \<longleftrightarrow> \<not> io_fault io ''SessionStore.GetRefresh'' \<and> refreshRow d fid = Some r"
  by (auto simp: SessionStore_GetRefresh_def refreshRow_def andThen_Inr_iff split: option.splits)

lemma familyRow_ID: "familyRow d fid = Some f \<Longrightarrow> f_ID f = fid"
  by (auto simp: familyRow_def dest: selectFirst_SomeD)

text \<open>
  A refresh token the service can act on: it names a live family and its unexpired
  credential, and carries the decoded secret.
\<close>

definition liveTarget :: "io \<Rightarrow> string \<Rightarrow> db \<Rightarrow> SessionFamily \<Rightarrow> RefreshCredential \<Rightarrow> bytes \<Rightarrow> bool" where
  "liveTarget io token d family current secret \<longleftrightarrow>
     (\<exists>fid raw. token = fid @ CHR ''.'' # raw \<and> CHR ''.'' \<notin> set fid \<and> fid \<noteq> [] \<and> raw \<noteq> [] \<and> DecodeString raw = Some secret
        \<and> (\<exists>f0. familyRow d fid = Some f0 \<and> family = domainDefault f0) \<and> refreshRow d fid = Some current)
   \<and> f_RevokedAt family = None \<and> io_now io \<le> f_AbsoluteExpiresAt family \<and> io_now io \<le> rc_ExpiresAt current"

lemma refreshTarget_Inr:
  "refreshTarget io token d = Inr (family, current, secret) \<longleftrightarrow>
     liveTarget io token d family current secret
     \<and> \<not> io_fault io ''SessionStore.GetFamily'' \<and> \<not> io_fault io ''SessionStore.GetRefresh''"
proof
  assume t: "refreshTarget io token d = Inr (family, current, secret)"
  then obtain fid raw where p: "parseFamilyScopedRefreshToken token = Inr (fid, raw)"
    by (auto simp: refreshTarget_def)
  then have cut: "Cut token (CHR ''.'') = (fid, raw, True)" "fid \<noteq> []" "raw \<noteq> []"
    by (auto simp: parseFamilyScopedRefreshToken_def split: prod.splits if_splits)
  from Cut_TrueD [OF cut(1)] cut(2,3) t p
  show "liveTarget io token d family current secret \<and> \<not> io_fault io ''SessionStore.GetFamily'' \<and> \<not> io_fault io ''SessionStore.GetRefresh''"
    by (auto simp: refreshTarget_def liveTarget_def DecodeOpaqueCredential_def SessionStore_GetFamily_Inr
        SessionStore_GetRefresh_Inr not_less split: sum.splits option.splits if_splits)
      (intro exI [of _ fid] exI [of _ raw], auto)
next
  assume "liveTarget io token d family current secret \<and> \<not> io_fault io ''SessionStore.GetFamily'' \<and> \<not> io_fault io ''SessionStore.GetRefresh''"
  then obtain fid raw f0 where t: "token = fid @ CHR ''.'' # raw" "CHR ''.'' \<notin> set fid" "fid \<noteq> []" "raw \<noteq> []"
    and r: "DecodeString raw = Some secret" "familyRow d fid = Some f0" "family = domainDefault f0" "refreshRow d fid = Some current"
    and ok: "\<not> io_fault io ''SessionStore.GetFamily''" "\<not> io_fault io ''SessionStore.GetRefresh''"
      "f_RevokedAt family = None" "io_now io \<le> f_AbsoluteExpiresAt family" "io_now io \<le> rc_ExpiresAt current"
    by (auto simp: liveTarget_def)
  have "parseFamilyScopedRefreshToken token = Inr (fid, raw)"
    using t by (simp add: parseFamilyScopedRefreshToken_def Cut_append)
  moreover have "SessionStore_GetFamily io fid d = Inr family" "SessionStore_GetRefresh io fid d = Inr current"
    using r ok by (auto simp: SessionStore_GetFamily_Inr SessionStore_GetRefresh_Inr)
  ultimately show "refreshTarget io token d = Inr (family, current, secret)"
    using r(1) ok by (simp add: refreshTarget_def DecodeOpaqueCredential_def)
qed

definition rotated :: "io \<Rightarrow> bytes \<Rightarrow> RefreshCredential \<Rightarrow> RefreshCredential" where
  "rotated io newDigest r = r\<lparr>rc_PreviousDigest := Some (rc_CurrentDigest r), rc_CurrentDigest := newDigest,
     rc_Version := rc_Version r + 1, rc_ExpiresAt := io_now io + RefreshIdleLifetime, rc_RotatedAt := io_now io\<rparr>"

lemma rotateFamily_Inr:
  assumes "rotateFamily x s io sourceAddr requestID user family newRaw newSecret d = (d', Inr r)"
  defines "newDigest \<equiv> DigestOpaqueCredential x newSecret (k_RefreshPepper (ss_keys s))"
  shows "refreshRow d' (f_ID family) = map_option (rotated io newDigest) (refreshRow d (f_ID family))"
    and "familyRow d' (f_ID family) = map_option (\<lambda>f. f\<lparr>f_LastUsedAt := io_now io\<rparr>) (familyRow d (f_ID family))"
    and "db_users d' = db_users d" and "audited x ''auth.refresh'' d d'"
    and "lr_RefreshToken r = f_ID family @ CHR ''.'' # newRaw"
    and "lr_AccessToken r = issueAccessToken x s io user (f_ID family) (f_AuthDomain family) (f_DisplayName family)"
proof -
  obtain d1 d2 e where 1: "SessionStore_RotateRefresh io (f_ID family) newDigest (io_now io + RefreshIdleLifetime) d = Inr d1"
    and 2: "SessionStore_TouchFamily io (f_ID family) (io_now io) d1 = Inr d2"
    and 3: "Recorder_Record x io (requestActor (u_ID user) ''user'' ''refresh_token'' requestID sourceAddr) e d2 = Inr d'"
    and e: "ev_Action e = ''auth.refresh''"
    and r: "lr_RefreshToken r = familyScopedRefreshToken (f_ID family) newRaw"
      "lr_AccessToken r = issueAccessToken x s io user (f_ID family) (f_AuthDomain family) (f_DisplayName family)"
    using assms(1) unfolding newDigest_def by (auto simp: rotateFamily_def dest!: WithTx_Inr)
  have d1: "d1 = d\<lparr>db_refresh := updateWhere (\<lambda>q. rc_FamilyID q = f_ID family) (rotated io newDigest) (db_refresh d)\<rparr>"
    using 1 by (auto simp: SessionStore_RotateRefresh_def Let_def rotated_def [abs_def])
  have d2: "d2 = d1\<lparr>db_families := updateWhere (\<lambda>f. f_ID f = f_ID family) (\<lambda>f. f\<lparr>f_LastUsedAt := io_now io\<rparr>) (db_families d1)\<rparr>"
    using 2 by (auto simp: SessionStore_TouchFamily_def)
  have d': "db_refresh d' = db_refresh d2" "db_families d' = db_families d2" "db_users d' = db_users d2"
    by (subst Recorder_Record_InrD(1) [OF 3], simp)+
  show "refreshRow d' (f_ID family) = map_option (rotated io newDigest) (refreshRow d (f_ID family))"
    by (simp add: refreshRow_def d' d2 d1 selectFirst_updateWhere rotated_def)
      (cases "selectFirst (\<lambda>r. rc_FamilyID r = f_ID family) (db_refresh d)"; auto dest: selectFirst_SomeD)
  show "familyRow d' (f_ID family) = map_option (\<lambda>f. f\<lparr>f_LastUsedAt := io_now io\<rparr>) (familyRow d (f_ID family))"
    by (simp add: familyRow_def d' d2 d1 selectFirst_updateWhere)
      (cases "selectFirst (\<lambda>f. f_ID f = f_ID family) (db_families d)"; auto dest: selectFirst_SomeD)
  show "db_users d' = db_users d" by (simp add: d' d2 d1)
  show "audited x ''auth.refresh'' d d'"
    by (rule audited_body [OF 3 _ e]) (simp add: d2 d1)
  show "lr_RefreshToken r = f_ID family @ CHR ''.'' # newRaw"
    "lr_AccessToken r = issueAccessToken x s io user (f_ID family) (f_AuthDomain family) (f_DisplayName family)"
    using r by (simp_all add: familyScopedRefreshToken_def)
qed

text \<open>What a successful Refresh did.\<close>

lemma Refresh_Inr:
  assumes "Refresh x s io sourceAddr requestID token d = (d', Inr r)"
  obtains family current secret user newRaw newSecret where
    "liveTarget io token d family current secret" and "\<not> replayed x s current secret"
    and "DigestOpaqueCredential x secret (k_RefreshPepper (ss_keys s)) = rc_CurrentDigest current"
    and "UserStore_Get io (f_UserID family) d = Inr user" and "u_State user = UserStateActive"
    and "GenerateOpaqueCredential io = Inr (newRaw, newSecret)"
    and "rotateFamily x s io sourceAddr requestID user family newRaw newSecret d = (d', Inr r)"
proof -
  obtain family current secret where t: "refreshTarget io token d = Inr (family, current, secret)"
    using assms by (auto simp: Refresh_def guarded_Inr)
  show ?thesis
    using assms that [of family current secret]
    by (auto simp: Refresh_def t guarded_Inr refreshTarget_Inr [symmetric] thenTx_Inr VerifyOpaqueCredential_def split: if_splits)
      (metis refreshTarget_Inr t)
qed

section \<open>Refresh: properties\<close>

lemma UserStore_Get_Inr:
  "UserStore_Get io uid d = Inr u \<longleftrightarrow> \<not> io_fault io ''UserStore.Get'' \<and> selectFirst (\<lambda>u. u_ID u = uid) (db_users d) = Some u"
  by (auto simp: UserStore_Get_def andThen_Inr_iff split: option.splits)

text \<open>The token \<open>Refresh\<close> hands out is acceptable to the next \<open>Refresh\<close>, until it expires.\<close>

lemma rotated_target:
  assumes ok: "Refresh x s io sourceAddr requestID token d = (d', Inr r)"
    and t: "liveTarget io token d family current secret"
    and io2: "io_now io2 \<le> f_AbsoluteExpiresAt family" "io_now io2 \<le> io_now io + RefreshIdleLifetime"
  shows "\<exists>f' newDigest. liveTarget io2 token d' f' (rotated io newDigest current) secret
      \<and> f_ID f' = f_ID family \<and> f_UserID f' = f_UserID family
      \<and> DigestOpaqueCredential x secret (k_RefreshPepper (ss_keys s)) = rc_CurrentDigest current"
  using ok
proof (rule Refresh_Inr)
  fix fam cur sec user newRaw newSecret
  assume t2: "liveTarget io token d fam cur sec"
    and dig: "DigestOpaqueCredential x sec (k_RefreshPepper (ss_keys s)) = rc_CurrentDigest cur"
    and rot: "rotateFamily x s io sourceAddr requestID user fam newRaw newSecret d = (d', Inr r)"
  obtain fid raw f0 where tok: "token = fid @ CHR ''.'' # raw" "CHR ''.'' \<notin> set fid" "fid \<noteq> []" "raw \<noteq> []"
    and dec: "DecodeString raw = Some secret" and f0: "familyRow d fid = Some f0" "family = domainDefault f0"
    and cur: "refreshRow d fid = Some current" and rev: "f_RevokedAt family = None"
    using t by (auto simp: liveTarget_def)
  have same: "fam = family" "cur = current" "sec = secret"
    using t2 tok dec f0 cur by (auto simp: liveTarget_def split_at_separator)
  have fid: "f_ID family = fid" using f0 familyRow_ID by auto
  note rows = rotateFamily_Inr(1,2) [OF rot, unfolded same fid f0(1) cur option.map]
  show ?thesis
  proof (intro exI conjI)
    let ?f0 = "f0\<lparr>f_LastUsedAt := io_now io\<rparr>"
    show "liveTarget io2 token d' (domainDefault ?f0)
        (rotated io (DigestOpaqueCredential x newSecret (k_RefreshPepper (ss_keys s))) current) secret"
      unfolding liveTarget_def using tok dec rows rev io2 f0(2)
      by (auto simp: rotated_def)
  qed (use dig same f0 in auto)
qed

lemma SessionStore_RevokeFamily_Inr:
  "SessionStore_RevokeFamily io fid reason d = Inr d' \<longleftrightarrow> \<not> io_fault io ''SessionStore.RevokeFamily''
     \<and> (\<exists>f\<in>set (db_families d). f_ID f = fid \<and> f_RevokedAt f = None)
     \<and> d' = d\<lparr>db_families := updateWhere (\<lambda>f. f_ID f = fid \<and> f_RevokedAt f = None)
           (\<lambda>f. f\<lparr>f_RevokedAt := Some (io_now io), f_RevokedReason := reason\<rparr>) (db_families d)\<rparr>"
  unfolding SessionStore_RevokeFamily_def Let_def andThen_Inr_iff by (auto simp only: stmt_simps require_simps affected_0_less_iff)

lemma SessionStore_RevokeFamily_row:
  assumes "SessionStore_RevokeFamily io fid reason d = Inr d'"
  shows "\<forall>f\<in>set (db_families d'). f_ID f = fid \<longrightarrow> f_RevokedAt f \<noteq> None"
proof
  fix f assume "f \<in> set (db_families d')"
  moreover have "db_families d' = updateWhere (\<lambda>f. f_ID f = fid \<and> f_RevokedAt f = None)
      (\<lambda>f. f\<lparr>f_RevokedAt := Some (io_now io), f_RevokedReason := reason\<rparr>) (db_families d)"
    using assms [unfolded SessionStore_RevokeFamily_Inr] by simp
  ultimately obtain g where "f = (if f_ID g = fid \<and> f_RevokedAt g = None
      then g\<lparr>f_RevokedAt := Some (io_now io), f_RevokedReason := reason\<rparr> else g)"
    by (simp only: set_updateWhere) blast
  then show "f_ID f = fid \<longrightarrow> f_RevokedAt f \<noteq> None" by (cases "f_ID g = fid \<and> f_RevokedAt g = None") auto
qed

lemma liveTarget_not_revoked:
  assumes "liveTarget io token d family current secret"
  shows "\<exists>f\<in>set (db_families d). f_ID f = f_ID family \<and> f_RevokedAt f = None"
proof -
  obtain fid f0 where "familyRow d fid = Some f0" "family = domainDefault f0" "f_RevokedAt family = None"
    using assms by (auto simp: liveTarget_def)
  then show ?thesis by (intro bexI [of _ f0]) (auto simp: familyRow_def dest: selectFirst_SomeD)
qed

text \<open>No token of a revoked family is ever refreshed, and trying leaves no trace.\<close>

lemma Refresh_revoked_family:
  assumes revoked: "\<forall>f\<in>set (db_families d). f_ID f = fid \<longrightarrow> f_RevokedAt f \<noteq> None"
    and token: "parseFamilyScopedRefreshToken token = Inr (fid, raw)"
  shows "fst (Refresh x s io sourceAddr requestID token d) = d \<and> (\<exists>e. snd (Refresh x s io sourceAddr requestID token d) = Inl e)"
proof (cases "refreshTarget io token d")
  case (Inr tgt)
  obtain family current secret where t: "liveTarget io token d family current secret"
    using Inr by (cases tgt) (auto simp: refreshTarget_Inr)
  moreover have "f_ID family = fid"
  proof -
    have "Cut token (CHR ''.'') = (fid, raw, True)"
      using token by (auto simp: parseFamilyScopedRefreshToken_def split: prod.splits if_splits)
    then show ?thesis
      using t by (auto simp: liveTarget_def Cut_append dest: familyRow_ID)
  qed
  ultimately show ?thesis using liveTarget_not_revoked revoked by fastforce
qed (simp add: Refresh_def guarded_def)

lemma AuditStore_Append_total:
  assumes "audit_ok x d" and "ae_ID e \<notin> ar_ID ` set (db_audit d)" and "\<not> io_fault io ''AuditStore.Append''"
  shows "\<exists>d'. AuditStore_Append x io e d = Inr d'"
proof -
  have "fst (lastAudit d) + 1 \<notin> ar_Sequence ` set (db_audit d)"
    using assms(1) consecutive_bounds [of "firstSequence (db_audit d)" "map ar_Sequence (db_audit d)" "fst (lastAudit d) + 1"]
    by (auto simp: lastAudit_ok [OF assms(1)] audit_ok_def split: if_splits)
  then show ?thesis
    using assms(2,3) unfolding AuditStore_Append_def Let_def by (simp add: stmt_def case_prod_beta)
qed

lemma Recorder_Record_total:
  assumes "audit_ok x d" and "io_eventID io \<notin> ar_ID ` set (db_audit d)" and "\<not> io_fault io ''AuditStore.Append''"
  shows "\<exists>d'. Recorder_Record x io actor e d = Inr d'"
  using AuditStore_Append_total [OF assms(1) _ assms(3)] assms(2) by (simp add: Recorder_Record_def recordedEvent_def)

text \<open>
  A successful refresh had the family's current, unexpired credential of an active user
  and a live family, and rotated it: the presented credential becomes the remembered
  previous one, the new one expires after the idle lifetime, the version grows by one, and
  one event is recorded. The absolute expiry of the family does not move.
\<close>

theorem Refresh_rotates:
  assumes "Refresh x s io sourceAddr requestID token d = (d', Inr r)"
  shows "\<exists>fid raw secret f c c'.
      token = fid @ CHR ''.'' # raw \<and> DecodeString raw = Some secret
    \<and> familyRow d fid = Some f \<and> f_RevokedAt f = None \<and> io_now io \<le> f_AbsoluteExpiresAt f
    \<and> refreshRow d fid = Some c \<and> io_now io \<le> rc_ExpiresAt c
    \<and> rc_CurrentDigest c = x_hmac x (k_RefreshPepper (ss_keys s)) secret
    \<and> refreshRow d' fid = Some c' \<and> rc_PreviousDigest c' = Some (rc_CurrentDigest c)
    \<and> rc_Version c' = rc_Version c + 1 \<and> rc_ExpiresAt c' = io_now io + 12 * Hour
    \<and> familyRow d' fid = Some (f\<lparr>f_LastUsedAt := io_now io\<rparr>)
    \<and> (\<exists>u\<in>set (db_users d). u_ID u = f_UserID f \<and> u_State u = UserStateActive)
    \<and> audited x ''auth.refresh'' d d'"
  using assms
proof (rule Refresh_Inr)
  fix family current secret user newRaw newSecret
  assume t: "liveTarget io token d family current secret"
    and dig: "DigestOpaqueCredential x secret (k_RefreshPepper (ss_keys s)) = rc_CurrentDigest current"
    and u: "UserStore_Get io (f_UserID family) d = Inr user" "u_State user = UserStateActive"
    and rot: "rotateFamily x s io sourceAddr requestID user family newRaw newSecret d = (d', Inr r)"
  obtain fid raw f0 where tok: "token = fid @ CHR ''.'' # raw" "DecodeString raw = Some secret"
    and f0: "familyRow d fid = Some f0" "family = domainDefault f0" and cur: "refreshRow d fid = Some current"
    and live: "f_RevokedAt f0 = None" "io_now io \<le> f_AbsoluteExpiresAt f0" "io_now io \<le> rc_ExpiresAt current"
    using t by (auto simp: liveTarget_def)
  have fid: "f_ID family = fid" using f0 familyRow_ID by auto
  note rows = rotateFamily_Inr(1,2) [OF rot, unfolded fid f0(1) cur option.map]
  have "\<exists>u\<in>set (db_users d). u_ID u = f_UserID f0 \<and> u_State u = UserStateActive"
    using u f0(2) by (auto simp: UserStore_Get_Inr dest: selectFirst_SomeD)
  with tok f0(1) cur live dig rows rotateFamily_Inr(4) [OF rot] show ?thesis
    by (rule_tac exI [of _ fid], rule_tac exI [of _ raw], rule_tac exI [of _ secret], rule_tac exI [of _ f0],
        rule_tac exI [of _ current]) (simp add: rotated_def RefreshIdleLifetime_def DigestOpaqueCredential_def)
qed


section \<open>A session to evaluate\<close>

definition sampleService :: SessionService where
  "sampleService = \<lparr>ss_keys = \<lparr>k_SessionPrivateKey = ''sk'', k_SessionPublicKey = ''sk'', k_SessionKeyID = ''k1'',
      k_RegistryPrivateKey = ''rk'', k_RegistryPublicKey = ''rk'', k_RegistryKeyID = ''r1'',
      k_APITokenPepper = ''ap'', k_RefreshPepper = ''rp'', k_CursorHMACKey = ''ck''\<rparr>,
     ss_issuer = ''iss'', ss_audience = ''aud''\<rparr>"

definition sampleFamily :: "string \<Rightarrow> SessionFamily" where
  "sampleFamily fid = \<lparr>f_ID = fid, f_UserID = ''u1'', f_AuthDomain = ''local'', f_DisplayName = ''Alice'',
     f_CreatedAt = 1767225500000000000, f_LastUsedAt = 1767225500000000000,
     f_AbsoluteExpiresAt = 1767225500000000000 + RefreshAbsoluteLifetime, f_RevokedAt = None, f_RevokedReason = []\<rparr>"

definition sampleRefresh :: "string \<Rightarrow> RefreshCredential" where
  "sampleRefresh fid = \<lparr>rc_FamilyID = fid, rc_CurrentDigest = ''rpABC'', rc_PreviousDigest = None, rc_Version = 1,
     rc_ExpiresAt = 1767225500000000000 + RefreshIdleLifetime, rc_RotatedAt = 1767225500000000000\<rparr>"

definition sessionDb :: db where
  "sessionDb = sampleDb\<lparr>db_families := [sampleFamily ''f1''], db_refresh := [sampleRefresh ''f1'']\<rparr>"

text \<open>The refresh token of the sample family: its id and the encoded secret ABC.\<close>

definition sampleRefreshToken :: string where "sampleRefreshToken = ''f1.QUJD''"

definition afterRefresh :: db where
  "afterRefresh = fst (Refresh sampleExt sampleService sampleIO ''10.0.0.1'' ''req'' sampleRefreshToken sessionDb)"

lemma sampleRefresh_ok:
  "\<exists>r. Refresh sampleExt sampleService sampleIO ''10.0.0.1'' ''req'' sampleRefreshToken sessionDb = (afterRefresh, Inr r)"
proof -
  have "\<not> isl (snd (Refresh sampleExt sampleService sampleIO ''10.0.0.1'' ''req'' sampleRefreshToken sessionDb))"
    by code_simp
  then show ?thesis
    unfolding afterRefresh_def
    by (cases "Refresh sampleExt sampleService sampleIO ''10.0.0.1'' ''req'' sampleRefreshToken sessionDb";
        cases "snd (Refresh sampleExt sampleService sampleIO ''10.0.0.1'' ''req'' sampleRefreshToken sessionDb)") auto
qed

theorem Refresh_rotates_witness:
  "\<exists>c'. refreshRow afterRefresh ''f1'' = Some c' \<and> rc_PreviousDigest c' = Some ''rpABC''"
proof -
  obtain r where "Refresh sampleExt sampleService sampleIO ''10.0.0.1'' ''req'' sampleRefreshToken sessionDb = (afterRefresh, Inr r)"
    using sampleRefresh_ok by blast
  from Refresh_rotates [OF this] obtain fid raw c c' where
    t: "sampleRefreshToken = fid @ CHR ''.'' # raw" "refreshRow sessionDb fid = Some c" "refreshRow afterRefresh fid = Some c'"
    "rc_PreviousDigest c' = Some (rc_CurrentDigest c)" by blast
  have rows: "rc_FamilyID c = fid" "c \<in> set (db_refresh sessionDb)"
    using t(2) by (auto simp: refreshRow_def dest: selectFirst_SomeD)
  then have "fid = ''f1''" "rc_CurrentDigest c = ''rpABC''" by (auto simp: sessionDb_def sampleRefresh_def)
  then show ?thesis using t(3,4) by auto
qed

definition sampleIO2 :: io where
  "sampleIO2 = sampleIO\<lparr>io_now := 1767225600000000000 + Minute, io_eventID := ''0196-ev''\<rparr>"


end
