(* ===== verification/SessionLimits.thy ===== *)
theory SessionLimits
  imports Sessions
begin

text \<open>
  Bounds on interactive sessions: at most five live families per user, the lockout after
  twenty failures within an hour, the uniform failure of a login, and what a successful
  login hands out.
\<close>

section \<open>The family limit\<close>

definition activeFamilies :: "string \<Rightarrow> db \<Rightarrow> SessionFamily list" where
  "activeFamilies uid d = filter (\<lambda>f. f_UserID f = uid \<and> f_RevokedAt f = None) (db_families d)"

lemma SessionStore_ListActive_Inr:
  "SessionStore_ListActiveFamiliesForUser io uid d = Inr fs \<Longrightarrow>
     set fs = set (activeFamilies uid d) \<and> length fs = length (activeFamilies uid d)"
  by (auto simp: SessionStore_ListActiveFamiliesForUser_def activeFamilies_def)

lemma oldestFamily_fold:
  "fold (\<lambda>f oldest. if f_LastUsedAt f < f_LastUsedAt oldest then f else oldest) fs a \<in> insert a (set fs)
   \<and> (\<forall>g\<in>insert a (set fs). f_LastUsedAt (fold (\<lambda>f oldest. if f_LastUsedAt f < f_LastUsedAt oldest then f else oldest) fs a)
        \<le> f_LastUsedAt g)"
proof (induction fs arbitrary: a)
  case (Cons f fs)
  show ?case using Cons.IH [of f] Cons.IH [of a] by (cases "f_LastUsedAt f < f_LastUsedAt a") auto
qed simp

lemma oldestFamily_least:
  assumes "fs \<noteq> []"
  shows "oldestFamily (hd fs) fs \<in> set fs \<and> (\<forall>g\<in>set fs. f_LastUsedAt (oldestFamily (hd fs) fs) \<le> f_LastUsedAt g)"
  using oldestFamily_fold [of fs "hd fs"] assms by (auto simp: oldestFamily_def insert_absorb)

lemma revoke_one_shrinks:
  assumes "distinct (map f_ID fs)" and "g \<in> set fs" and "f_UserID g = uid" and "f_RevokedAt g = None"
  shows "Suc (length (filter (\<lambda>f. f_UserID f = uid \<and> f_RevokedAt f = None)
      (updateWhere (\<lambda>f. f_ID f = f_ID g \<and> f_RevokedAt f = None) (\<lambda>f. f\<lparr>f_RevokedAt := Some t, f_RevokedReason := r\<rparr>) fs)))
    = length (filter (\<lambda>f. f_UserID f = uid \<and> f_RevokedAt f = None) fs)"
proof -
  obtain as bs where fs: "fs = as @ g # bs" using assms(2) by (auto simp: in_set_conv_decomp)
  have "f_ID g \<notin> f_ID ` set as" "f_ID g \<notin> f_ID ` set bs" using assms(1) by (simp_all add: fs)
  then have other: "\<forall>f\<in>set as \<union> set bs. f_ID f \<noteq> f_ID g" by (metis Un_iff imageI)
  have same: "updateWhere (\<lambda>f. f_ID f = f_ID g \<and> f_RevokedAt f = None) h xs = xs" if "\<forall>f\<in>set xs. f_ID f \<noteq> f_ID g" for h xs
    using that by (induction xs) (auto simp: updateWhere_def)
  have "updateWhere (\<lambda>f. f_ID f = f_ID g \<and> f_RevokedAt f = None) h fs = as @ h g # bs" for h
    using same [of as h] same [of bs h] other assms(4) by (simp add: fs updateWhere_def)
  then show ?thesis using assms(3,4) by (simp add: fs)
qed

lemma enforceFamilyLimit_bound:
  assumes "schema_ok d" and "enforceFamilyLimit io uid d = Inr d1" and "length (activeFamilies uid d) \<le> 5"
  shows "length (activeFamilies uid d1) \<le> 4"
proof -
  obtain fs where fs: "SessionStore_ListActiveFamiliesForUser io uid d = Inr fs"
    using assms(2) by (auto simp: enforceFamilyLimit_def)
  note act = SessionStore_ListActive_Inr [OF fs]
  show ?thesis
  proof (cases "5 \<le> length fs")
    case False
    then show ?thesis using assms(2) fs act by (simp add: enforceFamilyLimit_def MaxConcurrentFamilies_def)
  next
    case True
    let ?g = "oldestFamily (hd fs) fs"
    have "?g \<in> set fs" using oldestFamily_least [of fs] True by fastforce
    then have g: "?g \<in> set (db_families d)" "f_UserID ?g = uid" "f_RevokedAt ?g = None"
      using act by (auto simp: activeFamilies_def)
    have "SessionStore_RevokeFamily io (f_ID ?g) ''concurrent session family limit reached'' d = Inr d1"
      using assms(2) fs True by (simp add: enforceFamilyLimit_def MaxConcurrentFamilies_def)
    then have "db_families d1 = updateWhere (\<lambda>f. f_ID f = f_ID ?g \<and> f_RevokedAt f = None)
        (\<lambda>f. f\<lparr>f_RevokedAt := Some (io_now io), f_RevokedReason := ''concurrent session family limit reached''\<rparr>) (db_families d)"
      by (simp only: SessionStore_RevokeFamily_Inr) simp
    moreover have "distinct (map f_ID (db_families d))"
      using assms(1) by (simp add: schema_ok_def sessions_ok_def)
    ultimately show ?thesis
      using revoke_one_shrinks [OF _ g, where t = "io_now io" and r = "''concurrent session family limit reached''"] assms(3)
      by (simp add: activeFamilies_def)
  qed
qed

lemma createSessionFamily_Inr:
  assumes "createSessionFamily x s io user domain name d = (d', Inr r)"
  obtains raw secret d1 where "GenerateOpaqueCredential io = Inr (raw, secret)"
    and "enforceFamilyLimit io (u_ID user) d = Inr d1"
    and "SessionStore_CreateFamily io (newFamily io user domain name)
        \<lparr>rc_FamilyID = io_newID io, rc_CurrentDigest = DigestOpaqueCredential x secret (k_RefreshPepper (ss_keys s)),
         rc_PreviousDigest = None, rc_Version = 1, rc_ExpiresAt = io_now io + RefreshIdleLifetime, rc_RotatedAt = io_now io\<rparr> d1 = Inr d'"
    and "lr_AccessToken r = issueAccessToken x s io user (io_newID io) domain (f_DisplayName (newFamily io user domain name))"
    and "lr_RefreshToken r = io_newID io @ CHR ''.'' # raw" and "lr_FamilyID r = io_newID io"
    and "lr_AccessExpiresAt r = io_now io + SessionAccessLifetime"
  using assms that
  by (auto simp: createSessionFamily_def Let_def guarded_Inr familyScopedRefreshToken_def newFamily_def dest!: WithTx_Inr)

lemma SessionStore_CreateFamily_result:
  assumes "SessionStore_CreateFamily io f rc d = Inr d'"
  shows "d' = d\<lparr>db_families := db_families d @ [f\<lparr>f_AuthDomain := (if f_AuthDomain f = [] then ''local'' else f_AuthDomain f),
      f_RevokedAt := None, f_RevokedReason := []\<rparr>], db_refresh := db_refresh d @ [rc\<lparr>rc_PreviousDigest := None\<rparr>]\<rparr>"
    and "f_ID f \<notin> f_ID ` set (db_families d)" and "rc_FamilyID rc \<notin> rc_FamilyID ` set (db_refresh d)"
  using assms unfolding SessionStore_CreateFamily_def Let_def by (simp_all add: andThen_Inr_iff)

text \<open>
  A user never has more than five live session families: creating one when five are
  live first revokes the one used longest ago.
\<close>

theorem at_most_five_families:
  assumes "schema_ok d" and "length (activeFamilies (u_ID user) d) \<le> 5"
  shows "length (activeFamilies (u_ID user) (fst (createSessionFamily x s io user domain name d))) \<le> 5"
proof (cases "createSessionFamily x s io user domain name d")
  case (Pair d' res)
  show ?thesis
  proof (cases res)
    case (Inl e)
    then have "d' = d" using Pair by (auto simp: createSessionFamily_def Let_def guarded_def dest: WithTx_Inl split: sum.splits prod.splits)
    then show ?thesis using Pair assms(2) by simp
  next
    case (Inr r)
    obtain rc d1 where 1: "enforceFamilyLimit io (u_ID user) d = Inr d1"
      and 2: "SessionStore_CreateFamily io (newFamily io user domain name) rc d1 = Inr d'"
      using Pair unfolding Inr by (rule createSessionFamily_Inr) blast
    have "length (activeFamilies (u_ID user) d1) \<le> 4" by (rule enforceFamilyLimit_bound [OF assms(1) 1 assms(2)])
    then show ?thesis using Pair by (simp add: activeFamilies_def SessionStore_CreateFamily_result(1) [OF 2])
  qed
qed

definition fiveFamilies :: db where
  "fiveFamilies = sampleDb\<lparr>db_families := map sampleFamily [''f1'', ''f2'', ''f3'', ''f4'', ''f5'']\<rparr>"

theorem at_most_five_families_witness:
  "length (activeFamilies ''u1'' (fst (createSessionFamily sampleExt sampleService sampleIO sampleUser ''local'' [] fiveFamilies))) \<le> 5"
proof -
  have "schema_ok fiveFamilies" by code_simp
  moreover have "length (activeFamilies (u_ID sampleUser) fiveFamilies) \<le> 5" by code_simp
  ultimately show ?thesis
    using at_most_five_families [of fiveFamilies sampleUser sampleExt sampleService sampleIO "''local''" "[]"]
    by (simp add: sampleUser_def)
qed

section \<open>Throttling\<close>

text \<open>Failures of one username at the given times, one after the other.\<close>

fun recordFailures :: "io \<Rightarrow> string \<Rightarrow> time list \<Rightarrow> db \<Rightarrow> db result" where
  "recordFailures io name [] d = Inr d"
| "recordFailures io name (t # ts) d =
     andThen (ThrottleStore_RecordFailure io name t failureWindowReset lockDuration lockThreshold d) (\<lambda>(s, d').
     recordFailures io name ts d')"

definition throttleOf :: "string \<Rightarrow> db \<Rightarrow> ThrottleState" where
  "throttleOf name d = (case selectFirst (\<lambda>s. th_Username s = name) (db_throttle d) of None \<Rightarrow> noThrottle name | Some s \<Rightarrow> s)"

lemma selectFirst_append_new:
  "selectFirst P xs = None \<Longrightarrow> P x \<Longrightarrow> selectFirst P (xs @ [x]) = Some x"
  by (induction xs) (auto simp: selectFirst_def split: if_splits)

lemma throttleOf_RecordFailure:
  assumes "ThrottleStore_RecordFailure io name t w l n d = Inr (s, d')"
  shows "throttleOf name d' = s" and "s = nextThrottle name t w l n (throttleOf name d)"
proof -
  let ?s = "nextThrottle name t w l n (throttleOf name d)"
  have s: "s = ?s" and d': "d' = (if name \<in> th_Username ` set (db_throttle d)
      then d\<lparr>db_throttle := updateWhere (\<lambda>x. th_Username x = name) (\<lambda>_. ?s) (db_throttle d)\<rparr>
      else d\<lparr>db_throttle := db_throttle d @ [?s]\<rparr>)"
    using assms by (auto simp: ThrottleStore_RecordFailure_def ThrottleStore_Get_def Let_def throttleOf_def)
  show "s = ?s" by (rule s)
  show "throttleOf name d' = s"
  proof (cases "name \<in> th_Username ` set (db_throttle d)")
    case True
    then obtain q where "selectFirst (\<lambda>x. th_Username x = name) (db_throttle d) = Some q"
      by (cases "selectFirst (\<lambda>x. th_Username x = name) (db_throttle d)") (auto simp: selectFirst_None_iff)
    moreover from this have "th_Username q = name" by (auto dest: selectFirst_SomeD)
    ultimately show ?thesis
      using True by (simp add: throttleOf_def d' s selectFirst_updateWhere)
  next
    case False
    then have "selectFirst (\<lambda>x. th_Username x = name) (db_throttle d) = None"
      by (auto simp: selectFirst_None_iff)
    then show ?thesis using False by (simp add: throttleOf_def d' s selectFirst_append_new)
  qed
qed

text \<open>Within one window the count grows by one per failure; the start of the window stays.\<close>

lemma nextThrottle_in_window:
  assumes "\<not> IsZero (th_FirstFailureAt st)" and "0 \<le> t - th_FirstFailureAt st" and "t - th_FirstFailureAt st \<le> Hour"
  shows "th_FirstFailureAt (nextThrottle name t failureWindowReset lockDuration lockThreshold st) = th_FirstFailureAt st
    \<and> th_FailureCount (nextThrottle name t failureWindowReset lockDuration lockThreshold st) = th_FailureCount st + 1
    \<and> (19 \<le> th_FailureCount st \<longrightarrow>
        th_LockedUntil (nextThrottle name t failureWindowReset lockDuration lockThreshold st) = t + 15 * Minute)"
  using assms by (auto simp: nextThrottle_def Let_def timeSub_def failureWindowReset_def lockDuration_def lockThreshold_def
      Hour_def Minute_def Second_def)

lemma recordFailures_in_window:
  assumes "recordFailures io name ts d = Inr d'"
    and "\<not> IsZero (th_FirstFailureAt (throttleOf name d))"
    and "\<forall>t\<in>set ts. 0 \<le> t - th_FirstFailureAt (throttleOf name d) \<and> t - th_FirstFailureAt (throttleOf name d) \<le> Hour"
  shows "th_FirstFailureAt (throttleOf name d') = th_FirstFailureAt (throttleOf name d)
    \<and> th_FailureCount (throttleOf name d') = th_FailureCount (throttleOf name d) + int (length ts)
    \<and> (ts \<noteq> [] \<and> 20 \<le> th_FailureCount (throttleOf name d) + int (length ts) \<longrightarrow>
        th_LockedUntil (throttleOf name d') = last ts + 15 * Minute)"
  using assms
proof (induction ts arbitrary: d)
  case (Cons t ts)
  obtain s d1 where 1: "ThrottleStore_RecordFailure io name t failureWindowReset lockDuration lockThreshold d = Inr (s, d1)"
    and rest: "recordFailures io name ts d1 = Inr d'" using Cons.prems(1) by auto
  note s = throttleOf_RecordFailure [OF 1]
  note w = nextThrottle_in_window [of "throttleOf name d" t name, OF Cons.prems(2)]
  have st: "th_FirstFailureAt (throttleOf name d1) = th_FirstFailureAt (throttleOf name d)"
    "th_FailureCount (throttleOf name d1) = th_FailureCount (throttleOf name d) + 1"
    "19 \<le> th_FailureCount (throttleOf name d) \<Longrightarrow> th_LockedUntil (throttleOf name d1) = t + 15 * Minute"
    using w Cons.prems(3) by (auto simp: s)
  have IH: "th_FirstFailureAt (throttleOf name d') = th_FirstFailureAt (throttleOf name d1)
    \<and> th_FailureCount (throttleOf name d') = th_FailureCount (throttleOf name d1) + int (length ts)
    \<and> (ts \<noteq> [] \<and> 20 \<le> th_FailureCount (throttleOf name d1) + int (length ts) \<longrightarrow>
        th_LockedUntil (throttleOf name d') = last ts + 15 * Minute)"
    by (rule Cons.IH [OF rest]) (use Cons.prems st in auto)
  show ?case
  proof (cases "ts = []")
    case True
    then have "d' = d1" using rest by simp
    then show ?thesis using st True by auto
  qed (use IH st in auto)
qed simp

lemma first_failure:
  assumes "th_FirstFailureAt (throttleOf name d) = zeroTime"
    and "ThrottleStore_RecordFailure io name t failureWindowReset lockDuration lockThreshold d = Inr (s, d')"
  shows "th_FirstFailureAt (throttleOf name d') = t \<and> th_FailureCount (throttleOf name d') = 1"
  unfolding throttleOf_RecordFailure [OF assms(2)]
  using assms(1) by (simp add: nextThrottle_def Let_def IsZero_def lockThreshold_def)

text \<open>
  C10. Lockout: for a username without failures on record, twenty or more failures within an
  hour of the first lock it for fifteen minutes from the last one, whether or not the
  account exists. While it is locked every login under any spelling of the name is
  refused, the right password included, and changes nothing.
\<close>

theorem lockout_after_twenty_failures:
  assumes "throttleOf name d = noThrottle name" and "recordFailures io name (t # ts) d = Inr d'" and "t \<noteq> zeroTime"
    and "\<forall>u\<in>set ts. t \<le> u \<and> u \<le> t + Hour" and "19 \<le> length ts"
    and "NormalizeUsername x username = Inr name" and "\<not> io_fault io2 ''ThrottleStore.Get''"
    and "io_now io2 < last ts + 15 * Minute" and "0 < last ts"
  shows "loginLocalPassword x s io2 sourceAddr requestID username password d' = (d', Inl ErrAccountLocked)"
proof -
  obtain st d1 where 1: "ThrottleStore_RecordFailure io name t failureWindowReset lockDuration lockThreshold d = Inr (st, d1)"
    and rest: "recordFailures io name ts d1 = Inr d'" using assms(2) by auto
  have first: "th_FirstFailureAt (throttleOf name d1) = t" "th_FailureCount (throttleOf name d1) = 1"
    using first_failure [OF _ 1] assms(1) by (simp_all add: noThrottle_def)
  have "th_LockedUntil (throttleOf name d') = last ts + 15 * Minute"
  proof -
    have "ts \<noteq> []" using assms(5) by auto
    moreover have "\<forall>u\<in>set ts. 0 \<le> u - t \<and> u - t \<le> Hour" using assms(4) by (simp add: algebra_simps)
    ultimately show ?thesis
      using recordFailures_in_window [OF rest] assms(3,5) by (simp add: first IsZero_def)
  qed
  moreover have "ThrottleStore_Get io2 name d' = Inr (throttleOf name d')"
    using assms(7) by (simp add: ThrottleStore_Get_def stmt_def throttleOf_def)
  ultimately show ?thesis
    using assms(6,8,9) by (simp add: loginLocalPassword_def guarded_def IsZero_def zeroTime_def Minute_def Second_def)
qed

definition twentyTimes :: "time list" where "twentyTimes = map (\<lambda>i. 1767225600000000000 + i * Second) [1..19]"

definition lockedDb :: db where
  "lockedDb = (case recordFailures sampleIO ''alice'' (1767225600000000000 # twentyTimes) sampleDb of Inr d \<Rightarrow> d | Inl e \<Rightarrow> sampleDb)"

theorem lockout_after_twenty_failures_witness:
  "loginLocalPassword sampleExt sampleService (sampleIO\<lparr>io_now := 1767225660000000000\<rparr>) [] [] ''Alice'' ''correct horse'' lockedDb
     = (lockedDb, Inl ErrAccountLocked)"
proof (rule lockout_after_twenty_failures [where t = 1767225600000000000 and ts = twentyTimes and io = sampleIO and d = sampleDb and name = "''alice''"])
  have "\<not> isl (recordFailures sampleIO ''alice'' (1767225600000000000 # twentyTimes) sampleDb)" by code_simp
  then show "recordFailures sampleIO ''alice'' (1767225600000000000 # twentyTimes) sampleDb = Inr lockedDb"
    by (cases "recordFailures sampleIO ''alice'' (1767225600000000000 # twentyTimes) sampleDb") (auto simp: lockedDb_def)
  show "throttleOf ''alice'' sampleDb = noThrottle ''alice''" by (simp add: throttleOf_def sampleDb_def emptyDb_def selectFirst_def)
  show "NormalizeUsername sampleExt ''Alice'' = Inr ''alice''" by code_simp
  show "\<forall>u\<in>set twentyTimes. 1767225600000000000 \<le> u \<and> u \<le> 1767225600000000000 + Hour"
    by (simp add: twentyTimes_def duration_defs)
  have "last twentyTimes = 1767225619000000000" by code_simp
  then show "io_now (sampleIO\<lparr>io_now := 1767225660000000000\<rparr>) < last twentyTimes + 15 * Minute" "0 < last twentyTimes"
    by (simp_all add: duration_defs)
qed (simp_all add: twentyTimes_def zeroTime_def)

text \<open>
  The delay of a failed login is between 0 and 2 seconds, 0 before the fifth failure,
  and never decreases as failures accumulate.
\<close>

theorem progressiveDelay_bounds:
  "0 \<le> progressiveDelay n \<and> progressiveDelay n \<le> 2 * Second
   \<and> (n < 5 \<longrightarrow> progressiveDelay n = 0) \<and> (n \<le> m \<longrightarrow> progressiveDelay n \<le> progressiveDelay m)"
  by (auto simp: progressiveDelay_def progressiveDelayAt_def Let_def duration_defs)

theorem progressiveDelay_bounds_witness:
  "progressiveDelay 4 = 0 \<and> progressiveDelay 4 \<le> progressiveDelay 30"
  using progressiveDelay_bounds [of 4 30] by simp

section \<open>Login\<close>

lemma loginFails_ok:
  assumes nofault: "\<And>n. \<not> io_fault io n" and ok: "audit_ok x d" "io_eventID io \<notin> ar_ID ` set (db_audit d)"
  shows "\<exists>d'. loginFails x io sourceAddr requestID normalized d = (d', Inl ErrInvalidCredentials)
    \<and> d' = d\<lparr>db_throttle := db_throttle d', db_audit := db_audit d'\<rparr> \<and> audited x ''auth.login'' d d'"
proof -
  obtain st d1 where 1: "ThrottleStore_RecordFailure io normalized (io_now io) failureWindowReset lockDuration lockThreshold d = Inr (st, d1)"
    and d1: "d1 = d\<lparr>db_throttle := db_throttle d1\<rparr>"
    using nofault by (auto simp: ThrottleStore_RecordFailure_def ThrottleStore_Get_def Let_def stmt_def)
  define e where "e = \<lparr>ev_Action = ''auth.login'', ev_TargetType = ''user'', ev_TargetID = normalized,
                ev_Outcome = ''failure'', ev_ReasonCode = ''invalid_credentials'', ev_Severity = [],
                ev_Details = Some [(''domain'', JStr AuthDomainLocal)]\<rparr>"
  let ?actor = "requestActor [] ''anonymous'' ''password'' requestID sourceAddr"
  have same: "db_audit d1 = db_audit d" by (subst d1) simp
  have "audit_ok x d1" using ok(1) same by (simp add: audit_ok_def)
  then obtain d2 where d2: "Recorder_Record x io ?actor e d1 = Inr d2"
    using Recorder_Record_total [of x d1 io ?actor e] ok(2) same nofault by auto
  have rec: "Record_alone x ?actor e io d1 = (d2, Inr ())"
    unfolding Record_alone_def using nofault d2 by (intro WithTx_ok) simp_all
  have "WithTx io (ThrottleStore_RecordFailure io normalized (io_now io) failureWindowReset lockDuration lockThreshold) d = (d1, Inr st)"
    using nofault 1 by (intro WithTx_ok) simp_all
  then have "loginFails x io sourceAddr requestID normalized d = (d2, Inl ErrInvalidCredentials)"
    using rec by (simp add: loginFails_def recordLoginFailure_def e_def)
  moreover have "d2 = d\<lparr>db_throttle := db_throttle d2, db_audit := db_audit d2\<rparr>"
    by (subst (1 2) Recorder_Record_InrD(1) [OF d2], subst (1 2) d1) simp
  moreover have "audited x ''auth.login'' d d2"
    by (rule audited_body [OF d2 same]) (simp add: e_def)
  ultimately show ?thesis by blast
qed

text \<open>
  Every way to fail a login looks the same: an unknown name, a disabled account, a
  missing password credential and a wrong password all give ErrInvalidCredentials, count
  one failure and record one event, and change no other table.
\<close>

theorem login_failure_is_uniform:
  assumes "\<And>n. \<not> io_fault io n" and "audit_ok x d" and "io_eventID io \<notin> ar_ID ` set (db_audit d)"
    and "NormalizeUsername x username = Inr name"
    and "IsZero (th_LockedUntil (throttleOf name d)) \<or> th_LockedUntil (throttleOf name d) \<le> io_now io"
    and "\<forall>u. selectFirst (\<lambda>u. u_Username u = name) (db_users d) = Some u \<longrightarrow>
          u_State u = UserStateDisabled \<or> \<not> passwordMatches x io u password d"
  shows "\<exists>d'. loginLocalPassword x s io sourceAddr requestID username password d = (d', Inl ErrInvalidCredentials)
    \<and> d' = d\<lparr>db_throttle := db_throttle d', db_audit := db_audit d'\<rparr> \<and> audited x ''auth.login'' d d'"
proof -
  have "ThrottleStore_Get io name d = Inr (throttleOf name d)"
    using assms(1) by (simp add: ThrottleStore_Get_def stmt_def throttleOf_def)
  moreover have "\<not> (\<not> IsZero (th_LockedUntil (throttleOf name d)) \<and> io_now io < th_LockedUntil (throttleOf name d))"
    using assms(5) by auto
  ultimately have "loginLocalPassword x s io sourceAddr requestID username password d
      = loginFails x io sourceAddr requestID name d"
    using assms(1,4,6) by (auto simp: loginLocalPassword_def guarded_def UserStore_GetByUsername_def stmt_def split: option.splits)
  then show ?thesis using loginFails_ok [OF assms(1-3)] by simp
qed

theorem login_failure_is_uniform_witness:
  "\<exists>d'. loginLocalPassword sampleExt sampleService sampleIO [] [] ''Alice'' ''wrong password'' sampleDb = (d', Inl ErrInvalidCredentials)"
proof -
  have "\<exists>d'. loginLocalPassword sampleExt sampleService sampleIO [] [] ''Alice'' ''wrong password'' sampleDb = (d', Inl ErrInvalidCredentials)
      \<and> d' = sampleDb\<lparr>db_throttle := db_throttle d', db_audit := db_audit d'\<rparr> \<and> audited sampleExt ''auth.login'' sampleDb d'"
  proof (rule login_failure_is_uniform [where name = "''alice''"])
    show "NormalizeUsername sampleExt ''Alice'' = Inr ''alice''" by code_simp
    show "\<forall>u. selectFirst (\<lambda>u. u_Username u = ''alice'') (db_users sampleDb) = Some u \<longrightarrow>
          u_State u = UserStateDisabled \<or> \<not> passwordMatches sampleExt sampleIO u ''wrong password'' sampleDb"
      by (simp add: passwordMatches_def UserStore_GetPasswordCredential_def sampleDb_def emptyDb_def selectFirst_def stmt_def)
  qed (simp_all add: sampleDb_def emptyDb_def audit_ok_def verifyFrom_def firstSequence_def throttleOf_def selectFirst_def
      noThrottle_def IsZero_def)
  then show ?thesis by blast
qed

lemma selectFirst_None_key: "k \<notin> g ` set xs \<Longrightarrow> selectFirst (\<lambda>x. g x = k) xs = None"
  by (metis (mono_tags, lifting) imageI selectFirst_None_iff)

lemma newFamily_row:
  assumes "SessionStore_CreateFamily io f rc d1 = Inr d'" and "rc_FamilyID rc = f_ID f" and "f_AuthDomain f \<noteq> []"
  shows "familyRow d' (f_ID f) = Some (f\<lparr>f_RevokedAt := None, f_RevokedReason := []\<rparr>)"
    and "refreshRow d' (f_ID f) = Some (rc\<lparr>rc_PreviousDigest := None\<rparr>)"
proof -
  note c = SessionStore_CreateFamily_result [OF assms(1)]
  have "selectFirst (\<lambda>g. f_ID g = f_ID f) (db_families d1) = None" "selectFirst (\<lambda>q. rc_FamilyID q = f_ID f) (db_refresh d1) = None"
    using c(2,3) assms(2) by (simp_all add: selectFirst_None_key)
  then show "familyRow d' (f_ID f) = Some (f\<lparr>f_RevokedAt := None, f_RevokedReason := []\<rparr>)"
    "refreshRow d' (f_ID f) = Some (rc\<lparr>rc_PreviousDigest := None\<rparr>)"
    using assms(2,3) by (simp_all add: familyRow_def refreshRow_def c(1) selectFirst_append_new)
qed

lemma NormalizeAuthDomain_local: "NormalizeAuthDomain x ''local'' = Inr ''local''"
proof -
  have "list_all usernameChar ''local''" by code_simp
  then show ?thesis
    by (simp add: NormalizeAuthDomain_def Let_def usernameChars_fixed SupportedAuthDomains_def AuthDomainLocal_def)
qed

definition issuedClaims :: "SessionService \<Rightarrow> io \<Rightarrow> User \<Rightarrow> string \<Rightarrow> string \<Rightarrow> SessionClaims" where
  "issuedClaims s io user familyID displayName =
    \<lparr>sc_Issuer = ss_issuer s, sc_Audience = ss_audience s, sc_Subject = u_ID user, sc_JTI = io_jti io,
     sc_FamilyID = familyID, sc_AuthDomain = AuthDomainLocal, sc_DisplayName = displayName,
     sc_CredentialVersion = u_CredentialVersion user,
     sc_IssuedAt = io_now io, sc_NotBefore = io_now io, sc_ExpiresAt = io_now io + SessionAccessLifetime\<rparr>"

lemma issued_token_validates:
  assumes "ed25519_ok x" and "k_SessionPublicKey (ss_keys s) = x_public x (k_SessionPrivateKey (ss_keys s))"
    and "decoder_ok x (k_SessionKeyID (ss_keys s)) (issuedClaims s io user fid name)"
    and "\<not> io_fault io ''UserStore.Get''" and "selectFirst (\<lambda>u. u_ID u = u_ID user) (db_users d) = Some user"
    and "u_State user = UserStateActive"
  shows "\<exists>c. ValidateAccessToken x s io (issueAccessToken x s io user fid AuthDomainLocal name) d = Inr (user, c)
    \<and> sc_FamilyID c = fid \<and> sc_Subject c = u_ID user"
proof -
  let ?c = "issuedClaims s io user fid name"
  have tok: "issueAccessToken x s io user fid AuthDomainLocal name
      = IssueSessionJWT x (k_SessionPrivateKey (ss_keys s)) (k_SessionKeyID (ss_keys s)) ?c"
    by (simp add: issueAccessToken_def issuedClaims_def AuthDomainLocal_def)
  have "ValidateSessionJWT x io (k_SessionPublicKey (ss_keys s)) (k_SessionKeyID (ss_keys s)) (ss_issuer s) (ss_audience s)
      (IssueSessionJWT x (k_SessionPrivateKey (ss_keys s)) (k_SessionKeyID (ss_keys s)) ?c)
      = Inr (claimsOf (payloadOf ?c), k_SessionKeyID (ss_keys s))"
    unfolding assms(2)
    by (rule ValidateSessionJWT_issued [OF assms(1,3)])
      (use ofUnix_toUnix [of "io_now io"] ofUnix_toUnix [of "io_now io + SessionAccessLifetime"] in
        \<open>auto simp: issuedClaims_def duration_defs\<close>)
  then show ?thesis
    unfolding tok using assms(4-6)
    by (simp add: ValidateAccessToken_def claimsOf_def payloadOf_def issuedClaims_def AuthDomainLocal_def
        NormalizeAuthDomain_local UserStore_Get_def stmt_def)
qed

lemma enforceFamilyLimit_users: "enforceFamilyLimit io uid d = Inr d1 \<Longrightarrow> db_users d1 = db_users d"
  by (auto simp: enforceFamilyLimit_def SessionStore_RevokeFamily_Inr split: if_splits)

lemma createSessionFamily_facts:
  assumes "createSessionFamily x s io user AuthDomainLocal name d = (d', Inr r)"
  shows "db_users d' = db_users d" and "lr_FamilyID r = io_newID io"
    and "familyRow d' (io_newID io) = Some (newFamily io user AuthDomainLocal name)"
    and "\<exists>raw c. lr_RefreshToken r = io_newID io @ CHR ''.'' # raw \<and> refreshRow d' (io_newID io) = Some c
      \<and> rc_ExpiresAt c = io_now io + RefreshIdleLifetime
      \<and> (\<exists>secret. DecodeString raw = Some secret \<and> rc_CurrentDigest c = DigestOpaqueCredential x secret (k_RefreshPepper (ss_keys s)))"
    and "lr_AccessToken r = issueAccessToken x s io user (io_newID io) AuthDomainLocal (f_DisplayName (newFamily io user AuthDomainLocal name))"
proof -
  obtain raw secret d1 where gen: "GenerateOpaqueCredential io = Inr (raw, secret)"
    and lim: "enforceFamilyLimit io (u_ID user) d = Inr d1"
    and cre: "SessionStore_CreateFamily io (newFamily io user AuthDomainLocal name)
        \<lparr>rc_FamilyID = io_newID io, rc_CurrentDigest = DigestOpaqueCredential x secret (k_RefreshPepper (ss_keys s)),
         rc_PreviousDigest = None, rc_Version = 1, rc_ExpiresAt = io_now io + RefreshIdleLifetime, rc_RotatedAt = io_now io\<rparr> d1 = Inr d'"
    and acc: "lr_AccessToken r = issueAccessToken x s io user (io_newID io) AuthDomainLocal (f_DisplayName (newFamily io user AuthDomainLocal name))"
    and ref: "lr_RefreshToken r = io_newID io @ CHR ''.'' # raw" and fam: "lr_FamilyID r = io_newID io"
    using assms by (rule createSessionFamily_Inr) blast
  have dec: "DecodeString raw = Some secret"
    using gen by (auto simp: GenerateOpaqueCredential_def)
  have id: "f_ID (newFamily io user AuthDomainLocal name) = io_newID io" "f_AuthDomain (newFamily io user AuthDomainLocal name) \<noteq> []"
    by (simp_all add: newFamily_def AuthDomainLocal_def)
  note rows = newFamily_row [OF cre _ id(2), unfolded id(1)]
  show "db_users d' = db_users d"
    using enforceFamilyLimit_users [OF lim] by (simp add: SessionStore_CreateFamily_result(1) [OF cre])
  show "lr_FamilyID r = io_newID io" by (rule fam)
  show "familyRow d' (io_newID io) = Some (newFamily io user AuthDomainLocal name)"
    using rows(1) by (simp add: newFamily_def)
  show "\<exists>raw c. lr_RefreshToken r = io_newID io @ CHR ''.'' # raw \<and> refreshRow d' (io_newID io) = Some c
      \<and> rc_ExpiresAt c = io_now io + RefreshIdleLifetime
      \<and> (\<exists>secret. DecodeString raw = Some secret \<and> rc_CurrentDigest c = DigestOpaqueCredential x secret (k_RefreshPepper (ss_keys s)))"
    using rows(2) ref dec by auto
  show "lr_AccessToken r = issueAccessToken x s io user (io_newID io) AuthDomainLocal (f_DisplayName (newFamily io user AuthDomainLocal name))"
    by (rule acc)
qed

lemma loginLocalPassword_Inr:
  assumes "loginLocalPassword x s io sourceAddr requestID username password d = (d', Inr r)"
  obtains name user d1 d2 where "NormalizeUsername x username = Inr name"
    and "selectFirst (\<lambda>u. u_Username u = name) (db_users d) = Some user" and "u_State user = UserStateActive"
    and "passwordMatches x io user password d" and "db_users d1 = db_users d"
    and "createSessionFamily x s io user AuthDomainLocal (u_DisplayName user) d1 = (d2, Inr r)"
    and "d' = d2\<lparr>db_audit := db_audit d'\<rparr>"
proof -
  obtain name user where n: "NormalizeUsername x username = Inr name"
    and g: "UserStore_GetByUsername io name d = Inr user"
    and ok: "u_State user = UserStateActive" "passwordMatches x io user password d"
    and l: "loginSucceeds x s io sourceAddr requestID user name d = (d', Inr r)"
    using assms by (auto simp: loginLocalPassword_def guarded_Inr loginFails_def thenTx_Inr split: sum.splits if_splits)
  obtain d1 d2 where "autoCommit (ThrottleStore_Reset io name) d = (d1, Inr ())"
    and c: "createSessionFamily x s io user AuthDomainLocal (u_DisplayName user) d1 = (d2, Inr r)"
    and r: "Record_alone x (requestActor (u_ID user) ''user'' ''password'' requestID sourceAddr)
      (successEvent ''auth.login'' ''user'' (u_ID user) (Some [(''domain'', JStr AuthDomainLocal)])) io d2 = (d', Inr ())"
    using l by (auto simp: loginSucceeds_def thenTx_Inr)
  then have "db_users d1 = db_users d"
    by (auto simp: autoCommit_def ThrottleStore_Reset_def split: sum.splits)
  moreover have "d' = d2\<lparr>db_audit := db_audit d'\<rparr>"
    using r by (auto simp: Record_alone_def dest!: WithTx_Inr Recorder_Record_InrD(1))
  moreover have "selectFirst (\<lambda>u. u_Username u = name) (db_users d) = Some user"
    using g by (auto simp: UserStore_GetByUsername_def split: option.splits)
  ultimately show ?thesis using that n ok c by blast
qed


text \<open>The sample user with the password correct horse.\<close>

definition samplePassword :: PasswordCredential where
  "samplePassword = \<lparr>pc_UserID = ''u1'', pc_Algorithm = ''argon2id'', pc_Params = ''{}'', pc_Salt = ''salt-bytes-16byt'',
     pc_Hash = ''correct horsesalt-bytes-16byt'', pc_UpdatedAt = 1767225500000000000\<rparr>"

definition passwordDb :: db where "passwordDb = sampleDb\<lparr>db_passwords := [samplePassword]\<rparr>"

definition loginExt :: ext where
  "loginExt = jwtExt ''k1'' (issuedClaims sampleService sampleIO sampleUser ''0194-id'' ''Alice'')"

definition sampleLogin :: "db \<times> LoginResult result" where
  "sampleLogin = loginLocalPassword loginExt sampleService sampleIO ''10.0.0.1'' ''req'' ''Alice'' ''correct horse'' passwordDb"


text \<open>
  A login is recorded outside the transaction that creates its session: when the audit
  store cannot write, the login reports an error but the session family it created stays
  live in the database.
\<close>

theorem login_audit_failure_leaves_session:
  "let (d', r) = loginLocalPassword sampleExt sampleService (sampleIO\<lparr>io_fault := (\<lambda>n. n = ''AuditStore.Append'')\<rparr>)
                   ''10.0.0.1'' ''req'' ''Alice'' ''correct horse'' passwordDb
   in r = Inl (ErrDriver ''AuditStore.Append'') \<and> db_audit d' = []
      \<and> map f_ID (activeFamilies ''u1'' d') = [''0194-id''] \<and> activeFamilies ''u1'' passwordDb = []"
  by code_simp

definition laterIO :: "int \<Rightarrow> string \<Rightarrow> string \<Rightarrow> io" where
  "laterIO minutes ev secret = sampleIO\<lparr>io_now := 1767225600000000000 + minutes * Minute, io_eventID := ev, io_secretRand := secret\<rparr>"

definition refreshOf :: "io \<Rightarrow> string \<Rightarrow> db \<Rightarrow> db \<times> string" where
  "refreshOf io token d = (case Refresh sampleExt sampleService io [] [] token d of
     (d', Inr r) \<Rightarrow> (d', lr_RefreshToken r) | (d', Inl e) \<Rightarrow> (d', []))"

text \<open>
  Only the credential rotated out last is recognized: after two refreshes, replaying
  the credential of before both is refused without revoking the family and without an
  event, and the family's newest token is still honoured.
\<close>

theorem older_replay_goes_unnoticed:
  "let (d1, t1) = refreshOf (laterIO 1 ''e1'' ''one'') sampleRefreshToken sessionDb;
       (d2, t2) = refreshOf (laterIO 2 ''e2'' ''two'') t1 d1
   in Refresh sampleExt sampleService (laterIO 3 ''e3'' ''three'') [] [] sampleRefreshToken d2 = (d2, Inl ErrInvalidRefreshToken)
      \<and> map f_ID (activeFamilies ''u1'' d2) = [''f1'']
      \<and> snd (refreshOf (laterIO 4 ''e4'' ''four'') t2 d2) \<noteq> []"
  by code_simp

end
