(* ===== verification/Users.thy ===== *)
theory Users
  imports SessionLimits
begin

text \<open>
  Local users (internal/users/service.go) and the one-time initialization
  (internal/bootstrap/bootstrap.go). Every operation but CompletePasswordReset is one
  audited transaction behind its checks and interprets \<open>audited_op\<close>;
  CompletePasswordReset commits the use of its credential first and the new password
  afterwards.

  The locale \<open>revoking_op\<close> is the contract of the operations that cut a user off: the
  credential version grows and no session family and no API token of the user stays live.
  Disable and the three ways to set a password interpret it.
\<close>

section \<open>Create\<close>

definition PasswordResetTTL :: duration where "PasswordResetTTL = 15 * Minute"

text \<open>The checks of Create and the rows it will insert.\<close>

definition passwordRow :: "string \<Rightarrow> bytes \<Rightarrow> bytes \<Rightarrow> time \<Rightarrow> PasswordCredential" where
  "passwordRow userID salt hash updatedAt =
    \<lparr>pc_UserID = userID, pc_Algorithm = PasswordAlgorithmArgon2id, pc_Params = EncodeParams DefaultArgon2idParams,
     pc_Salt = salt, pc_Hash = hash, pc_UpdatedAt = updatedAt\<rparr>"

definition newUser :: "ext \<Rightarrow> io \<Rightarrow> string \<Rightarrow> string \<Rightarrow> string \<Rightarrow> (User \<times> PasswordCredential) result" where
  "newUser x io username displayName password =
     andThen (NormalizeUsername x username) (\<lambda>normalized.
     andThen (ValidatePasswordPolicy password) (\<lambda>_.
     andThen (HashPassword x io password DefaultArgon2idParams) (\<lambda>(salt, hash).
     Inr (\<lparr>u_ID = io_newID io, u_Username = normalized, u_DisplayName = displayName, u_State = UserStateActive,
           u_CredentialVersion = 1, u_CreatedAt = io_now io, u_UpdatedAt = io_now io\<rparr>,
          passwordRow (io_newID io) salt hash (io_now io)))))"

definition insertUser :: "ext \<Rightarrow> Actor \<Rightarrow> io \<Rightarrow> User \<times> PasswordCredential \<Rightarrow> db \<Rightarrow> (User \<times> db) result" where
  "insertUser x actor io p d = (case p of (user, cred) \<Rightarrow>
     andThen (UserStore_Create io user d) (\<lambda>d1.
     andThen (UserStore_SetPassword io cred d1) (\<lambda>d2.
     andThen (Recorder_Record x io actor
         (successEvent ''users.create'' ''user'' (u_ID user) (Some [(''username'', JStr (u_Username user))])) d2) (\<lambda>d3.
     Inr (user, d3)))))"

definition usernameTaken :: "User \<Rightarrow> err \<Rightarrow> err" where
  "usernameTaken user e = (if e = ErrConflict
     then ErrMessage (''username '' @ CHR 0x22 # u_Username user @ CHR 0x22 # '' is already in use'') else e)"

text \<open>Create on its own, and inside the transaction of a caller, which it joins.\<close>

definition mapErr :: "(err \<Rightarrow> err) \<Rightarrow> 'a result \<Rightarrow> 'a result" where
  "mapErr f r = (case r of Inl e \<Rightarrow> Inl (f e) | Inr a \<Rightarrow> Inr a)"

definition Users_Create :: "ext \<Rightarrow> Actor \<Rightarrow> string \<Rightarrow> string \<Rightarrow> string \<Rightarrow> io \<Rightarrow> db \<Rightarrow> db \<times> User result" where
  "Users_Create x actor username displayName password io d =
     guarded (newUser x io username displayName password) (\<lambda>p d.
       apsnd (mapErr (usernameTaken (fst p))) (WithTx io (insertUser x actor io p) d)) d"

definition Users_CreateJoined :: "ext \<Rightarrow> Actor \<Rightarrow> string \<Rightarrow> string \<Rightarrow> string \<Rightarrow> io \<Rightarrow> db \<Rightarrow> (User \<times> db) result" where
  "Users_CreateJoined x actor username displayName password io d =
     andThen (newUser x io username displayName password) (\<lambda>p.
       mapErr (usernameTaken (fst p)) (insertUser x actor io p d))"

definition Users_UpdateDisplayName :: "ext \<Rightarrow> Actor \<Rightarrow> string \<Rightarrow> string \<Rightarrow> io \<Rightarrow> db \<Rightarrow> db \<times> unit result" where
  "Users_UpdateDisplayName x actor uid displayName io =
     WithTx io (unitTx (\<lambda>d. andThen (UserStore_UpdateDisplayName io uid displayName d) (\<lambda>d1.
       Recorder_Record x io actor (successEvent ''users.update'' ''user'' uid None) d1)))"

section \<open>Disable and enable\<close>

definition wouldRemoveLastAdministrator :: "string \<Rightarrow> io \<Rightarrow> db \<Rightarrow> bool result" where
  "wouldRemoveLastAdministrator userID io d =
     andThen (RoleStore_ListUserRoles io userID d) (\<lambda>userRoles.
     if \<not> list_ex (\<lambda>r. r_ID r = AdministratorRoleID) userRoles then Inr False
     else andThen (UserStore_CountEnabledAdministrators io AdministratorRoleID d) (\<lambda>count. Inr (count \<le> 1)))"

definition Users_Disable :: "ext \<Rightarrow> Actor \<Rightarrow> string \<Rightarrow> io \<Rightarrow> db \<Rightarrow> db \<times> unit result" where
  "Users_Disable x actor uid io d =
     guarded (andThen (wouldRemoveLastAdministrator uid io d) (\<lambda>blocked. require (\<not> blocked) ErrLastAdministrator)) (\<lambda>_.
       WithTx io (unitTx (\<lambda>d.
         andThen (UserStore_SetState io uid UserStateDisabled d) (\<lambda>d1.
         andThen (UserStore_BumpCredentialVersion io uid d1) (\<lambda>d2.
         andThen (SessionStore_RevokeAllFamiliesForUser io uid ''user disabled'' d2) (\<lambda>d3.
         andThen (TokenStore_RevokeAllForUser io uid d3) (\<lambda>d4.
         Recorder_Record x io actor (successEvent ''users.disable'' ''user'' uid None) d4))))))) d"

definition Users_Enable :: "ext \<Rightarrow> Actor \<Rightarrow> string \<Rightarrow> io \<Rightarrow> db \<Rightarrow> db \<times> unit result" where
  "Users_Enable x actor uid io =
     WithTx io (unitTx (\<lambda>d. andThen (UserStore_SetState io uid UserStateActive d) (\<lambda>d1.
       Recorder_Record x io actor (successEvent ''users.enable'' ''user'' uid None) d1)))"

section \<open>Passwords\<close>

definition highEvent :: "string \<Rightarrow> string \<Rightarrow> string \<Rightarrow> Event" where
  "highEvent action targetType targetID = (successEvent action targetType targetID None)\<lparr>ev_Severity := ''high''\<rparr>"

definition setPasswordAndRevoke ::
    "ext \<Rightarrow> Actor \<Rightarrow> string \<Rightarrow> string \<Rightarrow> string \<Rightarrow> string \<Rightarrow> io \<Rightarrow> db \<Rightarrow> db \<times> unit result" where
  "setPasswordAndRevoke x actor userID newPassword action revokeReason io d =
     guarded (andThen (ValidatePasswordPolicy newPassword) (\<lambda>_. HashPassword x io newPassword DefaultArgon2idParams)) (\<lambda>(salt, hash).
       WithTx io (unitTx (\<lambda>d.
         andThen (UserStore_SetPassword io (passwordRow userID salt hash zeroTime) d) (\<lambda>d1.
         andThen (UserStore_BumpCredentialVersion io userID d1) (\<lambda>d2.
         andThen (SessionStore_RevokeAllFamiliesForUser io userID revokeReason d2) (\<lambda>d3.
         andThen (TokenStore_RevokeAllForUser io userID d3) (\<lambda>d4.
         Recorder_Record x io actor (highEvent action ''user'' userID) d4))))))) d"

definition InitiatePasswordReset :: "ext \<Rightarrow> Material \<Rightarrow> Actor \<Rightarrow> string \<Rightarrow> io \<Rightarrow> db \<Rightarrow> db \<times> string result" where
  "InitiatePasswordReset x keys actor uid io d =
     guarded (GenerateResetCredential io) (\<lambda>(raw, lookupID, secret).
       let cred = \<lparr>pr_ID = io_newID io, pr_UserID = uid, pr_LookupID = lookupID,
             pr_Digest = DigestOpaqueCredential x secret (k_RefreshPepper keys), pr_CreatedAt = io_now io,
             pr_ExpiresAt = io_now io + PasswordResetTTL, pr_UsedAt = None\<rparr>
       in WithTx io (\<lambda>d. andThen (UserStore_CreatePasswordReset io cred d) (\<lambda>d1.
            andThen (Recorder_Record x io actor (successEvent ''users.password_reset.initiate'' ''user'' uid None) d1) (\<lambda>d2.
            Inr (raw, d2))))) d"

text \<open>The checks of CompletePasswordReset, up to the credential it may use.\<close>

definition resetTarget :: "ext \<Rightarrow> Material \<Rightarrow> string \<Rightarrow> io \<Rightarrow> db \<Rightarrow> PasswordResetCredential result" where
  "resetTarget x keys raw io d =
    (case ParseResetCredential raw of
       Inl e \<Rightarrow> Inl ErrInvalidResetCredential
     | Inr (lookupID, secret) \<Rightarrow>
         (case UserStore_GetPasswordResetByLookupID io lookupID d of
            Inl e \<Rightarrow> Inl (if e = ErrNotFound then ErrInvalidResetCredential else e)
          | Inr cred \<Rightarrow>
              if pr_UsedAt cred \<noteq> None \<or> pr_ExpiresAt cred < io_now io then Inl ErrInvalidResetCredential
              else if \<not> VerifyOpaqueCredential x secret (k_RefreshPepper keys) (pr_Digest cred)
              then Inl ErrInvalidResetCredential
              else Inr cred))"

definition resetActor :: "string \<Rightarrow> Actor" where
  "resetActor userID = \<lparr>ac_UserID = userID, ac_Type = ''user'', ac_AuthMethod = ''password_reset'', ac_CredentialID = [],
     ac_RequestID = [], ac_SourceAddr = []\<rparr>"

definition CompletePasswordReset :: "ext \<Rightarrow> Material \<Rightarrow> string \<Rightarrow> string \<Rightarrow> io \<Rightarrow> db \<Rightarrow> db \<times> unit result" where
  "CompletePasswordReset x keys raw newPassword io d =
     guarded (resetTarget x keys raw io d) (\<lambda>cred d.
       thenTx (WithTx io (unitTx (UserStore_MarkPasswordResetUsed io (pr_ID cred))) d) (\<lambda>_.
       setPasswordAndRevoke x (resetActor (pr_UserID cred)) (pr_UserID cred) newPassword
         ''users.password_reset.complete'' ''password reset'' io)) d"

definition SetPasswordDirect :: "ext \<Rightarrow> Actor \<Rightarrow> string \<Rightarrow> string \<Rightarrow> io \<Rightarrow> db \<Rightarrow> db \<times> unit result" where
  "SetPasswordDirect x actor userID newPassword =
     setPasswordAndRevoke x actor userID newPassword ''users.password_reset.break_glass'' ''password reset''"

definition currentPasswordOk :: "ext \<Rightarrow> string \<Rightarrow> string \<Rightarrow> string \<Rightarrow> io \<Rightarrow> db \<Rightarrow> unit result" where
  "currentPasswordOk x userID currentPassword newPassword io d =
    (if currentPassword = [] \<or> newPassword = [] then Inl (ErrMessage ''currentPassword and newPassword are required'')
     else if currentPassword = newPassword then Inl (ErrMessage ''new password must differ from the current password'')
     else case UserStore_GetPasswordCredential io userID d of
            Inl e \<Rightarrow> Inl (if e = ErrNotFound then ErrInvalidCredentials else e)
          | Inr cred \<Rightarrow> andThen (DecodeParams x (pc_Params cred)) (\<lambda>params.
              require (VerifyPassword x currentPassword (pc_Salt cred) (pc_Hash cred) params) ErrInvalidCredentials))"

definition ChangePassword :: "ext \<Rightarrow> Actor \<Rightarrow> string \<Rightarrow> string \<Rightarrow> string \<Rightarrow> io \<Rightarrow> db \<Rightarrow> db \<times> unit result" where
  "ChangePassword x actor userID currentPassword newPassword io d =
     guarded (currentPasswordOk x userID currentPassword newPassword io d) (\<lambda>_.
       setPasswordAndRevoke x actor userID newPassword ''users.password.change'' ''password change'' io) d"

definition Users_Unlock :: "ext \<Rightarrow> Actor \<Rightarrow> string \<Rightarrow> io \<Rightarrow> db \<Rightarrow> db \<times> unit result" where
  "Users_Unlock x actor username io =
     WithTx io (unitTx (\<lambda>d. andThen (ThrottleStore_Reset io username d) (\<lambda>d1.
       Recorder_Record x io actor (successEvent ''users.unlock'' ''user'' username None) d1)))"

section \<open>Initialization\<close>

record Result =
  res_AdminUserID :: string
  res_Username :: string

definition Initialized :: "io \<Rightarrow> db \<Rightarrow> bool result" where
  "Initialized io d = andThen (UserStore_List io d) (\<lambda>existing.
     Inr (list_ex (\<lambda>u. u_Username u \<noteq> GuestUsername) existing))"

definition bootstrapActor :: Actor where
  "bootstrapActor = SystemActor\<lparr>ac_AuthMethod := ''bootstrap''\<rparr>"

definition Init :: "ext \<Rightarrow> string \<Rightarrow> string \<Rightarrow> string \<Rightarrow> io \<Rightarrow> db \<Rightarrow> db \<times> Result result" where
  "Init x adminUsername adminPassword displayName io =
     WithTx io (\<lambda>d. andThen (UserStore_List io d) (\<lambda>existing.
       if list_ex (\<lambda>u. u_Username u \<noteq> GuestUsername) existing then Inl ErrAlreadyInitialized
       else andThen (Users_CreateJoined x bootstrapActor adminUsername displayName adminPassword io d) (\<lambda>(user, d1).
            andThen (RoleStore_AssignUserRole io (u_ID user) AdministratorRoleID d1) (\<lambda>d2.
            Inr (\<lparr>res_AdminUserID = u_ID user, res_Username = u_Username user\<rparr>, d2)))))"

text \<open>ensureGuestUser of internal/app/services.go, which runs when the services are wired.\<close>

definition guestUser :: "io \<Rightarrow> User" where
  "guestUser io = \<lparr>u_ID = io_newID io, u_Username = GuestUsername, u_DisplayName = ''Guest'', u_State = UserStateActive,
     u_CredentialVersion = 1, u_CreatedAt = io_now io, u_UpdatedAt = io_now io\<rparr>"

definition ensureGuestUser :: "io \<Rightarrow> db \<Rightarrow> db \<times> unit result" where
  "ensureGuestUser io d = (case UserStore_GetByUsername io GuestUsername d of
     Inr guest \<Rightarrow> autoCommit (RoleStore_AssignUserRole io (u_ID guest) GuestRoleID) d
   | Inl e \<Rightarrow> if e \<noteq> ErrNotFound then (d, Inl e)
       else WithTx io (unitTx (\<lambda>d. andThen (UserStore_Create io (guestUser io) d) (\<lambda>d1.
              RoleStore_AssignUserRole io (u_ID (guestUser io)) GuestRoleID d1))) d)"

section \<open>Every operation is audited\<close>

lemma highEvent_Action [simp]: "ev_Action (highEvent a tt ti) = a"
  by (simp add: highEvent_def)

lemma mapErr_simps [simp]: "mapErr f r = Inr a \<longleftrightarrow> r = Inr a" "mapErr f r = Inl e \<longleftrightarrow> (\<exists>e'. r = Inl e' \<and> e = f e')"
  by (auto simp: mapErr_def split: sum.splits)

lemma apsnd_mapErr_Inr [simp]: "apsnd (mapErr f) p = (d', Inr a) \<longleftrightarrow> p = (d', Inr a)"
  by (cases p) auto

lemma audited_op_mapErr:
  assumes "audited_op x f action"
  shows "audited_op x (\<lambda>io d. apsnd (mapErr g) (f io d)) action"
proof
  fix io d d' and e :: err
  assume "apsnd (mapErr g) (f io d) = (d', Inl e)"
  then obtain e' where "f io d = (d', Inl e')" by (cases "f io d") auto
  then show "d' = d" by (rule audited_op.failure_keeps [OF assms])
next
  fix io d d' a
  assume "apsnd (mapErr g) (f io d) = (d', Inr a)"
  then have "f io d = (d', Inr a)" by (cases "f io d") auto
  then show "audited x action d d'" "\<not> io_fault io ''AuditStore.Append''"
    using audited_op.success_audited [OF assms] audited_op.success_recorded [OF assms] by blast+
qed

lemma insertUser_audited:
  assumes "insertUser x actor io p d = Inr (u, d')"
  shows "audited x ''users.create'' d d' \<and> \<not> io_fault io ''AuditStore.Append''"
  using assms by (cases p) (auto simp: insertUser_def dest!: audit_frames dest: Recorder_Record_InrD(3) intro!: audited_body)

interpretation users_create: audited_op x "Users_Create x actor name disp pw" "''users.create''" for x actor name disp pw
  unfolding Users_Create_def
  by (rule audited_op_guarded, rule audited_op_mapErr, rule audited_op_WithTx) (rule insertUser_audited)

interpretation users_update: audited_op x "Users_UpdateDisplayName x actor uid disp" "''users.update''" for x actor uid disp
  unfolding Users_UpdateDisplayName_def
  by (rule audited_op_WithTx) (auto dest!: audit_frames dest: Recorder_Record_InrD(3) intro!: audited_body)

interpretation users_disable: audited_op x "Users_Disable x actor uid" "''users.disable''" for x actor uid
  unfolding Users_Disable_def
  by (rule audited_op_guarded, rule audited_op_WithTx) (auto dest!: audit_frames dest: Recorder_Record_InrD(3) intro!: audited_body)

interpretation users_enable: audited_op x "Users_Enable x actor uid" "''users.enable''" for x actor uid
  unfolding Users_Enable_def
  by (rule audited_op_WithTx) (auto dest!: audit_frames dest: Recorder_Record_InrD(3) intro!: audited_body)

interpretation users_unlock: audited_op x "Users_Unlock x actor name" "''users.unlock''" for x actor name
  unfolding Users_Unlock_def
  by (rule audited_op_WithTx) (auto dest!: audit_frames dest: Recorder_Record_InrD(3) intro!: audited_body)

interpretation set_password: audited_op x "setPasswordAndRevoke x actor uid pw action reason" action for x actor uid pw action reason
  unfolding setPasswordAndRevoke_def case_prod_beta
  by (rule audited_op_guarded, rule audited_op_WithTx) (auto dest!: audit_frames dest: Recorder_Record_InrD(3) intro!: audited_body)

interpretation set_password_direct: audited_op x "SetPasswordDirect x actor uid pw" "''users.password_reset.break_glass''" for x actor uid pw
  unfolding SetPasswordDirect_def by (rule set_password.audited_op_axioms)

interpretation change_password: audited_op x "ChangePassword x actor uid cur pw" "''users.password.change''" for x actor uid cur pw
  unfolding ChangePassword_def by (rule audited_op_guarded) (rule set_password.audited_op_axioms)

interpretation initiate_reset: audited_op x "InitiatePasswordReset x keys actor uid" "''users.password_reset.initiate''" for x keys actor uid
  unfolding InitiatePasswordReset_def Let_def case_prod_beta
  by (rule audited_op_guarded, rule audited_op_WithTx) (auto dest!: audit_frames dest: Recorder_Record_InrD(3) intro!: audited_body)

section \<open>Cutting a user off\<close>

definition cutOff :: "string \<Rightarrow> db \<Rightarrow> db \<Rightarrow> bool" where
  "cutOff uid d d' \<longleftrightarrow>
     (\<forall>u\<in>set (db_users d'). u_ID u = uid \<longrightarrow>
        (\<exists>u0\<in>set (db_users d). u_ID u0 = uid \<and> u_CredentialVersion u = u_CredentialVersion u0 + 1))
   \<and> (\<forall>f\<in>set (db_families d'). f_UserID f = uid \<longrightarrow> f_RevokedAt f \<noteq> None)
   \<and> (\<forall>t\<in>set (db_tokens d'). t_UserID t = uid \<longrightarrow> t_RevokedAt t \<noteq> None)
   \<and> map (\<lambda>f. (f_ID f, f_UserID f)) (db_families d') = map (\<lambda>f. (f_ID f, f_UserID f)) (db_families d)
   \<and> map (\<lambda>t. (t_LookupID t, t_UserID t)) (db_tokens d') = map (\<lambda>t. (t_LookupID t, t_UserID t)) (db_tokens d)"

text \<open>The claims of a token do not depend on when it is checked.\<close>

lemma ValidateSessionJWT_same:
  assumes "ValidateSessionJWT x io1 pub kid iss aud token = Inr (c1, k1)"
    and "ValidateSessionJWT x io2 pub kid iss aud token = Inr (c2, k2)"
  shows "c1 = c2"
  using assms by (auto simp: ValidateSessionJWT_def Let_def split: list.splits option.splits if_splits sum.splits)

lemma ValidateAccessToken_Inr:
  assumes "ValidateAccessToken x s io token d = Inr (u, c)"
  obtains claims k where
    "ValidateSessionJWT x io (k_SessionPublicKey (ss_keys s)) (k_SessionKeyID (ss_keys s)) (ss_issuer s) (ss_audience s) token = Inr (claims, k)"
    and "u \<in> set (db_users d)" and "u_ID u = sc_Subject claims" and "u_State u = UserStateActive"
    and "u_CredentialVersion u = sc_CredentialVersion claims"
  using assms
  by (auto simp: ValidateAccessToken_def UserStore_Get_Inr split: sum.splits if_splits dest!: selectFirst_SomeD)

locale revoking_op =
  fixes op :: "io \<Rightarrow> db \<Rightarrow> db \<times> unit result" and uid :: string
  assumes cuts_off: "op io d = (d', Inr ()) \<Longrightarrow> cutOff uid d d'"
begin

lemma access_token_refused:
  assumes "op io d = (d', Inr ())" and "schema_ok d" and "ValidateAccessToken x s io1 token d = Inr (u, c)" and "u_ID u = uid"
  shows "\<exists>e. ValidateAccessToken x s io2 token d' = Inl e"
proof (rule ccontr)
  assume "\<not> ?thesis"
  then obtain u' c' where "ValidateAccessToken x s io2 token d' = Inr (u', c')"
    by (cases "ValidateAccessToken x s io2 token d'") auto
  then obtain cl' k' where 2: "ValidateSessionJWT x io2 (k_SessionPublicKey (ss_keys s)) (k_SessionKeyID (ss_keys s)) (ss_issuer s) (ss_audience s) token = Inr (cl', k')"
    and u': "u' \<in> set (db_users d')" "u_ID u' = sc_Subject cl'" "u_CredentialVersion u' = sc_CredentialVersion cl'"
    by (rule ValidateAccessToken_Inr)
  obtain cl k where 1: "ValidateSessionJWT x io1 (k_SessionPublicKey (ss_keys s)) (k_SessionKeyID (ss_keys s)) (ss_issuer s) (ss_audience s) token = Inr (cl, k)"
    and u: "u \<in> set (db_users d)" "u_ID u = sc_Subject cl" "u_CredentialVersion u = sc_CredentialVersion cl"
    using assms(3) by (rule ValidateAccessToken_Inr)
  have cl: "cl' = cl" using ValidateSessionJWT_same [OF 1 2] by simp
  obtain u0 where u0: "u0 \<in> set (db_users d)" "u_ID u0 = uid" "u_CredentialVersion u' = u_CredentialVersion u0 + 1"
    using cuts_off [OF assms(1)] u' u(2) assms(4) by (auto simp: cutOff_def cl)
  have "u0 = u"
    using assms(2,4) u(1) u0(1,2) by (auto simp: schema_ok_def users_ok_def distinct_map inj_on_def)
  with u0(3) u(3) u'(3) cl show False by simp
qed

lemma refresh_refused:
  assumes "op io d = (d', Inr ())" and "schema_ok d" and "parseFamilyScopedRefreshToken token = Inr (fid, raw)"
    and "f \<in> set (db_families d)" "f_ID f = fid" "f_UserID f = uid"
  shows "fst (Refresh x s io2 sourceAddr requestID token d') = d' \<and> (\<exists>e. snd (Refresh x s io2 sourceAddr requestID token d') = Inl e)"
proof (rule Refresh_revoked_family [OF _ assms(3)])
  note c = cuts_off [OF assms(1), unfolded cutOff_def]
  have "f_UserID g = uid" if g: "g \<in> set (db_families d')" "f_ID g = fid" for g
  proof -
    have "(f_ID g, f_UserID g) \<in> (\<lambda>f. (f_ID f, f_UserID f)) ` set (db_families d)"
      using g(1) c by (metis (no_types, lifting) imageI list.set_map)
    then obtain h where "h \<in> set (db_families d)" "f_ID h = fid" "f_UserID h = f_UserID g" using g(2) by auto
    moreover have "h = f"
      using assms(2,4,5) calculation(1,2) by (auto simp: schema_ok_def sessions_ok_def distinct_map inj_on_def)
    ultimately show ?thesis using assms(6) by simp
  qed
  with c show "\<forall>g\<in>set (db_families d'). f_ID g = fid \<longrightarrow> f_RevokedAt g \<noteq> None" by blast
qed

end

lemma updateWhere_all:
  assumes "\<And>x. x \<in> set xs \<Longrightarrow> P x \<Longrightarrow> Q (f x)" and "\<And>x. x \<in> set xs \<Longrightarrow> \<not> P x \<Longrightarrow> Q x"
  shows "\<forall>y\<in>set (updateWhere P f xs). Q y"
  using assms by auto

lemma usersExec1_result:
  "usersExec1 io name uid f d = Inr d' \<Longrightarrow> d' = d\<lparr>db_users := updateWhere (\<lambda>u. u_ID u = uid) f (db_users d)\<rparr>"
  unfolding usersExec1_def andThen_Inr_iff by (auto simp only:)

lemma cutOff_steps:
  assumes "UserStore_BumpCredentialVersion io uid d = Inr d2"
    and "SessionStore_RevokeAllFamiliesForUser io uid reason d2 = Inr d3" and "TokenStore_RevokeAllForUser io uid d3 = Inr d4"
    and "Recorder_Record x io actor e d4 = Inr d'"
  shows "cutOff uid d d'"
proof -
  have d2: "d2 = d\<lparr>db_users := updateWhere (\<lambda>u. u_ID u = uid)
      (\<lambda>u. u\<lparr>u_CredentialVersion := u_CredentialVersion u + 1, u_UpdatedAt := io_now io\<rparr>) (db_users d)\<rparr>"
    by (rule usersExec1_result [OF assms(1) [unfolded UserStore_BumpCredentialVersion_def]])
  have d3: "d3 = d2\<lparr>db_families := updateWhere (\<lambda>f. f_UserID f = uid \<and> f_RevokedAt f = None)
      (\<lambda>f. f\<lparr>f_RevokedAt := Some (io_now io), f_RevokedReason := reason\<rparr>) (db_families d2)\<rparr>"
    using assms(2) unfolding SessionStore_RevokeAllFamiliesForUser_def by (elim andThen_Inr_E) simp
  have d4: "d4 = d3\<lparr>db_tokens := updateWhere (\<lambda>t. t_UserID t = uid \<and> t_RevokedAt t = None)
      (\<lambda>t. t\<lparr>t_RevokedAt := Some (io_now io)\<rparr>) (db_tokens d3)\<rparr>"
    using assms(3) unfolding TokenStore_RevokeAllForUser_def by (elim andThen_Inr_E) simp
  have d': "db_users d' = db_users d2" "db_families d' = db_families d3" "db_tokens d' = db_tokens d4"
    by (subst Recorder_Record_InrD(1) [OF assms(4)], simp add: d4 d3)+
  show ?thesis
    unfolding cutOff_def d'
  proof (intro conjI)
    have users: "db_users d2 = updateWhere (\<lambda>u. u_ID u = uid)
        (\<lambda>u. u\<lparr>u_CredentialVersion := u_CredentialVersion u + 1, u_UpdatedAt := io_now io\<rparr>) (db_users d)"
      by (simp add: d2)
    have families: "db_families d3 = updateWhere (\<lambda>f. f_UserID f = uid \<and> f_RevokedAt f = None)
        (\<lambda>f. f\<lparr>f_RevokedAt := Some (io_now io), f_RevokedReason := reason\<rparr>) (db_families d2)"
      by (simp add: d3)
    have tokens: "db_tokens d4 = updateWhere (\<lambda>t. t_UserID t = uid \<and> t_RevokedAt t = None)
        (\<lambda>t. t\<lparr>t_RevokedAt := Some (io_now io)\<rparr>) (db_tokens d3)"
      by (simp add: d4)
    show "\<forall>u\<in>set (db_users d2). u_ID u = uid \<longrightarrow>
        (\<exists>u0\<in>set (db_users d). u_ID u0 = uid \<and> u_CredentialVersion u = u_CredentialVersion u0 + 1)"
      unfolding users by (rule updateWhere_all) auto
    show "\<forall>f\<in>set (db_families d3). f_UserID f = uid \<longrightarrow> f_RevokedAt f \<noteq> None"
      unfolding families by (rule updateWhere_all) auto
    show "\<forall>t\<in>set (db_tokens d4). t_UserID t = uid \<longrightarrow> t_RevokedAt t \<noteq> None"
      unfolding tokens by (rule updateWhere_all) auto
    have "map (\<lambda>f. (f_ID f, f_UserID f)) (db_families d3) = map (\<lambda>f. (f_ID f, f_UserID f)) (db_families d2)"
      unfolding families by (rule map_updateWhere_same) simp
    then show "map (\<lambda>f. (f_ID f, f_UserID f)) (db_families d3) = map (\<lambda>f. (f_ID f, f_UserID f)) (db_families d)"
      by (simp add: d2)
    have "map (\<lambda>t. (t_LookupID t, t_UserID t)) (db_tokens d4) = map (\<lambda>t. (t_LookupID t, t_UserID t)) (db_tokens d3)"
      unfolding tokens by (rule map_updateWhere_same) simp
    then show "map (\<lambda>t. (t_LookupID t, t_UserID t)) (db_tokens d4) = map (\<lambda>t. (t_LookupID t, t_UserID t)) (db_tokens d)"
      by (simp add: d3 d2)
  qed
qed

interpretation disable_revokes: revoking_op "Users_Disable x actor uid" uid for x actor uid
proof
  fix io d d' assume "Users_Disable x actor uid io d = (d', Inr ())"
  then obtain d1 d2 d3 d4 where 1: "UserStore_SetState io uid UserStateDisabled d = Inr d1"
    and steps: "UserStore_BumpCredentialVersion io uid d1 = Inr d2"
      "SessionStore_RevokeAllFamiliesForUser io uid ''user disabled'' d2 = Inr d3" "TokenStore_RevokeAllForUser io uid d3 = Inr d4"
      "Recorder_Record x io actor (successEvent ''users.disable'' ''user'' uid None) d4 = Inr d'"
    by (auto simp: Users_Disable_def guarded_Inr dest!: WithTx_Inr)
  have "db_users d1 = updateWhere (\<lambda>u. u_ID u = uid) (\<lambda>u. u\<lparr>u_State := UserStateDisabled, u_UpdatedAt := io_now io\<rparr>) (db_users d)"
    using usersExec1_result [OF 1 [unfolded UserStore_SetState_def]] by simp
  moreover have same: "db_families d1 = db_families d" "db_tokens d1 = db_tokens d"
    using usersExec1_result [OF 1 [unfolded UserStore_SetState_def]] by simp_all
  ultimately have old: "\<exists>v\<in>set (db_users d). u_ID v = u_ID u \<and> u_CredentialVersion v = u_CredentialVersion u"
    if "u \<in> set (db_users d1)" for u
    using that by (auto simp: set_updateWhere split: if_splits)
  show "cutOff uid d d'"
    unfolding cutOff_def
  proof (intro conjI ballI impI)
    fix u assume "u \<in> set (db_users d')" "u_ID u = uid"
    then obtain u1 where "u1 \<in> set (db_users d1)" "u_ID u1 = uid" "u_CredentialVersion u = u_CredentialVersion u1 + 1"
      using cutOff_steps [OF steps] by (auto simp: cutOff_def)
    with old [of u1] show "\<exists>u0\<in>set (db_users d). u_ID u0 = uid \<and> u_CredentialVersion u = u_CredentialVersion u0 + 1"
      by metis
  qed (use cutOff_steps [OF steps] in \<open>simp_all add: cutOff_def same\<close>)
qed

lemma UserStore_SetPassword_result:
  "UserStore_SetPassword io c d = Inr d' \<Longrightarrow> d' = d\<lparr>db_passwords := db_passwords d'\<rparr>"
  by (auto simp: UserStore_SetPassword_def Let_def split: if_splits)

interpretation password_revokes: revoking_op "setPasswordAndRevoke x actor uid pw action reason" uid for x actor uid pw action reason
proof
  fix io d d' assume "setPasswordAndRevoke x actor uid pw action reason io d = (d', Inr ())"
  then obtain salt hash d1 d2 d3 d4 where 1: "UserStore_SetPassword io (passwordRow uid salt hash zeroTime) d = Inr d1"
    and steps: "UserStore_BumpCredentialVersion io uid d1 = Inr d2"
      "SessionStore_RevokeAllFamiliesForUser io uid reason d2 = Inr d3" "TokenStore_RevokeAllForUser io uid d3 = Inr d4"
      "Recorder_Record x io actor (highEvent action ''user'' uid) d4 = Inr d'"
    by (auto simp: setPasswordAndRevoke_def guarded_Inr dest!: WithTx_Inr)
  have "db_users d1 = db_users d" "db_families d1 = db_families d" "db_tokens d1 = db_tokens d"
    by (subst UserStore_SetPassword_result [OF 1], simp)+
  with cutOff_steps [OF steps] show "cutOff uid d d'" by (simp add: cutOff_def)
qed

interpretation change_revokes: revoking_op "ChangePassword x actor uid cur pw" uid for x actor uid cur pw
  by unfold_locales (auto simp: ChangePassword_def guarded_Inr dest: password_revokes.cuts_off)

interpretation direct_revokes: revoking_op "SetPasswordDirect x actor uid pw" uid for x actor uid pw
  by unfold_locales (auto simp: SetPasswordDirect_def dest: password_revokes.cuts_off)

section \<open>The last administrator\<close>

lemma wouldRemoveLastAdministrator_check:
  "andThen (wouldRemoveLastAdministrator uid io d) (\<lambda>blocked. require (\<not> blocked) ErrLastAdministrator) = Inr ()
   \<longleftrightarrow> SetUserRoles_check uid [] io d = Inr ()"
  by (auto simp: wouldRemoveLastAdministrator_def SetUserRoles_check_def andThen_Inr_iff)

lemma Users_Disable_result:
  assumes "Users_Disable x actor uid io d = (d', Inr ())"
  shows "SetUserRoles_check uid [] io d = Inr ()" and "db_userRoles d' = db_userRoles d"
    and "\<forall>u\<in>set (db_users d). u_ID u \<noteq> uid \<longrightarrow> u \<in> set (db_users d')"
    and "\<forall>u\<in>set (db_users d'). u_ID u = uid \<longrightarrow> u_State u = UserStateDisabled"
proof -
  obtain d1 d2 d3 d4 where c: "SetUserRoles_check uid [] io d = Inr ()" and 1: "UserStore_SetState io uid UserStateDisabled d = Inr d1"
    and 2: "UserStore_BumpCredentialVersion io uid d1 = Inr d2"
    and 3: "SessionStore_RevokeAllFamiliesForUser io uid ''user disabled'' d2 = Inr d3" and 4: "TokenStore_RevokeAllForUser io uid d3 = Inr d4"
    and 5: "Recorder_Record x io actor (successEvent ''users.disable'' ''user'' uid None) d4 = Inr d'"
    using assms unfolding Users_Disable_def guarded_Inr by (auto simp: wouldRemoveLastAdministrator_check simp del: andThen.simps dest!: WithTx_Inr)
  show "SetUserRoles_check uid [] io d = Inr ()" by (rule c)
  have d4: "db_users d4 = db_users d2" "db_userRoles d4 = db_userRoles d2"
    using 3 4 by (auto simp: SessionStore_RevokeAllFamiliesForUser_def TokenStore_RevokeAllForUser_def)
  have d': "db_users d' = db_users d4" "db_userRoles d' = db_userRoles d4"
    by (subst Recorder_Record_InrD(1) [OF 5], simp)+
  note r1 = usersExec1_result [OF 1 [unfolded UserStore_SetState_def]]
    and r2 = usersExec1_result [OF 2 [unfolded UserStore_BumpCredentialVersion_def]]
  show "db_userRoles d' = db_userRoles d" by (simp add: d' d4 r1 r2)
  let ?set = "updateWhere (\<lambda>u. u_ID u = uid) (\<lambda>u. u\<lparr>u_State := UserStateDisabled, u_UpdatedAt := io_now io\<rparr>) (db_users d)"
  have users: "db_users d' = updateWhere (\<lambda>u. u_ID u = uid)
      (\<lambda>u. u\<lparr>u_CredentialVersion := u_CredentialVersion u + 1, u_UpdatedAt := io_now io\<rparr>) ?set"
    by (simp add: d' d4 r1 r2)
  show "\<forall>u\<in>set (db_users d). u_ID u \<noteq> uid \<longrightarrow> u \<in> set (db_users d')"
    unfolding users set_updateWhere by (auto simp: image_image image_iff)
  have "\<forall>u\<in>set ?set. u_ID u = uid \<longrightarrow> u_State u = UserStateDisabled" by (rule updateWhere_all) auto
  then show "\<forall>u\<in>set (db_users d'). u_ID u = uid \<longrightarrow> u_State u = UserStateDisabled"
    unfolding users by - (rule updateWhere_all, auto)
qed

text \<open>
  A request to disable a user never takes the last enabled administrator away, whoever
  asks and whether it succeeds or fails; a user it disables is disabled in the database.
\<close>

theorem Disable_keeps_an_administrator:
  assumes "schema_ok d" and "hasEnabledAdmin d"
  shows "hasEnabledAdmin (fst (Users_Disable x actor uid io d))
    \<and> (snd (Users_Disable x actor uid io d) = Inr () \<longrightarrow>
         (\<forall>u\<in>set (db_users (fst (Users_Disable x actor uid io d))). u_ID u = uid \<longrightarrow> u_State u = UserStateDisabled))"
proof (cases "snd (Users_Disable x actor uid io d)")
  case (Inl e)
  then have "fst (Users_Disable x actor uid io d) = d"
    using users_disable.failure_keeps [of x actor uid io d] by (cases "Users_Disable x actor uid io d") auto
  with Inl assms(2) show ?thesis by simp
next
  case (Inr u)
  define d' where "d' = fst (Users_Disable x actor uid io d)"
  have "Users_Disable x actor uid io d = (d', Inr ())"
    using Inr by (cases "Users_Disable x actor uid io d") (simp add: d'_def)
  note r = Users_Disable_result [OF this]
  obtain v ur where "(v, ur) \<in> set (enabledAdministrators AdministratorRoleID d)" "u_ID v \<noteq> uid"
    using SetUserRoles_check_ok [OF r(1) assms] by auto
  then have "hasEnabledAdmin d'"
    using r(2,3) unfolding hasEnabledAdmin_iff enabledAdministrators_set by metis
  with r(4) show ?thesis unfolding d'_def by blast
qed

theorem Disable_keeps_an_administrator_witness:
  "hasEnabledAdmin (fst (Users_Disable sampleExt SystemActor ''u1'' sampleIO twoAdmins))
   \<and> snd (Users_Disable sampleExt SystemActor ''u1'' sampleIO twoAdmins) = Inr ()
   \<and> Users_Disable sampleExt SystemActor ''u1'' sampleIO oneAdmin = (oneAdmin, Inl ErrLastAdministrator)"
proof -
  have "schema_ok twoAdmins" "hasEnabledAdmin twoAdmins" by code_simp+
  from Disable_keeps_an_administrator [OF this, of sampleExt SystemActor "''u1''" sampleIO]
  have "hasEnabledAdmin (fst (Users_Disable sampleExt SystemActor ''u1'' sampleIO twoAdmins))" by blast
  moreover have "snd (Users_Disable sampleExt SystemActor ''u1'' sampleIO twoAdmins) = Inr ()"
    "Users_Disable sampleExt SystemActor ''u1'' sampleIO oneAdmin = (oneAdmin, Inl ErrLastAdministrator)" by code_simp+
  ultimately show ?thesis by blast
qed

section \<open>Password reset\<close>

text \<open>No statement of the request fails in the driver.\<close>

definition calm :: "io \<Rightarrow> bool" where "calm io \<longleftrightarrow> io_fault io = (\<lambda>_. False)"

lemma calm_simps [simp]: "calm io \<Longrightarrow> \<not> io_fault io n" "calm io \<Longrightarrow> stmt io n = Inr ()"
  by (simp_all add: calm_def stmt_def)

text \<open>The decoder gives the parameters back that the encoder wrote.\<close>

definition params_ok :: "ext \<Rightarrow> bool" where
  "params_ok x \<longleftrightarrow> x_decodeParams x (EncodeParams DefaultArgon2idParams) = Some DefaultArgon2idParams"

lemma HashPassword_total: "calm io \<Longrightarrow> \<exists>salt hash. HashPassword x io pw p = Inr (salt, hash)"
  by (simp add: HashPassword_def randRead_ok)

lemma HashPassword_sound:
  assumes "argon2_ok x" and "HashPassword x io pw p = Inr (salt, hash)"
  shows "VerifyPassword x pw salt hash p"
  using assms by (auto simp: HashPassword_def VerifyPassword_def argon2_ok_def)

lemma UserStore_SetPassword_lookup:
  assumes "UserStore_SetPassword io (passwordRow uid salt hash t) d = Inr d'"
  shows "\<exists>t'. selectFirst (\<lambda>c. pc_UserID c = uid) (db_passwords d') = Some (passwordRow uid salt hash t')"
proof -
  let ?c = "if IsZero t then passwordRow uid salt hash (io_now io) else passwordRow uid salt hash t"
  have c: "(if IsZero (pc_UpdatedAt (passwordRow uid salt hash t)) then (passwordRow uid salt hash t)\<lparr>pc_UpdatedAt := io_now io\<rparr>
      else passwordRow uid salt hash t) = ?c"
    by (simp add: passwordRow_def)
  have uid: "pc_UserID ?c = uid" by (simp add: passwordRow_def)
  have d': "db_passwords d' = (if uid \<in> pc_UserID ` set (db_passwords d)
      then updateWhere (\<lambda>x. pc_UserID x = uid) (\<lambda>_. ?c) (db_passwords d) else db_passwords d @ [?c])"
    using assms unfolding UserStore_SetPassword_def Let_def c uid by (auto split: if_splits)
  have "selectFirst (\<lambda>c. pc_UserID c = uid) (db_passwords d') = Some ?c"
  proof (cases "uid \<in> pc_UserID ` set (db_passwords d)")
    case True
    then obtain c0 where "selectFirst (\<lambda>c. pc_UserID c = uid) (db_passwords d) = Some c0"
      by (cases "selectFirst (\<lambda>c. pc_UserID c = uid) (db_passwords d)") (auto simp: selectFirst_None_iff)
    then show ?thesis
      unfolding d' using True uid by (simp add: selectFirst_updateWhere) (use selectFirst_SomeD in fastforce)
  next
    case False
    then show ?thesis
      unfolding d' using selectFirst_append_new [of "\<lambda>c. pc_UserID c = uid" "db_passwords d" ?c] uid
        selectFirst_None_key [OF False] by simp
  qed
  then show ?thesis by (cases "IsZero t") auto
qed

lemma setPasswordAndRevoke_Inr:
  assumes "setPasswordAndRevoke x actor uid pw action reason io d = (d', Inr ())"
  obtains salt hash t where "HashPassword x io pw DefaultArgon2idParams = Inr (salt, hash)"
    and "selectFirst (\<lambda>c. pc_UserID c = uid) (db_passwords d') = Some (passwordRow uid salt hash t)"
    and "db_resets d' = db_resets d"
proof -
  obtain salt hash d1 d2 d3 d4 where h: "HashPassword x io pw DefaultArgon2idParams = Inr (salt, hash)"
    and 1: "UserStore_SetPassword io (passwordRow uid salt hash zeroTime) d = Inr d1"
    and steps: "UserStore_BumpCredentialVersion io uid d1 = Inr d2"
      "SessionStore_RevokeAllFamiliesForUser io uid reason d2 = Inr d3" "TokenStore_RevokeAllForUser io uid d3 = Inr d4"
      "Recorder_Record x io actor (highEvent action ''user'' uid) d4 = Inr d'"
    using assms by (auto simp: setPasswordAndRevoke_def guarded_Inr dest!: WithTx_Inr)
  have d2: "db_passwords d2 = db_passwords d1 \<and> db_resets d2 = db_resets d1"
    using usersExec1_result [OF steps(1) [unfolded UserStore_BumpCredentialVersion_def]] by simp
  have d4: "db_passwords d4 = db_passwords d2 \<and> db_resets d4 = db_resets d2"
    using steps(2,3) by (auto simp: SessionStore_RevokeAllFamiliesForUser_def TokenStore_RevokeAllForUser_def)
  have d': "db_passwords d' = db_passwords d4" "db_resets d' = db_resets d4"
    by (subst Recorder_Record_InrD(1) [OF steps(4)], simp)+
  have "db_resets d1 = db_resets d" by (subst UserStore_SetPassword_result [OF 1]) simp
  with that [OF h] UserStore_SetPassword_lookup [OF 1] d2 d4 d' show ?thesis by auto
qed

lemma password_set_matches:
  assumes "argon2_ok x" and "params_ok x" and "setPasswordAndRevoke x actor (u_ID user) pw action reason io d = (d', Inr ())"
    and "\<not> io_fault io2 ''UserStore.GetPasswordCredential''"
  shows "passwordMatches x io2 user pw d'"
  using assms(3)
proof (rule setPasswordAndRevoke_Inr)
  fix salt hash t
  assume "HashPassword x io pw DefaultArgon2idParams = Inr (salt, hash)"
    and "selectFirst (\<lambda>c. pc_UserID c = u_ID user) (db_passwords d') = Some (passwordRow (u_ID user) salt hash t)"
  with assms(1,2,4) HashPassword_sound show ?thesis
    by (simp add: passwordMatches_def UserStore_GetPasswordCredential_def stmt_def passwordRow_def DecodeParams_def params_ok_def)
qed

lemma SetPassword_total:
  assumes "\<not> io_fault io ''UserStore.SetPassword''" and "userExists d (pc_UserID c)"
  shows "\<exists>d'. UserStore_SetPassword io c d = Inr d'"
  using assms by (cases "IsZero (pc_UpdatedAt c)") (simp_all add: UserStore_SetPassword_def Let_def stmt_def foreignKey_def)

lemma usersExec1_total:
  assumes "\<not> io_fault io name" and "userExists d uid"
  shows "usersExec1 io name uid f d = Inr (d\<lparr>db_users := updateWhere (\<lambda>u. u_ID u = uid) f (db_users d)\<rparr>)"
proof -
  have "0 < affected (\<lambda>u. u_ID u = uid) (db_users d)" using assms(2) by (auto simp: userExists_def)
  with assms(1) show ?thesis unfolding usersExec1_def by (simp only: stmt_def require_simps andThen.simps simp_thms)
qed

lemma setPasswordAndRevoke_total:
  assumes "calm io" and "ValidatePasswordPolicy pw = Inr ()" and "userExists d uid" and "audit_ok x d"
    and "io_eventID io \<notin> ar_ID ` set (db_audit d)"
  shows "\<exists>d'. setPasswordAndRevoke x actor uid pw action reason io d = (d', Inr ())"
proof -
  obtain salt hash where h: "HashPassword x io pw DefaultArgon2idParams = Inr (salt, hash)"
    using HashPassword_total [OF assms(1)] by blast
  obtain d1 where 1: "UserStore_SetPassword io (passwordRow uid salt hash zeroTime) d = Inr d1"
    using assms(1,3) SetPassword_total by (metis PasswordCredential.select_convs(1) calm_simps(1) passwordRow_def)
  have d1: "db_users d1 = db_users d" "db_audit d1 = db_audit d" by (subst UserStore_SetPassword_result [OF 1], simp)+
  obtain d2 where 2: "UserStore_BumpCredentialVersion io uid d1 = Inr d2" "db_audit d2 = db_audit d"
    using usersExec1_total [of io _ d1 uid] assms(1,3) d1 unfolding UserStore_BumpCredentialVersion_def
    by (auto simp: userExists_def)
  obtain d3 where 3: "SessionStore_RevokeAllFamiliesForUser io uid reason d2 = Inr d3" "db_audit d3 = db_audit d"
    using assms(1) 2(2) by (simp add: SessionStore_RevokeAllFamiliesForUser_def)
  obtain d4 where 4: "TokenStore_RevokeAllForUser io uid d3 = Inr d4" "db_audit d4 = db_audit d"
    using assms(1) 3(2) by (simp add: TokenStore_RevokeAllForUser_def)
  obtain d' where "Recorder_Record x io actor (highEvent action ''user'' uid) d4 = Inr d'"
    using Recorder_Record_total [of x d4 io actor "highEvent action ''user'' uid"] assms 4(2) by (auto simp: audit_ok_def)
  with assms(1,2) h 1 2 3 4 show ?thesis
    by (simp add: setPasswordAndRevoke_def guarded_def WithTx_def unitTx_def)
qed

text \<open>What a successful InitiatePasswordReset leaves behind for its raw credential.\<close>

lemma InitiatePasswordReset_Inr:
  assumes "InitiatePasswordReset x keys actor uid io d = (d', Inr raw)"
  obtains lid secret cred where "ParseResetCredential raw = Inr (lid, secret)"
    and "selectFirst (\<lambda>c. pr_LookupID c = lid) (db_resets d') = Some cred" and "pr_UserID cred = uid" and "pr_UsedAt cred = None"
    and "pr_ExpiresAt cred = io_now io + PasswordResetTTL" and "pr_Digest cred = DigestOpaqueCredential x secret (k_RefreshPepper keys)"
    and "userExists d' uid" and "audited x ''users.password_reset.initiate'' d d'"
proof -
  obtain lid secret where g: "GenerateResetCredential io = Inr (raw, lid, secret)"
    using assms by (auto simp: InitiatePasswordReset_def guarded_Inr Let_def dest!: WithTx_Inr)
  define cred where "cred = \<lparr>pr_ID = io_newID io, pr_UserID = uid, pr_LookupID = lid,
     pr_Digest = DigestOpaqueCredential x secret (k_RefreshPepper keys), pr_CreatedAt = io_now io,
     pr_ExpiresAt = io_now io + PasswordResetTTL, pr_UsedAt = None\<rparr>"
  obtain d1 where c: "UserStore_CreatePasswordReset io cred d = Inr d1"
    and r: "Recorder_Record x io actor (successEvent ''users.password_reset.initiate'' ''user'' uid None) d1 = Inr d'"
    using assms by (auto simp: InitiatePasswordReset_def guarded_Inr g Let_def cred_def dest!: WithTx_Inr)
  have d1: "d1 = d\<lparr>db_resets := db_resets d @ [cred]\<rparr>" "userExists d uid" "lid \<notin> pr_LookupID ` set (db_resets d)"
    using c by (auto simp: UserStore_CreatePasswordReset_def cred_def)
  have d': "db_resets d' = db_resets d @ [cred]" "db_users d' = db_users d"
    by (subst Recorder_Record_InrD(1) [OF r], simp add: d1)+
  show ?thesis
  proof (rule that [OF reset_codec.parse_gen [OF g]])
    show "selectFirst (\<lambda>c. pr_LookupID c = lid) (db_resets d') = Some cred"
      unfolding d' by (rule selectFirst_append_new) (use selectFirst_None_key [OF d1(3)] in \<open>simp_all add: cred_def\<close>)
    show "userExists d' uid" using d1(2) by (simp add: userExists_def d')
  qed (use initiate_reset.success_audited [OF assms] in \<open>simp_all add: cred_def\<close>)
qed

lemma MarkPasswordResetUsed_total:
  assumes "\<not> io_fault io ''UserStore.MarkPasswordResetUsed''" and "cred \<in> set (db_resets d)" and "pr_UsedAt cred = None"
  shows "UserStore_MarkPasswordResetUsed io (pr_ID cred) d = Inr (d\<lparr>db_resets :=
     updateWhere (\<lambda>c. pr_ID c = pr_ID cred \<and> pr_UsedAt c = None) (\<lambda>c. c\<lparr>pr_UsedAt := Some (io_now io)\<rparr>) (db_resets d)\<rparr>)"
proof -
  have "0 < affected (\<lambda>c. pr_ID c = pr_ID cred \<and> pr_UsedAt c = None) (db_resets d)" using assms(2,3) by auto
  with assms(1) show ?thesis
    unfolding UserStore_MarkPasswordResetUsed_def Let_def by (simp only: stmt_def require_simps andThen.simps simp_thms)
qed

lemma used_reset_refused:
  assumes "ParseResetCredential raw = Inr (lid, secret)"
    and "selectFirst (\<lambda>c. pr_LookupID c = lid) (db_resets d) = Some cred" and "pr_UsedAt cred \<noteq> None"
    and "\<not> io_fault io ''UserStore.GetPasswordResetByLookupID''"
  shows "CompletePasswordReset x keys raw pw io d = (d, Inl ErrInvalidResetCredential)"
  using assms
  by (simp add: CompletePasswordReset_def guarded_def resetTarget_def UserStore_GetPasswordResetByLookupID_def stmt_def)

lemma CompletePasswordReset_works:
  assumes p: "ParseResetCredential raw = Inr (lid, secret)"
    and row: "selectFirst (\<lambda>c. pr_LookupID c = lid) (db_resets d) = Some cred"
    and cred: "pr_UsedAt cred = None" "io_now io \<le> pr_ExpiresAt cred" "pr_Digest cred = DigestOpaqueCredential x secret (k_RefreshPepper keys)"
    and env: "calm io" "userExists d (pr_UserID cred)" "audit_ok x d" "io_eventID io \<notin> ar_ID ` set (db_audit d)"
    and pw: "ValidatePasswordPolicy pw = Inr ()"
  obtains d1 d2 where "CompletePasswordReset x keys raw pw io d = (d2, Inr ())"
    and "setPasswordAndRevoke x (resetActor (pr_UserID cred)) (pr_UserID cred) pw ''users.password_reset.complete'' ''password reset'' io d1 = (d2, Inr ())"
    and "\<exists>c. selectFirst (\<lambda>c. pr_LookupID c = lid) (db_resets d2) = Some c \<and> pr_UsedAt c \<noteq> None"
    and "cutOff (pr_UserID cred) d d2"
proof -
  have mem: "cred \<in> set (db_resets d)" using row by (auto dest: selectFirst_SomeD)
  define d1 where "d1 = d\<lparr>db_resets := updateWhere (\<lambda>c. pr_ID c = pr_ID cred \<and> pr_UsedAt c = None)
      (\<lambda>c. c\<lparr>pr_UsedAt := Some (io_now io)\<rparr>) (db_resets d)\<rparr>"
  have m: "UserStore_MarkPasswordResetUsed io (pr_ID cred) d = Inr d1"
    unfolding d1_def by (rule MarkPasswordResetUsed_total) (use env(1) mem cred(1) in simp_all)
  obtain d2 where s: "setPasswordAndRevoke x (resetActor (pr_UserID cred)) (pr_UserID cred) pw
      ''users.password_reset.complete'' ''password reset'' io d1 = (d2, Inr ())"
    using setPasswordAndRevoke_total [OF env(1) pw, of d1 "pr_UserID cred" x "resetActor (pr_UserID cred)"
        "''users.password_reset.complete''" "''password reset''"] env
    by (auto simp: d1_def userExists_def audit_ok_def)
  have "resetTarget x keys raw io d = Inr cred"
    using p row cred env(1)
    by (simp add: resetTarget_def UserStore_GetPasswordResetByLookupID_def VerifyOpaqueCredential_def)
  then have "CompletePasswordReset x keys raw pw io d = (d2, Inr ())"
    using m s env(1) by (simp add: CompletePasswordReset_def guarded_def WithTx_def unitTx_def)
  moreover have "db_resets d2 = db_resets d1" using s by (rule setPasswordAndRevoke_Inr)
  moreover have "\<exists>c. selectFirst (\<lambda>c. pr_LookupID c = lid) (db_resets d1) = Some c \<and> pr_UsedAt c \<noteq> None"
    using row cred(1) by (simp add: d1_def selectFirst_updateWhere)
  moreover have "cutOff (pr_UserID cred) d d2"
    using password_revokes.cuts_off [OF s] by (simp add: cutOff_def d1_def)
  ultimately show ?thesis using that s by metis
qed

text \<open>
  C11. An administrator's reset credential works once: presented within 15 minutes with an
  acceptable password it sets that password, so that the user can log in with it, cuts off
  every session and token of the user, and is refused ever after without any effect.
\<close>

theorem password_reset_round_trip:
  assumes init: "InitiatePasswordReset x keys actor (u_ID user) io d = (d1, Inr raw)"
    and time: "io_now io2 \<le> io_now io + 15 * Minute" and env: "calm io2" "audit_ok x d"
    and ids: "io_eventID io2 \<notin> ar_ID ` set (db_audit d1)"
    and pw: "ValidatePasswordPolicy pw = Inr ()" and ext: "argon2_ok x" "params_ok x"
  shows "\<exists>d2. CompletePasswordReset x keys raw pw io2 d1 = (d2, Inr ()) \<and> cutOff (u_ID user) d1 d2
    \<and> (\<forall>io3. calm io3 \<longrightarrow> passwordMatches x io3 user pw d2
         \<and> (\<forall>pw3. CompletePasswordReset x keys raw pw3 io3 d2 = (d2, Inl ErrInvalidResetCredential)))"
  using init
proof (rule InitiatePasswordReset_Inr)
  fix lid secret cred
  assume p: "ParseResetCredential raw = Inr (lid, secret)" and row: "selectFirst (\<lambda>c. pr_LookupID c = lid) (db_resets d1) = Some cred"
    and uid: "pr_UserID cred = u_ID user" and used: "pr_UsedAt cred = None" and exp: "pr_ExpiresAt cred = io_now io + PasswordResetTTL"
    and dig: "pr_Digest cred = DigestOpaqueCredential x secret (k_RefreshPepper keys)"
    and ex: "userExists d1 (u_ID user)" and aud: "audited x ''users.password_reset.initiate'' d d1"
  have now: "io_now io2 \<le> pr_ExpiresAt cred" using time by (simp add: exp PasswordResetTTL_def)
  obtain d2 dm where c: "CompletePasswordReset x keys raw pw io2 d1 = (d2, Inr ())"
    and s: "setPasswordAndRevoke x (resetActor (u_ID user)) (u_ID user) pw ''users.password_reset.complete'' ''password reset'' io2 dm = (d2, Inr ())"
    and u: "\<exists>c. selectFirst (\<lambda>c. pr_LookupID c = lid) (db_resets d2) = Some c \<and> pr_UsedAt c \<noteq> None"
    and dm: "cutOff (u_ID user) d1 d2"
    using CompletePasswordReset_works [OF p row used now dig env(1) ex [folded uid] audited_audit_ok [OF aud env(2)] ids pw, unfolded uid]
    by metis
  show ?thesis
    using c dm u used_reset_refused [OF p] password_set_matches [OF ext s] by (intro exI [of _ d2]) auto
qed

definition sampleReset :: "db \<times> string result" where
  "sampleReset = InitiatePasswordReset sampleExt (ss_keys sampleService) SystemActor ''u1'' sampleIO passwordDb"

theorem password_reset_round_trip_witness:
  "\<exists>d1 raw d2. sampleReset = (d1, Inr raw)
     \<and> CompletePasswordReset sampleExt (ss_keys sampleService) raw ''battery staple'' (laterIO 15 ''e2'' ''x'') d1 = (d2, Inr ())
     \<and> passwordMatches sampleExt sampleIO sampleUser ''battery staple'' d2"
proof -
  have "\<not> isl (snd sampleReset)" "io_eventID (laterIO 15 ''e2'' ''x'') \<notin> ar_ID ` set (db_audit (fst sampleReset))" by code_simp+
  then obtain d1 raw where r: "InitiatePasswordReset sampleExt (ss_keys sampleService) SystemActor (u_ID sampleUser) sampleIO passwordDb = (d1, Inr raw)"
    and fresh: "io_eventID (laterIO 15 ''e2'' ''x'') \<notin> ar_ID ` set (db_audit d1)"
    by (cases sampleReset; cases "snd sampleReset") (auto simp: sampleReset_def sampleUser_def)
  have "io_now (laterIO 15 ''e2'' ''x'') \<le> io_now sampleIO + 15 * Minute" "calm (laterIO 15 ''e2'' ''x'')" "calm sampleIO"
    by (simp_all add: laterIO_def calm_def sampleIO_def)
  moreover have "audit_ok sampleExt passwordDb" "ValidatePasswordPolicy ''battery staple'' = Inr ()" by code_simp+
  moreover have "params_ok sampleExt" by (simp add: params_ok_def DefaultArgon2idParams_def)
  ultimately show ?thesis
    using password_reset_round_trip [OF r _ _ _ fresh _ sampleExt_ok(2)] r by (fastforce simp: sampleReset_def sampleUser_def)
qed

text \<open>
  A reset credential presented with a password the policy rejects is used up: the
  request fails on the policy, the old password stays, and a second attempt with an
  acceptable password is refused as invalid.
\<close>

theorem weak_password_burns_reset:
  "(case sampleReset of (d1, Inr raw) \<Rightarrow>
     (case CompletePasswordReset sampleExt (ss_keys sampleService) raw ''short'' (laterIO 1 ''e2'' ''x'') d1 of (d2, r) \<Rightarrow>
        r = Inl (ErrMessage ''password must be at least 8 characters'') \<and> db_passwords d2 = db_passwords d1
        \<and> CompletePasswordReset sampleExt (ss_keys sampleService) raw ''battery staple'' (laterIO 2 ''e3'' ''x'') d2
            = (d2, Inl ErrInvalidResetCredential))
   | _ \<Rightarrow> False)"
  by code_simp

section \<open>Initialization\<close>

lemma newUser_Inr:
  assumes "newUser x io username displayName password = Inr (user, cred)"
  obtains salt hash where "NormalizeUsername x username = Inr (u_Username user)" and "u_ID user = io_newID io"
    and "u_State user = UserStateActive" and "HashPassword x io password DefaultArgon2idParams = Inr (salt, hash)"
    and "cred = passwordRow (u_ID user) salt hash (io_now io)" and "u_CredentialVersion user = 1"
    and "u_CreatedAt user = io_now io" and "u_UpdatedAt user = io_now io"
  using assms by (auto simp: newUser_def)

lemma insertUser_Inr:
  assumes "insertUser x actor io (user, cred) d = Inr (user', d')"
  shows "user' = user" and "userDefaults (io_now io) user \<in> set (db_users d')" and "db_userRoles d' = db_userRoles d"
    and "db_roles d' = db_roles d" and "\<exists>d1. UserStore_SetPassword io cred d1 = Inr (d'\<lparr>db_audit := db_audit d\<rparr>)"
    and "db_users d' = db_users d @ [userDefaults (io_now io) user]"
proof -
  obtain d1 d2 where 1: "UserStore_Create io user d = Inr d1" and 2: "UserStore_SetPassword io cred d1 = Inr d2"
    and 3: "Recorder_Record x io actor (successEvent ''users.create'' ''user'' (u_ID user) (Some [(''username'', JStr (u_Username user))])) d2 = Inr d'"
    and "user' = user"
    using assms by (auto simp: insertUser_def)
  show "user' = user" by fact
  have d1: "d1 = d\<lparr>db_users := db_users d @ [userDefaults (io_now io) user]\<rparr>" using 1 by (auto simp: UserStore_Create_def)
  have d2: "db_users d2 = db_users d1" "db_userRoles d2 = db_userRoles d1" "db_roles d2 = db_roles d1" "db_audit d2 = db_audit d1"
    by (subst UserStore_SetPassword_result [OF 2], simp)+
  have d': "db_users d' = db_users d2" "db_userRoles d' = db_userRoles d2" "db_roles d' = db_roles d2"
    by (subst Recorder_Record_InrD(1) [OF 3], simp)+
  show "db_users d' = db_users d @ [userDefaults (io_now io) user]" "userDefaults (io_now io) user \<in> set (db_users d')"
    "db_userRoles d' = db_userRoles d" "db_roles d' = db_roles d"
    by (simp_all add: d' d2 d1)
  have "d'\<lparr>db_audit := db_audit d\<rparr> = d2"
    by (subst Recorder_Record_InrD(1) [OF 3]) (simp add: d1 d2(4) [symmetric, unfolded d1, simplified])
  with 2 show "\<exists>d1. UserStore_SetPassword io cred d1 = Inr (d'\<lparr>db_audit := db_audit d\<rparr>)" by auto
qed

lemma insertUserRole_mem: "insertUserRole now uid rid d = Inr d' \<Longrightarrow>
   d' = d\<lparr>db_userRoles := db_userRoles d @ [\<lparr>ur_UserID = uid, ur_RoleID = rid, ur_CreatedAt = now\<rparr>]\<rparr>"
  by (auto simp: insertUserRole_def)

lemma AssignUserRole_result:
  assumes "RoleStore_AssignUserRole io uid rid d = Inr d'"
  shows "d' = d\<lparr>db_userRoles := db_userRoles d'\<rparr>" and "\<exists>x\<in>set (db_userRoles d'). ur_UserID x = uid \<and> ur_RoleID x = rid"
  using assms by (auto simp: RoleStore_AssignUserRole_def dest!: insertUserRole_mem split: if_splits)

lemma Init_Inr:
  assumes "Init x adminUsername adminPassword displayName io d = (d', Inr r)"
  obtains user cred d1 where "\<forall>u\<in>set (db_users d). u_Username u = GuestUsername"
    and "newUser x io adminUsername displayName adminPassword = Inr (user, cred)"
    and "insertUser x bootstrapActor io (user, cred) d = Inr (user, d1)"
    and "RoleStore_AssignUserRole io (u_ID user) AdministratorRoleID d1 = Inr d'"
    and "r = \<lparr>res_AdminUserID = u_ID user, res_Username = u_Username user\<rparr>"
proof -
  obtain us where us: "UserStore_List io d = Inr us" and none: "\<not> list_ex (\<lambda>u. u_Username u \<noteq> GuestUsername) us"
    using assms by (auto simp: Init_def dest!: WithTx_Inr split: if_splits)
  have "set us = set (db_users d)" using us by (auto simp: UserStore_List_def)
  with none have 1: "\<forall>u\<in>set (db_users d). u_Username u = GuestUsername" by (simp add: list_ex_iff)
  obtain user cred user' d1 where n: "newUser x io adminUsername displayName adminPassword = Inr (user, cred)"
    and i: "insertUser x bootstrapActor io (user, cred) d = Inr (user', d1)"
    and a: "RoleStore_AssignUserRole io (u_ID user') AdministratorRoleID d1 = Inr d'"
    and r: "r = \<lparr>res_AdminUserID = u_ID user', res_Username = u_Username user'\<rparr>"
    using assms none by (auto simp: Init_def us Users_CreateJoined_def dest!: WithTx_Inr)
  show ?thesis using that [OF 1 n] i a r insertUser_Inr(1) [OF i] by simp
qed

interpretation bootstrap_init: audited_op x "Init x name pw disp" "''users.create''" for x name pw disp
proof
  fix io d d' e assume "Init x name pw disp io d = (d', Inl e)"
  then show "d' = d" by (auto simp: Init_def dest: WithTx_Inl)
next
  fix io d d' r assume "Init x name pw disp io d = (d', Inr r)"
  then show "audited x ''users.create'' d d'" "\<not> io_fault io ''AuditStore.Append''"
  proof (rule_tac [!] Init_Inr)
    fix user cred d1
    assume i: "insertUser x bootstrapActor io (user, cred) d = Inr (user, d1)"
      and a: "RoleStore_AssignUserRole io (u_ID user) AdministratorRoleID d1 = Inr d'"
    have "db_audit d' = db_audit d1" by (subst AssignUserRole_result(1) [OF a]) simp
    then show "audited x ''users.create'' d d'" using insertUser_audited [OF i] by (simp add: audited_def)
    show "\<not> io_fault io ''AuditStore.Append''" using insertUser_audited [OF i] by simp
  qed
qed

lemma ensureGuestUser_exists:
  assumes "ensureGuestUser io d = (d', Inr ())"
  shows "GuestUsername \<in> u_Username ` set (db_users d')"
proof (cases "UserStore_GetByUsername io GuestUsername d")
  case (Inr g)
  then have "g \<in> set (db_users d)" "u_Username g = GuestUsername"
    by (auto simp: UserStore_GetByUsername_def dest: selectFirst_SomeD split: option.splits)
  moreover obtain d1 where "RoleStore_AssignUserRole io (u_ID g) GuestRoleID d = Inr d1" "d' = d1"
    using assms Inr by (auto simp: ensureGuestUser_def autoCommit_def split: sum.splits)
  then have "db_users d' = db_users d" by (metis AssignUserRole_result(1) db.select_convs(2) db.surjective db.update_convs(8))
  ultimately show ?thesis by force
next
  case (Inl e)
  then obtain d1 where "UserStore_Create io (guestUser io) d = Inr d1" "RoleStore_AssignUserRole io (u_ID (guestUser io)) GuestRoleID d1 = Inr d'"
    using assms by (auto simp: ensureGuestUser_def dest!: WithTx_Inr split: if_splits)
  moreover have "db_users d' = db_users d1" by (subst AssignUserRole_result(1) [OF calculation(2)]) simp
  ultimately show ?thesis by (auto simp: UserStore_Create_def guestUser_def)
qed

lemma Initialized_iff:
  "\<not> io_fault io ''UserStore.List'' \<Longrightarrow> Initialized io d = Inr (\<exists>u\<in>set (db_users d). u_Username u \<noteq> GuestUsername)"
  by (auto simp: Initialized_def UserStore_List_def stmt_def list_ex_iff)

lemma Init_refused:
  "calm io \<Longrightarrow> u \<in> set (db_users d) \<Longrightarrow> u_Username u \<noteq> GuestUsername \<Longrightarrow> Init x name pw disp io d = (d, Inl ErrAlreadyInitialized)"
  by (auto simp: Init_def WithTx_def UserStore_List_def list_ex_iff)

text \<open>
  Initialization happens once and leaves a usable administrator: on an appliance whose
  only user is the guest, a successful Init creates an enabled administrator under the
  normalized name whose password is the one given, and from then on the appliance reports
  itself initialized and every further Init is refused and changes nothing.
\<close>

theorem Init_once:
  assumes guest: "GuestUsername \<in> u_Username ` set (db_users d)" and ext: "argon2_ok x" "params_ok x"
    and init: "Init x adminUsername adminPassword displayName io d = (d', Inr r)"
  shows "NormalizeUsername x adminUsername = Inr (res_Username r)
    \<and> (\<exists>admin\<in>set (db_users d'). u_ID admin = res_AdminUserID r \<and> u_Username admin = res_Username r \<and> u_State admin = UserStateActive
          \<and> (\<forall>io2. calm io2 \<longrightarrow> passwordMatches x io2 admin adminPassword d'))
    \<and> hasEnabledAdmin d'
    \<and> (\<forall>io2. calm io2 \<longrightarrow> Initialized io2 d' = Inr True
          \<and> (\<forall>name pw disp. Init x name pw disp io2 d' = (d', Inl ErrAlreadyInitialized)))"
  using init
proof (rule Init_Inr)
  fix user cred d1
  assume n: "newUser x io adminUsername displayName adminPassword = Inr (user, cred)"
    and i: "insertUser x bootstrapActor io (user, cred) d = Inr (user, d1)"
    and a: "RoleStore_AssignUserRole io (u_ID user) AdministratorRoleID d1 = Inr d'"
    and r: "r = \<lparr>res_AdminUserID = u_ID user, res_Username = u_Username user\<rparr>"
  obtain salt hash where name: "NormalizeUsername x adminUsername = Inr (u_Username user)" and act: "u_State user = UserStateActive"
    and h: "HashPassword x io adminPassword DefaultArgon2idParams = Inr (salt, hash)"
    and cred: "cred = passwordRow (u_ID user) salt hash (io_now io)"
    using n by (rule newUser_Inr)
  let ?u = "userDefaults (io_now io) user"
  have users: "db_users d' = db_users d1" "db_passwords d' = db_passwords d1" by (subst AssignUserRole_result(1) [OF a], simp)+
  have u: "?u \<in> set (db_users d')" using insertUser_Inr(2) [OF i] by (simp add: users)
  have "u_Username user \<notin> u_Username ` set (db_users d)" using i by (auto simp: insertUser_def UserStore_Create_def)
  then have ng: "u_Username ?u \<noteq> GuestUsername" using guest by auto
  obtain t where "selectFirst (\<lambda>c. pc_UserID c = u_ID user) (db_passwords d') = Some (passwordRow (u_ID user) salt hash t)"
    using insertUser_Inr(5) [OF i] UserStore_SetPassword_lookup unfolding cred users by fastforce
  then have pw: "passwordMatches x io2 ?u adminPassword d'" if "calm io2" for io2
    using that ext(2) HashPassword_sound [OF ext(1) h]
    by (simp add: passwordMatches_def UserStore_GetPasswordCredential_def passwordRow_def DecodeParams_def params_ok_def)
  obtain ur where ur: "ur \<in> set (db_userRoles d')" "ur_UserID ur = u_ID user" "ur_RoleID ur = AdministratorRoleID"
    using AssignUserRole_result(2) [OF a] by blast
  have adm: "hasEnabledAdmin d'"
    unfolding hasEnabledAdmin_iff by (intro bexI [OF _ u] bexI [OF _ ur(1)]) (use ur act in simp)
  have again: "Initialized io2 d' = Inr True \<and> Init x nm p disp io2 d' = (d', Inl ErrAlreadyInitialized)" if "calm io2" for io2 nm p disp
    using Initialized_iff [of io2 d'] Init_refused [OF that u ng] bexI [where P = "\<lambda>v. u_Username v \<noteq> GuestUsername", OF ng u] that by simp
  show ?thesis
    using name adm again by (intro conjI bexI [OF _ u]) (use pw act in \<open>simp_all add: r\<close>)
qed

definition freshDb :: db where
  "freshDb = fst (ensureGuestUser sampleIO ((emptyDb ''UNIQUE constraint failed'')
     \<lparr>db_roles := [adminRole, adminRole\<lparr>r_ID := GuestRoleID, r_Name := ''guest''\<rparr>]\<rparr>))"

definition sampleInit :: "db \<times> Result result" where
  "sampleInit = Init sampleExt ''Admin'' ''correct horse'' ''Admin'' (sampleIO\<lparr>io_newID := ''id2''\<rparr>) freshDb"

theorem Init_once_witness:
  "\<exists>d' r. sampleInit = (d', Inr r) \<and> res_Username r = ''admin'' \<and> hasEnabledAdmin d'
     \<and> Init sampleExt ''eve'' ''correct horse'' ''Eve'' sampleIO d' = (d', Inl ErrAlreadyInitialized)"
proof -
  have "\<not> isl (snd sampleInit)" "case snd sampleInit of Inr r \<Rightarrow> res_Username r = ''admin'' | _ \<Rightarrow> False" by code_simp+
  then obtain d' r where r: "Init sampleExt ''Admin'' ''correct horse'' ''Admin'' (sampleIO\<lparr>io_newID := ''id2''\<rparr>) freshDb = (d', Inr r)"
    and name: "res_Username r = ''admin''"
    by (cases sampleInit; cases "snd sampleInit") (auto simp: sampleInit_def)
  have g: "GuestUsername \<in> u_Username ` set (db_users freshDb)" by code_simp
  have "params_ok sampleExt" "calm sampleIO" by (simp_all add: params_ok_def DefaultArgon2idParams_def calm_def sampleIO_def)
  with Init_once [OF g sampleExt_ok(2) _ r] r name show ?thesis by (auto simp: sampleInit_def)
qed

end
