(* ===== verification/Tokens.thy ===== *)
theory Tokens
  imports Users
begin

text \<open>
  API tokens (internal/tokens/service.go): creation within the lifetime bounds,
  revocation, and the authentication of a presented raw token.
\<close>

definition DefaultLifetime :: duration where "DefaultLifetime = 90 * 24 * Hour"
definition MaxLifetime :: duration where "MaxLifetime = 365 * 24 * Hour"
definition MinLifetime :: duration where "MinLifetime = 1 * Hour"

lemmas [duration_defs] = DefaultLifetime_def MaxLifetime_def MinLifetime_def

definition newToken ::
    "ext \<Rightarrow> Material \<Rightarrow> io \<Rightarrow> string \<Rightarrow> string \<Rightarrow> duration \<Rightarrow> string list option \<Rightarrow> (string \<times> APIToken) result" where
  "newToken x keys io ownerUserID name ttl0 scopes =
    (let ttl = (if ttl0 = 0 then DefaultLifetime else ttl0)
     in if ttl < MinLifetime \<or> MaxLifetime < ttl then Inl ErrInvalidLifetime
        else andThen (GenerateAPIToken io) (\<lambda>(raw, lookupID, secret).
          Inr (raw, \<lparr>t_ID = io_newID io, t_UserID = ownerUserID, t_Name = name, t_LookupID = lookupID,
                t_Digest = DigestAPITokenSecret x secret (k_APITokenPepper keys), t_Scopes = scopes,
                t_CreatedAt = io_now io, t_ExpiresAt = io_now io + ttl, t_LastUsedAt = None, t_RevokedAt = None\<rparr>)))"

definition insertToken :: "ext \<Rightarrow> Actor \<Rightarrow> io \<Rightarrow> string \<times> APIToken \<Rightarrow> db \<Rightarrow> ((string \<times> APIToken) \<times> db) result" where
  "insertToken x actor io p d = (case p of (raw, token) \<Rightarrow>
     andThen (TokenStore_Create io token d) (\<lambda>d1.
     andThen (Recorder_Record x io actor (successEvent ''tokens.create'' ''api_token'' (t_ID token)
         (Some [(''name'', JStr (t_Name token)), (''ownerUserId'', JStr (t_UserID token))])) d1) (\<lambda>d2.
     Inr ((raw, token), d2))))"

definition tokenCollision :: "err \<Rightarrow> err" where
  "tokenCollision e = (if e = ErrConflict then ErrMessage ''token id collision, retry'' else e)"

definition Tokens_Create ::
    "ext \<Rightarrow> Material \<Rightarrow> Actor \<Rightarrow> string \<Rightarrow> string \<Rightarrow> duration \<Rightarrow> string list option \<Rightarrow> io \<Rightarrow> db \<Rightarrow> db \<times> (string \<times> APIToken) result" where
  "Tokens_Create x keys actor ownerUserID name ttl scopes io d =
     guarded (newToken x keys io ownerUserID name ttl scopes) (\<lambda>p d.
       apsnd (mapErr tokenCollision) (WithTx io (insertToken x actor io p) d)) d"

definition Tokens_Revoke :: "ext \<Rightarrow> Actor \<Rightarrow> string \<Rightarrow> io \<Rightarrow> db \<Rightarrow> db \<times> unit result" where
  "Tokens_Revoke x actor tid io =
     WithTx io (unitTx (\<lambda>d. andThen (TokenStore_Revoke io tid d) (\<lambda>d1.
       Recorder_Record x io actor (successEvent ''tokens.revoke'' ''api_token'' tid None) d1)))"

text \<open>The checks of Authenticate; the touch that follows is best effort.\<close>

definition tokenTarget :: "ext \<Rightarrow> Material \<Rightarrow> string \<Rightarrow> io \<Rightarrow> db \<Rightarrow> APIToken result" where
  "tokenTarget x keys raw io d =
    (case ParseAPIToken raw of
       Inl e \<Rightarrow> Inl ErrInvalidToken
     | Inr (lookupID, secret) \<Rightarrow>
         (case TokenStore_GetByLookupID io lookupID d of
            Inl e \<Rightarrow> Inl (if e = ErrNotFound then ErrInvalidToken else e)
          | Inr token \<Rightarrow>
              if t_RevokedAt token \<noteq> None then Inl ErrInvalidToken
              else if t_ExpiresAt token < io_now io then Inl ErrInvalidToken
              else if \<not> VerifyAPITokenDigest x secret (k_APITokenPepper keys) (t_Digest token) then Inl ErrInvalidToken
              else Inr token))"

definition Tokens_Authenticate :: "ext \<Rightarrow> Material \<Rightarrow> string \<Rightarrow> io \<Rightarrow> db \<Rightarrow> db \<times> APIToken result" where
  "Tokens_Authenticate x keys raw io d =
     guarded (tokenTarget x keys raw io d) (\<lambda>token d.
       (case TokenStore_TouchLastUsed io (t_ID token) (io_now io) d of Inl e \<Rightarrow> d | Inr d' \<Rightarrow> d', Inr token)) d"

interpretation tokens_create: audited_op x "Tokens_Create x keys actor owner name ttl scopes" "''tokens.create''"
  for x keys actor owner name ttl scopes
  unfolding Tokens_Create_def
  by (rule audited_op_guarded, rule audited_op_mapErr, rule audited_op_WithTx)
    (auto simp: insertToken_def dest!: audit_frames dest: Recorder_Record_InrD(3) intro!: audited_body)

interpretation tokens_revoke: audited_op x "Tokens_Revoke x actor tid" "''tokens.revoke''" for x actor tid
  unfolding Tokens_Revoke_def
  by (rule audited_op_WithTx) (auto dest!: audit_frames dest: Recorder_Record_InrD(3) intro!: audited_body)

section \<open>A token from creation to its end\<close>

lemma tokenTarget_Inr:
  assumes "tokenTarget x keys raw io d = Inr t"
  obtains lid secret where "ParseAPIToken raw = Inr (lid, secret)" and "t \<in> set (db_tokens d)" and "t_LookupID t = lid"
    and "t_RevokedAt t = None" and "io_now io \<le> t_ExpiresAt t"
    and "t_Digest t = DigestAPITokenSecret x secret (k_APITokenPepper keys)"
  using assms
  by (auto simp: tokenTarget_def TokenStore_GetByLookupID_def VerifyAPITokenDigest_def dest!: selectFirst_SomeD
      split: sum.splits prod.splits if_splits option.splits)

text \<open>Authentication changes nothing but the time of last use.\<close>

lemma Tokens_Authenticate_frame:
  assumes "Tokens_Authenticate x keys raw io d = (d', r)"
  shows "d' = d\<lparr>db_tokens := db_tokens d'\<rparr>"
    and "map (\<lambda>t. t\<lparr>t_LastUsedAt := None\<rparr>) (db_tokens d') = map (\<lambda>t. t\<lparr>t_LastUsedAt := None\<rparr>) (db_tokens d)"
  using assms
  by (auto simp: Tokens_Authenticate_def guarded_def TokenStore_TouchLastUsed_def updateWhere_def andThen_Inr_iff split: sum.splits)

lemma Tokens_Authenticate_Inr:
  "Tokens_Authenticate x keys raw io d = (d', Inr t) \<Longrightarrow> tokenTarget x keys raw io d = Inr t"
  by (auto simp: Tokens_Authenticate_def guarded_Inr)

lemma Tokens_Create_Inr:
  assumes "Tokens_Create x keys actor owner name ttl scopes io d = (d', Inr (raw, t))"
  obtains lid secret where "ParseAPIToken raw = Inr (lid, secret)"
    and "selectFirst (\<lambda>t. t_LookupID t = lid) (db_tokens d') = Some t" and "t_RevokedAt t = None" and "t_UserID t = owner"
    and "t_Digest t = DigestAPITokenSecret x secret (k_APITokenPepper keys)" and "t_Scopes t = scopes" and "t_ID t = io_newID io"
    and "MinLifetime \<le> t_ExpiresAt t - io_now io" and "t_ExpiresAt t - io_now io \<le> MaxLifetime"
    and "io_newID io \<notin> t_ID ` set (db_tokens d)" and "db_tokens d' = db_tokens d @ [t]" and "userExists d owner"
    and "t_ExpiresAt t = io_now io + (if ttl = 0 then DefaultLifetime else ttl)"
proof -
  have n: "newToken x keys io owner name ttl scopes = Inr (raw, t)" and i: "insertToken x actor io (raw, t) d = Inr ((raw, t), d')"
    using assms unfolding Tokens_Create_def guarded_Inr
    by (auto simp: insertToken_def dest!: WithTx_Inr)
  obtain lid secret where g: "GenerateAPIToken io = Inr (raw, lid, secret)"
    and t: "t = \<lparr>t_ID = io_newID io, t_UserID = owner, t_Name = name, t_LookupID = lid,
                t_Digest = DigestAPITokenSecret x secret (k_APITokenPepper keys), t_Scopes = scopes,
                t_CreatedAt = io_now io, t_ExpiresAt = io_now io + (if ttl = 0 then DefaultLifetime else ttl),
                t_LastUsedAt = None, t_RevokedAt = None\<rparr>"
    and ttl: "MinLifetime \<le> (if ttl = 0 then DefaultLifetime else ttl)" "(if ttl = 0 then DefaultLifetime else ttl) \<le> MaxLifetime"
    using n by (auto simp: newToken_def Let_def split: if_splits)
  obtain d1 e where c: "TokenStore_Create io t d = Inr d1" and r: "Recorder_Record x io actor e d1 = Inr d'"
    using i by (auto simp: insertToken_def)
  have d1: "d1 = d\<lparr>db_tokens := db_tokens d @ [t]\<rparr>" "lid \<notin> t_LookupID ` set (db_tokens d)" "io_newID io \<notin> t_ID ` set (db_tokens d)"
    "userExists d owner"
    using c by (auto simp: TokenStore_Create_def t)
  have d': "db_tokens d' = db_tokens d @ [t]" by (subst Recorder_Record_InrD(1) [OF r]) (simp add: d1)
  have "selectFirst (\<lambda>t. t_LookupID t = lid) (db_tokens d') = Some t"
    unfolding d' by (rule selectFirst_append_new) (use selectFirst_None_key [OF d1(2)] in \<open>simp_all add: t\<close>)
  with that [OF api_token_codec.parse_gen [OF g]] d1 d' ttl show ?thesis by (simp add: t)
qed

lemma tokenTarget_row:
  assumes "ParseAPIToken raw = Inr (lid, secret)" and "selectFirst (\<lambda>t. t_LookupID t = lid) (db_tokens d) = Some t"
    and "\<not> io_fault io ''TokenStore.GetByLookupID''"
  shows "tokenTarget x keys raw io d = (if t_RevokedAt t = None \<and> io_now io \<le> t_ExpiresAt t
     \<and> VerifyAPITokenDigest x secret (k_APITokenPepper keys) (t_Digest t) then Inr t else Inl ErrInvalidToken)"
  using assms by (auto simp: tokenTarget_def TokenStore_GetByLookupID_def stmt_def)

context revoking_op
begin

lemma token_refused:
  assumes "op io d = (d', Inr ())" and "schema_ok d" and "ParseAPIToken raw = Inr (lid, secret)"
    and "t \<in> set (db_tokens d)" "t_LookupID t = lid" "t_UserID t = uid"
  shows "\<exists>e. Tokens_Authenticate x keys raw io2 d' = (d', Inl e)"
proof (cases "tokenTarget x keys raw io2 d'")
  case (Inl e)
  then show ?thesis by (simp add: Tokens_Authenticate_def guarded_def)
next
  case (Inr t')
  note c = cuts_off [OF assms(1), unfolded cutOff_def]
  from Inr have t': "t' \<in> set (db_tokens d')" "t_LookupID t' = lid" "t_RevokedAt t' = None"
    by (rule tokenTarget_Inr, simp add: assms(3))+
  then have "(lid, t_UserID t') \<in> (\<lambda>t. (t_LookupID t, t_UserID t)) ` set (db_tokens d)"
    using c by (metis (no_types, lifting) imageI list.set_map)
  then obtain t0 where "t0 \<in> set (db_tokens d)" "t_LookupID t0 = lid" "t_UserID t0 = t_UserID t'" by auto
  moreover have "t0 = t"
    using calculation(1,2) assms(2,4,5) by (auto simp: schema_ok_def tokens_ok_def distinct_map inj_on_def)
  ultimately show ?thesis using c t' assms(6) by auto
qed

end

lemma tokenTarget_Revoked:
  assumes "Tokens_Revoke x actor tid io d = (d', Inr ())"
  shows "db_tokens d' = updateWhere (\<lambda>t. t_ID t = tid \<and> t_RevokedAt t = None) (\<lambda>t. t\<lparr>t_RevokedAt := Some (io_now io)\<rparr>) (db_tokens d)"
proof -
  obtain d1 e where 1: "TokenStore_Revoke io tid d = Inr d1" and 2: "Recorder_Record x io actor e d1 = Inr d'"
    using assms by (auto simp: Tokens_Revoke_def dest!: WithTx_Inr)
  have "db_tokens d' = db_tokens d1" by (subst Recorder_Record_InrD(1) [OF 2]) simp
  with 1 show ?thesis unfolding TokenStore_Revoke_def Let_def andThen_Inr_iff by auto
qed

text \<open>
  C12. A token works from its creation until it expires or is revoked: it lives between one
  hour and 365 days, every presentation of the raw token up to its expiry authenticates as
  the stored token of its owner whatever becomes of the last-used update, and after the
  expiry or a revocation every presentation is refused with the one error and no effect.
\<close>

theorem API_token_lifecycle:
  assumes created: "Tokens_Create x keys actor owner name ttl scopes io d = (d1, Inr (raw, t))"
    and io2: "\<not> io_fault io2 ''TokenStore.GetByLookupID''"
  shows "t_UserID t = owner \<and> Hour \<le> t_ExpiresAt t - io_now io \<and> t_ExpiresAt t - io_now io \<le> 365 * 24 * Hour
    \<and> snd (Tokens_Authenticate x keys raw io2 d1) = (if io_now io2 \<le> t_ExpiresAt t then Inr t else Inl ErrInvalidToken)
    \<and> (\<forall>ra rio d2. Tokens_Revoke x ra (t_ID t) rio d1 = (d2, Inr ()) \<longrightarrow>
          Tokens_Authenticate x keys raw io2 d2 = (d2, Inl ErrInvalidToken))"
  using created
proof (rule Tokens_Create_Inr)
  fix lid secret
  assume p: "ParseAPIToken raw = Inr (lid, secret)" and row: "selectFirst (\<lambda>t. t_LookupID t = lid) (db_tokens d1) = Some t"
    and live: "t_RevokedAt t = None" "t_Digest t = DigestAPITokenSecret x secret (k_APITokenPepper keys)" and own: "t_UserID t = owner"
    and ttl: "MinLifetime \<le> t_ExpiresAt t - io_now io" "t_ExpiresAt t - io_now io \<le> MaxLifetime"
  have "snd (Tokens_Authenticate x keys raw io2 d1) = (if io_now io2 \<le> t_ExpiresAt t then Inr t else Inl ErrInvalidToken)"
    using tokenTarget_row [OF p row io2] live by (simp add: Tokens_Authenticate_def guarded_def VerifyAPITokenDigest_def)
  moreover have "Tokens_Authenticate x keys raw io2 d2 = (d2, Inl ErrInvalidToken)"
    if rev: "Tokens_Revoke x ra (t_ID t) rio d1 = (d2, Inr ())" for ra rio d2
  proof -
    have "selectFirst (\<lambda>t. t_LookupID t = lid) (db_tokens d2) = Some (t\<lparr>t_RevokedAt := Some (io_now rio)\<rparr>)"
      unfolding tokenTarget_Revoked [OF rev] using row live(1) by (simp add: selectFirst_updateWhere)
    from tokenTarget_row [OF p this io2] show ?thesis by (simp add: Tokens_Authenticate_def guarded_def)
  qed
  ultimately show ?thesis using own ttl by (simp add: MinLifetime_def MaxLifetime_def)
qed

definition sampleTokenRequest :: "db \<times> (string \<times> APIToken) result" where
  "sampleTokenRequest = Tokens_Create sampleExt (ss_keys sampleService) SystemActor ''u1'' ''ci'' 0 (Some [''builds.create'']) sampleIO sampleDb"

theorem API_token_lifecycle_witness:
  "\<exists>d1 raw t. sampleTokenRequest = (d1, Inr (raw, t)) \<and> t_UserID t = ''u1''
     \<and> snd (Tokens_Authenticate sampleExt (ss_keys sampleService) raw sampleIO d1) = Inr t"
proof -
  have "\<not> isl (snd sampleTokenRequest)" by code_simp
  then obtain d1 raw t where c: "Tokens_Create sampleExt (ss_keys sampleService) SystemActor ''u1'' ''ci'' 0 (Some [''builds.create'']) sampleIO sampleDb
      = (d1, Inr (raw, t))"
    by (cases sampleTokenRequest; cases "snd sampleTokenRequest") (auto simp: sampleTokenRequest_def)
  have "\<not> io_fault sampleIO ''TokenStore.GetByLookupID''" by simp
  from API_token_lifecycle [OF c this] c show ?thesis by (auto simp: sampleTokenRequest_def duration_defs)
qed

end
