(* ===== verification/Reqauth.thy ===== *)
theory Reqauth
  imports Tokens
begin

text \<open>
  Request authentication (internal/reqauth/reqauth.go): a bearer credential, either an API
  token or a session access token, becomes a Principal with its permissions. This is where
  sessions, tokens, users and roles meet, and the properties here are about their
  composition: what an authenticated principal may do, and that a user who was cut off
  stays out.
\<close>

record Principal =
  pp_UserID :: string
  pp_Username :: string
  pp_DisplayName :: string
  pp_Domain :: string
  pp_RoleNames :: "string list"
  pp_Permissions :: "string set"
  pp_AuthMethod :: string
  pp_FamilyID :: string
  pp_TokenID :: string

definition Principal_Actor :: "Principal \<Rightarrow> string \<Rightarrow> string \<Rightarrow> Actor" where
  "Principal_Actor p requestID sourceAddr =
    \<lparr>ac_UserID = pp_UserID p, ac_Type = ''user'', ac_AuthMethod = pp_AuthMethod p,
     ac_CredentialID = (if pp_AuthMethod p = ''api_token'' then pp_TokenID p else pp_FamilyID p),
     ac_RequestID = requestID, ac_SourceAddr = sourceAddr\<rparr>"

definition BearerToken :: "string \<Rightarrow> string option" where
  "BearerToken authorizationHeader =
    (if \<not> HasPrefix authorizationHeader ''Bearer '' then None
     else let token = TrimSpace (TrimPrefix authorizationHeader ''Bearer '')
          in if token = [] then None else Some token)"

definition principalRoleNames :: "io \<Rightarrow> string \<Rightarrow> db \<Rightarrow> string list result" where
  "principalRoleNames io userID d = andThen (RoleStore_ListUserRoles io userID d) (\<lambda>userRoles. Inr (map r_Name userRoles))"

definition principalIdentity :: "io \<Rightarrow> string \<Rightarrow> db \<Rightarrow> (User \<times> string list) result" where
  "principalIdentity io userID d = andThen (UserStore_Get io userID d) (\<lambda>user.
     andThen (principalRoleNames io userID d) (\<lambda>roleNames. Inr (user, roleNames)))"

definition tokenPrincipal :: "io \<Rightarrow> APIToken \<Rightarrow> db \<Rightarrow> Principal result" where
  "tokenPrincipal io tok d =
     andThen (EffectivePermissions io (t_UserID tok) d) (\<lambda>effective.
     andThen (principalIdentity io (t_UserID tok) d) (\<lambda>(user, roleNames).
     Inr \<lparr>pp_UserID = t_UserID tok, pp_Username = u_Username user, pp_DisplayName = u_DisplayName user,
          pp_Domain = AuthDomainLocal, pp_RoleNames = roleNames,
          pp_Permissions = IntersectScopes effective (t_Scopes tok), pp_AuthMethod = ''api_token'',
          pp_FamilyID = [], pp_TokenID = t_ID tok\<rparr>))"

definition sessionPrincipal :: "io \<Rightarrow> User \<times> SessionClaims \<Rightarrow> db \<Rightarrow> Principal result" where
  "sessionPrincipal io p d = (case p of (user, claims) \<Rightarrow>
     andThen (EffectivePermissions io (u_ID user) d) (\<lambda>effective.
     andThen (principalRoleNames io (u_ID user) d) (\<lambda>roleNames.
     Inr \<lparr>pp_UserID = u_ID user, pp_Username = u_Username user, pp_DisplayName = sc_DisplayName claims,
          pp_Domain = (if sc_AuthDomain claims = [] then AuthDomainLocal else sc_AuthDomain claims),
          pp_RoleNames = roleNames, pp_Permissions = effective, pp_AuthMethod = ''session'',
          pp_FamilyID = sc_FamilyID claims, pp_TokenID = []\<rparr>)))"

definition Authenticate :: "ext \<Rightarrow> SessionService \<Rightarrow> string \<Rightarrow> io \<Rightarrow> db \<Rightarrow> db \<times> Principal result" where
  "Authenticate x s raw io d =
    (if raw = [] then (d, Inl ErrUnauthenticated)
     else if HasPrefix raw APITokenPrefix
     then thenTx (apsnd (mapErr (\<lambda>_. ErrInvalidCredential)) (Tokens_Authenticate x (ss_keys s) raw io d))
            (\<lambda>tok d1. (d1, tokenPrincipal io tok d1))
     else (d, andThen (mapErr (\<lambda>_. ErrInvalidCredential) (ValidateAccessToken x s io raw d)) (\<lambda>p. sessionPrincipal io p d)))"

section \<open>What an authenticated principal may do\<close>

text \<open>The permissions of the roles a user holds.\<close>

definition rolePermissions :: "db \<Rightarrow> string \<Rightarrow> string set" where
  "rolePermissions d uid = (\<Union>r\<in>assignedRoles d uid. grantedPermissions d r)"

lemma EffectivePermissions_roles: "EffectivePermissions io uid d = Inr P \<Longrightarrow> P = rolePermissions d uid"
  unfolding EffectivePermissions_def rolePermissions_def by (rule sql_roles.effective_union)

lemma rolePermissions_frame: "d' = d\<lparr>db_tokens := ts\<rparr> \<Longrightarrow> rolePermissions d' uid = rolePermissions d uid"
  by (simp add: rolePermissions_def assignedRoles_def grantedPermissions_def roleExists_def)

lemma tokenPrincipal_Inr:
  assumes "tokenPrincipal io t d = Inr p"
  shows "pp_UserID p = t_UserID t \<and> pp_Permissions p = IntersectScopes (rolePermissions d (t_UserID t)) (t_Scopes t)
    \<and> pp_AuthMethod p = ''api_token'' \<and> pp_TokenID p = t_ID t"
proof -
  obtain P where P: "EffectivePermissions io (t_UserID t) d = Inr P" using assms by (auto simp: tokenPrincipal_def)
  obtain user names where i: "principalIdentity io (t_UserID t) d = Inr (user, names)" using assms by (auto simp: tokenPrincipal_def P)
  show ?thesis using assms [unfolded tokenPrincipal_def P i] EffectivePermissions_roles [OF P] by auto
qed

lemma sessionPrincipal_Inr:
  assumes "sessionPrincipal io (u, c) d = Inr p"
  shows "pp_UserID p = u_ID u \<and> pp_Permissions p = rolePermissions d (u_ID u)
    \<and> pp_AuthMethod p = ''session'' \<and> pp_FamilyID p = sc_FamilyID c"
proof -
  obtain P where P: "EffectivePermissions io (u_ID u) d = Inr P" using assms by (auto simp: sessionPrincipal_def)
  obtain names where i: "principalRoleNames io (u_ID u) d = Inr names" using assms by (auto simp: sessionPrincipal_def P)
  have "Inr p = sessionPrincipal io (u, c) d" by (rule assms [symmetric])
  then show ?thesis unfolding sessionPrincipal_def using EffectivePermissions_roles [OF P] by (simp add: P i)
qed

lemma Authenticate_Inr:
  assumes "Authenticate x s raw io d = (d', Inr p)"
  obtains (token) t where "HasPrefix raw APITokenPrefix" and "Tokens_Authenticate x (ss_keys s) raw io d = (d', Inr t)"
      and "pp_UserID p = t_UserID t" and "pp_Permissions p = IntersectScopes (rolePermissions d (t_UserID t)) (t_Scopes t)"
      and "pp_AuthMethod p = ''api_token''" and "pp_TokenID p = t_ID t"
  | (session) u c where "\<not> HasPrefix raw APITokenPrefix" and "ValidateAccessToken x s io raw d = Inr (u, c)" and "d' = d"
      and "pp_UserID p = u_ID u" and "pp_Permissions p = rolePermissions d (u_ID u)"
      and "pp_AuthMethod p = ''session''" and "pp_FamilyID p = sc_FamilyID c"
proof (cases "HasPrefix raw APITokenPrefix")
  case True
  then obtain t where a: "Tokens_Authenticate x (ss_keys s) raw io d = (d', Inr t)" and p: "tokenPrincipal io t d' = Inr p"
    using assms by (auto simp: Authenticate_def thenTx_Inr split: if_splits)
  note same = rolePermissions_frame [OF Tokens_Authenticate_frame(1) [OF a]]
  show ?thesis
    by (rule token [OF True a]) (use tokenPrincipal_Inr [OF p] same in simp_all)
next
  case False
  then have eq: "d' = d" "andThen (mapErr (\<lambda>_. ErrInvalidCredential) (ValidateAccessToken x s io raw d)) (\<lambda>p. sessionPrincipal io p d) = Inr p"
    using assms by (auto simp only: Authenticate_def prod.inject split: if_splits)
  obtain u c where a: "ValidateAccessToken x s io raw d = Inr (u, c)" and p: "sessionPrincipal io (u, c) d = Inr p"
    using eq(2) unfolding andThen_Inr_iff mapErr_simps by (metis surj_pair)
  show ?thesis
    by (rule session [OF False a eq(1)]) (use sessionPrincipal_Inr [OF p] in simp_all)
qed

text \<open>
  C13. Whatever credential authenticates, the principal may do only what the roles of its
  user grant, and for a token with scopes only what the scopes name too; a session belongs
  to an active user at the token's credential version, an API token is stored, unexpired
  and not revoked; and authenticating changes at most the time the token was last used.
\<close>

theorem authenticated_principal_is_entitled:
  assumes "Authenticate x s raw io d = (d', Inr p)"
  shows "pp_Permissions p \<subseteq> rolePermissions d (pp_UserID p)
    \<and> d' = d\<lparr>db_tokens := db_tokens d'\<rparr>
    \<and> map (\<lambda>t. t\<lparr>t_LastUsedAt := None\<rparr>) (db_tokens d') = map (\<lambda>t. t\<lparr>t_LastUsedAt := None\<rparr>) (db_tokens d)
    \<and> ((pp_AuthMethod p = ''session'' \<and> (\<exists>u\<in>set (db_users d). u_ID u = pp_UserID p \<and> u_State u = UserStateActive))
     \<or> (pp_AuthMethod p = ''api_token'' \<and> (\<exists>t\<in>set (db_tokens d). t_ID t = pp_TokenID p \<and> t_UserID t = pp_UserID p
          \<and> t_RevokedAt t = None \<and> io_now io \<le> t_ExpiresAt t
          \<and> (\<forall>ss. t_Scopes t = Some ss \<longrightarrow> pp_Permissions p \<subseteq> set ss))))"
  using assms
proof (cases rule: Authenticate_Inr)
  case (token t)
  have t: "t \<in> set (db_tokens d)" "t_RevokedAt t = None" "io_now io \<le> t_ExpiresAt t"
    using Tokens_Authenticate_Inr [OF token(2)] by (auto elim: tokenTarget_Inr)
  note frame = Tokens_Authenticate_frame [OF token(2)]
  have "pp_Permissions p \<subseteq> rolePermissions d (pp_UserID p)" "\<forall>ss. t_Scopes t = Some ss \<longrightarrow> pp_Permissions p \<subseteq> set ss"
    by (auto simp: token(3,4) IntersectScopes_def split: option.splits)
  with t frame token(3,5,6) show ?thesis by (intro conjI disjI2 bexI [of _ t]) auto
next
  case (session u c)
  then have "u \<in> set (db_users d)" "u_State u = UserStateActive" by (auto elim: ValidateAccessToken_Inr)
  with session show ?thesis by auto
qed

text \<open>
  C14. A user who is disabled, whose password an administrator sets or who changes it, is cut
  off at once: every bearer credential that authenticated as that user before is refused
  afterwards, and so is every refresh token of a session the user had, both without effect.
\<close>

theorem cut_off_user_stays_out:
  assumes op: "Users_Disable x actor uid io d = (d', Inr ()) \<or> SetPasswordDirect x actor uid pw io d = (d', Inr ())
      \<or> ChangePassword x actor uid cur pw io d = (d', Inr ())"
    and sch: "schema_ok d"
  shows "(\<forall>raw io1 d1 p io2. Authenticate x s raw io1 d = (d1, Inr p) \<longrightarrow> pp_UserID p = uid \<longrightarrow>
            (\<exists>e. Authenticate x s raw io2 d' = (d', Inl e)))
    \<and> (\<forall>token fid raw f io2 addr req. parseFamilyScopedRefreshToken token = Inr (fid, raw) \<longrightarrow> f \<in> set (db_families d) \<longrightarrow>
          f_ID f = fid \<longrightarrow> f_UserID f = uid \<longrightarrow> (\<exists>e. Refresh x s io2 addr req token d' = (d', Inl e)))"
proof -
  obtain opr where r: "revoking_op opr uid" and did: "opr io d = (d', Inr ())"
    using op disable_revokes.revoking_op_axioms direct_revokes.revoking_op_axioms change_revokes.revoking_op_axioms by metis
  have "\<exists>e. Authenticate x s raw io2 d' = (d', Inl e)"
    if a: "Authenticate x s raw io1 d = (d1, Inr p)" and u: "pp_UserID p = uid" for raw io1 d1 p io2
    using a
  proof (cases rule: Authenticate_Inr)
    case (token t)
    from Tokens_Authenticate_Inr [OF token(2)] obtain lid secret where
      t: "ParseAPIToken raw = Inr (lid, secret)" "t \<in> set (db_tokens d)" "t_LookupID t = lid" by (rule tokenTarget_Inr)
    obtain e where "Tokens_Authenticate x (ss_keys s) raw io2 d' = (d', Inl e)"
      using revoking_op.token_refused [OF r did sch t] token(3) u by metis
    moreover have "raw \<noteq> []" using token(1) by (auto simp: HasPrefix_def APITokenPrefix_def)
    ultimately show ?thesis using token(1) by (simp add: Authenticate_def mapErr_def)
  next
    case (session us c)
    obtain e where "ValidateAccessToken x s io2 raw d' = Inl e"
      using revoking_op.access_token_refused [OF r did sch session(2)] session(4) u by metis
    then show ?thesis using session(1) by (simp add: Authenticate_def mapErr_def)
  qed
  moreover have "\<exists>e. Refresh x s io2 addr req token d' = (d', Inl e)"
    if "parseFamilyScopedRefreshToken token = Inr (fid, raw)" "f \<in> set (db_families d)" "f_ID f = fid" "f_UserID f = uid"
    for token fid raw f io2 addr req
    using revoking_op.refresh_refused [OF r did sch that] by (metis prod.collapse)
  ultimately show ?thesis by blast
qed

definition tokenDb :: db where "tokenDb = fst sampleTokenRequest"

definition sampleRaw :: string where "sampleRaw = fst sampleToken"

definition ownerDb :: db where
  "ownerDb = tokenDb\<lparr>db_roles := [adminRole\<lparr>r_ID := ''r1'', r_Name := ''builder'', r_BuiltIn := False\<rparr>],
     db_permissions := [\<lparr>p_Name = ''builds.create'', p_Description = []\<rparr>, \<lparr>p_Name = ''files.read'', p_Description = []\<rparr>],
     db_rolePermissions := [\<lparr>rp_RoleID = ''r1'', rp_Permission = ''builds.create''\<rparr>, \<lparr>rp_RoleID = ''r1'', rp_Permission = ''files.read''\<rparr>],
     db_userRoles := [(adminRow ''u1'')\<lparr>ur_RoleID := ''r1''\<rparr>]\<rparr>"

lemma ownerDb_authenticates:
  "case Authenticate sampleExt sampleService sampleRaw sampleIO ownerDb of
     (d1, Inr p) \<Rightarrow> pp_UserID p = ''u1'' \<and> pp_Permissions p = {''builds.create''} | _ \<Rightarrow> False"
  by code_simp

theorem authenticated_principal_is_entitled_witness:
  "\<exists>d' p. Authenticate sampleExt sampleService sampleRaw sampleIO ownerDb = (d', Inr p) \<and> pp_Permissions p = {''builds.create''}
     \<and> pp_Permissions p \<subseteq> rolePermissions ownerDb ''u1''"
proof -
  obtain d' p where a: "Authenticate sampleExt sampleService sampleRaw sampleIO ownerDb = (d', Inr p)"
    and p: "pp_UserID p = ''u1''" "pp_Permissions p = {''builds.create''}"
    using ownerDb_authenticates by (cases "Authenticate sampleExt sampleService sampleRaw sampleIO ownerDb" ;
      cases "snd (Authenticate sampleExt sampleService sampleRaw sampleIO ownerDb)") auto
  from authenticated_principal_is_entitled [OF a] a p show ?thesis by auto
qed

theorem cut_off_user_stays_out_witness:
  "\<exists>d' e. Users_Disable sampleExt SystemActor ''u1'' (laterIO 1 ''e2'' ''x'') ownerDb = (d', Inr ())
     \<and> Authenticate sampleExt sampleService sampleRaw (laterIO 2 ''e3'' ''x'') d' = (d', Inl e)"
proof -
  define r where "r = Users_Disable sampleExt SystemActor ''u1'' (laterIO 1 ''e2'' ''x'') ownerDb"
  have "\<not> isl (snd (Users_Disable sampleExt SystemActor ''u1'' (laterIO 1 ''e2'' ''x'') ownerDb))" "schema_ok ownerDb" by code_simp+
  then obtain d' where d: "Users_Disable sampleExt SystemActor ''u1'' (laterIO 1 ''e2'' ''x'') ownerDb = (d', Inr ())"
    by (fold r_def, cases r; cases "snd r") auto
  obtain d1 p where "Authenticate sampleExt sampleService sampleRaw sampleIO ownerDb = (d1, Inr p)" "pp_UserID p = ''u1''"
    using ownerDb_authenticates by (cases "Authenticate sampleExt sampleService sampleRaw sampleIO ownerDb" ;
      cases "snd (Authenticate sampleExt sampleService sampleRaw sampleIO ownerDb)") auto
  with cut_off_user_stays_out [OF disjI1 [OF d] \<open>schema_ok ownerDb\<close>, where s = sampleService] d show ?thesis by blast
qed

text \<open>
  A token made for a disabled user authenticates: neither the creation of an API token
  nor its authentication looks at the state of its owner, so a token an administrator
  creates for a user after disabling that user is accepted with the user's permissions.
\<close>

theorem disabled_owner_token_authenticates:
  "(case Users_Disable sampleExt SystemActor ''u1'' sampleIO (ownerDb\<lparr>db_tokens := [], db_audit := []\<rparr>) of (d1, r1) \<Rightarrow>
    (case Tokens_Create sampleExt (ss_keys sampleService) SystemActor ''u1'' ''late'' 0 None (laterIO 1 ''e2'' ''secret'') d1 of
       (d2, Inr (raw, t)) \<Rightarrow>
         (case Authenticate sampleExt sampleService raw (laterIO 2 ''e3'' ''x'') d2 of
            (d3, Inr p) \<Rightarrow> r1 = Inr () \<and> pp_UserID p = ''u1'' \<and> pp_Permissions p = {''builds.create'', ''files.read''}
               \<and> map u_State (db_users d3) = [UserStateDisabled]
          | _ \<Rightarrow> False)
     | _ \<Rightarrow> False))"
  by code_simp

end
