(* ===== verification/WebUI.thy ===== *)
theory WebUI
  imports Reqauth
begin

text \<open>
  The one-time browser handoff to the WebUI (internal/webui/grants.go): a session gets a
  launch grant, the gateway burns it for a bridge session, and every gateway request
  rechecks the bridge. Issuing, consuming and validating share \<open>validateActor\<close>.
\<close>

definition GrantLifetime :: duration where "GrantLifetime = 60 * Second"
definition BridgeLifetime :: duration where "BridgeLifetime = 8 * Hour"

definition validateActor :: "string \<Rightarrow> string \<Rightarrow> io \<Rightarrow> db \<Rightarrow> (User \<times> SessionFamily) result" where
  "validateActor userID familyID io d =
    (case UserStore_Get io userID d of Inl e \<Rightarrow> Inl ErrNotFound | Inr user \<Rightarrow>
       if u_State user \<noteq> UserStateActive then Inl ErrNotFound
       else (case SessionStore_GetFamily io familyID d of Inl e \<Rightarrow> Inl ErrNotFound | Inr family \<Rightarrow>
         if f_UserID family \<noteq> u_ID user \<or> f_RevokedAt family \<noteq> None \<or> \<not> io_now io < f_AbsoluteExpiresAt family
         then Inl ErrNotFound
         else (case Check io (u_ID user) ''inference.use'' d of Inl e \<Rightarrow> Inl ErrNotFound | Inr _ \<Rightarrow> Inr (user, family))))"

definition WebUI_Issue :: "ext \<Rightarrow> bytes \<Rightarrow> string \<Rightarrow> string \<Rightarrow> io \<Rightarrow> db \<Rightarrow> db \<times> string result" where
  "WebUI_Issue x pepper userID familyID io d =
    (if userID = [] \<or> familyID = [] then (d, Inl (ErrMessage ''user and session family are required''))
     else case validateActor userID familyID io d of Inl e \<Rightarrow> (d, Inl ErrNotFound) | Inr _ \<Rightarrow>
       guarded (randRead io 32 (io_secretRand io)) (\<lambda>b d.
         let raw = EncodeToString b;
             g = \<lparr>lg_ID = drop 16 raw, lg_LookupID = take 16 raw, lg_Digest = DigestOpaqueCredential x raw pepper,
                  lg_UserID = userID, lg_FamilyID = familyID, lg_CreatedAt = io_now io,
                  lg_ExpiresAt = io_now io + GrantLifetime, lg_UsedAt = None\<rparr>
         in thenTx (autoCommit (CreateWebUILaunchGrant io g) d) (\<lambda>_ d1. (d1, Inr raw))) d)"

text \<open>The reads and checks of ConsumeGrant, then its two writes, each on its own.\<close>

definition consumeTarget :: "ext \<Rightarrow> bytes \<Rightarrow> string \<Rightarrow> io \<Rightarrow> db \<Rightarrow> (WebUILaunchGrant \<times> User \<times> SessionFamily) result" where
  "consumeTarget x pepper raw io d =
    (if length raw < 17 then Inl ErrNotFound
     else case GetWebUILaunchGrantByLookupID io (take 16 raw) d of Inl e \<Rightarrow> Inl ErrNotFound | Inr g \<Rightarrow>
       if lg_UsedAt g \<noteq> None \<or> \<not> io_now io < lg_ExpiresAt g \<or> lg_Digest g \<noteq> DigestOpaqueCredential x raw pepper
       then Inl ErrNotFound
       else (case validateActor (lg_UserID g) (lg_FamilyID g) io d of Inl e \<Rightarrow> Inl ErrNotFound
             | Inr (user, family) \<Rightarrow> Inr (g, user, family)))"

definition consumeCommit ::
    "ext \<Rightarrow> bytes \<Rightarrow> WebUILaunchGrant \<times> User \<times> SessionFamily \<Rightarrow> io \<Rightarrow> db \<Rightarrow> db \<times> (string \<times> string \<times> string) result" where
  "consumeCommit x pepper t io d = (case t of (g, user, family) \<Rightarrow>
     guarded (randRead io 32 (io_secretRand io)) (\<lambda>b d.
       let bridge = EncodeToString b;
           session = \<lparr>bs_ID = drop 16 bridge, bs_LookupID = take 16 bridge, bs_Digest = DigestOpaqueCredential x bridge pepper,
             bs_UserID = u_ID user, bs_FamilyID = f_ID family, bs_CreatedAt = io_now io,
             bs_ExpiresAt = io_now io + BridgeLifetime, bs_RevokedAt = None\<rparr>
       in thenTx (autoCommit (ConsumeWebUILaunchGrant io (lg_ID g) (io_now io)) d) (\<lambda>_ d1.
          thenTx (autoCommit (CreateWebUIBridgeSession io session) d1) (\<lambda>_ d2.
          (d2, Inr (bridge, u_ID user, u_DisplayName user))))) d)"

definition ConsumeGrant :: "ext \<Rightarrow> bytes \<Rightarrow> string \<Rightarrow> io \<Rightarrow> db \<Rightarrow> db \<times> (string \<times> string \<times> string) result" where
  "ConsumeGrant x pepper raw io d = guarded (consumeTarget x pepper raw io d) (\<lambda>t. consumeCommit x pepper t io) d"

definition ValidateBridge :: "ext \<Rightarrow> bytes \<Rightarrow> string \<Rightarrow> io \<Rightarrow> db \<Rightarrow> (string \<times> string) result" where
  "ValidateBridge x pepper raw io d =
    (if length raw < 17 then Inl ErrNotFound
     else case GetWebUIBridgeSessionByLookupID io (take 16 raw) d of Inl e \<Rightarrow> Inl ErrNotFound | Inr b \<Rightarrow>
       if bs_RevokedAt b \<noteq> None \<or> \<not> io_now io < bs_ExpiresAt b \<or> bs_Digest b \<noteq> DigestOpaqueCredential x raw pepper
       then Inl ErrNotFound
       else (case validateActor (bs_UserID b) (bs_FamilyID b) io d of Inl e \<Rightarrow> Inl ErrNotFound
             | Inr (user, family) \<Rightarrow> Inr (u_ID user, u_DisplayName user)))"

section \<open>What validateActor guarantees\<close>

lemma validateActor_Inr:
  "validateActor uid fid io d = Inr (u, f) \<longleftrightarrow> UserStore_Get io uid d = Inr u \<and> u_State u = UserStateActive
     \<and> SessionStore_GetFamily io fid d = Inr f \<and> f_UserID f = u_ID u \<and> f_RevokedAt f = None
     \<and> io_now io < f_AbsoluteExpiresAt f \<and> Check io (u_ID u) ''inference.use'' d = Inr ()"
  unfolding validateActor_def by (cases "UserStore_Get io uid d"; cases "SessionStore_GetFamily io fid d";
      cases "Check io (u_ID u) ''inference.use'' d") (auto split: sum.splits)

lemma Check_Inr: "Check io uid perm d = Inr () \<Longrightarrow> perm \<in> rolePermissions d uid"
  by (auto simp: Check_def dest: EffectivePermissions_roles split: if_splits)

lemma validateActor_entitled:
  assumes "validateActor uid fid io d = Inr (u, f)"
  shows "u \<in> set (db_users d)" "u_ID u = uid" "u_State u = UserStateActive" "''inference.use'' \<in> rolePermissions d uid"
    "\<exists>f0\<in>set (db_families d). f_ID f0 = fid \<and> f_UserID f0 = uid \<and> f_RevokedAt f0 = None \<and> io_now io < f_AbsoluteExpiresAt f0"
proof -
  note v = assms [unfolded validateActor_Inr]
  show u: "u \<in> set (db_users d)" "u_ID u = uid" using v by (auto simp: UserStore_Get_Inr dest: selectFirst_SomeD)
  show "u_State u = UserStateActive" "''inference.use'' \<in> rolePermissions d uid" using v u(2) by (auto dest: Check_Inr)
  obtain f0 where "familyRow d fid = Some f0" "f = domainDefault f0" using v by (auto simp: SessionStore_GetFamily_Inr)
  then show "\<exists>f0\<in>set (db_families d). f_ID f0 = fid \<and> f_UserID f0 = uid \<and> f_RevokedAt f0 = None \<and> io_now io < f_AbsoluteExpiresAt f0"
    using v u(2) by (intro bexI [of _ f0]) (auto simp: familyRow_def dest: selectFirst_SomeD)
qed

lemma validateActor_frame:
  assumes "db_users d' = db_users d" "db_families d' = db_families d" "db_roles d' = db_roles d" "db_userRoles d' = db_userRoles d"
    "db_rolePermissions d' = db_rolePermissions d"
  shows "validateActor uid fid io d' = validateActor uid fid io d"
proof -
  have "UserStore_Get io uid d' = UserStore_Get io uid d" "SessionStore_GetFamily io fid d' = SessionStore_GetFamily io fid d"
    by (simp_all add: UserStore_Get_def SessionStore_GetFamily_def assms)
  moreover have "RoleStore_ListUserRoles io u d' = RoleStore_ListUserRoles io u d" "RoleStore_ListRolePermissions io r d' = RoleStore_ListRolePermissions io r d" for u r
    by (simp_all add: RoleStore_ListUserRoles_def RoleStore_ListRolePermissions_def userRolesOf_def assms)
  then have "Check io u perm d' = Check io u perm d" for u perm by (simp add: Check_def EffectivePermissions_def)
  ultimately show ?thesis by (simp only: validateActor_def)
qed

section \<open>Launch grants\<close>

lemma autoCommit_Inr [simp]: "autoCommit f d = (d', Inr u) \<longleftrightarrow> f d = Inr d'"
  by (auto simp: autoCommit_def split: sum.splits)

lemma WebUI_Issue_Inr:
  assumes "WebUI_Issue x pepper uid fid io d = (d', Inr raw)"
  obtains g where "db_launchGrants d' = db_launchGrants d @ [g]" and "d' = d\<lparr>db_launchGrants := db_launchGrants d'\<rparr>"
    and "lg_LookupID g = take 16 raw" and "lg_Digest g = DigestOpaqueCredential x raw pepper" and "lg_UserID g = uid" and "lg_FamilyID g = fid"
    and "lg_ExpiresAt g = io_now io + GrantLifetime" and "lg_UsedAt g = None" and "take 16 raw \<notin> lg_LookupID ` set (db_launchGrants d)"
    and "lg_ID g \<notin> lg_ID ` set (db_launchGrants d)" and "17 \<le> length raw"
proof -
  obtain b where b: "randRead io 32 (io_secretRand io) = Inr b" and raw: "raw = EncodeToString b"
    using assms by (auto simp: WebUI_Issue_def guarded_Inr Let_def thenTx_Inr split: if_splits sum.splits)
  define g where "g = \<lparr>lg_ID = drop 16 raw, lg_LookupID = take 16 raw, lg_Digest = DigestOpaqueCredential x raw pepper,
     lg_UserID = uid, lg_FamilyID = fid, lg_CreatedAt = io_now io, lg_ExpiresAt = io_now io + GrantLifetime, lg_UsedAt = None\<rparr>"
  have c: "CreateWebUILaunchGrant io g d = Inr d'"
    using assms by (auto simp: WebUI_Issue_def guarded_Inr b raw Let_def thenTx_Inr g_def split: if_splits sum.splits)
  have "length b = 32" using length_randRead [OF b] .
  then have "17 \<le> length raw" by (simp add: raw length_EncodeToString)
  with c show ?thesis by (intro that [of g]) (auto simp: CreateWebUILaunchGrant_def g_def)
qed

lemma ConsumeWebUILaunchGrant_Inr:
  "ConsumeWebUILaunchGrant io gid at d = Inr d' \<longleftrightarrow> \<not> io_fault io ''ConsumeWebUILaunchGrant''
     \<and> affected (\<lambda>g. lg_ID g = gid \<and> lg_UsedAt g = None) (db_launchGrants d) = 1
     \<and> d' = d\<lparr>db_launchGrants := updateWhere (\<lambda>g. lg_ID g = gid \<and> lg_UsedAt g = None) (\<lambda>g. g\<lparr>lg_UsedAt := Some at\<rparr>) (db_launchGrants d)\<rparr>"
  unfolding ConsumeWebUILaunchGrant_def Let_def andThen_Inr_iff by (auto simp only: stmt_simps require_simps sum.inject)

lemma consumeTarget_Inr:
  assumes "consumeTarget x pepper raw io d = Inr (g, u, f)"
  shows "selectFirst (\<lambda>g. lg_LookupID g = take 16 raw) (db_launchGrants d) = Some g" and "lg_UsedAt g = None"
    and "io_now io < lg_ExpiresAt g" and "lg_Digest g = DigestOpaqueCredential x raw pepper"
    and "validateActor (lg_UserID g) (lg_FamilyID g) io d = Inr (u, f)" and "g \<in> set (db_launchGrants d)"
proof -
  show a: "selectFirst (\<lambda>g. lg_LookupID g = take 16 raw) (db_launchGrants d) = Some g" and "lg_UsedAt g = None"
    and "io_now io < lg_ExpiresAt g" and "lg_Digest g = DigestOpaqueCredential x raw pepper"
    and "validateActor (lg_UserID g) (lg_FamilyID g) io d = Inr (u, f)"
    using assms by (auto simp: consumeTarget_def GetWebUILaunchGrantByLookupID_def andThen_Inr_iff split: if_splits sum.splits option.splits)
  show "g \<in> set (db_launchGrants d)" using a by (auto dest: selectFirst_SomeD)
qed

text \<open>Whoever commits after another commit for the same grant changes nothing.\<close>

lemma consumed_grant:
  assumes "consumeCommit x pepper (g, u, f) io d = (d', Inr r)"
  shows "db_launchGrants d' = updateWhere (\<lambda>h. lg_ID h = lg_ID g \<and> lg_UsedAt h = None)
      (\<lambda>h. h\<lparr>lg_UsedAt := Some (io_now io)\<rparr>) (db_launchGrants d)"
proof -
  obtain b d1 where 1: "ConsumeWebUILaunchGrant io (lg_ID g) (io_now io) d = Inr d1" and 2: "CreateWebUIBridgeSession io b d1 = Inr d'"
    using assms by (auto simp: consumeCommit_def guarded_Inr Let_def thenTx_Inr)
  have "db_launchGrants d' = db_launchGrants d1" using 2 by (auto simp: CreateWebUIBridgeSession_def)
  with 1 show ?thesis unfolding ConsumeWebUILaunchGrant_Inr by simp
qed

lemma used_grant_commit_refused:
  assumes "\<forall>h\<in>set (db_launchGrants d). lg_ID h = lg_ID g \<longrightarrow> lg_UsedAt h \<noteq> None"
  shows "\<exists>e. consumeCommit x pepper (g, u, f) io d = (d, Inl e)"
proof -
  have z: "affected (\<lambda>h. lg_ID h = lg_ID g \<and> lg_UsedAt h = None) (db_launchGrants d) = 0" using assms by auto
  then obtain e where "ConsumeWebUILaunchGrant io (lg_ID g) (io_now io) d = Inl e"
    unfolding ConsumeWebUILaunchGrant_def Let_def z by (cases "stmt io ''ConsumeWebUILaunchGrant''") auto
  then show ?thesis by (cases "randRead io 32 (io_secretRand io)") (auto simp: consumeCommit_def guarded_def Let_def autoCommit_def)
qed

text \<open>
  C18. A launch grant is good for one bridge session even under concurrency: whatever other
  request has checked the grant before, once one request has committed its use, the commit
  of the other fails and changes nothing, and every later presentation is refused.
\<close>

theorem launch_grant_single_use:
  assumes t1: "consumeTarget x pepper raw io1 d = Inr t1" and t2: "consumeTarget x pepper raw io2 d = Inr t2"
    and c: "consumeCommit x pepper t1 io1 d = (d', Inr r)"
  shows "(\<exists>e. consumeCommit x pepper t2 io2 d' = (d', Inl e)) \<and> (\<forall>io3. \<exists>e. ConsumeGrant x pepper raw io3 d' = (d', Inl e))"
proof -
  obtain g u f where 1: "t1 = (g, u, f)" by (cases t1)
  obtain g2 u2 f2 where 2: "t2 = (g2, u2, f2)" by (cases t2)
  note c1 = consumeTarget_Inr [OF t1 [unfolded 1]]
  have same: "g2 = g" using c1(1) consumeTarget_Inr(1) [OF t2 [unfolded 2]] by simp
  note d' = consumed_grant [OF c [unfolded 1]]
  have "\<forall>h\<in>set (db_launchGrants d'). lg_ID h = lg_ID g \<longrightarrow> lg_UsedAt h \<noteq> None"
    unfolding d' by (rule updateWhere_all) auto
  then have first: "\<exists>e. consumeCommit x pepper t2 io2 d' = (d', Inl e)" unfolding 2 same by (rule used_grant_commit_refused)
  have "selectFirst (\<lambda>h. lg_LookupID h = take 16 raw) (db_launchGrants d') = Some (g\<lparr>lg_UsedAt := Some (io_now io1)\<rparr>)"
    unfolding d' using c1(1,2) by (simp add: selectFirst_updateWhere)
  note row = this
  have "consumeTarget x pepper raw io3 d' \<noteq> Inr t" for io3 t
  proof
    assume a: "consumeTarget x pepper raw io3 d' = Inr t"
    obtain h v e where t: "t = (h, v, e)" by (cases t)
    have "h = g\<lparr>lg_UsedAt := Some (io_now io1)\<rparr>" using consumeTarget_Inr(1) [OF a [unfolded t]] row by simp
    then have "lg_UsedAt h = Some (io_now io1)" by simp
    then show False using consumeTarget_Inr(2) [OF a [unfolded t]] by simp
  qed
  then have "\<exists>e. ConsumeGrant x pepper raw io3 d' = (d', Inl e)" for io3
    by (cases "consumeTarget x pepper raw io3 d'") (auto simp: ConsumeGrant_def guarded_def)
  with first show ?thesis by blast
qed

section \<open>Bridges\<close>

lemma ValidateBridge_Inr:
  "ValidateBridge x pepper raw io d = Inr (uid, name) \<longleftrightarrow> 17 \<le> length raw \<and> \<not> io_fault io ''GetWebUIBridgeSessionByLookupID''
     \<and> (\<exists>b u f. selectFirst (\<lambda>b. bs_LookupID b = take 16 raw) (db_bridges d) = Some b \<and> bs_RevokedAt b = None
        \<and> io_now io < bs_ExpiresAt b \<and> bs_Digest b = DigestOpaqueCredential x raw pepper
        \<and> validateActor (bs_UserID b) (bs_FamilyID b) io d = Inr (u, f) \<and> uid = u_ID u \<and> name = u_DisplayName u)"
  by (auto simp: ValidateBridge_def GetWebUIBridgeSessionByLookupID_def stmt_def split: option.splits sum.splits)

lemma ValidateBridge_user:
  "ValidateBridge x pepper raw io d = Inr (uid, name) \<Longrightarrow> \<exists>u\<in>set (db_users d). u_ID u = uid \<and> u_State u = UserStateActive"
  by (auto simp: ValidateBridge_Inr dest: validateActor_entitled(1,3))

definition webuiDb :: db where
  "webuiDb = sessionDb\<lparr>db_roles := [adminRole\<lparr>r_ID := ''r1'', r_Name := ''ai''\<rparr>],
     db_permissions := [\<lparr>p_Name = ''inference.use'', p_Description = []\<rparr>],
     db_rolePermissions := [\<lparr>rp_RoleID = ''r1'', rp_Permission = ''inference.use''\<rparr>],
     db_userRoles := [(adminRow ''u1'')\<lparr>ur_RoleID := ''r1''\<rparr>]\<rparr>"

definition sampleIssue :: "db \<times> string result" where
  "sampleIssue = WebUI_Issue sampleExt ''pepper'' ''u1'' ''f1'' sampleIO webuiDb"

lemma sampleIssue_ok:
  "case sampleIssue of (d, Inr raw) \<Rightarrow> (case consumeTarget sampleExt ''pepper'' raw (laterIO 0 ''e2'' ''bridge-bytes'') d of
       Inr t \<Rightarrow> \<not> isl (snd (consumeCommit sampleExt ''pepper'' t (laterIO 0 ''e2'' ''bridge-bytes'') d)) | _ \<Rightarrow> False) | _ \<Rightarrow> False"
  by code_simp

theorem launch_grant_single_use_witness:
  "\<exists>d raw t d' r. sampleIssue = (d, Inr raw) \<and> consumeTarget sampleExt ''pepper'' raw (laterIO 0 ''e2'' ''bridge-bytes'') d = Inr t
     \<and> consumeCommit sampleExt ''pepper'' t (laterIO 0 ''e2'' ''bridge-bytes'') d = (d', Inr r)
     \<and> (\<exists>e. ConsumeGrant sampleExt ''pepper'' raw sampleIO d' = (d', Inl e))"
proof -
  obtain d raw t where i: "sampleIssue = (d, Inr raw)" and t: "consumeTarget sampleExt ''pepper'' raw (laterIO 0 ''e2'' ''bridge-bytes'') d = Inr t"
    and c: "\<not> isl (snd (consumeCommit sampleExt ''pepper'' t (laterIO 0 ''e2'' ''bridge-bytes'') d))"
    using sampleIssue_ok by (auto split: prod.splits sum.splits)
  obtain d' r where c': "consumeCommit sampleExt ''pepper'' t (laterIO 0 ''e2'' ''bridge-bytes'') d = (d', Inr r)"
    using c by (cases "consumeCommit sampleExt ''pepper'' t (laterIO 0 ''e2'' ''bridge-bytes'') d";
        cases "snd (consumeCommit sampleExt ''pepper'' t (laterIO 0 ''e2'' ''bridge-bytes'') d)") auto
  from launch_grant_single_use [OF t t c'] i t c' show ?thesis by blast
qed

text \<open>What a successful commit leaves for its bridge.\<close>

lemma consumeCommit_Inr:
  assumes "consumeCommit x pepper (g, u, f) io d = (d', Inr (bridge, uid, name))"
  obtains b where "selectFirst (\<lambda>b. bs_LookupID b = take 16 bridge) (db_bridges d') = Some b" and "17 \<le> length bridge"
    and "bs_RevokedAt b = None" and "bs_ExpiresAt b = io_now io + BridgeLifetime" and "bs_Digest b = DigestOpaqueCredential x bridge pepper"
    and "bs_UserID b = u_ID u" and "bs_FamilyID b = f_ID f" and "uid = u_ID u" and "name = u_DisplayName u"
    and "d' = d\<lparr>db_launchGrants := db_launchGrants d', db_bridges := db_bridges d'\<rparr>"
proof -
  obtain bs where bs: "randRead io 32 (io_secretRand io) = Inr bs" and br: "bridge = EncodeToString bs" "uid = u_ID u" "name = u_DisplayName u"
    using assms by (auto simp: consumeCommit_def guarded_Inr Let_def thenTx_Inr)
  define b where "b = \<lparr>bs_ID = drop 16 bridge, bs_LookupID = take 16 bridge, bs_Digest = DigestOpaqueCredential x bridge pepper,
     bs_UserID = u_ID u, bs_FamilyID = f_ID f, bs_CreatedAt = io_now io, bs_ExpiresAt = io_now io + BridgeLifetime, bs_RevokedAt = None\<rparr>"
  obtain d1 where 1: "ConsumeWebUILaunchGrant io (lg_ID g) (io_now io) d = Inr d1" and 2: "CreateWebUIBridgeSession io b d1 = Inr d'"
    using assms by (auto simp: consumeCommit_def guarded_Inr bs br Let_def thenTx_Inr b_def)
  have d': "d' = d1\<lparr>db_bridges := db_bridges d1 @ [b]\<rparr>" "take 16 bridge \<notin> bs_LookupID ` set (db_bridges d1)"
    using 2 by (auto simp: CreateWebUIBridgeSession_def b_def)
  have "selectFirst (\<lambda>b. bs_LookupID b = take 16 bridge) (db_bridges d') = Some b"
    using selectFirst_append_new [of "\<lambda>b. bs_LookupID b = take 16 bridge" "db_bridges d1" b] selectFirst_None_key [OF d'(2)]
    by (simp add: d'(1) b_def)
  moreover have "17 \<le> length bridge" using length_randRead [OF bs] by (simp add: br length_EncodeToString)
  moreover have "d' = d\<lparr>db_launchGrants := db_launchGrants d', db_bridges := db_bridges d'\<rparr>"
    using 1 unfolding ConsumeWebUILaunchGrant_Inr by (simp add: d')
  ultimately show ?thesis using that [of b] br by (simp add: b_def)
qed


definition sampleHandoff :: "db \<times> (string \<times> string \<times> string) result" where
  "sampleHandoff = thenTx sampleIssue (\<lambda>raw. ConsumeGrant sampleExt ''pepper'' raw (laterIO 0 ''e2'' ''bridge-bytes''))"


end
