(* ===== verification/RegistryAuth.thy ===== *)
theory RegistryAuth
  imports Reqauth
begin

text \<open>
  The OCI registry token service (internal/registryauth): repository names and grant
  prefixes (repository.go), token scopes (scope.go), the combination of implicit role
  grants and stored grants into decisions (grants.go), and the signed registry token
  (token.go).
\<close>

section \<open>Repository names\<close>

definition segmentRune :: "int \<Rightarrow> bool" where
  "segmentRune r \<longleftrightarrow> inRange 97 122 r \<or> inRange 48 57 r \<or> r = 45 \<or> r = 95 \<or> r = 46"

definition validateSegment :: "string \<Rightarrow> unit result" where
  "validateSegment seg =
    (if seg = [] then Inl (ErrMessage ''repository name must not contain empty segments'')
     else if seg = ''.'' \<or> seg = ''..'' then Inl (ErrMessage ''repository name must not contain traversal segments'')
     else if \<not> list_all segmentRune (runes seg) then Inl (ErrMessage ''repository segment contains an invalid character'')
     else Inr ())"

text \<open>The loop over the segments: the first invalid one is the result.\<close>

fun validateSegments :: "string list \<Rightarrow> unit result" where
  "validateSegments [] = Inr ()"
| "validateSegments (seg # segs) = andThen (validateSegment seg) (\<lambda>_. validateSegments segs)"

definition NormalizeRepositoryName :: "ext \<Rightarrow> string \<Rightarrow> string result" where
  "NormalizeRepositoryName x raw =
    (let name = ToLower (x_ulower x) (TrimSpace raw)
     in if name = [] then Inl (ErrMessage ''repository name must not be empty'')
        else if HasPrefix name ''/'' \<or> HasSuffix name ''/''
        then Inl (ErrMessage ''repository name must not have leading or trailing slashes'')
        else andThen (validateSegments (Split name (CHR ''/''))) (\<lambda>_. Inr name))"

definition NormalizePathPrefix :: "ext \<Rightarrow> string \<Rightarrow> string result" where
  "NormalizePathPrefix x raw =
    (let prfx = ToLower (x_ulower x) (TrimSpace raw)
     in if prfx = [] then Inr []
        else if HasPrefix prfx ''/'' then Inl (ErrMessage ''path prefix must not have a leading slash'')
        else andThen (validateSegments (Split (TrimSuffix prfx ''/'') (CHR ''/''))) (\<lambda>_. Inr prfx))"

section \<open>Scopes\<close>

record ScopeRequest =
  sr_Type :: string
  sr_Name :: string
  sr_Actions :: "string list"

text \<open>The loop over the actions of one scope.\<close>

fun parseActions :: "string list \<Rightarrow> string list result" where
  "parseActions [] = Inr []"
| "parseActions (a # as) =
    (let t = TrimSpace a
     in if t = [] then parseActions as
        else if t \<noteq> ''pull'' \<and> t \<noteq> ''push'' then Inl (ErrMessage ''unsupported action in scope'')
        else andThen (parseActions as) (\<lambda>rest. Inr (t # rest)))"

definition parseScope :: "ext \<Rightarrow> string \<Rightarrow> ScopeRequest result" where
  "parseScope x s = (case SplitN s (CHR '':'') 3 of
     [typ, name, actionsRaw] \<Rightarrow>
       if typ \<noteq> ''repository'' then Inl (ErrMessage ''unsupported scope type'')
       else andThen (NormalizeRepositoryName x name) (\<lambda>normalizedName.
            andThen (parseActions (Split actionsRaw (CHR '',''))) (\<lambda>actions.
            if actions = [] then Inl (ErrMessage ''scope names no actions'')
            else Inr \<lparr>sr_Type = typ, sr_Name = normalizedName, sr_Actions = actions\<rparr>))
   | _ \<Rightarrow> Inl (ErrMessage ''malformed scope''))"

fun ParseScopes :: "ext \<Rightarrow> string list \<Rightarrow> ScopeRequest list result" where
  "ParseScopes x [] = Inr []"
| "ParseScopes x (s # raw) = andThen (parseScope x s) (\<lambda>r. andThen (ParseScopes x raw) (\<lambda>rs. Inr (r # rs)))"

section \<open>Grants\<close>

record grant =
  g_pathPrefix :: string
  g_actions :: "string set"

definition implicitGrantsForRole :: "string \<Rightarrow> string \<Rightarrow> grant list" where
  "implicitGrantsForRole roleID username =
    (if roleID = AdministratorRoleID then [\<lparr>g_pathPrefix = [], g_actions = {''pull'', ''push''}\<rparr>]
     else if roleID = DeveloperRoleID then
       [\<lparr>g_pathPrefix = [], g_actions = {''pull''}\<rparr>,
        \<lparr>g_pathPrefix = ''users/'' @ username @ ''/'', g_actions = {''pull'', ''push''}\<rparr>,
        \<lparr>g_pathPrefix = ''builds/'' @ username @ ''/'', g_actions = {''pull'', ''push''}\<rparr>]
     else if roleID = ViewerRoleID then [\<lparr>g_pathPrefix = [], g_actions = {''pull''}\<rparr>]
     else [])"

record Decision =
  dc_Name :: string
  dc_Granted :: "string list"

definition grantsFor :: "io \<Rightarrow> string \<Rightarrow> string \<Rightarrow> db \<Rightarrow> grant list result" where
  "grantsFor io userID username d =
     andThen (RoleStore_ListUserRoles io userID d) (\<lambda>userRoles.
     let roleIDs = map r_ID userRoles; implicit = concat (map (\<lambda>r. implicitGrantsForRole (r_ID r) username) userRoles)
     in andThen (RegistryGrantStore_ListForSubjects io userID roleIDs d) (\<lambda>explicit.
        Inr (implicit @ map (\<lambda>g. \<lparr>g_pathPrefix = rg_PathPrefix g, g_actions = set (rg_Actions g)\<rparr>) explicit)))"

definition hasBasePermission :: "string set \<Rightarrow> string \<Rightarrow> bool" where
  "hasBasePermission permissions action =
    (if action = ''pull'' then ''artifacts.read'' \<in> permissions
     else if action = ''push'' then ''artifacts.write'' \<in> permissions
     else False)"

definition matchesAnyGrant :: "grant list \<Rightarrow> string \<Rightarrow> string \<Rightarrow> bool" where
  "matchesAnyGrant grants repoName action \<longleftrightarrow>
     list_ex (\<lambda>g. action \<in> g_actions g \<and> HasPrefix repoName (g_pathPrefix g)) grants"

definition decide :: "string set \<Rightarrow> grant list \<Rightarrow> ScopeRequest \<Rightarrow> Decision" where
  "decide permissions allGrants req = \<lparr>dc_Name = sr_Name req,
     dc_Granted = filter (\<lambda>action. hasBasePermission permissions action \<and> matchesAnyGrant allGrants (sr_Name req) action) (sr_Actions req)\<rparr>"

definition Authorize :: "io \<Rightarrow> string \<Rightarrow> string \<Rightarrow> string set \<Rightarrow> ScopeRequest list \<Rightarrow> db \<Rightarrow> Decision list result" where
  "Authorize io userID username permissions requests d =
     andThen (grantsFor io userID username d) (\<lambda>allGrants. Inr (map (decide permissions allGrants) requests))"

definition CanPull :: "io \<Rightarrow> string \<Rightarrow> string \<Rightarrow> string set \<Rightarrow> string \<Rightarrow> db \<Rightarrow> bool result" where
  "CanPull io userID username permissions repoName d =
    (if \<not> hasBasePermission permissions ''pull'' then Inr False
     else andThen (grantsFor io userID username d) (\<lambda>allGrants. Inr (matchesAnyGrant allGrants repoName ''pull'')))"

definition pullable :: "ext \<Rightarrow> grant list \<Rightarrow> string \<Rightarrow> bool" where
  "pullable x allGrants name = (case NormalizeRepositoryName x name of
     Inl e \<Rightarrow> False | Inr normalized \<Rightarrow> matchesAnyGrant allGrants normalized ''pull'')"

definition FilterPullable :: "ext \<Rightarrow> io \<Rightarrow> string \<Rightarrow> string \<Rightarrow> string set \<Rightarrow> string list \<Rightarrow> db \<Rightarrow> string list result" where
  "FilterPullable x io userID username permissions repoNames d =
    (if \<not> hasBasePermission permissions ''pull'' then Inr []
     else andThen (grantsFor io userID username d) (\<lambda>allGrants. Inr (filter (pullable x allGrants) repoNames)))"

section \<open>The registry token\<close>

definition TokenLifetime :: duration where "TokenLifetime = 5 * Minute"

record AccessEntry =
  ax_Type :: string
  ax_Name :: string
  ax_Actions :: "string list"

definition accessJSON :: "AccessEntry \<Rightarrow> json" where
  "accessJSON a = JObj [(''type'', JStr (ax_Type a)), (''name'', JStr (ax_Name a)), (''actions'', JArr (map JStr (ax_Actions a)))]"

definition registryClaims :: "string \<Rightarrow> string \<Rightarrow> string \<Rightarrow> time \<Rightarrow> string \<Rightarrow> AccessEntry list \<Rightarrow> json" where
  "registryClaims issuer subject audience now jti access =
     JObj [(''iss'', JStr issuer), (''sub'', JStr subject), (''aud'', JStr audience), (''iat'', JInt (toUnix now)),
       (''nbf'', JInt (toUnix now)), (''exp'', JInt (toUnix (now + TokenLifetime))), (''jti'', JStr jti),
       (''access'', JArr (map accessJSON access))]"

definition registryHeader :: "string \<Rightarrow> json" where
  "registryHeader kid = JObj [(''alg'', JStr ''EdDSA''), (''typ'', JStr ''JWT''), (''kid'', JStr kid)]"

definition IssueToken ::
    "ext \<Rightarrow> io \<Rightarrow> bytes \<Rightarrow> string \<Rightarrow> string \<Rightarrow> string \<Rightarrow> string \<Rightarrow> string \<Rightarrow> AccessEntry list \<Rightarrow> string \<times> time" where
  "IssueToken x io priv kid issuer subject audience jti access =
    (let now = io_now io;
         signingInput = EncodeToString (jsonMarshal (registryHeader kid)) @ CHR ''.'' #
           EncodeToString (jsonMarshal (registryClaims issuer subject audience now jti access))
     in (signingInput @ CHR ''.'' # EncodeToString (x_sign x priv signingInput), now + TokenLifetime))"

section \<open>Names are canonical\<close>

lemma decodeRune_small: "fst (decodeRune (c # cs)) < 128 \<Longrightarrow> (of_char c :: int) < 128"
proof (rule ccontr)
  assume small: "fst (decodeRune (c # cs)) < 128" and "\<not> (of_char c :: int) < 128"
  define p b1 b2 b3 where p: "p = byteAt (c # cs) 0" and b1: "b1 = byteAt (c # cs) 1" and b2: "b2 = byteAt (c # cs) 2" and b3: "b3 = byteAt (c # cs) 3"
  have big: "128 \<le> p" using \<open>\<not> (of_char c :: int) < 128\<close> by (simp add: p)
  have nonneg: "0 \<le> b mod 64" for b :: int by simp
  have two: "194 \<le> p \<Longrightarrow> p \<le> 223 \<Longrightarrow> 128 \<le> (p mod 32) * 64 + b1 mod 64" by presburger
  have three: "128 \<le> (p mod 16) * 4096 + (b1 mod 64) * 64 + b2 mod 64"
    if "224 \<le> p" "p \<le> 239" "(if p = 224 then 160 else if p = 240 then 144 else 128) \<le> b1" "b1 \<le> 191"
  proof (cases "p = 224")
    case True
    then have "2 \<le> b1 mod 64" using that by simp presburger
    then show ?thesis using nonneg [of b2] by (simp add: True)
  next
    case False
    then have "1 \<le> p mod 16" using that by presburger
    then show ?thesis using nonneg [of b1] nonneg [of b2] by linarith
  qed
  have four: "128 \<le> (p mod 8) * 262144 + (b1 mod 64) * 4096 + (b2 mod 64) * 64 + b3 mod 64"
    if "240 \<le> p" "p \<le> 244" "(if p = 224 then 160 else if p = 240 then 144 else 128) \<le> b1" "b1 \<le> 191"
  proof (cases "p = 240")
    case True
    then have "1 \<le> b1 mod 64" using that by simp presburger
    then show ?thesis using nonneg [of b2] nonneg [of b3] by (simp add: True)
  next
    case False
    then have "1 \<le> p mod 8" using that by presburger
    then show ?thesis using nonneg [of b1] nonneg [of b2] nonneg [of b3] by linarith
  qed
  show False
    using small big two three four
    unfolding decodeRune_def Let_def p [symmetric] b1 [symmetric] b2 [symmetric] b3 [symmetric]
    by (auto simp: inRange_def runeError_def split: if_splits)
qed

lemma runes_small_ascii: "list_all (\<lambda>r. r < 128) (runes s) \<Longrightarrow> ascii s \<and> runes s = map of_char s"
proof (induction s rule: runeChunks.induct)
  case (2 c cs)
  have small: "(of_char c :: int) < 128" using 2(2) by (intro decodeRune_small [of c cs]) (simp add: runes_def)
  then show ?case using 2 by (simp add: runes_def decodeRune_ascii ascii_def)
qed (simp add: runes_def ascii_def)

definition segmentChar :: "char \<Rightarrow> bool" where "segmentChar c \<longleftrightarrow> segmentRune (of_char c)"

text \<open>What validateSegment accepts.\<close>

definition segment :: "string \<Rightarrow> bool" where
  "segment s \<longleftrightarrow> s \<noteq> [] \<and> s \<noteq> ''.'' \<and> s \<noteq> ''..'' \<and> list_all segmentChar s"

lemma segmentChar_ascii: "segmentChar c \<Longrightarrow> (of_char c :: int) < 128 \<and> \<not> asciiSpace c \<and> lowerAscii c = c \<and> c \<noteq> CHR ''/'' \<and> c \<noteq> CHR '':''"
  by (auto simp: segmentChar_def segmentRune_def inRange_def asciiSpace_def isSpace_def lowerAscii_def)

lemma validateSegment_iff: "validateSegment s = Inr u \<longleftrightarrow> segment s"
proof -
  have "list_all segmentRune (runes s) \<longleftrightarrow> list_all segmentChar s"
  proof
    assume a: "list_all segmentRune (runes s)"
    then have "list_all (\<lambda>r. r < 128) (runes s)" by (auto simp: list_all_iff segmentRune_def inRange_def)
    from runes_small_ascii [OF this] a show "list_all segmentChar s" by (simp add: list_all_iff segmentChar_def)
  next
    assume a: "list_all segmentChar s"
    then have "ascii s" using segmentChar_ascii by (auto simp: ascii_def list_all_iff)
    with a show "list_all segmentRune (runes s)" by (simp add: runes_def runeChunks_ascii list_all_iff segmentChar_def)
  qed
  then show ?thesis by (simp add: validateSegment_def segment_def)
qed

lemma validateSegments_iff: "validateSegments ss = Inr u \<longleftrightarrow> (\<forall>s\<in>set ss. segment s)"
  by (induction ss) (auto simp: validateSegment_iff andThen_Inr_iff)

definition repositoryName :: "string \<Rightarrow> bool" where
  "repositoryName name \<longleftrightarrow> (\<forall>s\<in>set (Split name (CHR ''/'')). segment s)"

lemma joinWith_chars: "set (joinWith c ss) \<subseteq> insert c (\<Union>s\<in>set ss. set s)"
  by (induction ss rule: joinWith.induct) auto

lemma repositoryName_chars: "repositoryName name \<Longrightarrow> c \<in> set name \<Longrightarrow> c = CHR ''/'' \<or> segmentChar c"
  using joinWith_chars [of "CHR ''/''" "Split name (CHR ''/'')"] unfolding Split_join
  by (auto simp: repositoryName_def segment_def list_all_iff)

lemma repositoryName_fixed:
  assumes "repositoryName name"
  shows "ToLower u (TrimSpace name) = name" and "name \<noteq> []"
proof -
  have c: "(of_char c :: int) < 128 \<and> \<not> asciiSpace c \<and> lowerAscii c = c" if "c \<in> set name" for c
    using repositoryName_chars [OF assms that] segmentChar_ascii [of c]
    by (auto simp: asciiSpace_def isSpace_def inRange_def lowerAscii_def)
  then have "ascii name" "list_all (\<lambda>c. \<not> asciiSpace c) name" "map lowerAscii name = name"
    by (auto simp: ascii_def list_all_iff map_idI)
  then show "ToLower u (TrimSpace name) = name" by (simp add: TrimSpace_id ToLower_ascii)
  show "name \<noteq> []" using assms unfolding repositoryName_def segment_def by force
qed

lemma Split_append: "Split (s @ c # t) c = Split s c @ Split t c"
proof (induction s)
  case (Cons a s)
  obtain p ps where "Split s c = p # ps" by (cases "Split s c") auto
  with Cons show ?case by auto
qed simp

lemma Split_last_empty: "last (Split (s @ [c]) c) = []"
  by (simp add: Split_append)

lemma repositoryName_ends:
  assumes "repositoryName name"
  shows "\<not> HasPrefix name ''/''" and "\<not> HasSuffix name ''/''"
proof
  assume "HasPrefix name ''/''"
  then obtain r where "name = CHR ''/'' # r" by (auto simp: HasPrefix_iff)
  then show False using assms by (simp add: repositoryName_def segment_def)
next
  show "\<not> HasSuffix name ''/''"
  proof
    assume "HasSuffix name ''/''"
    then have "name = butlast name @ ''/''" by (cases name rule: rev_cases) (auto simp: HasSuffix_def)
    then have "last (Split name (CHR ''/'')) = []" using Split_last_empty by metis
    then show False using assms last_in_set [of "Split name (CHR ''/'')"] by (auto simp: repositoryName_def segment_def)
  qed
qed

lemma NormalizeRepositoryName_iff:
  "NormalizeRepositoryName x raw = Inr name \<longleftrightarrow> name = ToLower (x_ulower x) (TrimSpace raw) \<and> repositoryName name"
  unfolding NormalizeRepositoryName_def Let_def repositoryName_def [symmetric]
  using repositoryName_ends [of name] repositoryName_fixed(2) [of name]
  by (auto simp: andThen_Inr_iff validateSegments_iff repositoryName_def [symmetric])

lemma NormalizeRepositoryName_canonical: "repositoryName name \<Longrightarrow> NormalizeRepositoryName x name = Inr name"
  by (simp add: NormalizeRepositoryName_iff repositoryName_fixed)

section \<open>Scopes: what is parsed and how it is written\<close>

definition scopeOk :: "ScopeRequest \<Rightarrow> bool" where
  "scopeOk r \<longleftrightarrow> sr_Type r = ''repository'' \<and> repositoryName (sr_Name r) \<and> sr_Actions r \<noteq> [] \<and> set (sr_Actions r) \<subseteq> {''pull'', ''push''}"

text \<open>The text of a scope as an OCI client writes it.\<close>

definition scopeText :: "ScopeRequest \<Rightarrow> string" where
  "scopeText r = ''repository:'' @ sr_Name r @ CHR '':'' # joinWith (CHR '','') (sr_Actions r)"

lemma parseActions_Inr: "parseActions as = Inr bs \<Longrightarrow> set bs \<subseteq> {''pull'', ''push''}"
  by (induction as arbitrary: bs) (auto simp: Let_def split: if_splits)

lemma parseActions_id: "set as \<subseteq> {''pull'', ''push''} \<Longrightarrow> parseActions as = Inr as"
proof (induction as)
  case (Cons a as)
  have "TrimSpace ''pull'' = ''pull''" "TrimSpace ''push'' = ''push''" by code_simp+
  with Cons show ?case by auto
qed simp

lemma Split_joinWith:
  assumes "ss \<noteq> []" and "\<forall>s\<in>set ss. c \<notin> set s"
  shows "Split (joinWith c ss) c = ss"
  using assms by (induction ss rule: joinWith.induct) (auto simp: Split_no_sep Split_append_sep)

lemma parseScope_Inr: "parseScope x s = Inr r \<Longrightarrow> scopeOk r"
  by (auto simp: parseScope_def scopeOk_def NormalizeRepositoryName_iff split: list.splits if_splits) (use parseActions_Inr in blast)

lemma parseScope_text:
  assumes "scopeOk r"
  shows "parseScope x (scopeText r) = Inr r"
proof -
  have r: "sr_Type r = ''repository''" "repositoryName (sr_Name r)" "sr_Actions r \<noteq> []" "set (sr_Actions r) \<subseteq> {''pull'', ''push''}"
    using assms by (simp_all add: scopeOk_def)
  have name: "CHR '':'' \<notin> set (sr_Name r)" using repositoryName_chars [OF r(2)] segmentChar_ascii by auto
  have "\<forall>a\<in>set (sr_Actions r). CHR '','' \<notin> set a" using r(4) by auto
  with r(3) have acts: "Split (joinWith (CHR '','') (sr_Actions r)) (CHR '','') = sr_Actions r" by (rule Split_joinWith)
  have c1: "Cut (''repository:'' @ sr_Name r @ CHR '':'' # as) (CHR '':'') = (''repository'', sr_Name r @ CHR '':'' # as, True)" for as
    using Cut_append [of "CHR '':''" "''repository''" "sr_Name r @ CHR '':'' # as"] by simp
  have split: "SplitN (scopeText r) (CHR '':'') 3 = [''repository'', sr_Name r, joinWith (CHR '','') (sr_Actions r)]"
    unfolding scopeText_def numeral_3_eq_3 SplitN.simps c1 by (simp add: Cut_append [OF name])
  show ?thesis
    unfolding parseScope_def split
    using r NormalizeRepositoryName_canonical [OF r(2), of x] by (simp add: acts parseActions_id [OF r(4)])
qed



section \<open>Decisions\<close>

text \<open>
  The permission an abstract reference monitor gives: the base permission of the action, and
  either a role of the user that implies a prefix of the name or a stored grant for the
  user or one of the roles.
\<close>

definition implied :: "string \<Rightarrow> string \<Rightarrow> string \<Rightarrow> string \<Rightarrow> bool" where
  "implied username roleID name action \<longleftrightarrow>
     (\<exists>g\<in>set (implicitGrantsForRole roleID username). action \<in> g_actions g \<and> HasPrefix name (g_pathPrefix g))"

definition stored :: "db \<Rightarrow> string \<Rightarrow> string \<Rightarrow> string \<Rightarrow> bool" where
  "stored d userID name action \<longleftrightarrow> (\<exists>g\<in>set (db_registryGrants d).
     ((rg_SubjectType g = ''user'' \<and> rg_SubjectID g = userID) \<or> (rg_SubjectType g = ''role'' \<and> rg_SubjectID g \<in> assignedRoles d userID))
     \<and> action \<in> set (rg_Actions g) \<and> HasPrefix name (rg_PathPrefix g))"

definition mayAccess :: "db \<Rightarrow> string \<Rightarrow> string \<Rightarrow> string set \<Rightarrow> string \<Rightarrow> string \<Rightarrow> bool" where
  "mayAccess d userID username permissions name action \<longleftrightarrow> hasBasePermission permissions action
     \<and> ((\<exists>r\<in>assignedRoles d userID. implied username r name action) \<or> stored d userID name action)"

lemma grantsFor_matches:
  assumes "grantsFor io uid uname d = Inr gs"
  shows "matchesAnyGrant gs name action \<longleftrightarrow> (\<exists>r\<in>assignedRoles d uid. implied uname r name action) \<or> stored d uid name action"
proof -
  obtain rs where rs: "RoleStore_ListUserRoles io uid d = Inr rs" using assms by (auto simp: grantsFor_def)
  note ids = sql_roles.roles_listed [OF rs]
  have gs: "gs = concat (map (\<lambda>r. implicitGrantsForRole (r_ID r) uname) rs)
      @ map (\<lambda>g. \<lparr>g_pathPrefix = rg_PathPrefix g, g_actions = set (rg_Actions g)\<rparr>)
          (filter (\<lambda>g. (rg_SubjectType g = ''user'' \<and> rg_SubjectID g = uid)
             \<or> (rg_SubjectType g = ''role'' \<and> rg_SubjectID g \<in> assignedRoles d uid)) (db_registryGrants d))"
    using assms ids by (auto simp: grantsFor_def rs Let_def RegistryGrantStore_ListForSubjects_def)
  show ?thesis
    unfolding gs matchesAnyGrant_def list_ex_iff implied_def stored_def ids [symmetric]
    by (simp add: bex_Un) blast
qed

text \<open>
  C16. The registry's three checks all decide as the reference monitor does: Authorize grants
  of each requested scope exactly the requested actions the monitor allows, in order;
  CanPull is the monitor's answer for pull; and FilterPullable keeps exactly the names
  whose canonical form CanPull accepts.
\<close>

theorem registry_checks_refine_monitor:
  assumes g: "grantsFor io uid uname d = Inr gs"
  shows "Authorize io uid uname P reqs d
      = Inr (map (\<lambda>r. \<lparr>dc_Name = sr_Name r, dc_Granted = filter (mayAccess d uid uname P (sr_Name r)) (sr_Actions r)\<rparr>) reqs)
    \<and> CanPull io uid uname P name d = Inr (mayAccess d uid uname P name ''pull'')
    \<and> FilterPullable x io uid uname P names d
      = Inr (filter (\<lambda>n. \<exists>c. NormalizeRepositoryName x n = Inr c \<and> CanPull io uid uname P c d = Inr True) names)"
proof -
  have m: "hasBasePermission P a \<and> matchesAnyGrant gs n a \<longleftrightarrow> mayAccess d uid uname P n a" for n a
    using grantsFor_matches [OF g] by (simp add: mayAccess_def)
  have c: "CanPull io uid uname P n d = Inr (mayAccess d uid uname P n ''pull'')" for n
    using m [of "''pull''" n] by (auto simp: CanPull_def g)
  have "FilterPullable x io uid uname P names d
      = Inr (filter (\<lambda>n. \<exists>c. NormalizeRepositoryName x n = Inr c \<and> mayAccess d uid uname P c ''pull'') names)"
  proof (cases "hasBasePermission P ''pull''")
    case True
    have "pullable x gs n \<longleftrightarrow> (\<exists>c. NormalizeRepositoryName x n = Inr c \<and> mayAccess d uid uname P c ''pull'')" for n
      using m True by (auto simp: pullable_def split: sum.splits)
    then show ?thesis using True by (simp add: FilterPullable_def g cong: filter_cong)
  qed (simp add: FilterPullable_def mayAccess_def)
  then show ?thesis by (simp add: Authorize_def g decide_def m c)
qed

definition registryDb :: db where
  "registryDb = (emptyDb ''UNIQUE constraint failed'')\<lparr>db_users := [sampleUser],
     db_roles := [adminRole\<lparr>r_ID := DeveloperRoleID, r_Name := ''developer''\<rparr>], db_userRoles := [(adminRow ''u1'')\<lparr>ur_RoleID := DeveloperRoleID\<rparr>]\<rparr>"

theorem registry_checks_refine_monitor_witness:
  "Authorize sampleIO ''u1'' ''alice'' {''artifacts.read'', ''artifacts.write''}
     [\<lparr>sr_Type = ''repository'', sr_Name = ''users/alice/app'', sr_Actions = [''pull'', ''push'']\<rparr>,
      \<lparr>sr_Type = ''repository'', sr_Name = ''users/bob/app'', sr_Actions = [''pull'', ''push'']\<rparr>] registryDb
   = Inr [\<lparr>dc_Name = ''users/alice/app'', dc_Granted = [''pull'', ''push'']\<rparr>, \<lparr>dc_Name = ''users/bob/app'', dc_Granted = [''pull'']\<rparr>]
   \<and> CanPull sampleIO ''u1'' ''alice'' {''artifacts.read''} ''users/bob/app'' registryDb = Inr True
   \<and> mayAccess registryDb ''u1'' ''alice'' {''artifacts.read''} ''users/bob/app'' ''pull''"
proof -
  have "grantsFor sampleIO ''u1'' ''alice'' registryDb = Inr (implicitGrantsForRole DeveloperRoleID ''alice'')" by code_simp
  note r = registry_checks_refine_monitor [OF this, of "{''artifacts.read''}" "[]" "''users/bob/app''"]
  have c: "CanPull sampleIO ''u1'' ''alice'' {''artifacts.read''} ''users/bob/app'' registryDb = Inr True" by code_simp
  then have "mayAccess registryDb ''u1'' ''alice'' {''artifacts.read''} ''users/bob/app'' ''pull''" using r by simp
  moreover have "Authorize sampleIO ''u1'' ''alice'' {''artifacts.read'', ''artifacts.write''}
     [\<lparr>sr_Type = ''repository'', sr_Name = ''users/alice/app'', sr_Actions = [''pull'', ''push'']\<rparr>,
      \<lparr>sr_Type = ''repository'', sr_Name = ''users/bob/app'', sr_Actions = [''pull'', ''push'']\<rparr>] registryDb
   = Inr [\<lparr>dc_Name = ''users/alice/app'', dc_Granted = [''pull'', ''push'']\<rparr>, \<lparr>dc_Name = ''users/bob/app'', dc_Granted = [''pull'']\<rparr>]"
    by code_simp
  ultimately show ?thesis using c by blast
qed

lemma personal_space_owner:
  assumes "HasPrefix name (space @ a @ ''/'')" and "HasPrefix name (space @ b @ ''/'')" and "CHR ''/'' \<notin> set a" and "CHR ''/'' \<notin> set b"
  shows "a = b"
proof -
  obtain r t where "a @ CHR ''/'' # r = b @ CHR ''/'' # t" using assms(1,2) by (auto simp: HasPrefix_iff)
  then have "Cut (a @ CHR ''/'' # r) (CHR ''/'') = Cut (b @ CHR ''/'' # t) (CHR ''/'')" by simp
  then show ?thesis using assms(3,4) by (simp add: Cut_append)
qed



end
