(* ===== verification/Dns.thy ===== *)
theory Dns
  imports RegistryAuth
begin

text \<open>
  LAN DNS records (internal/dnsrecords, internal/storage/sqlstore/dns.go): names and
  addresses, ownership of records, leases of peers, and the zone file that every change
  renders and publishes. The service's own state, its serial and the zone the syncer last
  accepted, stands beside the database in \<open>dnsWorld\<close>.

  net.ParseIP is the standard library's parser, here in the part the code needs: whether a
  text is an address and whether that address is an IPv4 one.
\<close>

section \<open>net.ParseIP\<close>

text \<open>One dotted-decimal address: four fields of at most 255 without leading zeros.\<close>

definition decField :: "string \<Rightarrow> int option" where
  "decField s = (let v = foldl (\<lambda>a c. a * 10 + (of_char c - 48)) 0 s
     in if s = [] \<or> \<not> list_all digit s \<or> (1 < length s \<and> hd s = CHR ''0'') \<or> 255 < v then None else Some v)"

fun allSome :: "'a option list \<Rightarrow> 'a list option" where
  "allSome [] = Some []"
| "allSome (None # xs) = None"
| "allSome (Some x # xs) = map_option (Cons x) (allSome xs)"

definition parseIPv4 :: "string \<Rightarrow> int list option" where
  "parseIPv4 s = (let fs = Split s (CHR ''.'') in if length fs = 4 then allSome (map decField fs) else None)"

definition hexValue :: "char \<Rightarrow> int option" where
  "hexValue c = (let n = of_char c in if inRange 48 57 n then Some (n - 48) else if inRange 97 102 n then Some (n - 87)
     else if inRange 65 70 n then Some (n - 55) else None)"

text \<open>
  The loop of parseIPv6 after an optional leading ellipsis: the bytes read so far, where the
  ellipsis was, and the rest of the text. It reads at most eight groups, so \<open>fuel\<close> of
  nine never runs out.
\<close>

fun parseGroups :: "nat \<Rightarrow> int list \<Rightarrow> nat option \<Rightarrow> string \<Rightarrow> (int list \<times> nat option) option" where
  "parseGroups 0 bs ell s = None"
| "parseGroups (Suc fuel) bs ell s =
    (if 16 \<le> length bs then (if s = [] then Some (bs, ell) else None)
     else
      let h = takeWhile (\<lambda>c. hexValue c \<noteq> None) s; r = drop (length h) s;
          acc = foldl (\<lambda>a c. a * 16 + the (hexValue c)) 0 h
      in if h = [] \<or> 4 < length h then None
         else if r \<noteq> [] \<and> hd r = CHR ''.'' then
           (if (ell = None \<and> length bs \<noteq> 12) \<or> 16 < length bs + 4 then None
            else map_option (\<lambda>fs. (bs @ fs, ell)) (parseIPv4 s))
         else
           let bs' = bs @ [acc div 256, acc mod 256]
           in if r = [] then Some (bs', ell)
              else if hd r \<noteq> CHR '':'' \<or> length r = 1 then None
              else let s' = tl r
                   in if hd s' = CHR '':'' then
                        (if ell \<noteq> None then None
                         else if tl s' = [] then Some (bs', Some (length bs'))
                         else parseGroups fuel bs' (Some (length bs')) (tl s'))
                      else parseGroups fuel bs' ell s')"

definition parseIPv6 :: "string \<Rightarrow> int list option" where
  "parseIPv6 s =
    (case (if HasPrefix s ''::'' then (if drop 2 s = [] then Some ([], Some 0) else parseGroups 9 [] (Some 0) (drop 2 s))
           else parseGroups 9 [] None s) of
       None \<Rightarrow> None
     | Some (bs, None) \<Rightarrow> if length bs = 16 then Some bs else None
     | Some (bs, Some k) \<Rightarrow> if 16 \<le> length bs then None
         else Some (take k bs @ replicate (16 - length bs) 0 @ drop k bs))"

text \<open>ParseIP dispatches on the first dot, colon or percent sign; an address with a zone is refused.\<close>

definition ParseIP :: "string \<Rightarrow> int list option" where
  "ParseIP s = (case dropWhile (\<lambda>c. c \<noteq> CHR ''.'' \<and> c \<noteq> CHR '':'' \<and> c \<noteq> CHR ''%'') s of
     [] \<Rightarrow> None
   | c # _ \<Rightarrow> if c = CHR ''.'' then map_option (\<lambda>fs. replicate 10 0 @ [255, 255] @ fs) (parseIPv4 s)
       else if c = CHR '':'' \<and> CHR ''%'' \<notin> set s then parseIPv6 s else None)"

definition To4 :: "int list \<Rightarrow> int list option" where
  "To4 ip = (if take 12 ip = replicate 10 0 @ [255, 255] then Some (drop 12 ip) else None)"

section \<open>The store\<close>

definition DNSRecordStore_Upsert :: "io \<Rightarrow> DNSRecord \<Rightarrow> db \<Rightarrow> db result" where
  "DNSRecordStore_Upsert io rec0 d =
    (let rec1 = rec0\<lparr>dn_CreatedAt := (if IsZero (dn_CreatedAt rec0) then io_now io else dn_CreatedAt rec0),
                     dn_UpdatedAt := (if IsZero (dn_UpdatedAt rec0) then io_now io else dn_UpdatedAt rec0)\<rparr>
     in andThen (stmt io ''DNSRecordStore.Upsert'') (\<lambda>_.
        Inr (if dn_Name rec1 \<in> dn_Name ` set (db_dns d)
             then d\<lparr>db_dns := updateWhere (\<lambda>r. dn_Name r = dn_Name rec1) (\<lambda>r. rec1\<lparr>dn_CreatedAt := dn_CreatedAt r\<rparr>) (db_dns d)\<rparr>
             else d\<lparr>db_dns := db_dns d @ [rec1]\<rparr>)))"

definition DNSRecordStore_Get :: "io \<Rightarrow> string \<Rightarrow> db \<Rightarrow> DNSRecord result" where
  "DNSRecordStore_Get io name d = andThen (stmt io ''DNSRecordStore.Get'') (\<lambda>_.
     case selectFirst (\<lambda>r. dn_Name r = name) (db_dns d) of None \<Rightarrow> Inl ErrNotFound | Some r \<Rightarrow> Inr r)"

definition DNSRecordStore_List :: "io \<Rightarrow> db \<Rightarrow> DNSRecord list result" where
  "DNSRecordStore_List io d = andThen (stmt io ''DNSRecordStore.List'') (\<lambda>_. Inr (sort_key dn_Name (db_dns d)))"

definition DNSRecordStore_Delete :: "io \<Rightarrow> string \<Rightarrow> db \<Rightarrow> db result" where
  "DNSRecordStore_Delete io name d = andThen (stmt io ''DNSRecordStore.Delete'') (\<lambda>_.
     andThen (require (0 < affected (\<lambda>r. dn_Name r = name) (db_dns d)) ErrNotFound) (\<lambda>_.
     Inr (d\<lparr>db_dns := filter (\<lambda>r. dn_Name r \<noteq> name) (db_dns d)\<rparr>)))"

text \<open>The lease is compared as text, as the SQL does.\<close>

definition leaseExpired :: "time \<Rightarrow> DNSRecord \<Rightarrow> bool" where
  "leaseExpired now r = (case dn_LeaseExpiresAt r of None \<Rightarrow> False | Some t \<Rightarrow> RFC3339Nano t \<le> RFC3339Nano now)"

definition DNSRecordStore_DeleteExpired :: "io \<Rightarrow> time \<Rightarrow> db \<Rightarrow> (nat \<times> db) result" where
  "DNSRecordStore_DeleteExpired io now d = andThen (stmt io ''DNSRecordStore.DeleteExpired'') (\<lambda>_.
     Inr (affected (leaseExpired now) (db_dns d), d\<lparr>db_dns := filter (\<lambda>r. \<not> leaseExpired now r) (db_dns d)\<rparr>))"

section \<open>The service\<close>

definition DefaultAdminTTL :: int where "DefaultAdminTTL = 300"
definition DefaultPeerTTL :: int where "DefaultPeerTTL = 60"

record dnsConfig =
  dc_Zone :: string
  dc_BootstrapHostname :: string
  dc_BootstrapIPv4 :: string
  dc_PeerLease :: duration

record dnsWorld =
  w_db :: db
  w_serial :: int
  w_zone :: "string option"

definition dnsAlnum :: "char \<Rightarrow> bool" where "dnsAlnum c \<longleftrightarrow> lowerLetter c \<or> digit c"

text \<open>The regular expression of a DNS label, anchored at both ends.\<close>

definition namePattern :: "string \<Rightarrow> bool" where
  "namePattern s \<longleftrightarrow> s \<noteq> [] \<and> length s \<le> 63 \<and> dnsAlnum (hd s) \<and> dnsAlnum (last s) \<and> list_all (\<lambda>c. dnsAlnum c \<or> c = CHR ''-'') s"

definition NormalizeName :: "ext \<Rightarrow> string \<Rightarrow> string result" where
  "NormalizeName x raw =
    (let n0 = TrimSuffix (ToLower (x_ulower x) (TrimSpace raw)) ''.'';
         name = takeWhile (\<lambda>c. c \<noteq> CHR ''.'') n0
     in if name = [] \<or> name = ''ns'' \<or> \<not> namePattern name then Inl ErrInvalidName else Inr name)"

definition validateIPv4 :: "string \<Rightarrow> unit result" where
  "validateIPv4 ip = (case ParseIP (TrimSpace ip) of
     None \<Rightarrow> Inl ErrInvalidIPv4
   | Some parsed \<Rightarrow> if To4 parsed = None then Inl ErrInvalidIPv4 else Inr ())"

definition zoneLine :: "DNSRecord \<Rightarrow> string" where
  "zoneLine r = TrimSpace (dn_Name r) @ '' '' @ Itoa (if dn_TTL r \<le> 0 then DefaultAdminTTL else dn_TTL r) @ '' IN A '' @ dn_IPv4 r"

definition zoneHeader :: "string \<Rightarrow> int \<Rightarrow> string \<Rightarrow> string list" where
  "zoneHeader zone serial nsIPv4 =
    [''$ORIGIN '' @ zone @ ''.'',
     ''@   3600 IN SOA ns.'' @ zone @ ''. hostmaster.'' @ zone @ ''. ('',
     ''        '' @ Itoa serial @ '' 7200 3600 1209600 3600 )'',
     ''    3600 IN NS ns.'' @ zone @ ''.'',
     ''ns  3600 IN A '' @ nsIPv4]"

definition RenderZoneFile :: "time \<Rightarrow> string \<Rightarrow> DNSRecord list \<Rightarrow> int \<Rightarrow> string \<Rightarrow> string" where
  "RenderZoneFile now zone0 records serial0 nsIPv4 =
    (let zone = TrimSuffix (TrimSpace zone0) ''.'';
         serial = (if serial0 \<le> 0 then toUnix now else serial0);
         ns = (if nsIPv4 = [] then (case List.find (\<lambda>r. dn_IPv4 r \<noteq> []) records of None \<Rightarrow> ''127.0.0.1'' | Some r \<Rightarrow> dn_IPv4 r)
               else nsIPv4);
         shown = filter (\<lambda>r. TrimSpace (dn_Name r) \<noteq> [] \<and> TrimSpace (dn_Name r) \<noteq> ''ns'') (sort_key dn_Name records)
     in concat (map (\<lambda>l. l @ [CHR 0x0A]) (zoneHeader zone serial ns @ map zoneLine shown)))"

definition ReconcileZone :: "dnsConfig \<Rightarrow> io \<Rightarrow> dnsWorld \<Rightarrow> dnsWorld \<times> unit result" where
  "ReconcileZone cfg io w =
    (case DNSRecordStore_DeleteExpired io (io_now io) (w_db w) of
       Inl e \<Rightarrow> (w, Inl e)
     | Inr (n, d1) \<Rightarrow>
         (case DNSRecordStore_List io d1 of
            Inl e \<Rightarrow> (w\<lparr>w_db := d1\<rparr>, Inl e)
          | Inr records \<Rightarrow>
              let serial = w_serial w + 1; w1 = w\<lparr>w_db := d1, w_serial := serial\<rparr>;
                  zone = RenderZoneFile (io_now io) (dc_Zone cfg) records serial (dc_BootstrapIPv4 cfg)
              in if io_fault io ''PatchZone'' then (w1, Inl (ErrDriver ''PatchZone''))
                 else (w1\<lparr>w_zone := Some zone\<rparr>, Inr ())))"

record UpsertInput =
  in_Name :: string
  in_IPv4 :: string
  in_TTL :: int
  in_Source :: string
  in_Owner :: string
  in_AsAdmin :: bool

text \<open>The checks of Upsert against an existing record, for a peer.\<close>

definition peerMayReplace :: "string \<Rightarrow> DNSRecord \<Rightarrow> bool" where
  "peerMayReplace owner existing \<longleftrightarrow>
     ((dn_Source existing = ''admin'' \<or> dn_Source existing = ''bootstrap'') \<longrightarrow> dn_Owner existing \<noteq> [] \<and> dn_Owner existing = owner)
   \<and> (dn_Owner existing \<noteq> [] \<longrightarrow> dn_Owner existing = owner)"

definition upsertRecord :: "ext \<Rightarrow> dnsConfig \<Rightarrow> UpsertInput \<Rightarrow> io \<Rightarrow> db \<Rightarrow> DNSRecord result" where
  "upsertRecord x cfg i io d =
     andThen (NormalizeName x (in_Name i)) (\<lambda>name.
     andThen (validateIPv4 (in_IPv4 i)) (\<lambda>_.
     let owner = TrimSpace (in_Owner i);
         source = (if in_AsAdmin i then (if in_Source i = [] then ''admin'' else in_Source i) else ''peer'');
         ttl = (if in_TTL i \<le> 0 then (if in_AsAdmin i then DefaultAdminTTL else DefaultPeerTTL) else in_TTL i);
         lease = (if in_AsAdmin i then None else Some (io_now io + dc_PeerLease cfg));
         record1 = (\<lambda>createdAt. \<lparr>dn_Name = name, dn_IPv4 = TrimSpace (in_IPv4 i), dn_TTL = ttl, dn_Source = source, dn_Owner = owner,
                      dn_CreatedAt = createdAt, dn_UpdatedAt = io_now io, dn_LeaseExpiresAt = lease\<rparr>)
     in if \<not> in_AsAdmin i \<and> owner = [] then Inl (ErrMessage ''owner is required for peer registration'')
        else (case DNSRecordStore_Get io name d of
                Inl e \<Rightarrow> if e \<noteq> ErrNotFound then Inl e else Inr (record1 (io_now io))
              | Inr existing \<Rightarrow> if in_AsAdmin i \<or> peerMayReplace owner existing then Inr (record1 (dn_CreatedAt existing))
                               else Inl ErrOwnershipConflict)))"

definition Dns_Upsert :: "ext \<Rightarrow> dnsConfig \<Rightarrow> Actor \<Rightarrow> UpsertInput \<Rightarrow> io \<Rightarrow> dnsWorld \<Rightarrow> dnsWorld \<times> DNSRecord result" where
  "Dns_Upsert x cfg actor i io w =
    (case upsertRecord x cfg i io (w_db w) of
       Inl e \<Rightarrow> (w, Inl e)
     | Inr rec \<Rightarrow>
         (case WithTx io (unitTx (\<lambda>d. andThen (DNSRecordStore_Upsert io rec d) (\<lambda>d1.
              Recorder_Record x io actor (successEvent ''dns.record.upsert'' ''dns_record'' (dn_Name rec)
                (Some [(''ipv4'', JStr (dn_IPv4 rec)), (''ttl'', JInt (dn_TTL rec)), (''source'', JStr (dn_Source rec)), (''owner'', JStr (dn_Owner rec))])) d1)))
            (w_db w) of
            (d', Inl e) \<Rightarrow> (w\<lparr>w_db := d'\<rparr>, Inl e)
          | (d', Inr _) \<Rightarrow> (case ReconcileZone cfg io (w\<lparr>w_db := d'\<rparr>) of (w', r) \<Rightarrow> (w', andThen r (\<lambda>_. Inr rec)))))"

definition Dns_Delete :: "ext \<Rightarrow> dnsConfig \<Rightarrow> Actor \<Rightarrow> string \<Rightarrow> io \<Rightarrow> dnsWorld \<Rightarrow> dnsWorld \<times> unit result" where
  "Dns_Delete x cfg actor rawName io w =
    (case NormalizeName x rawName of
       Inl e \<Rightarrow> (w, Inl e)
     | Inr name \<Rightarrow>
         (case WithTx io (unitTx (\<lambda>d. andThen (DNSRecordStore_Delete io name d) (\<lambda>d1.
              Recorder_Record x io actor (successEvent ''dns.record.delete'' ''dns_record'' name None) d1))) (w_db w) of
            (d', Inl e) \<Rightarrow> (w\<lparr>w_db := d'\<rparr>, Inl e)
          | (d', Inr _) \<Rightarrow> ReconcileZone cfg io (w\<lparr>w_db := d'\<rparr>)))"

definition BootstrapSelf :: "ext \<Rightarrow> dnsConfig \<Rightarrow> io \<Rightarrow> dnsWorld \<Rightarrow> dnsWorld \<times> unit result" where
  "BootstrapSelf x cfg io w =
    (let host = TrimSpace (dc_BootstrapHostname cfg); ip = TrimSpace (dc_BootstrapIPv4 cfg)
     in if host = [] \<or> ip = [] then ReconcileZone cfg io w
        else case andThen (NormalizeName x host) (\<lambda>name. andThen (validateIPv4 ip) (\<lambda>_. Inr name)) of
          Inl e \<Rightarrow> (w, Inl e)
        | Inr name \<Rightarrow>
            let write = (\<lambda>createdAt. case DNSRecordStore_Upsert io
                   \<lparr>dn_Name = name, dn_IPv4 = ip, dn_TTL = DefaultAdminTTL, dn_Source = ''bootstrap'', dn_Owner = ''self'',
                    dn_CreatedAt = createdAt, dn_UpdatedAt = io_now io, dn_LeaseExpiresAt = None\<rparr> (w_db w) of
                   Inl e \<Rightarrow> (w, Inl e) | Inr d' \<Rightarrow> ReconcileZone cfg io (w\<lparr>w_db := d'\<rparr>))
            in (case DNSRecordStore_Get io name (w_db w) of
                  Inl e \<Rightarrow> if e \<noteq> ErrNotFound then (w, Inl e) else write (io_now io)
                | Inr existing \<Rightarrow> if dn_Source existing = ''admin'' \<and> dn_Owner existing = [] then ReconcileZone cfg io w
                                 else write (dn_CreatedAt existing)))"

definition expireLocked :: "io \<Rightarrow> dnsWorld \<Rightarrow> dnsWorld \<times> nat result" where
  "expireLocked io w = (case DNSRecordStore_DeleteExpired io (io_now io) (w_db w) of
     Inl e \<Rightarrow> (w, Inl e) | Inr (n, d') \<Rightarrow> (w\<lparr>w_db := d'\<rparr>, Inr n))"

definition ExpireStale :: "dnsConfig \<Rightarrow> io \<Rightarrow> dnsWorld \<Rightarrow> dnsWorld \<times> nat result" where
  "ExpireStale cfg io w = (case expireLocked io w of
     (w', Inl e) \<Rightarrow> (w', Inl e)
   | (w', Inr n) \<Rightarrow> if 0 < n then (case ReconcileZone cfg io w' of (w2, r) \<Rightarrow> (w2, andThen r (\<lambda>_. Inr n))) else (w', Inr n))"

definition Dns_List :: "io \<Rightarrow> dnsWorld \<Rightarrow> dnsWorld \<times> DNSRecord list result" where
  "Dns_List io w = (case expireLocked io w of
     (w', Inl e) \<Rightarrow> (w', Inl e) | (w', Inr n) \<Rightarrow> (w', DNSRecordStore_List io (w_db w')))"

lemma ParseIP_samples:
  "ParseIP ''10.0.0.1'' = Some (replicate 10 0 @ [255, 255, 10, 0, 0, 1])" "ParseIP ''10.0.0'' = None" "ParseIP ''010.0.0.1'' = None"
  "ParseIP ''256.0.0.1'' = None" "ParseIP ''::'' = Some (replicate 16 0)" "ParseIP ''::1'' = Some (replicate 15 0 @ [1])"
  "ParseIP ''fe80::1%eth0'' = None" "ParseIP ''::ffff:1.2.3.4'' = Some (replicate 10 0 @ [255, 255, 1, 2, 3, 4])"
  "ParseIP ''1:2:3:4:5:6:7:8'' = Some [0, 1, 0, 2, 0, 3, 0, 4, 0, 5, 0, 6, 0, 7, 0, 8]" "ParseIP ''1:2:3:4:5:6:7:8:'' = None"
  "ParseIP ''1:2:3:4:5:6:7:8:9'' = None" "ParseIP ''1::2::3'' = None" "ParseIP ''1:2:3:4:5:6:7::'' = Some [0, 1, 0, 2, 0, 3, 0, 4, 0, 5, 0, 6, 0, 7, 0, 0]"
  "ParseIP ''12345::'' = None" "ParseIP '':1'' = None" "ParseIP ''1.2.3.4.5'' = None" "ParseIP [] = None"
  by code_simp+

section \<open>Addresses have no other characters\<close>

definition addrChar :: "char \<Rightarrow> bool" where "addrChar c \<longleftrightarrow> hexValue c \<noteq> None \<or> c = CHR ''.'' \<or> c = CHR '':''"

lemma digit_hex: "digit c \<Longrightarrow> hexValue c \<noteq> None"
  by (auto simp: digit_def hexValue_def Let_def)

lemma allSome_Some: "allSome xs = Some ys \<Longrightarrow> None \<notin> set xs"
  by (induction xs arbitrary: ys rule: allSome.induct) auto

lemma parseIPv4_chars:
  assumes "parseIPv4 s = Some fs"
  shows "list_all addrChar s"
proof -
  have "None \<notin> set (map decField (Split s (CHR ''.'')))"
    using assms by (auto simp: parseIPv4_def Let_def dest: allSome_Some split: if_splits)
  then have "list_all digit f" if "f \<in> set (Split s (CHR ''.''))" for f
    using that by (force simp: decField_def Let_def split: if_splits)
  moreover have "set s \<subseteq> insert (CHR ''.'') (\<Union>f\<in>set (Split s (CHR ''.'')). set f)"
    using joinWith_chars [of "CHR ''.''" "Split s (CHR ''.'')"] by (simp add: Split_join)
  ultimately show ?thesis using digit_hex by (fastforce simp: list_all_iff addrChar_def)
qed

lemma parseGroups_chars: "parseGroups fuel bs ell s = Some r \<Longrightarrow> list_all addrChar s"
proof (induction fuel arbitrary: bs ell s r)
  case (Suc fuel)
  define h where "h = takeWhile (\<lambda>c. hexValue c \<noteq> None) s"
  define q where "q = drop (length h) s"
  have s: "s = h @ q" by (metis append_take_drop_id takeWhile_eq_take h_def q_def)
  have h: "list_all addrChar h" by (auto simp: h_def list_all_iff addrChar_def dest: set_takeWhileD)
  note step = Suc.prems [unfolded parseGroups.simps Let_def, folded h_def, folded q_def]
  have sep: "addrChar (CHR '':'')" by (simp add: addrChar_def)
  have "list_all addrChar s \<or> list_all addrChar q"
  proof (cases q)
    case (Cons c t)
    show ?thesis
    proof (cases t)
      case Nil
      with Cons step show ?thesis by (auto dest: parseIPv4_chars split: if_splits)
    next
      case t: (Cons c2 t2)
      have IH: "addrChar c2 \<and> list_all addrChar t2" if "parseGroups fuel b e (c2 # t2) = Some k" for b e k
        using Suc.IH [OF that] by simp
      from t Cons step Suc.IH sep show ?thesis by (auto dest: parseIPv4_chars IH split: if_splits)
    qed
  qed simp
  with h s show ?case by (metis list_all_append)
qed simp

lemma ParseIP_chars:
  assumes "ParseIP s = Some ip"
  shows "list_all addrChar s"
proof -
  have six: "list_all addrChar s" if p: "parseIPv6 s = Some ip"
  proof (cases "HasPrefix s ''::''")
    case True
    then obtain t where s: "s = ''::'' @ t" by (auto simp: HasPrefix_iff)
    have "list_all addrChar t" using p by (auto simp: parseIPv6_def s HasPrefix_def dest: parseGroups_chars split: if_splits option.splits)
    then show ?thesis by (simp add: s addrChar_def)
  next
    case False
    then show ?thesis using p by (auto simp: parseIPv6_def dest: parseGroups_chars split: option.splits)
  qed
  show ?thesis using assms six by (auto simp: ParseIP_def dest: parseIPv4_chars split: list.splits if_splits)
qed

section \<open>The record table\<close>

definition recordOk :: "DNSRecord \<Rightarrow> bool" where
  "recordOk r \<longleftrightarrow> namePattern (dn_Name r) \<and> dn_Name r \<noteq> ''ns'' \<and> list_all addrChar (dn_IPv4 r)"

definition dns_ok :: "db \<Rightarrow> bool" where
  "dns_ok d \<longleftrightarrow> distinct (map dn_Name (db_dns d)) \<and> (\<forall>r\<in>set (db_dns d). recordOk r)"

lemma dns_ok_cong: "db_dns d' = db_dns d \<Longrightarrow> dns_ok d' = dns_ok d"
  by (simp add: dns_ok_def)

lemma NormalizeName_Inr: "NormalizeName x raw = Inr name \<Longrightarrow> namePattern name \<and> name \<noteq> ''ns''"
  by (auto simp: NormalizeName_def Let_def split: if_splits)

lemma validateIPv4_Inr: "validateIPv4 ip = Inr u \<Longrightarrow> list_all addrChar (TrimSpace ip)"
  by (auto simp: validateIPv4_def dest: ParseIP_chars split: option.splits if_splits)

lemma Upsert_dns_ok:
  assumes "dns_ok d" and "recordOk rec" and "DNSRecordStore_Upsert io rec d = Inr d'"
  shows "dns_ok d'"
proof -
  define rec1 where "rec1 = rec\<lparr>dn_CreatedAt := (if IsZero (dn_CreatedAt rec) then io_now io else dn_CreatedAt rec),
     dn_UpdatedAt := (if IsZero (dn_UpdatedAt rec) then io_now io else dn_UpdatedAt rec)\<rparr>"
  have ok: "recordOk (rec1\<lparr>dn_CreatedAt := t\<rparr>)" "recordOk rec1" for t using assms(2) by (simp_all add: recordOk_def rec1_def)
  have d': "db_dns d' = (if dn_Name rec1 \<in> dn_Name ` set (db_dns d)
      then updateWhere (\<lambda>r. dn_Name r = dn_Name rec1) (\<lambda>r. rec1\<lparr>dn_CreatedAt := dn_CreatedAt r\<rparr>) (db_dns d) else db_dns d @ [rec1])"
    using assms(3) unfolding DNSRecordStore_Upsert_def Let_def rec1_def [symmetric] by (auto split: if_splits)
  have "map dn_Name (updateWhere (\<lambda>r. dn_Name r = dn_Name rec1) (\<lambda>r. rec1\<lparr>dn_CreatedAt := dn_CreatedAt r\<rparr>) (db_dns d)) = map dn_Name (db_dns d)"
    by (rule map_updateWhere_same) simp
  then show ?thesis using assms(1) ok unfolding dns_ok_def d' by (auto simp: distinct_map_append1)
qed

lemma DeleteExpired_dns_ok: "DNSRecordStore_DeleteExpired io now d = Inr (n, d') \<Longrightarrow> dns_ok d \<Longrightarrow> dns_ok d'"
  by (auto simp: DNSRecordStore_DeleteExpired_def dns_ok_def distinct_map_filter_rows)

lemma Delete_dns_ok: "DNSRecordStore_Delete io name d = Inr d' \<Longrightarrow> dns_ok d \<Longrightarrow> dns_ok d'"
  by (auto simp: DNSRecordStore_Delete_def dns_ok_def distinct_map_filter_rows)

lemma ReconcileZone_dns_ok: "dns_ok (w_db w) \<Longrightarrow> dns_ok (w_db (fst (ReconcileZone cfg io w)))"
  by (auto simp: ReconcileZone_def Let_def dest: DeleteExpired_dns_ok split: sum.splits)

lemma upsertRecord_Inr:
  assumes "upsertRecord x cfg i io d = Inr rec"
  shows "recordOk rec" and "dn_Owner rec = TrimSpace (in_Owner i)"
    and "\<not> in_AsAdmin i \<Longrightarrow> r \<in> set (db_dns d) \<Longrightarrow> distinct (map dn_Name (db_dns d)) \<Longrightarrow> dn_Name r = dn_Name rec \<Longrightarrow> peerMayReplace (dn_Owner rec) r"
proof -
  obtain name where n: "NormalizeName x (in_Name i) = Inr name" and v: "validateIPv4 (in_IPv4 i) = Inr ()"
    using assms by (auto simp: upsertRecord_def)
  have rec: "dn_Name rec = name" "dn_IPv4 rec = TrimSpace (in_IPv4 i)" "dn_Owner rec = TrimSpace (in_Owner i)"
    using assms by (auto simp: upsertRecord_def n v Let_def split: if_splits sum.splits)
  show "recordOk rec" using NormalizeName_Inr [OF n] validateIPv4_Inr [OF v] by (simp add: recordOk_def rec)
  show "dn_Owner rec = TrimSpace (in_Owner i)" by (rule rec)
  show "peerMayReplace (dn_Owner rec) r"
    if peer: "\<not> in_AsAdmin i" and r: "r \<in> set (db_dns d)" "distinct (map dn_Name (db_dns d))" "dn_Name r = dn_Name rec"
  proof -
    have "selectFirst (\<lambda>q. dn_Name q = name) (db_dns d) = Some r"
      using selectFirst_key_unique [OF r(2,1)] r(3) rec(1) by simp
    then show ?thesis
      using assms peer by (auto simp: upsertRecord_def n v Let_def DNSRecordStore_Get_def rec(3) andThen_Inl_iff split: if_splits sum.splits)
  qed
qed

lemma upsertTx_Inr:
  assumes "WithTx io (unitTx (\<lambda>d. andThen (DNSRecordStore_Upsert io rec d) (\<lambda>d1. Recorder_Record x io actor e d1))) d = (d', Inr u)"
  shows "\<exists>d1. DNSRecordStore_Upsert io rec d = Inr d1 \<and> db_dns d' = db_dns d1"
proof -
  obtain d1 where 1: "DNSRecordStore_Upsert io rec d = Inr d1" and 2: "Recorder_Record x io actor e d1 = Inr d'"
    using assms by (auto dest!: WithTx_Inr)
  have "db_dns d' = db_dns d1" by (subst Recorder_Record_InrD(1) [OF 2]) simp
  with 1 show ?thesis by blast
qed

lemma upsertTx_dns_ok:
  assumes "WithTx io (unitTx (\<lambda>d. andThen (DNSRecordStore_Upsert io rec d) (\<lambda>d1. Recorder_Record x io actor e d1))) d = (d', r)"
    and "dns_ok d" and "recordOk rec"
  shows "dns_ok d'"
proof (cases r)
  case (Inl e)
  with assms show ?thesis by (metis WithTx_Inl)
next
  case (Inr u)
  with assms(1) have "\<exists>d1. DNSRecordStore_Upsert io rec d = Inr d1 \<and> db_dns d' = db_dns d1" using upsertTx_Inr by blast
  then show ?thesis using Upsert_dns_ok [OF assms(2,3)] dns_ok_cong by blast
qed

lemma deleteTx_dns_ok:
  assumes "WithTx io (unitTx (\<lambda>d. andThen (DNSRecordStore_Delete io n d) (\<lambda>d1. Recorder_Record x io actor e d1))) d = (d', r)" and "dns_ok d"
  shows "dns_ok d'"
proof (cases r)
  case (Inl e)
  with assms show ?thesis by (metis WithTx_Inl)
next
  case (Inr u)
  with assms(1) obtain d1 where 1: "DNSRecordStore_Delete io n d = Inr d1" and 2: "Recorder_Record x io actor e d1 = Inr d'"
    by (auto dest!: WithTx_Inr)
  have "db_dns d' = db_dns d1" by (subst Recorder_Record_InrD(1) [OF 2]) simp
  with Delete_dns_ok [OF 1 assms(2)] show ?thesis using dns_ok_cong by blast
qed

lemma ReconcileZone_at: "dns_ok d \<Longrightarrow> dns_ok (w_db (fst (ReconcileZone cfg io (w\<lparr>w_db := d\<rparr>))))"
  by (rule ReconcileZone_dns_ok) simp

lemma Dns_Upsert_dns_ok: "dns_ok (w_db w) \<Longrightarrow> dns_ok (w_db (fst (Dns_Upsert x cfg actor i io w)))"
  unfolding Dns_Upsert_def
  by (auto intro!: ReconcileZone_at intro: upsertTx_dns_ok upsertRecord_Inr(1) simp: case_prod_beta split: sum.splits)
    (metis ReconcileZone_at prod.collapse upsertTx_dns_ok upsertRecord_Inr(1))+

lemma Dns_Delete_dns_ok: "dns_ok (w_db w) \<Longrightarrow> dns_ok (w_db (fst (Dns_Delete x cfg actor name io w)))"
  unfolding Dns_Delete_def by (auto intro!: ReconcileZone_at intro: deleteTx_dns_ok split: sum.splits prod.splits)

lemma bootstrapRecord_ok:
  assumes "NormalizeName x (TrimSpace h) = Inr name" and "validateIPv4 (TrimSpace ip) = Inr ()"
  shows "recordOk \<lparr>dn_Name = name, dn_IPv4 = TrimSpace ip, dn_TTL = DefaultAdminTTL, dn_Source = ''bootstrap'', dn_Owner = ''self'',
      dn_CreatedAt = t, dn_UpdatedAt = u, dn_LeaseExpiresAt = None\<rparr>"
  using NormalizeName_Inr [OF assms(1)] validateIPv4_Inr [OF assms(2)] by (simp add: recordOk_def TrimSpace_idem)

text \<open>BootstrapSelf fails with the world as it was or ends in a reconciliation.\<close>

lemma BootstrapSelf_cases:
  assumes ok: "dns_ok (w_db w)"
  shows "(\<exists>e. BootstrapSelf x cfg io w = (w, Inl e)) \<or> (\<exists>d. dns_ok d \<and> BootstrapSelf x cfg io w = ReconcileZone cfg io (w\<lparr>w_db := d\<rparr>))"
proof -
  define G where "G r \<longleftrightarrow> (\<exists>e. r = (w, Inl e)) \<or> (\<exists>d. dns_ok d \<and> r = ReconcileZone cfg io (w\<lparr>w_db := d\<rparr>))" for r
  have G: "G (w, Inl e)" "dns_ok d \<Longrightarrow> G (ReconcileZone cfg io (w\<lparr>w_db := d\<rparr>))" for e d by (auto simp: G_def)
  have "G (ReconcileZone cfg io w)" using G(2) [OF ok] by simp
  then have "G (BootstrapSelf x cfg io w)"
    unfolding BootstrapSelf_def Let_def
    by (auto intro!: G Upsert_dns_ok [OF ok bootstrapRecord_ok] split: sum.splits)
  then show ?thesis by (simp add: G_def)
qed

lemma BootstrapSelf_dns_ok: "dns_ok (w_db w) \<Longrightarrow> dns_ok (w_db (fst (BootstrapSelf x cfg io w)))"
  using BootstrapSelf_cases [of w x cfg io] ReconcileZone_at by (metis fst_conv)

lemma BootstrapSelf_reconciles:
  "dns_ok (w_db w) \<Longrightarrow> BootstrapSelf x cfg io w = (w', Inr ()) \<Longrightarrow> \<exists>w1. dns_ok (w_db w1) \<and> ReconcileZone cfg io w1 = (w', Inr ())"
  using BootstrapSelf_cases [of w x cfg io] by (metis Inl_Inr_False Pair_inject dnsWorld.select_convs(1) dnsWorld.surjective dnsWorld.update_convs(1))

lemma expireLocked_dns_ok: "dns_ok (w_db w) \<Longrightarrow> dns_ok (w_db (fst (expireLocked io w)))"
  by (auto simp: expireLocked_def dest: DeleteExpired_dns_ok split: sum.splits)

lemma ExpireStale_dns_ok: "dns_ok (w_db w) \<Longrightarrow> dns_ok (w_db (fst (ExpireStale cfg io w)))"
  using expireLocked_dns_ok [of w io] ReconcileZone_dns_ok
  by (auto simp: ExpireStale_def split: sum.splits prod.splits) (metis fst_conv)

lemma Dns_List_dns_ok: "dns_ok (w_db w) \<Longrightarrow> dns_ok (w_db (fst (Dns_List io w)))"
  using expireLocked_dns_ok [of w io] by (auto simp: Dns_List_def split: sum.splits prod.splits)

section \<open>Reachable states\<close>

text \<open>Every exported operation of the service, with any arguments, clock and failures; a start has no records.\<close>

inductive dns_reachable :: "ext \<Rightarrow> dnsConfig \<Rightarrow> dnsWorld \<Rightarrow> bool" for x cfg where
  start: "db_dns (w_db w) = [] \<Longrightarrow> dns_reachable x cfg w"
| upsert: "dns_reachable x cfg w \<Longrightarrow> dns_reachable x cfg (fst (Dns_Upsert x cfg actor i io w))"
| delete: "dns_reachable x cfg w \<Longrightarrow> dns_reachable x cfg (fst (Dns_Delete x cfg actor name io w))"
| bootstrap: "dns_reachable x cfg w \<Longrightarrow> dns_reachable x cfg (fst (BootstrapSelf x cfg io w))"
| reconcile: "dns_reachable x cfg w \<Longrightarrow> dns_reachable x cfg (fst (ReconcileZone cfg io w))"
| expire: "dns_reachable x cfg w \<Longrightarrow> dns_reachable x cfg (fst (ExpireStale cfg io w))"
| list: "dns_reachable x cfg w \<Longrightarrow> dns_reachable x cfg (fst (Dns_List io w))"

lemma dns_reachable_ok: "dns_reachable x cfg w \<Longrightarrow> dns_ok (w_db w)"
proof (induction rule: dns_reachable.induct)
  case (start w)
  then show ?case by (simp add: dns_ok_def)
qed (auto intro: Dns_Upsert_dns_ok Dns_Delete_dns_ok BootstrapSelf_dns_ok ReconcileZone_dns_ok ExpireStale_dns_ok Dns_List_dns_ok)

section \<open>The zone file\<close>

abbreviation newline :: char where "newline \<equiv> CHR 0x0A"

lemma decDigits_no_newline: "newline \<notin> set (decDigits n)"
proof (induction n rule: decDigits.induct)
  case (1 n)
  then show ?case by (cases "n < 10") (simp_all add: decDigits_small decDigits_big digitChar_def)
qed

lemma Itoa_no_newline: "newline \<notin> set (Itoa n)"
  by (simp add: Itoa_def decDigits_no_newline)

lemma zoneHeader_no_newline:
  "newline \<notin> set zone \<Longrightarrow> newline \<notin> set ns \<Longrightarrow> l \<in> set (zoneHeader zone serial ns) \<Longrightarrow> newline \<notin> set l"
  using Itoa_no_newline by (auto simp: zoneHeader_def)

lemma recordOk_plain:
  assumes "recordOk r"
  shows "TrimSpace (dn_Name r) = dn_Name r" and "newline \<notin> set (zoneLine r)" and "dn_Name r \<noteq> []" and "dn_Name r \<noteq> ''ns''"
    and "newline \<notin> set (dn_IPv4 r)"
proof -
  have chars: "dnsAlnum c \<or> c = CHR ''-''" if "c \<in> set (dn_Name r)" for c using assms that by (auto simp: recordOk_def namePattern_def list_all_iff)
  have "(of_char c :: int) < 128 \<and> \<not> asciiSpace c \<and> c \<noteq> newline" if "dnsAlnum c \<or> c = CHR ''-''" for c
    using that by (auto simp: dnsAlnum_def lowerLetter_def digit_def asciiSpace_def isSpace_def inRange_def)
  with chars show t: "TrimSpace (dn_Name r) = dn_Name r" by (intro TrimSpace_id) (auto simp: ascii_def list_all_iff)
  have "newline \<notin> set (dn_Name r)" using chars [of newline] by (auto simp: dnsAlnum_def lowerLetter_def digit_def inRange_def)
  moreover show "newline \<notin> set (dn_IPv4 r)"
    using assms by (auto simp: recordOk_def list_all_iff addrChar_def hexValue_def Let_def inRange_def)
  ultimately show "newline \<notin> set (zoneLine r)" using Itoa_no_newline by (auto simp: zoneLine_def t)
  show "dn_Name r \<noteq> []" "dn_Name r \<noteq> ''ns''" using assms by (auto simp: recordOk_def namePattern_def)
qed

definition zonePublished :: "dnsWorld \<Rightarrow> bool" where
  "zonePublished w \<longleftrightarrow> distinct (map dn_Name (db_dns (w_db w))) \<and> (\<exists>zone serial ns z. w_zone w = Some z
     \<and> Split z newline = zoneHeader zone serial ns @ map zoneLine (sort_key dn_Name (db_dns (w_db w))) @ [[]])"

lemma ReconcileZone_published:
  assumes ok: "dns_ok (w_db w)" and nl: "newline \<notin> set (dc_Zone cfg)" "newline \<notin> set (dc_BootstrapIPv4 cfg)"
    and r: "ReconcileZone cfg io w = (w', Inr u)"
  shows "zonePublished w'"
proof -
  define recs where "recs = sort_key dn_Name (db_dns (w_db w'))"
  obtain n where "DNSRecordStore_DeleteExpired io (io_now io) (w_db w) = Inr (n, w_db w')"
      and z: "w_zone w' = Some (RenderZoneFile (io_now io) (dc_Zone cfg) recs (w_serial w + 1) (dc_BootstrapIPv4 cfg))"
    using r by (auto simp: ReconcileZone_def DNSRecordStore_List_def Let_def recs_def split: sum.splits if_splits)
  then have ok': "dns_ok (w_db w')" using ok DeleteExpired_dns_ok by blast
  then have recs: "recordOk q" if "q \<in> set recs" for q using that by (auto simp: recs_def dns_ok_def)
  have srt: "sort_key dn_Name recs = recs" unfolding recs_def by (simp add: sort_key_id_if_sorted)
  have flt: "filter (\<lambda>q. TrimSpace (dn_Name q) \<noteq> [] \<and> TrimSpace (dn_Name q) \<noteq> ''ns'') recs = recs"
    using recordOk_plain recs by (auto simp: filter_id_conv)
  define zone serial ns where "zone = TrimSuffix (TrimSpace (dc_Zone cfg)) ''.''"
    and "serial = (if w_serial w + 1 \<le> 0 then toUnix (io_now io) else w_serial w + 1)"
    and "ns = (if dc_BootstrapIPv4 cfg = [] then (case List.find (\<lambda>r. dn_IPv4 r \<noteq> []) recs of None \<Rightarrow> ''127.0.0.1'' | Some r \<Rightarrow> dn_IPv4 r)
               else dc_BootstrapIPv4 cfg)"
  have zone: "newline \<notin> set zone" using nl(1) set_TrimSpace set_TrimSuffix unfolding zone_def by blast
  have ns: "newline \<notin> set ns"
    using nl(2) recordOk_plain(5) recs unfolding ns_def by (auto split: option.splits simp: find_Some_iff)
  have "newline \<notin> set l" if "l \<in> set (zoneHeader zone serial ns @ map zoneLine recs)" for l
    using that zoneHeader_no_newline [OF zone ns, of l serial] recordOk_plain(2) [OF recs] by auto
  then have lines: "Split (concat (map (\<lambda>l. l @ [newline]) (zoneHeader zone serial ns @ map zoneLine recs))) newline
      = (zoneHeader zone serial ns @ map zoneLine recs) @ [[]]" by (rule Split_lines)
  have "RenderZoneFile (io_now io) (dc_Zone cfg) recs (w_serial w + 1) (dc_BootstrapIPv4 cfg)
      = concat (map (\<lambda>l. l @ [newline]) (zoneHeader zone serial ns @ map zoneLine recs))"
    unfolding RenderZoneFile_def Let_def srt flt zone_def serial_def ns_def ..
  with z lines have "\<exists>zone serial ns z. w_zone w' = Some z \<and> Split z newline = zoneHeader zone serial ns @ map zoneLine recs @ [[]]"
    unfolding append_assoc by metis
  with ok' show ?thesis unfolding zonePublished_def recs_def dns_ok_def by blast
qed

text \<open>A successful change ended in a successful reconciliation of a well-formed table.\<close>

lemma publishing_reconciles:
  assumes ok: "dns_ok (w_db w)"
    and op: "(\<exists>actor i rec. Dns_Upsert x cfg actor i io w = (w', Inr rec)) \<or> (\<exists>actor name. Dns_Delete x cfg actor name io w = (w', Inr ()))
      \<or> BootstrapSelf x cfg io w = (w', Inr ()) \<or> ReconcileZone cfg io w = (w', Inr ())"
  obtains w1 where "dns_ok (w_db w1)" and "ReconcileZone cfg io w1 = (w', Inr ())"
proof -
  note found = that
  have up: thesis if u: "Dns_Upsert x cfg actor i io w = (w', Inr rec)" for actor i rec
  proof -
    obtain rec0 d' where rec0: "upsertRecord x cfg i io (w_db w) = Inr rec0" and tx: "WithTx io (unitTx (\<lambda>d. andThen (DNSRecordStore_Upsert io rec0 d) (\<lambda>d1.
              Recorder_Record x io actor (successEvent ''dns.record.upsert'' ''dns_record'' (dn_Name rec0)
                (Some [(''ipv4'', JStr (dn_IPv4 rec0)), (''ttl'', JInt (dn_TTL rec0)), (''source'', JStr (dn_Source rec0)), (''owner'', JStr (dn_Owner rec0))])) d1)))
            (w_db w) = (d', Inr ())" and "ReconcileZone cfg io (w\<lparr>w_db := d'\<rparr>) = (w', Inr ())"
      using u unfolding Dns_Upsert_def
      by (cases "upsertRecord x cfg i io (w_db w)") (auto simp: andThen_Inr_iff split: sum.splits prod.splits)
    moreover have "dns_ok d'" by (rule upsertTx_dns_ok [OF tx ok upsertRecord_Inr(1) [OF rec0]])
    ultimately show thesis by (intro found) auto
  qed
  have del: thesis if del: "Dns_Delete x cfg actor name io w = (w', Inr ())" for actor name
  proof -
    obtain n d' where tx: "WithTx io (unitTx (\<lambda>d. andThen (DNSRecordStore_Delete io n d) (\<lambda>d1.
              Recorder_Record x io actor (successEvent ''dns.record.delete'' ''dns_record'' n None) d1))) (w_db w) = (d', Inr ())"
        and "ReconcileZone cfg io (w\<lparr>w_db := d'\<rparr>) = (w', Inr ())"
      using del unfolding Dns_Delete_def by (auto split: sum.splits prod.splits)
    moreover have "dns_ok d'" by (rule deleteTx_dns_ok [OF tx ok])
    ultimately show thesis by (intro found) auto
  qed
  have boot: thesis if "BootstrapSelf x cfg io w = (w', Inr ())"
    using that BootstrapSelf_reconciles [OF ok that] found by blast
  from op up del boot found [OF ok] show thesis by blast
qed

text \<open>
  C20. The published zone is exactly the stored records. From any reachable state, an upsert,
  a deletion, a bootstrap or a reconciliation that returns success leaves a published zone file
  whose lines are the five header lines followed by one line per stored record in name order:
  nothing stored is missing, no two lines have the same name, and no name or address can
  smuggle in a line of its own, since none contains a line break. (The zone name and bootstrap
  address come from the appliance's configuration and are taken to have no line break.)
\<close>

theorem published_zone_is_the_records:
  assumes w: "dns_reachable x cfg w" and nl: "newline \<notin> set (dc_Zone cfg)" "newline \<notin> set (dc_BootstrapIPv4 cfg)"
    and op: "(\<exists>actor i rec. Dns_Upsert x cfg actor i io w = (w', Inr rec)) \<or> (\<exists>actor name. Dns_Delete x cfg actor name io w = (w', Inr ()))
      \<or> BootstrapSelf x cfg io w = (w', Inr ()) \<or> ReconcileZone cfg io w = (w', Inr ())"
  shows "zonePublished w'"
  using publishing_reconciles [OF dns_reachable_ok [OF w] op] ReconcileZone_published [OF _ nl] by metis

text \<open>A world to run the operations in: an administrator's record, then a peer's registration.\<close>

definition sampleDns :: dnsConfig where
  "sampleDns = \<lparr>dc_Zone = ''appliance.internal'', dc_BootstrapHostname = ''dns1'', dc_BootstrapIPv4 = ''192.0.2.10'', dc_PeerLease = 15 * Minute\<rparr>"

definition dnsStart :: dnsWorld where
  "dnsStart = \<lparr>w_db = sampleDb, w_serial = 100, w_zone = None\<rparr>"

definition adminInput :: UpsertInput where
  "adminInput = \<lparr>in_Name = ''Registry1.appliance.internal.'', in_IPv4 = '' 192.0.2.20'', in_TTL = 0, in_Source = [], in_Owner = [], in_AsAdmin = True\<rparr>"

definition peerInput :: UpsertInput where
  "peerInput = \<lparr>in_Name = ''builder1'', in_IPv4 = ''192.0.2.30'', in_TTL = 0, in_Source = [], in_Owner = ''peer-b'', in_AsAdmin = False\<rparr>"

definition dnsAdmin :: "dnsWorld \<times> DNSRecord result" where
  "dnsAdmin = Dns_Upsert sampleExt sampleDns SystemActor adminInput sampleIO dnsStart"

lemma dnsAdmin_ok: "\<not> isl (snd dnsAdmin)" "dn_Name ` set (db_dns (w_db (fst dnsAdmin))) = {''registry1''}"
  by code_simp+

lemma dnsAdmin_reachable: "dns_reachable sampleExt sampleDns (fst dnsAdmin)"
  unfolding dnsAdmin_def by (intro dns_reachable.upsert dns_reachable.start) (simp add: dnsStart_def sampleDb_def emptyDb_def)

theorem published_zone_is_the_records_witness: "zonePublished (fst dnsAdmin)"
proof (rule published_zone_is_the_records)
  show "dns_reachable sampleExt sampleDns dnsStart" by (rule dns_reachable.start) (simp add: dnsStart_def sampleDb_def emptyDb_def)
  obtain rec where "snd dnsAdmin = Inr rec" using dnsAdmin_ok(1) by (auto simp: isl_def) (metis sum.exhaust)
  then have "Dns_Upsert sampleExt sampleDns SystemActor adminInput sampleIO dnsStart = (fst dnsAdmin, Inr rec)"
    by (metis dnsAdmin_def prod.collapse)
  then show "(\<exists>actor i rec. Dns_Upsert sampleExt sampleDns actor i sampleIO dnsStart = (fst dnsAdmin, Inr rec))
      \<or> (\<exists>actor name. Dns_Delete sampleExt sampleDns actor name sampleIO dnsStart = (fst dnsAdmin, Inr ()))
      \<or> BootstrapSelf sampleExt sampleDns sampleIO dnsStart = (fst dnsAdmin, Inr ()) \<or> ReconcileZone sampleDns sampleIO dnsStart = (fst dnsAdmin, Inr ())"
    by blast
qed (simp_all add: sampleDns_def)

lemma ReconcileZone_keeps:
  "r \<in> set (db_dns (w_db w)) \<Longrightarrow> \<not> leaseExpired (io_now io) r \<Longrightarrow> r \<in> set (db_dns (w_db (fst (ReconcileZone cfg io w))))"
  by (auto simp: ReconcileZone_def DNSRecordStore_DeleteExpired_def Let_def split: sum.splits)

lemma Upsert_keeps:
  "DNSRecordStore_Upsert io rec d = Inr d' \<Longrightarrow> r \<in> set (db_dns d) \<Longrightarrow> dn_Name r \<noteq> dn_Name rec \<Longrightarrow> r \<in> set (db_dns d')"
  by (auto simp: DNSRecordStore_Upsert_def Let_def set_updateWhere image_iff split: if_splits)

text \<open>
  C21. A peer cannot take over or disturb a name that is not its own. In every reachable
  state, whatever name, address and owner a peer registers and whether or not the registration
  succeeds, every record of another owner, and every administrator or bootstrap record that
  is not the peer's, is still stored afterwards exactly as it was; only leases that have run
  out go, as they would on any reconciliation.
\<close>

theorem peer_cannot_take_names:
  assumes w: "dns_reachable x cfg w" and peer: "\<not> in_AsAdmin i"
    and r: "r \<in> set (db_dns (w_db w))" "\<not> leaseExpired (io_now io) r"
    and other: "dn_Owner r \<noteq> TrimSpace (in_Owner i)" "dn_Owner r \<noteq> [] \<or> dn_Source r \<in> {''admin'', ''bootstrap''}"
  shows "r \<in> set (db_dns (w_db (fst (Dns_Upsert x cfg actor i io w))))"
proof (cases "upsertRecord x cfg i io (w_db w)")
  case (Inr rec)
  have "\<not> peerMayReplace (dn_Owner rec) r" using other upsertRecord_Inr(2) [OF Inr] by (auto simp: peerMayReplace_def)
  then have n: "dn_Name r \<noteq> dn_Name rec"
    using upsertRecord_Inr(3) [OF Inr peer r(1)] dns_reachable_ok [OF w] by (auto simp: dns_ok_def)
  have tx: "r \<in> set (db_dns d')"
    if "WithTx io (unitTx (\<lambda>d. andThen (DNSRecordStore_Upsert io rec d) (\<lambda>d1. Recorder_Record x io actor e d1))) (w_db w) = (d', q)" for d' q e
  proof (cases q)
    case (Inl err)
    with that have "d' = w_db w" by (metis WithTx_Inl)
    with r show ?thesis by simp
  next
    case (Inr u)
    with that have "\<exists>d1. DNSRecordStore_Upsert io rec (w_db w) = Inr d1 \<and> db_dns d' = db_dns d1" using upsertTx_Inr by blast
    then show ?thesis using Upsert_keeps [OF _ r(1) n] by metis
  qed
  have rz: "r \<in> set (db_dns (w_db (fst (ReconcileZone cfg io (w\<lparr>w_db := d'\<rparr>)))))" if "r \<in> set (db_dns d')" for d'
    using ReconcileZone_keeps [of r "w\<lparr>w_db := d'\<rparr>"] that r(2) by simp
  show ?thesis
    unfolding Dns_Upsert_def Inr using tx rz by (auto simp: case_prod_beta split: sum.splits) (metis prod.collapse)+
qed (simp add: Dns_Upsert_def r)

theorem peer_cannot_take_names_witness:
  "\<exists>r. dn_Name r = ''registry1'' \<and> r \<in> set (db_dns (w_db (fst (Dns_Upsert sampleExt sampleDns SystemActor peerInput sampleIO (fst dnsAdmin)))))"
proof -
  have ex: "\<exists>r\<in>set (db_dns (w_db (fst dnsAdmin))). dn_Name r = ''registry1'' \<and> dn_LeaseExpiresAt r = None \<and> dn_Owner r = [] \<and> dn_Source r = ''admin''"
    by code_simp
  then obtain r where r: "r \<in> set (db_dns (w_db (fst dnsAdmin)))" "dn_Name r = ''registry1''" "dn_LeaseExpiresAt r = None" "dn_Owner r = []" "dn_Source r = ''admin''"
    by blast
  have "TrimSpace (in_Owner peerInput) \<noteq> []" "\<not> in_AsAdmin peerInput" by code_simp+
  with r peer_cannot_take_names [OF dnsAdmin_reachable, of peerInput r sampleIO SystemActor] show ?thesis by (auto simp: leaseExpired_def)
qed

text \<open>
  Two inputs the checks let through. The IPv4 check accepts an IPv6 text whose address is
  IPv4-mapped, and that text goes into the zone's A record as it stands; and a fully qualified
  name loses everything after its first label, whichever domain it names.
\<close>

lemma mapped_address_accepted: "validateIPv4 ''::ffff:192.0.2.7'' = Inr ()"
  by code_simp

lemma foreign_domain_stripped: "NormalizeName sampleExt ''registry1.example.com'' = Inr ''registry1''"
  by code_simp

end
