(* ===== verification/Redaction.thy ===== *)
theory Redaction
  imports GoLib
begin

text \<open>
  Keeping secrets out of stored build errors and shown logs (internal/builds/service.go):
  the list of sensitive values, their textual replacement and the removal of PEM private
  key blocks, with the proof that no sensitive value survives.
\<close>

section \<open>Replacement\<close>

definition redactedMark :: string where "redactedMark = ''[REDACTED]''"

text \<open>\<open>strings.ReplaceAll\<close> for a non-empty \<open>old\<close>: left to right, without overlaps.\<close>

fun ReplaceAll :: "string \<Rightarrow> string \<Rightarrow> string \<Rightarrow> string" where
  "ReplaceAll [] old new = []"
| "ReplaceAll (c # cs) old new =
     (if old \<noteq> [] \<and> HasPrefix (c # cs) old then new @ ReplaceAll (drop (length old - 1) cs) old new
      else c # ReplaceAll cs old new)"

text \<open>
  The pattern for private keys: a marker line \<open>-----BEGIN ... PRIVATE KEY-----\<close>, anything, as
  little as possible, and the marker line \<open>-----END ... PRIVATE KEY-----\<close>. A marker's text
  between the words is capital letters and blanks, so it ends at the first dash.
\<close>

definition markerChar :: "char \<Rightarrow> bool" where
  "markerChar c \<longleftrightarrow> inRange 65 90 (of_char c) \<or> c = CHR '' ''"

definition keyMarker :: "string \<Rightarrow> string \<Rightarrow> string option" where
  "keyMarker word s =
    (let open = ''-----'' @ word @ '' ''
     in if HasPrefix s open
        then let r = takeWhile markerChar (drop (length open) s); t = drop (length open + length r) s
             in if HasSuffix r ''PRIVATE KEY'' \<and> HasPrefix t ''-----'' then Some (drop 5 t) else None
        else None)"

fun afterEndMarker :: "string \<Rightarrow> string option" where
  "afterEndMarker s = (case keyMarker ''END'' s of
     Some t \<Rightarrow> Some t
   | None \<Rightarrow> (case s of [] \<Rightarrow> None | c # cs \<Rightarrow> afterEndMarker cs))"

declare afterEndMarker.simps [simp del]

definition privateKeyBlock :: "string \<Rightarrow> string option" where
  "privateKeyBlock s = (case keyMarker ''BEGIN'' s of None \<Rightarrow> None | Some r \<Rightarrow> afterEndMarker r)"

text \<open>What is left after a marker or a block is a proper suffix.\<close>

lemma keyMarker_suffix: "keyMarker w s = Some t \<Longrightarrow> \<exists>p. s = p @ t \<and> p \<noteq> []"
proof -
  assume k: "keyMarker w s = Some t"
  then have "HasPrefix s (''-----'' @ w @ '' '')" by (auto simp: keyMarker_def Let_def split: if_splits)
  then have s: "s \<noteq> []" by (auto simp: HasPrefix_def)
  from k obtain n where n: "t = drop n s" "0 < n" by (auto simp: keyMarker_def Let_def split: if_splits)
  have "s = take n s @ t" "take n s \<noteq> []" using s n by simp_all
  then show ?thesis by blast
qed

lemma afterEndMarker_suffix: "afterEndMarker s = Some t \<Longrightarrow> \<exists>p. s = p @ t"
proof (induction s rule: afterEndMarker.induct)
  case (1 s)
  show ?case
  proof (cases "keyMarker ''END'' s")
    case None
    then obtain c cs where cs: "s = c # cs" "afterEndMarker cs = Some t"
      using 1(2) by (subst (asm) afterEndMarker.simps) (auto split: list.splits)
    then obtain p where "cs = p @ t" using 1(1) [OF None] by blast
    with cs show ?thesis by (metis append_Cons)
  next
    case (Some t')
    with 1(2) have "t' = t" by (subst (asm) afterEndMarker.simps) simp
    with Some show ?thesis using keyMarker_suffix by blast
  qed
qed

lemma privateKeyBlock_suffix: "privateKeyBlock s = Some t \<Longrightarrow> \<exists>p. s = p @ t \<and> p \<noteq> []"
  using keyMarker_suffix afterEndMarker_suffix by (fastforce simp: privateKeyBlock_def split: option.splits)

function redactPrivateKeyBlocks :: "string \<Rightarrow> string" where
  "redactPrivateKeyBlocks [] = []"
| "redactPrivateKeyBlocks (c # cs) =
     (case privateKeyBlock (c # cs) of
        Some rest \<Rightarrow> redactedMark @ redactPrivateKeyBlocks rest
      | None \<Rightarrow> c # redactPrivateKeyBlocks cs)"
  by pat_completeness auto
termination
  by (relation "measure length") (auto dest!: privateKeyBlock_suffix simp: Cons_eq_append_conv)

section \<open>The values to hide\<close>

fun dedup :: "string set \<Rightarrow> string list \<Rightarrow> string list" where
  "dedup seen [] = []"
| "dedup seen (v # vs) = (let t = TrimSpace v in
     if t = [] \<or> t \<in> seen then dedup seen vs else t # dedup (insert t seen) vs)"

text \<open>Longest first, so that a value that contains another is hidden whole.\<close>

definition normalizeSensitiveValues :: "string list \<Rightarrow> string list" where
  "normalizeSensitiveValues values = sort_key (\<lambda>v. - int (length v)) (dedup {} values)"

definition redact :: "string list \<Rightarrow> string \<Rightarrow> string" where
  "redact values text = redactPrivateKeyBlocks (foldl (\<lambda>t v. ReplaceAll t v redactedMark) text values)"

lemma set_dedup: "set (dedup seen vs) = {t \<in> TrimSpace ` set vs. t \<noteq> [] \<and> t \<notin> seen}"
  by (induction seen vs rule: dedup.induct) (auto simp: Let_def)

lemma set_normalizeSensitiveValues: "set (normalizeSensitiveValues vs) = {t \<in> TrimSpace ` set vs. t \<noteq> []}"
  by (auto simp: normalizeSensitiveValues_def set_dedup)

section \<open>No value survives\<close>

text \<open>
  \<open>patched t u\<close>: \<open>u\<close> is \<open>t\<close> with some of its parts replaced by the mark. A secret without
  square brackets cannot appear across the edge of a mark.
\<close>

inductive patched :: "string \<Rightarrow> string \<Rightarrow> bool" where
  empty: "patched [] []"
| keep: "patched t u \<Longrightarrow> patched (c # t) (c # u)"
| hide: "patched t u \<Longrightarrow> patched (w @ t) (redactedMark @ u)"

definition hideable :: "string \<Rightarrow> bool" where
  "hideable v \<longleftrightarrow> v \<noteq> [] \<and> CHR ''['' \<notin> set v \<and> CHR '']'' \<notin> set v \<and> \<not> Contains ''REDACTED'' v"

lemma ReplaceAll_patched: "patched t (ReplaceAll t old redactedMark)"
proof (induction t old redactedMark rule: ReplaceAll.induct)
  case (2 c cs old)
  show ?case
  proof (cases "old \<noteq> [] \<and> HasPrefix (c # cs) old")
    case True
    then obtain r where r: "c # cs = old @ r" by (auto simp: HasPrefix_iff)
    then have "r = drop (length old - 1) cs" using True by (cases old) auto
    then have "patched (old @ r) (redactedMark @ ReplaceAll (drop (length old - 1) cs) old redactedMark)"
      using 2(1) [OF True] by (simp add: patched.hide)
    with True show ?thesis unfolding r [symmetric] by simp
  qed (use 2 in \<open>auto intro: patched.keep\<close>)
qed (simp add: patched.empty)

lemma redactPrivateKeyBlocks_patched: "patched t (redactPrivateKeyBlocks t)"
proof (induction t rule: redactPrivateKeyBlocks.induct)
  case (2 c cs)
  show ?case
  proof (cases "privateKeyBlock (c # cs)")
    case (Some rest)
    then obtain p where p: "c # cs = p @ rest" using privateKeyBlock_suffix by blast
    have "patched (p @ rest) (redactedMark @ redactPrivateKeyBlocks rest)" using 2(2) [OF Some] by (rule patched.hide)
    with Some show ?thesis unfolding p [symmetric] by simp
  qed (use 2 in \<open>simp add: patched.keep\<close>)
qed (simp add: patched.empty)

lemma patched_prefix: "patched t u \<Longrightarrow> CHR ''['' \<notin> set v \<Longrightarrow> HasPrefix u v \<Longrightarrow> HasPrefix t v"
proof (induction t u arbitrary: v rule: patched.induct)
  case (keep t u c)
  then show ?case by (cases v) (auto simp: HasPrefix_iff)
next
  case (hide t u w)
  then show ?case by (cases v) (auto simp: HasPrefix_iff redactedMark_def)
qed simp

lemma Contains_mark:
  assumes v: "hideable v" and c: "Contains (redactedMark @ u) v"
  shows "Contains u v"
proof -
  obtain a b where ab: "redactedMark @ u = a @ v @ b" using c by (auto simp: Contains_iff)
  show ?thesis
  proof (cases "length redactedMark \<le> length a")
    case True
    then have "u = drop (length redactedMark) a @ v @ b" using ab by (metis append_eq_append_conv_if append_eq_conv_conj drop_append le_Suc_ex self_append_conv diff_is_0_eq drop_0)
    then show ?thesis by (auto simp: Contains_iff)
  next
    case False
    define rest where "rest = drop (length a) redactedMark"
    have a: "redactedMark = a @ rest" using ab False unfolding rest_def
      by (metis append_eq_append_conv_if append_take_drop_id linorder_le_cases)
    then have tail: "rest @ u = v @ b" using ab by (metis append.assoc same_append_eq)
    have "rest \<noteq> []" using False by (simp add: rest_def)
    then have l: "last rest = CHR '']''" using a by (metis last_appendR last_ConsR list.simps(3) last.simps redactedMark_def)
    have "\<not> length rest \<le> length v"
    proof
      assume "length rest \<le> length v"
      then have "rest = take (length rest) v" using tail by (metis append_eq_append_conv_if)
      then have "last rest \<in> set v" using \<open>rest \<noteq> []\<close> by (metis in_set_takeD last_in_set)
      with v l show False by (simp add: hideable_def)
    qed
    then obtain r where r: "rest = v @ r" "r \<noteq> []" using tail
      by (metis append_eq_append_conv_if append_take_drop_id drop_eq_Nil linorder_le_cases)
    have "a \<noteq> []"
    proof
      assume "a = []"
      with a r have "redactedMark = v @ r" by simp
      moreover have "v \<noteq> []" using v by (simp add: hideable_def)
      ultimately have "hd redactedMark \<in> set v" by (metis hd_append2 hd_in_set)
      with v show False by (simp add: hideable_def redactedMark_def)
    qed
    then have "tl redactedMark = tl a @ v @ r" using a r by (metis tl_append2)
    then have "butlast (tl redactedMark) = tl a @ v @ butlast r" using r(2) by (simp add: butlast_append)
    then have "Contains ''REDACTED'' v" unfolding redactedMark_def by (auto simp: Contains_iff)
    with v show ?thesis by (simp add: hideable_def)
  qed
qed

lemma patched_hides:
  assumes "patched t u" and "hideable v" and "\<not> Contains t v"
  shows "\<not> Contains u v"
  using assms
proof (induction rule: patched.induct)
  case (keep t u c)
  then show ?case using patched_prefix [OF patched.keep [OF keep.hyps], of v c] by (auto simp: hideable_def)
next
  case (hide t u w)
  then have "\<not> Contains t v" by (metis Contains_iff append.assoc)
  with hide show ?case using Contains_mark by blast
qed simp

lemma ReplaceAll_hides: "hideable v \<Longrightarrow> \<not> Contains (ReplaceAll t v redactedMark) v"
proof (induction t v redactedMark rule: ReplaceAll.induct)
  case (2 c cs v)
  have nb: "v \<noteq> []" "CHR ''['' \<notin> set v" using 2(3) by (simp_all add: hideable_def)
  show ?case
  proof (cases "HasPrefix (c # cs) v")
    case True
    have rec: "ReplaceAll (c # cs) v redactedMark = redactedMark @ ReplaceAll (drop (length v - 1) cs) v redactedMark" using True nb by simp
    show ?thesis unfolding rec using 2(1) nb True 2(3) Contains_mark [OF 2(3)] by blast
  next
    case False
    then have "\<not> HasPrefix (c # ReplaceAll cs v redactedMark) v"
      using patched_prefix [OF patched.keep [OF ReplaceAll_patched] nb(2)] by blast
    moreover have "\<not> Contains (ReplaceAll cs v redactedMark) v" using 2(2) False 2(3) by blast
    moreover have "ReplaceAll (c # cs) v redactedMark = c # ReplaceAll cs v redactedMark" using False by simp
    ultimately show ?thesis by simp
  qed
qed (simp add: hideable_def)

theorem redact_hides:
  assumes v: "v \<in> set vs" and h: "hideable v"
  shows "\<not> Contains (redact vs s) v"
proof -
  have later: "\<not> Contains (foldl (\<lambda>t v. ReplaceAll t v redactedMark) t ws) v" if "\<not> Contains t v" for t ws
    using that by (induction ws arbitrary: t) (simp_all add: patched_hides [OF ReplaceAll_patched h])
  have "\<not> Contains (foldl (\<lambda>t v. ReplaceAll t v redactedMark) s vs) v"
    using v
  proof (induction vs arbitrary: s)
    case (Cons w ws)
    show ?case
    proof (cases "v = w")
      case True
      then show ?thesis using later [OF ReplaceAll_hides [OF h]] by simp
    next
      case False
      then show ?thesis using Cons by simp
    qed
  qed simp
  then show ?thesis unfolding redact_def by (rule patched_hides [OF redactPrivateKeyBlocks_patched h])
qed

end
