(* ===== verification/BuilderGit.thy ===== *)
theory BuilderGit
  imports RegistryAuth Redaction "HOL-Library.AList"
begin

text \<open>
  Git credentials for builds (internal/buildergit/service.go): one Kubernetes secret per
  credential, at most one credential per Git host, and the lookup of the credential that
  covers a repository. The secret manager is the Go interface: a record of its operations,
  over the state of whatever implements it. The in-process implementation of the package,
  MemorySecretManager, is modelled and satisfies the laws the service relies on; the client
  of the Kubernetes API is the same interface over HTTP and is not modelled.
\<close>

section \<open>Secrets and their manager\<close>

record Secret =
  se_Name :: string
  se_ResourceVersion :: string
  se_Labels :: "string \<rightharpoonup> string"
  se_Data :: "string \<rightharpoonup> string"

text \<open>A missing key of a Go map reads as the empty string.\<close>

definition mapGet :: "(string \<rightharpoonup> string) \<Rightarrow> string \<Rightarrow> string" where
  "mapGet m k = (case m k of None \<Rightarrow> [] | Some v \<Rightarrow> v)"

record 's SecretManager =
  sm_Get :: "string \<Rightarrow> string \<Rightarrow> 's \<Rightarrow> Secret option result"
  sm_Upsert :: "string \<Rightarrow> string \<Rightarrow> Secret \<Rightarrow> 's \<Rightarrow> 's \<times> unit result"
  sm_Delete :: "string \<Rightarrow> string \<Rightarrow> 's \<Rightarrow> 's \<times> unit result"
  sm_List :: "string \<Rightarrow> string \<Rightarrow> 's \<Rightarrow> Secret list result"

type_synonym secretMap = "(string \<times> Secret) list"

definition parseLabelSelector :: "string \<Rightarrow> (string \<times> string) option" where
  "parseLabelSelector selector =
    (let s = TrimSpace selector
     in if s = [] then None
        else case SplitN s (CHR ''='') 2 of [k, v] \<Rightarrow> Some (TrimSpace k, TrimSpace v) | _ \<Rightarrow> None)"

definition selects :: "string \<Rightarrow> Secret \<Rightarrow> bool" where
  "selects selector secret = (case parseLabelSelector selector of None \<Rightarrow> True | Some (k, v) \<Rightarrow> mapGet (se_Labels secret) k = v)"

definition memoryGet :: "string \<Rightarrow> string \<Rightarrow> secretMap \<Rightarrow> Secret option result" where
  "memoryGet ns name s = Inr (map_of s name)"

definition memoryUpsert :: "string \<Rightarrow> string \<Rightarrow> Secret \<Rightarrow> secretMap \<Rightarrow> secretMap \<times> unit result" where
  "memoryUpsert ns name secret s =
     (AList.update name (secret\<lparr>se_Name := name, se_ResourceVersion := ''memory''\<rparr>) s, Inr ())"

definition memoryDelete :: "string \<Rightarrow> string \<Rightarrow> secretMap \<Rightarrow> secretMap \<times> unit result" where
  "memoryDelete ns name s = (AList.delete name s, Inr ())"

definition memoryList :: "string \<Rightarrow> string \<Rightarrow> secretMap \<Rightarrow> Secret list result" where
  "memoryList ns selector s = Inr (sort_key se_Name (filter (selects selector) (map snd s)))"

definition MemorySecretManager :: "secretMap SecretManager" where
  "MemorySecretManager = \<lparr>sm_Get = memoryGet, sm_Upsert = memoryUpsert, sm_Delete = memoryDelete, sm_List = memoryList\<rparr>"

section \<open>Names and hosts\<close>

definition SecretNamePrefix :: string where "SecretNamePrefix = ''git-access-''"
definition LabelGitAccess :: string where "LabelGitAccess = ''appliance.zon/git-access''"
definition LabelGitAccessName :: string where "LabelGitAccessName = ''appliance.zon/git-access-name''"
definition LabelGitAccessHost :: string where "LabelGitAccessHost = ''appliance.zon/git-access-host''"

definition foldRune :: "(int \<Rightarrow> int) \<Rightarrow> int \<Rightarrow> int" where
  "foldRune ufold r = (if r < 128 then (if inRange 65 90 r then r + 32 else r) else ufold r)"

text \<open>\<open>strings.EqualFold\<close>: equality of the runes up to Unicode simple folding.\<close>

definition EqualFold :: "ext \<Rightarrow> string \<Rightarrow> string \<Rightarrow> bool" where
  "EqualFold x s t \<longleftrightarrow> map (foldRune (x_ufold x)) (runes s) = map (foldRune (x_ufold x)) (runes t)"

definition lowered :: "ext \<Rightarrow> string \<Rightarrow> string" where
  "lowered x s = TrimSpace (ToLower (x_ulower x) s)"

definition normalizeHost :: "ext \<Rightarrow> string \<Rightarrow> string" where
  "normalizeHost x host = TrimSuffix (TrimPrefix (TrimPrefix (lowered x host) ''https://'') ''http://'') ''/''"

fun uniqueHosts :: "ext \<Rightarrow> string set \<Rightarrow> string list \<Rightarrow> string list" where
  "uniqueHosts x seen [] = []"
| "uniqueHosts x seen (h # hs) = (let n = normalizeHost x h in
     if n = [] \<or> n \<in> seen then uniqueHosts x seen hs else n # uniqueHosts x (insert n seen) hs)"

definition normalizeHosts :: "ext \<Rightarrow> string list \<Rightarrow> string list" where
  "normalizeHosts x hosts = sort (uniqueHosts x {} hosts)"

definition SecretNameFor :: "ext \<Rightarrow> string \<Rightarrow> string" where
  "SecretNameFor x name = SecretNamePrefix @ lowered x name"

text \<open>The regular expression of a credential name, anchored at both ends.\<close>

definition credentialNameRE :: "string \<Rightarrow> bool" where
  "credentialNameRE s \<longleftrightarrow> s \<noteq> [] \<and> length s \<le> 63 \<and> (lowerLetter (hd s) \<or> digit (hd s))
     \<and> list_all (\<lambda>c. lowerLetter c \<or> digit c \<or> c = CHR ''-'') (tl s)"

definition ValidateCredentialName :: "ext \<Rightarrow> string \<Rightarrow> unit result" where
  "ValidateCredentialName x name = require (credentialNameRE (lowered x name)) (ErrMessage ''credential name is invalid'')"

definition nameFromSecretName :: "string \<Rightarrow> string" where
  "nameFromSecretName secretName =
    (let s = TrimSpace secretName in if HasPrefix s SecretNamePrefix then TrimPrefix s SecretNamePrefix else [])"

definition RepoHost :: "ext \<Rightarrow> string \<Rightarrow> string result" where
  "RepoHost x repoURL =
    (case x_urlParse x (TrimSpace repoURL) of
       None \<Rightarrow> Inl (ErrMessage ''parse repo URL'')
     | Some (scheme, hostname) \<Rightarrow>
         let host = normalizeHost x hostname
         in if scheme = [] \<or> host = [] then Inl (ErrMessage ''repo URL must be an absolute HTTPS URL'')
            else if \<not> EqualFold x scheme ''https'' then Inl (ErrMessage ''repo URL must use HTTPS'')
            else Inr host)"

section \<open>The service\<close>

record CredentialInfo =
  ci_Name :: string
  ci_Host :: string
  ci_Username :: string
  ci_SecretName :: string

record gitStatus =
  gs_Configured :: bool
  gs_RequiredHosts :: "string list"
  gs_CoveredHosts :: "string list"
  gs_MissingHosts :: "string list"
  gs_Credentials :: "CredentialInfo list"

record gitService =
  gv_namespace :: string
  gv_requiredHosts :: "string list"

definition credentialFromSecret :: "ext \<Rightarrow> Secret \<Rightarrow> CredentialInfo option" where
  "credentialFromSecret x secret =
    (let host = TrimSpace (mapGet (se_Data secret) ''host'');
         username = TrimSpace (mapGet (se_Data secret) ''username'');
         token = TrimSpace (mapGet (se_Data secret) ''token'');
         label = TrimSpace (mapGet (se_Labels secret) LabelGitAccessName);
         name = (if label = [] then nameFromSecretName (se_Name secret) else label);
         secretName = (let n = TrimSpace (se_Name secret) in if n = [] then SecretNameFor x name else n)
     in if host = [] \<or> username = [] \<or> token = [] \<or> name = [] then None
        else Some \<lparr>ci_Name = name, ci_Host = normalizeHost x host, ci_Username = username, ci_SecretName = secretName\<rparr>)"

text \<open>The map \<open>byName\<close>, where a later secret replaces an earlier one, read in name order.\<close>

definition credentialsOf :: "ext \<Rightarrow> Secret list \<Rightarrow> CredentialInfo list" where
  "credentialsOf x secrets =
    (let infos = List.map_filter (credentialFromSecret x) secrets;
         byName = map_of (rev (map (\<lambda>i. (ci_Name i, i)) infos))
     in map (\<lambda>n. the (byName n)) (sort (remdups (map ci_Name infos))))"

definition listCredentials :: "ext \<Rightarrow> 's SecretManager \<Rightarrow> gitService \<Rightarrow> 's \<Rightarrow> CredentialInfo list result" where
  "listCredentials x m v s = andThen (sm_List m (gv_namespace v) (LabelGitAccess @ ''=true'') s) (\<lambda>secrets. Inr (credentialsOf x secrets))"

definition statusFromCredentials :: "gitService \<Rightarrow> CredentialInfo list \<Rightarrow> gitStatus" where
  "statusFromCredentials v credentials =
    (let covered = map ci_Host credentials;
         missing = filter (\<lambda>h. h \<notin> set covered) (gv_requiredHosts v)
     in \<lparr>gs_Configured = (if gv_requiredHosts v = [] then credentials \<noteq> [] else missing = []),
         gs_RequiredHosts = gv_requiredHosts v, gs_CoveredHosts = sort (remdups covered), gs_MissingHosts = missing,
         gs_Credentials = credentials\<rparr>)"

definition Git_Status :: "ext \<Rightarrow> 's SecretManager \<Rightarrow> gitService \<Rightarrow> 's \<Rightarrow> gitStatus result" where
  "Git_Status x m v s = andThen (listCredentials x m v s) (\<lambda>cs. Inr (statusFromCredentials v cs))"

definition checkUpsert :: "ext \<Rightarrow> gitService \<Rightarrow> string \<Rightarrow> string \<Rightarrow> string \<Rightarrow> string \<Rightarrow> unit result" where
  "checkUpsert x v name host username token =
     andThen (ValidateCredentialName x name) (\<lambda>_.
     andThen (require (host \<noteq> []) (ErrMessage ''host is required'')) (\<lambda>_.
     andThen (require (username \<noteq> []) (ErrMessage ''username is required'')) (\<lambda>_.
     andThen (require (token \<noteq> []) (ErrMessage ''token is required'')) (\<lambda>_.
     require (gv_requiredHosts v = [] \<or> list_ex (\<lambda>r. EqualFold x r host) (gv_requiredHosts v))
       (ErrMessage ''host is not used by the configured build catalog'')))))"

definition gitSecret :: "Secret option \<Rightarrow> string \<Rightarrow> string \<Rightarrow> string \<Rightarrow> string \<Rightarrow> string \<Rightarrow> Secret" where
  "gitSecret current secretName name host username token =
     (case current of None \<Rightarrow> \<lparr>se_Name = [], se_ResourceVersion = [], se_Labels = Map.empty, se_Data = Map.empty\<rparr> | Some c \<Rightarrow> c)
       \<lparr>se_Name := secretName,
        se_Labels := [LabelGitAccess \<mapsto> ''true'', LabelGitAccessName \<mapsto> name, LabelGitAccessHost \<mapsto> host],
        se_Data := [''host'' \<mapsto> host, ''username'' \<mapsto> username, ''token'' \<mapsto> token]\<rparr>"

definition Git_Upsert ::
    "ext \<Rightarrow> 's SecretManager \<Rightarrow> gitService \<Rightarrow> string \<Rightarrow> string \<Rightarrow> string \<Rightarrow> string \<Rightarrow> 's \<Rightarrow> 's \<times> gitStatus result" where
  "Git_Upsert x m v name0 host0 username0 token0 s =
    (let name = lowered x name0; host = normalizeHost x host0; username = TrimSpace username0; token = TrimSpace token0;
         secretName = SecretNameFor x name
     in case andThen (checkUpsert x v name host username token) (\<lambda>_.
             andThen (listCredentials x m v s) (\<lambda>existing.
             andThen (require (\<not> list_ex (\<lambda>c. EqualFold x (ci_Host c) host \<and> ci_Name c \<noteq> name) existing)
               (ErrSentinel ''buildergit.ErrHostConflict'')) (\<lambda>_.
             sm_Get m (gv_namespace v) secretName s))) of
          Inl e \<Rightarrow> (s, Inl e)
        | Inr current \<Rightarrow>
            (case sm_Upsert m (gv_namespace v) secretName (gitSecret current secretName name host username token) s of
               (s', Inl e) \<Rightarrow> (s', Inl e)
             | (s', Inr _) \<Rightarrow> (s', Git_Status x m v s')))"

definition Git_Delete :: "ext \<Rightarrow> 's SecretManager \<Rightarrow> gitService \<Rightarrow> string \<Rightarrow> 's \<Rightarrow> 's \<times> gitStatus result" where
  "Git_Delete x m v name0 s =
    (let name = lowered x name0; secretName = SecretNameFor x name
     in case andThen (ValidateCredentialName x name) (\<lambda>_. sm_Get m (gv_namespace v) secretName s) of
          Inl e \<Rightarrow> (s, Inl e)
        | Inr None \<Rightarrow> (s, Inl (ErrSentinel ''buildergit.ErrNotFound''))
        | Inr (Some _) \<Rightarrow>
            (case sm_Delete m (gv_namespace v) secretName s of
               (s', Inl e) \<Rightarrow> (s', Inl e)
             | (s', Inr _) \<Rightarrow> (s', Git_Status x m v s')))"

definition Resolve :: "ext \<Rightarrow> 's SecretManager \<Rightarrow> gitService \<Rightarrow> string \<Rightarrow> 's \<Rightarrow> CredentialInfo result" where
  "Resolve x m v repoURL s =
     andThen (RepoHost x repoURL) (\<lambda>repoHost.
     andThen (listCredentials x m v s) (\<lambda>credentials.
     if credentials = [] then Inl (ErrSentinel ''buildergit.ErrNotConfigured'')
     else case List.find (\<lambda>c. EqualFold x (ci_Host c) repoHost) credentials of
            None \<Rightarrow> Inl (ErrSentinel ''buildergit.ErrHostMismatch'') | Some c \<Rightarrow> Inr c))"

fun resolveEach :: "(string \<Rightarrow> CredentialInfo result) \<Rightarrow> string list \<Rightarrow> CredentialInfo list result" where
  "resolveEach f [] = Inr []"
| "resolveEach f (u # us) = andThen (f u) (\<lambda>c. andThen (resolveEach f us) (\<lambda>cs. Inr (c # cs)))"

fun firstPerSecret :: "string set \<Rightarrow> CredentialInfo list \<Rightarrow> CredentialInfo list" where
  "firstPerSecret seen [] = []"
| "firstPerSecret seen (c # cs) = (if ci_SecretName c \<in> seen then firstPerSecret seen cs
     else c # firstPerSecret (insert (ci_SecretName c) seen) cs)"

definition ResolveMany :: "ext \<Rightarrow> 's SecretManager \<Rightarrow> gitService \<Rightarrow> string list \<Rightarrow> 's \<Rightarrow> CredentialInfo list result" where
  "ResolveMany x m v repoURLs s = andThen (resolveEach (\<lambda>u. Resolve x m v u s) repoURLs) (\<lambda>cs. Inr (firstPerSecret {} cs))"

section \<open>What the service relies on\<close>

text \<open>A credential's secret carries the credential's name; no other tool labels its secrets as credentials.\<close>

definition managed :: "ext \<Rightarrow> Secret list \<Rightarrow> bool" where
  "managed x secrets \<longleftrightarrow> distinct (map se_Name secrets)
     \<and> (\<forall>s\<in>set secrets. case credentialFromSecret x s of None \<Rightarrow> True | Some i \<Rightarrow> se_Name s = SecretNameFor x (ci_Name i))"

lemma set_map_filter: "set (List.map_filter f xs) = {y. \<exists>v\<in>set xs. f v = Some y}"
  by (induction xs) (auto simp: map_filter_simps split: option.splits)

lemma managed_infos_distinct:
  assumes "managed x secrets"
  shows "distinct (map ci_Name (List.map_filter (credentialFromSecret x) secrets))"
  using assms
proof (induction secrets)
  case (Cons s ss)
  then have m: "managed x ss" by (simp add: managed_def)
  show ?case
  proof (cases "credentialFromSecret x s")
    case (Some i)
    have "ci_Name j \<noteq> ci_Name i" if "j \<in> set (List.map_filter (credentialFromSecret x) ss)" for j
    proof
      assume e: "ci_Name j = ci_Name i"
      from that obtain s' where s': "s' \<in> set ss" "credentialFromSecret x s' = Some j" by (auto simp: set_map_filter)
      with Cons.prems Some e have "se_Name s' = se_Name s" by (fastforce simp: managed_def)
      with Cons.prems s'(1) show False by (auto simp: managed_def) (metis image_eqI)
    qed
    then have "ci_Name i \<notin> ci_Name ` set (List.map_filter (credentialFromSecret x) ss)" by (metis imageE)
    with Cons.IH [OF m] Some show ?thesis by (simp add: map_filter_simps)
  qed (use Cons.IH [OF m] in \<open>simp add: map_filter_simps\<close>)
qed (simp add: map_filter_simps)

lemma credentialsOf_managed:
  assumes "managed x secrets"
  shows "set (credentialsOf x secrets) = {i. \<exists>s\<in>set secrets. credentialFromSecret x s = Some i}"
proof -
  define infos where "infos = List.map_filter (credentialFromSecret x) secrets"
  have d: "distinct (map ci_Name infos)" unfolding infos_def by (rule managed_infos_distinct [OF assms])
  have byName: "map_of (rev (map (\<lambda>i. (ci_Name i, i)) infos)) (ci_Name i) = Some i" if "i \<in> set infos" for i
    using that d by (intro map_of_is_SomeI) (auto simp: rev_map [symmetric] o_def)
  have "set (credentialsOf x secrets) = set infos"
    unfolding credentialsOf_def Let_def infos_def [symmetric] using byName by force
  then show ?thesis by (auto simp: infos_def set_map_filter)
qed

locale secret_manager =
  fixes m :: "'s SecretManager" and ok :: "'s \<Rightarrow> bool"
  assumes upsert_ok: "ok s \<Longrightarrow> sm_Upsert m ns n sec s = (s', Inr u) \<Longrightarrow> ok s'"
    and list_names: "ok s \<Longrightarrow> sm_List m ns sel s = Inr xs \<Longrightarrow> distinct (map se_Name xs)"
    and list_upsert: "ok s \<Longrightarrow> sm_Upsert m ns n sec s = (s', Inr u) \<Longrightarrow> sm_List m ns sel s = Inr xs \<Longrightarrow> sm_List m ns sel s' = Inr ys
      \<Longrightarrow> \<exists>y. se_Name y = n \<and> se_Labels y = se_Labels sec \<and> se_Data y = se_Data sec
            \<and> set ys = {z \<in> set xs. se_Name z \<noteq> n} \<union> (if selects sel sec then {y} else {})"

text \<open>MemorySecretManager keeps each secret under its own name.\<close>

definition memoryOk :: "secretMap \<Rightarrow> bool" where
  "memoryOk s \<longleftrightarrow> distinct (map fst s) \<and> (\<forall>p\<in>set s. se_Name (snd p) = fst p)"

lemma set_AList_update:
  "distinct (map fst s) \<Longrightarrow> set (AList.update k v s) = insert (k, v) {p \<in> set s. fst p \<noteq> k}"
  by (induction s) (auto simp: image_iff)

interpretation memory: secret_manager MemorySecretManager memoryOk
proof
  fix s ns n sec s' u
  assume ok: "memoryOk s" and up: "sm_Upsert MemorySecretManager ns n sec s = (s', Inr u)"
  have s': "s' = AList.update n (sec\<lparr>se_Name := n, se_ResourceVersion := ''memory''\<rparr>) s"
    using up by (simp add: MemorySecretManager_def memoryUpsert_def)
  then show ok': "memoryOk s'" using ok by (auto simp: memoryOk_def distinct_update set_AList_update)
  fix sel xs ys
  assume xs: "sm_List MemorySecretManager ns sel s = Inr xs" and ys: "sm_List MemorySecretManager ns sel s' = Inr ys"
  define y where "y = sec\<lparr>se_Name := n, se_ResourceVersion := ''memory''\<rparr>"
  have sel: "selects sel y = selects sel sec" by (simp add: selects_def y_def split: option.splits)
  have "set ys = {z \<in> snd ` set s'. selects sel z}" "set xs = {z \<in> snd ` set s. selects sel z}"
    using xs ys by (force simp: MemorySecretManager_def memoryList_def)+
  moreover have "snd ` set s' = insert y {z \<in> snd ` set s. se_Name z \<noteq> n}"
    using ok unfolding s' y_def by (auto simp: memoryOk_def set_AList_update image_iff)
  ultimately have "set ys = {z \<in> set xs. se_Name z \<noteq> n} \<union> (if selects sel sec then {y} else {})"
    using sel by auto
  then show "\<exists>y. se_Name y = n \<and> se_Labels y = se_Labels sec \<and> se_Data y = se_Data sec
            \<and> set ys = {z \<in> set xs. se_Name z \<noteq> n} \<union> (if selects sel sec then {y} else {})"
    by (intro exI [of _ y]) (simp add: y_def)
next
  fix s ns sel xs
  assume ok: "memoryOk s" and xs: "sm_List MemorySecretManager ns sel s = Inr xs"
  have "map se_Name (map snd s) = map fst s" using ok by (auto simp: memoryOk_def)
  then have "distinct (map se_Name (map snd s))" using ok unfolding memoryOk_def by metis
  then have "distinct (map se_Name (filter (selects sel) (map snd s)))" by (rule distinct_map_filter)
  then show "distinct (map se_Name xs)"
    using xs by (auto simp: MemorySecretManager_def memoryList_def distinct_map)
qed

section \<open>A stored credential is found\<close>

lemma lowered_id:
  assumes "credentialNameRE s"
  shows "lowered x s = s" and "TrimSpace s = s" and "ascii s" and "list_all (\<lambda>c. \<not> asciiSpace c) s"
proof -
  have c: "lowerLetter c \<or> digit c \<or> c = CHR ''-''" if "c \<in> set s" for c
    using assms that by (cases s) (auto simp: credentialNameRE_def list_all_iff)
  have k: "(of_char c :: int) < 128 \<and> \<not> asciiSpace c \<and> \<not> inRange 65 90 (of_char c)" if "lowerLetter c \<or> digit c \<or> c = CHR ''-''" for c
    using that by (auto simp: lowerLetter_def digit_def asciiSpace_def isSpace_def inRange_def)
  show a: "ascii s" and sp: "list_all (\<lambda>c. \<not> asciiSpace c) s" using c k by (auto simp: ascii_def list_all_iff)
  have "map lowerAscii s = s" using c k by (intro map_idI lowerAscii_id) blast
  with a sp show "lowered x s = s" "TrimSpace s = s" by (simp_all add: lowered_def ToLower_ascii TrimSpace_id)
qed

lemma lowered_trimmed: "TrimSpace (lowered x s) = lowered x s"
  by (simp add: lowered_def TrimSpace_idem)

lemma SecretName_trimmed:
  assumes "credentialNameRE s"
  shows "TrimSpace (SecretNamePrefix @ s) = SecretNamePrefix @ s"
proof -
  have "ascii SecretNamePrefix" "list_all (\<lambda>c. \<not> asciiSpace c) SecretNamePrefix" by code_simp+
  then show ?thesis using lowered_id(3,4) [OF assms] by (intro TrimSpace_id) (auto simp: ascii_def)
qed

text \<open>The information the service reads back from a secret it wrote.\<close>

lemma credentialFromSecret_written:
  assumes "credentialNameRE name" and "normalizeHost x (TrimSpace host) = host"
    and "TrimSpace host \<noteq> []" and "TrimSpace username = username" and "username \<noteq> []" and "TrimSpace token \<noteq> []"
    and "se_Name y = SecretNamePrefix @ name" and "se_Labels y = se_Labels (gitSecret c sn name host username token)"
    and "se_Data y = se_Data (gitSecret c sn name host username token)"
  shows "credentialFromSecret x y = Some \<lparr>ci_Name = name, ci_Host = host, ci_Username = username, ci_SecretName = SecretNamePrefix @ name\<rparr>"
proof -
  have "name \<noteq> []" using assms(1) by (simp add: credentialNameRE_def)
  moreover have "SecretNamePrefix \<noteq> []" by (simp add: SecretNamePrefix_def)
  moreover have "mapGet (se_Data y) ''host'' = host" "mapGet (se_Data y) ''username'' = username" "mapGet (se_Data y) ''token'' = token"
      "mapGet (se_Labels y) LabelGitAccessName = name"
    using assms(8,9) by (simp_all add: gitSecret_def mapGet_def LabelGitAccessName_def LabelGitAccess_def LabelGitAccessHost_def split: option.splits)
  ultimately show ?thesis
    using assms SecretName_trimmed [OF assms(1)] lowered_id(2) [OF assms(1)] by (simp add: credentialFromSecret_def Let_def)
qed

lemma EqualFold_equiv: "EqualFold x s t \<Longrightarrow> EqualFold x t s" "EqualFold x s t \<Longrightarrow> EqualFold x t u \<Longrightarrow> EqualFold x s u"
  by (simp_all add: EqualFold_def)

lemma find_unique: "c \<in> set cs \<Longrightarrow> P c \<Longrightarrow> (\<And>d. d \<in> set cs \<Longrightarrow> P d \<Longrightarrow> d = c) \<Longrightarrow> List.find P cs = Some c"
proof (induction cs)
  case (Cons a cs)
  show ?case
  proof (cases "P a")
    case True
    then show ?thesis using Cons.prems(3) [of a] by simp
  next
    case False
    then have "c \<in> set cs" using Cons.prems(1,2) by auto
    then have "List.find P cs = Some c" using Cons.prems(2,3) by (intro Cons.IH) simp_all
    with False show ?thesis by simp
  qed
qed simp

lemma gitSecret_selected: "selects (LabelGitAccess @ ''=true'') (gitSecret c sn name host username token)"
proof -
  have "parseLabelSelector (LabelGitAccess @ ''=true'') = Some (LabelGitAccess, ''true'')" by code_simp
  moreover have "LabelGitAccess \<noteq> LabelGitAccessName" "LabelGitAccess \<noteq> LabelGitAccessHost" by code_simp+
  ultimately show ?thesis by (simp add: selects_def gitSecret_def mapGet_def)
qed

lemma normalizeHost_Nil: "normalizeHost x [] = []"
  by (simp add: normalizeHost_def lowered_def ToLower_def runes_def TrimSpace_def dropSpaces_def TrimPrefix_def TrimSuffix_def HasPrefix_def HasSuffix_def)

context secret_manager
begin

lemma upsert_resolves:
  assumes ok: "ok s" and up: "Git_Upsert x m v name0 host0 username0 token0 s = (s', Inr st)"
    and man: "\<And>xs. sm_List m (gv_namespace v) (LabelGitAccess @ ''=true'') s = Inr xs \<Longrightarrow> managed x xs"
    and name: "credentialNameRE (lowered x name0)" and stable: "normalizeHost x (TrimSpace (normalizeHost x host0)) = normalizeHost x host0"
    and url: "RepoHost x repoURL = Inr h" "EqualFold x (normalizeHost x host0) h"
  shows "Resolve x m v repoURL s' = Inr \<lparr>ci_Name = lowered x name0, ci_Host = normalizeHost x host0, ci_Username = TrimSpace username0,
     ci_SecretName = SecretNameFor x name0\<rparr>"
proof -
  define name host username token where "name = lowered x name0" and "host = normalizeHost x host0"
    and "username = TrimSpace username0" and "token = TrimSpace token0"
  define sel where "sel = LabelGitAccess @ ''=true''"
  note defs = name_def [symmetric] host_def [symmetric] username_def [symmetric] token_def [symmetric]
  obtain xs c ys where chk: "checkUpsert x v name host username token = Inr ()"
    and xs: "sm_List m (gv_namespace v) sel s = Inr xs"
    and noconf: "\<not> list_ex (\<lambda>c. EqualFold x (ci_Host c) host \<and> ci_Name c \<noteq> name) (credentialsOf x xs)"
    and w: "sm_Upsert m (gv_namespace v) (SecretNameFor x name) (gitSecret c (SecretNameFor x name) name host username token) s = (s', Inr ())"
    and ys: "sm_List m (gv_namespace v) sel s' = Inr ys"
    using up unfolding Git_Upsert_def Let_def defs
    by (auto simp: listCredentials_def Git_Status_def sel_def split: sum.splits prod.splits)
  have ne: "host \<noteq> []" "username \<noteq> []" "token \<noteq> []" using chk by (auto simp: checkUpsert_def)
  have re: "credentialNameRE name" using name by (simp add: name_def)
  have sn: "SecretNameFor x name = SecretNamePrefix @ name" by (simp add: SecretNameFor_def lowered_id(1) [OF re])
  define info where "info = \<lparr>ci_Name = name, ci_Host = host, ci_Username = username, ci_SecretName = SecretNamePrefix @ name\<rparr>"
  obtain y where y: "se_Name y = SecretNamePrefix @ name" "se_Labels y = se_Labels (gitSecret c (SecretNameFor x name) name host username token)"
      "se_Data y = se_Data (gitSecret c (SecretNameFor x name) name host username token)"
    and ys': "set ys = insert y {z \<in> set xs. se_Name z \<noteq> SecretNamePrefix @ name}"
  proof -
    have "selects sel (gitSecret c (SecretNameFor x name) name host username token)"
      using gitSecret_selected by (simp add: sel_def)
    then show ?thesis using list_upsert [OF ok w xs ys] that by (auto simp: sn)
  qed
  have "TrimSpace host \<noteq> []"
  proof
    assume "TrimSpace host = []"
    then have "host = normalizeHost x []" using stable by (simp add: host_def)
    with ne show False by (simp add: normalizeHost_Nil)
  qed
  then have cy: "credentialFromSecret x y = Some info"
    unfolding info_def using stable ne by (intro credentialFromSecret_written [OF re _ _ _ _ _ y]) (simp_all add: host_def username_def token_def TrimSpace_idem)
  have mx: "managed x xs" using man xs by (simp add: sel_def)
  have my: "managed x ys"
    using mx list_names [OF upsert_ok [OF ok w] ys] cy by (auto simp: managed_def ys' y(1) info_def sn split: option.splits)
  have creds: "set (credentialsOf x ys) = insert info {i. \<exists>z\<in>set xs. se_Name z \<noteq> SecretNamePrefix @ name \<and> credentialFromSecret x z = Some i}"
    unfolding credentialsOf_managed [OF my] ys' using cy by auto
  have "d = info" if d: "d \<in> set (credentialsOf x ys)" "EqualFold x (ci_Host d) h" for d
  proof (rule ccontr)
    assume "d \<noteq> info"
    then obtain z where z: "z \<in> set xs" "se_Name z \<noteq> SecretNamePrefix @ name" "credentialFromSecret x z = Some d" using d(1) creds by auto
    then have "ci_Name d \<noteq> name" using mx sn by (auto simp: managed_def split: option.splits)
    moreover have "EqualFold x (ci_Host d) host" using d(2) url(2) EqualFold_equiv unfolding host_def by blast
    moreover have "d \<in> set (credentialsOf x xs)" using z credentialsOf_managed [OF mx] by blast
    ultimately show False using noconf by (auto simp: list_ex_iff)
  qed
  moreover have "info \<in> set (credentialsOf x ys)" "EqualFold x (ci_Host info) h" using creds url(2) by (simp_all add: info_def host_def)
  ultimately have "List.find (\<lambda>c. EqualFold x (ci_Host c) h) (credentialsOf x ys) = Some info"
    by (intro find_unique)
  moreover have "credentialsOf x ys \<noteq> []" using creds by auto
  ultimately have "Resolve x m v repoURL s' = Inr info"
    unfolding Resolve_def url(1) listCredentials_def sel_def [symmetric] ys by simp
  then show ?thesis unfolding info_def name_def host_def username_def SecretNameFor_def .
qed

end

section \<open>Reachable credential stores\<close>

text \<open>The stores the service builds from nothing, whatever is asked of it.\<close>

inductive git_reachable :: "ext \<Rightarrow> gitService \<Rightarrow> secretMap \<Rightarrow> bool" for x v where
  start: "git_reachable x v []"
| upsert: "git_reachable x v s \<Longrightarrow> git_reachable x v (fst (Git_Upsert x MemorySecretManager v name host username token s))"
| delete: "git_reachable x v s \<Longrightarrow> git_reachable x v (fst (Git_Delete x MemorySecretManager v name s))"

definition memoryManaged :: "ext \<Rightarrow> secretMap \<Rightarrow> bool" where
  "memoryManaged x s \<longleftrightarrow> memoryOk s
     \<and> (\<forall>p\<in>set s. case credentialFromSecret x (snd p) of None \<Rightarrow> True | Some i \<Rightarrow> fst p = SecretNameFor x (ci_Name i))"

lemma memoryManaged_list:
  assumes "memoryManaged x s" and xs: "sm_List MemorySecretManager ns sel s = Inr xs"
  shows "managed x xs"
proof -
  have "distinct (map se_Name xs)" using memory.list_names [OF _ xs] assms(1) by (simp add: memoryManaged_def)
  moreover have "set xs \<subseteq> snd ` set s" using xs by (auto simp: MemorySecretManager_def memoryList_def)
  ultimately show ?thesis using assms(1) by (fastforce simp: managed_def memoryManaged_def memoryOk_def split: option.splits)
qed

lemma written_name:
  assumes "credentialFromSecret x y = Some i" and "mapGet (se_Labels y) LabelGitAccessName = lowered x name" and "lowered x name \<noteq> []"
  shows "ci_Name i = lowered x name"
  using assms lowered_trimmed [of x name] by (auto simp: credentialFromSecret_def Let_def split: if_splits)

lemma Git_Upsert_managed:
  assumes ok: "memoryManaged x s"
  shows "memoryManaged x (fst (Git_Upsert x MemorySecretManager v name0 host0 username0 token0 s))"
proof -
  define name where "name = lowered x name0"
  define y where "y c h u t = (gitSecret c (SecretNameFor x name) name h u t)\<lparr>se_Name := SecretNameFor x name, se_ResourceVersion := ''memory''\<rparr>" for c h u t
  have new: "memoryManaged x (AList.update (SecretNameFor x name) (y c h u t) s)" if ne: "lowered x name \<noteq> []" for c h u t
  proof -
    have "ci_Name i = name" if "credentialFromSecret x (y c h u t) = Some i" for i
    proof -
      have "LabelGitAccessName \<noteq> LabelGitAccess" "LabelGitAccessName \<noteq> LabelGitAccessHost" by code_simp+
      then have "mapGet (se_Labels (y c h u t)) LabelGitAccessName = name" by (simp add: y_def gitSecret_def mapGet_def)
      moreover have "name \<noteq> []"
      proof
        assume "name = []"
        then have "lowered x name = []" by (simp add: lowered_def ToLower_def runes_def TrimSpace_def dropSpaces_def)
        with ne show False by simp
      qed
      ultimately show ?thesis using written_name [OF that] by (simp add: name_def)
    qed
    moreover have "se_Name (y c h u t) = SecretNameFor x name" by (simp add: y_def)
    ultimately show ?thesis
      using ok by (auto simp: memoryManaged_def memoryOk_def distinct_update set_AList_update split: option.splits)
  qed
  have re: "lowered x name \<noteq> []" if "checkUpsert x v name h u t = Inr ()" for h u t
    using that by (auto simp: checkUpsert_def ValidateCredentialName_def credentialNameRE_def)
  show ?thesis
    unfolding Git_Upsert_def Let_def name_def [symmetric]
    using ok re new by (auto simp: MemorySecretManager_def memoryUpsert_def y_def [symmetric] split: sum.splits)
qed

lemma Git_Delete_managed: "memoryManaged x s \<Longrightarrow> memoryManaged x (fst (Git_Delete x MemorySecretManager v name0 s))"
proof -
  assume ok: "memoryManaged x s"
  have "memoryManaged x (AList.delete n s)" for n
    using ok by (auto simp: memoryManaged_def memoryOk_def AList.delete_eq distinct_map_filter)
  with ok show ?thesis by (auto simp: Git_Delete_def Let_def MemorySecretManager_def memoryDelete_def split: sum.splits option.splits)
qed

lemma git_reachable_managed: "git_reachable x v s \<Longrightarrow> memoryManaged x s"
proof (induction rule: git_reachable.induct)
  case start
  then show ?case by (simp add: memoryManaged_def memoryOk_def)
qed (auto intro: Git_Upsert_managed Git_Delete_managed)

text \<open>
  A stored Git credential is the one builds get. In every store the service can reach,
  after a credential has been accepted for a host, every repository on that host, in any
  letter case, resolves to exactly that credential and its secret, and to no other: the check
  that another credential already covers the host leaves no second candidate. The host must
  be its own normal form, since it is normalized again when it is read back.
\<close>

theorem git_credential_round_trip:
  assumes s: "git_reachable x v s" and up: "Git_Upsert x MemorySecretManager v name host username token s = (s', Inr st)"
    and "credentialNameRE (lowered x name)" and "normalizeHost x (TrimSpace (normalizeHost x host)) = normalizeHost x host"
    and "RepoHost x repoURL = Inr h" and "EqualFold x (normalizeHost x host) h"
  shows "Resolve x MemorySecretManager v repoURL s' = Inr \<lparr>ci_Name = lowered x name, ci_Host = normalizeHost x host,
     ci_Username = TrimSpace username, ci_SecretName = SecretNameFor x name\<rparr>"
proof (rule memory.upsert_resolves [OF _ up])
  show "memoryOk s" using git_reachable_managed [OF s] by (simp add: memoryManaged_def)
  show "managed x xs" if "sm_List MemorySecretManager (gv_namespace v) (LabelGitAccess @ ''=true'') s = Inr xs" for xs
    using memoryManaged_list [OF git_reachable_managed [OF s] that] .
qed (use assms in simp_all)

definition sampleGit :: gitService where "sampleGit = \<lparr>gv_namespace = ''appliance-builds'', gv_requiredHosts = []\<rparr>"

definition sampleStored :: "secretMap \<times> gitStatus result" where
  "sampleStored = Git_Upsert sampleExt MemorySecretManager sampleGit ''GitHub'' ''https://github.com/'' ''bot'' ''secret'' []"

theorem git_credential_round_trip_witness:
  "Resolve sampleExt MemorySecretManager sampleGit ''https://github.com/a/b'' (fst sampleStored)
     = Inr \<lparr>ci_Name = ''github'', ci_Host = ''github.com'', ci_Username = ''bot'', ci_SecretName = ''git-access-github''\<rparr>"
proof -
  have ok: "\<not> isl (snd sampleStored)" by code_simp
  then obtain st where "snd sampleStored = Inr st" by (auto simp: isl_def) (metis sum.exhaust)
  then have up: "Git_Upsert sampleExt MemorySecretManager sampleGit ''GitHub'' ''https://github.com/'' ''bot'' ''secret'' [] = (fst sampleStored, Inr st)"
    unfolding sampleStored_def by (metis prod.collapse)
  have f: "lowered sampleExt ''GitHub'' = ''github''" "credentialNameRE ''github''" "normalizeHost sampleExt ''https://github.com/'' = ''github.com''"
    "normalizeHost sampleExt (TrimSpace ''github.com'') = ''github.com''" "RepoHost sampleExt ''https://github.com/a/b'' = Inr ''github.com''"
    "SecretNameFor sampleExt ''GitHub'' = ''git-access-github''" "TrimSpace ''bot'' = ''bot''"
    by code_simp+
  have "EqualFold sampleExt ''github.com'' ''github.com''" by (simp add: EqualFold_def)
  then show ?thesis using git_credential_round_trip [OF git_reachable.start up, of "''https://github.com/a/b''" "''github.com''"] by (simp add: f)
qed

text \<open>
  Normalizing is not idempotent, and the check for a conflict compares the new host, normalized
  once, with stored hosts, normalized twice: a host written with its scheme doubled gets past
  it, and then two credentials cover one host.
\<close>

lemma two_credentials_one_host:
  "map ci_Host (gs_Credentials (projr (snd (Git_Upsert sampleExt MemorySecretManager sampleGit ''mirror'' ''https://https://github.com'' ''bot'' ''other''
      (fst sampleStored))))) = [''github.com'', ''github.com'']"
  by code_simp

end
