(* ===== verification/BuildStore.thy ===== *)
theory BuildStore
  imports Tokens BuilderGit
begin

text \<open>
  The tables behind asynchronous work (internal/storage/sqlstore): builds (builds.go),
  idempotency keys (idempotency.go), operations (operations.go) and the markers of
  maintenance jobs (maintenance.go).
\<close>

section \<open>Builds\<close>

definition Terminal :: "BuildStatus \<Rightarrow> bool" where
  "Terminal s \<longleftrightarrow> s \<in> {BuildStatusSucceeded, BuildStatusFailed, BuildStatusCancelled, BuildStatusTimedOut}"

lemma Terminal_simps [simp]:
  "Terminal BuildStatusSucceeded" "Terminal BuildStatusFailed" "Terminal BuildStatusCancelled" "Terminal BuildStatusTimedOut"
  "\<not> Terminal BuildStatusPending" "\<not> Terminal BuildStatusRunning"
  by (simp_all add: Terminal_def)

record BuildFilter =
  bf_OwnerID :: string
  bf_Limit :: int

definition BuildStore_Create :: "io \<Rightarrow> Build \<Rightarrow> db \<Rightarrow> db result" where
  "BuildStore_Create io b0 d =
    (let b = b0\<lparr>b_CreatedAt := (if IsZero (b_CreatedAt b0) then io_now io else b_CreatedAt b0),
                b_UpdatedAt := (if IsZero (b_UpdatedAt b0) then io_now io else b_UpdatedAt b0)\<rparr>
     in andThen (stmt io ''BuildStore.Create'') (\<lambda>_.
        andThen (require (b_ID b \<notin> b_ID ` set (db_builds d)) (uniqueViolation d)) (\<lambda>_.
        Inr (d\<lparr>db_builds := db_builds d @ [b]\<rparr>))))"

definition BuildStore_Get :: "io \<Rightarrow> string \<Rightarrow> db \<Rightarrow> Build result" where
  "BuildStore_Get io bid d = andThen (stmt io ''BuildStore.Get'') (\<lambda>_.
     case selectFirst (\<lambda>b. b_ID b = bid) (db_builds d) of None \<Rightarrow> Inl ErrNotFound | Some b \<Rightarrow> Inr b)"

definition BuildStore_List :: "io \<Rightarrow> BuildFilter \<Rightarrow> db \<Rightarrow> Build list result" where
  "BuildStore_List io flt d =
    (let limit = (if bf_Limit flt \<le> 0 \<or> 200 < bf_Limit flt then 50 else bf_Limit flt);
         rows = filter (\<lambda>b. bf_OwnerID flt = [] \<or> b_OwnerID b = bf_OwnerID flt) (db_builds d)
     in andThen (stmt io ''BuildStore.List'') (\<lambda>_.
        Inr (take (nat limit) (rev (sort_key (\<lambda>b. RFC3339Nano (b_CreatedAt b)) rows)))))"

definition buildsExec1 :: "io \<Rightarrow> string \<Rightarrow> string \<Rightarrow> (Build \<Rightarrow> Build) \<Rightarrow> db \<Rightarrow> db result" where
  "buildsExec1 io name bid f d = andThen (stmt io name) (\<lambda>_.
     andThen (require (0 < affected (\<lambda>b. b_ID b = bid) (db_builds d)) ErrNotFound) (\<lambda>_.
     Inr (d\<lparr>db_builds := updateWhere (\<lambda>b. b_ID b = bid) f (db_builds d)\<rparr>)))"

definition BuildStore_SetWorkflowName :: "io \<Rightarrow> string \<Rightarrow> string \<Rightarrow> db \<Rightarrow> db result" where
  "BuildStore_SetWorkflowName io bid workflowName =
     buildsExec1 io ''BuildStore.SetWorkflowName'' bid (\<lambda>b. b\<lparr>b_WorkflowName := workflowName, b_UpdatedAt := io_now io\<rparr>)"

definition BuildStore_RequestCancel :: "io \<Rightarrow> string \<Rightarrow> db \<Rightarrow> db result" where
  "BuildStore_RequestCancel io bid =
     buildsExec1 io ''BuildStore.RequestCancel'' bid (\<lambda>b. b\<lparr>b_CancelRequested := True, b_UpdatedAt := io_now io\<rparr>)"

definition coalesce :: "'a option \<Rightarrow> 'a option \<Rightarrow> 'a option" where
  "coalesce a b = (case a of None \<Rightarrow> b | Some v \<Rightarrow> Some v)"

definition BuildStore_UpdateStatus ::
    "io \<Rightarrow> string \<Rightarrow> BuildStatus \<Rightarrow> string \<Rightarrow> string \<Rightarrow> time option \<Rightarrow> time option \<Rightarrow> db \<Rightarrow> db result" where
  "BuildStore_UpdateStatus io bid status reasonCode errorMessage startedAt completedAt =
     buildsExec1 io ''BuildStore.UpdateStatus'' bid (\<lambda>b. b\<lparr>b_Status := status, b_ReasonCode := reasonCode, b_ErrorMessage := errorMessage,
       b_StartedAt := coalesce startedAt (b_StartedAt b), b_CompletedAt := coalesce completedAt (b_CompletedAt b), b_UpdatedAt := io_now io\<rparr>)"

definition BuildStore_ListReconcilable :: "io \<Rightarrow> db \<Rightarrow> Build list result" where
  "BuildStore_ListReconcilable io d = andThen (stmt io ''BuildStore.ListReconcilable'') (\<lambda>_.
     Inr (sort_key (\<lambda>b. RFC3339Nano (b_CreatedAt b))
       (filter (\<lambda>b. b_Status b \<in> {BuildStatusPending, BuildStatusRunning}) (db_builds d))))"

section \<open>Idempotency keys\<close>

definition idempotencyKey :: "string \<Rightarrow> string \<Rightarrow> IdempotencyRecord \<Rightarrow> bool" where
  "idempotencyKey scope key r \<longleftrightarrow> ir_Scope r = scope \<and> ir_Key r = key"

text \<open>
  The result is the record found and whether this call claimed the key. \<open>expires_at\<close> is
  stored and never read.
\<close>

definition IdempotencyStore_Reserve ::
    "io \<Rightarrow> string \<Rightarrow> string \<Rightarrow> string \<Rightarrow> duration \<Rightarrow> db \<Rightarrow> db \<times> (IdempotencyRecord option) result" where
  "IdempotencyStore_Reserve io scope key requestHash ttl =
     WithTx io (\<lambda>d. andThen (stmt io ''IdempotencyStore.Reserve.select'') (\<lambda>_.
       case selectFirst (idempotencyKey scope key) (db_idempotency d) of
         Some r \<Rightarrow> Inr (Some r, d)
       | None \<Rightarrow> andThen (stmt io ''IdempotencyStore.Reserve.insert'') (\<lambda>_.
           Inr (None, d\<lparr>db_idempotency := db_idempotency d @ [\<lparr>ir_Scope = scope, ir_Key = key, ir_RequestHash = requestHash,
             ir_ResponseStatus = 0, ir_ResponseBody = [], ir_CreatedAt = io_now io, ir_ExpiresAt = io_now io + ttl\<rparr>]\<rparr>))))"

definition IdempotencyStore_Complete :: "io \<Rightarrow> string \<Rightarrow> string \<Rightarrow> int \<Rightarrow> bytes \<Rightarrow> db \<Rightarrow> db result" where
  "IdempotencyStore_Complete io scope key status body d = andThen (stmt io ''IdempotencyStore.Complete'') (\<lambda>_.
     andThen (require (0 < affected (idempotencyKey scope key) (db_idempotency d)) ErrNotFound) (\<lambda>_.
     Inr (d\<lparr>db_idempotency := updateWhere (idempotencyKey scope key) (\<lambda>r. r\<lparr>ir_ResponseStatus := status, ir_ResponseBody := body\<rparr>)
       (db_idempotency d)\<rparr>)))"

section \<open>Operations and maintenance markers\<close>

definition OperationsStore_Create :: "io \<Rightarrow> Operation \<Rightarrow> db \<Rightarrow> db result" where
  "OperationsStore_Create io o0 d =
    (let op = o0\<lparr>op_CreatedAt := (if IsZero (op_CreatedAt o0) then io_now io else op_CreatedAt o0),
                 op_UpdatedAt := (if IsZero (op_UpdatedAt o0) then io_now io else op_UpdatedAt o0)\<rparr>
     in andThen (stmt io ''OperationsStore.Create'') (\<lambda>_.
        andThen (require (op_ID op \<notin> op_ID ` set (db_operations d)) (ErrDriver (db_UniqueMsg d))) (\<lambda>_.
        Inr (d\<lparr>db_operations := db_operations d @ [op]\<rparr>))))"

definition OperationsStore_Get :: "io \<Rightarrow> string \<Rightarrow> db \<Rightarrow> Operation result" where
  "OperationsStore_Get io oid d = andThen (stmt io ''OperationsStore.Get'') (\<lambda>_.
     case selectFirst (\<lambda>p. op_ID p = oid) (db_operations d) of None \<Rightarrow> Inl ErrNotFound | Some p \<Rightarrow> Inr p)"

definition OperationsStore_UpdateStatus :: "io \<Rightarrow> string \<Rightarrow> OperationStatus \<Rightarrow> bytes \<Rightarrow> bytes \<Rightarrow> db \<Rightarrow> db result" where
  "OperationsStore_UpdateStatus io oid status resultBody problemBody d = andThen (stmt io ''OperationsStore.UpdateStatus'') (\<lambda>_.
     andThen (require (0 < affected (\<lambda>p. op_ID p = oid) (db_operations d)) ErrNotFound) (\<lambda>_.
     Inr (d\<lparr>db_operations := updateWhere (\<lambda>p. op_ID p = oid)
       (\<lambda>p. p\<lparr>op_Status := status, op_ResultBody := resultBody, op_ProblemBody := problemBody, op_UpdatedAt := io_now io\<rparr>)
       (db_operations d)\<rparr>)))"

text \<open>A zero \<open>LastRunAt\<close> is stored as NULL and reads back as zero.\<close>

definition MaintenanceStore_Get :: "io \<Rightarrow> string \<Rightarrow> db \<Rightarrow> MaintenanceCheckpoint result" where
  "MaintenanceStore_Get io taskName d = andThen (stmt io ''MaintenanceStore.Get'') (\<lambda>_.
     case selectFirst (\<lambda>c. mc_TaskName c = taskName) (db_maintenance d) of None \<Rightarrow> Inl ErrNotFound | Some c \<Rightarrow> Inr c)"

definition MaintenanceStore_Save :: "io \<Rightarrow> MaintenanceCheckpoint \<Rightarrow> db \<Rightarrow> db result" where
  "MaintenanceStore_Save io c0 d =
    (let c = c0\<lparr>mc_UpdatedAt := io_now io\<rparr>
     in andThen (stmt io ''MaintenanceStore.Save'') (\<lambda>_.
        Inr (if mc_TaskName c \<in> mc_TaskName ` set (db_maintenance d)
             then d\<lparr>db_maintenance := updateWhere (\<lambda>r. mc_TaskName r = mc_TaskName c) (\<lambda>_. c) (db_maintenance d)\<rparr>
             else d\<lparr>db_maintenance := db_maintenance d @ [c]\<rparr>)))"

section \<open>What the methods return and keep\<close>

lemma BuildStore_Get_Inr: "BuildStore_Get io bid d = Inr b \<Longrightarrow> b \<in> set (db_builds d) \<and> b_ID b = bid"
  by (auto simp: BuildStore_Get_def dest: selectFirst_SomeD split: option.splits)

lemma buildsExec1_Inr:
  "buildsExec1 io name bid f d = Inr d' \<Longrightarrow> d' = d\<lparr>db_builds := updateWhere (\<lambda>b. b_ID b = bid) f (db_builds d)\<rparr>"
  by (auto simp: buildsExec1_def)

lemma buildsExec1_total:
  "\<not> io_fault io name \<Longrightarrow> bid \<in> b_ID ` set (db_builds d) \<Longrightarrow>
     buildsExec1 io name bid f d = Inr (d\<lparr>db_builds := updateWhere (\<lambda>b. b_ID b = bid) f (db_builds d)\<rparr>)"
  by (auto simp: buildsExec1_def stmt_def require_def)

lemma IdempotencyStore_Reserve_Inr:
  assumes "IdempotencyStore_Reserve io scope key h ttl d = (d', Inr r)"
  shows "case r of
      Some e \<Rightarrow> d' = d \<and> selectFirst (idempotencyKey scope key) (db_idempotency d) = Some e
    | None \<Rightarrow> selectFirst (idempotencyKey scope key) (db_idempotency d) = None
        \<and> d' = d\<lparr>db_idempotency := db_idempotency d @ [\<lparr>ir_Scope = scope, ir_Key = key, ir_RequestHash = h,
             ir_ResponseStatus = 0, ir_ResponseBody = [], ir_CreatedAt = io_now io, ir_ExpiresAt = io_now io + ttl\<rparr>]\<rparr>"
  using WithTx_Inr [OF assms [unfolded IdempotencyStore_Reserve_def]] by (auto split: option.splits)

end
