(* ===== verification/AuditExport.thy ===== *)
theory AuditExport
  imports BuildStore
begin

text \<open>
  The audit export job (internal/auditops/service.go): an operation that writes the whole
  trail, in batches, to a file of JSON lines. The job runs beside the rest of the system, so
  every query sees the database of its own moment: \<open>feed k\<close> is the database at the k-th
  query and \<open>ios k\<close> the clock and failures there. The loop has no bound of its own and is
  a partial function; that it ends is a theorem.
\<close>

definition OperationKindAuditExport :: string where "OperationKindAuditExport = ''audit.export''"

definition StartExport :: "string \<Rightarrow> io \<Rightarrow> db \<Rightarrow> db \<times> Operation result" where
  "StartExport ownerID io d =
    (let op = \<lparr>op_ID = io_newID io, op_Kind = OperationKindAuditExport, op_OwnerID = ownerID, op_Status = OperationStatusPending,
               op_ResultBody = [], op_ProblemBody = [], op_CreatedAt = io_now io, op_UpdatedAt = io_now io\<rparr>
     in case OperationsStore_Create io op d of Inl e \<Rightarrow> (d, Inl e) | Inr d' \<Rightarrow> (d', Inr op))"

definition GetExport :: "io \<Rightarrow> string \<Rightarrow> db \<Rightarrow> Operation result" where
  "GetExport io oid d = andThen (OperationsStore_Get io oid d) (\<lambda>p.
     if op_Kind p \<noteq> OperationKindAuditExport then Inl ErrNotFound else Inr p)"

text \<open>The path in the stored result; \<open>decodePath\<close> is the JSON decoder.\<close>

definition ExportContentPath :: "(bytes \<Rightarrow> string option) \<Rightarrow> io \<Rightarrow> string \<Rightarrow> db \<Rightarrow> string result" where
  "ExportContentPath decodePath io oid d = andThen (GetExport io oid d) (\<lambda>p.
     if op_Status p \<noteq> OperationStatusSucceeded then Inl (ErrSentinel ''auditops.ErrNotReady'')
     else case decodePath (op_ResultBody p) of
            None \<Rightarrow> Inl (ErrMessage ''invalid export result'')
          | Some path \<Rightarrow> if path = [] then Inl (ErrMessage ''invalid export result'') else Inr path)"

section \<open>The lines of the file\<close>

text \<open>\<open>hex.EncodeToString\<close>.\<close>

definition hexEncode :: "bytes \<Rightarrow> string" where
  "hexEncode bs = concat (map (\<lambda>b. [hexDigit (of_char b div 16), hexDigit (of_char b mod 16)]) bs)"

text \<open>A map with encoded values, keys in byte order.\<close>

definition jsonObjectText :: "(string \<times> string) list \<Rightarrow> string" where
  "jsonObjectText kvs = CHR ''{'' # joinComma (map (\<lambda>(k, v). jsonQuote k @ CHR '':'' # v) (sort_key fst kvs)) @ [CHR ''}'']"

definition exportHeader :: "time \<Rightarrow> int \<Rightarrow> bytes \<Rightarrow> string" where
  "exportHeader now lastSeq lastHash = jsonObjectText
     [(''schemaVersion'', Itoa 1), (''exportedAt'', jsonQuote (RFC3339Nano now)), (''lastSequence'', Itoa lastSeq),
      (''chainHash'', jsonQuote (hexEncode lastHash))]"

text \<open>
  One event. \<open>reencode\<close> stands for decoding the stored details and encoding them again; details
  that do not decode are left out.
\<close>

definition exportRow :: "(bytes \<Rightarrow> string option) \<Rightarrow> AuditEvent \<Rightarrow> string" where
  "exportRow reencode e = jsonObjectText
     ([(''id'', jsonQuote (ae_ID e)), (''sequence'', Itoa (ae_Sequence e)), (''occurredAt'', jsonQuote (RFC3339Nano (ae_OccurredAt e))),
       (''actorUserId'', jsonQuote (ae_ActorUserID e)), (''actorType'', jsonQuote (ae_ActorType e)), (''authMethod'', jsonQuote (ae_AuthMethod e)),
       (''credentialId'', jsonQuote (ae_CredentialID e)), (''action'', jsonQuote (ae_Action e)), (''targetType'', jsonQuote (ae_TargetType e)),
       (''targetId'', jsonQuote (ae_TargetID e)), (''outcome'', jsonQuote (ae_Outcome e)), (''reasonCode'', jsonQuote (ae_ReasonCode e)),
       (''requestId'', jsonQuote (ae_RequestID e)), (''sourceAddr'', jsonQuote (ae_SourceAddr e)), (''severity'', jsonQuote (ae_Severity e))]
      @ (if ae_Details e = [] then [] else case reencode (ae_Details e) of None \<Rightarrow> [] | Some v \<Rightarrow> [(''details'', v)]))"

section \<open>The loop\<close>

text \<open>The events written so far are collected; their rows are the lines of the file.\<close>

partial_function (option) exportLoop :: "(nat \<Rightarrow> io) \<Rightarrow> (nat \<Rightarrow> db) \<Rightarrow> nat \<Rightarrow> int \<Rightarrow> AuditEvent list \<Rightarrow> AuditEvent list result option" where
  "exportLoop ios feed k since out =
    (case AuditStore_ExportEvents (ios k) since 500 (feed k) of
       Inl e \<Rightarrow> Some (Inl e)
     | Inr batch \<Rightarrow>
         if batch = [] then Some (Inr out)
         else if io_fault (ios k) ''File.Write'' then Some (Inl (ErrDriver ''File.Write''))
         else exportLoop ios feed (Suc k) (ae_Sequence (last batch)) (out @ batch))"

declare exportLoop.simps [code]

record exportOutcome =
  eo_File :: string
  eo_Status :: OperationStatus
  eo_ResultBody :: bytes
  eo_ProblemBody :: bytes

definition failExport :: "(err \<Rightarrow> string) \<Rightarrow> err \<Rightarrow> exportOutcome" where
  "failExport errorText e = \<lparr>eo_File = [], eo_Status = OperationStatusFailed, eo_ResultBody = [],
     eo_ProblemBody = jsonMarshal (jsonMap [(''title'', JStr ''Audit export failed''), (''detail'', JStr (errorText e))])\<rparr>"

text \<open>The file of an export, for a data directory written without a trailing slash or dots.\<close>

definition exportPath :: "string \<Rightarrow> string \<Rightarrow> string" where
  "exportPath dataDir oid = dataDir @ ''/audit-exports/'' @ oid @ ''.jsonl''"

text \<open>
  The job without the two status updates around it. The query of the newest sequence is the
  first, the batches follow.
\<close>

definition exportJob :: "(bytes \<Rightarrow> string option) \<Rightarrow> (err \<Rightarrow> string) \<Rightarrow> string \<Rightarrow> string \<Rightarrow> (nat \<Rightarrow> io) \<Rightarrow> (nat \<Rightarrow> db) \<Rightarrow> exportOutcome option" where
  "exportJob reencode errorText dataDir oid ios feed =
    (if io_fault (ios 0) ''OpenFile'' then Some (failExport errorText (ErrDriver ''OpenFile''))
     else case AuditStore_LatestSequence (ios 0) (feed 0) of
       Inl e \<Rightarrow> Some (failExport errorText e)
     | Inr (lastSeq, lastHash) \<Rightarrow>
         if io_fault (ios 0) ''File.Write'' then Some (failExport errorText (ErrDriver ''File.Write''))
         else (case exportLoop ios feed 1 0 [] of
            None \<Rightarrow> None
          | Some (Inl e) \<Rightarrow> Some (failExport errorText e)
          | Some (Inr events) \<Rightarrow>
              if io_fault (ios 0) ''File.Sync'' then Some (failExport errorText (ErrDriver ''File.Sync''))
              else Some \<lparr>eo_File = concat (map (\<lambda>l. l @ [CHR 0x0A]) (exportHeader (io_now (ios 0)) lastSeq lastHash # map (exportRow reencode) events)),
                         eo_Status = OperationStatusSucceeded,
                         eo_ResultBody = jsonMarshal (jsonMap [(''path'', JStr (exportPath dataDir oid)), (''eventCount'', JInt (int (length events))),
                           (''lastSequence'', JInt lastSeq), (''chainHash'', JStr (hexEncode lastHash)), (''schemaVersion'', JInt 1)]),
                         eo_ProblemBody = []\<rparr>))"

text \<open>A status update that fails is ignored.\<close>

definition bestEffort :: "db result \<Rightarrow> db \<Rightarrow> db" where
  "bestEffort r d = (case r of Inl e \<Rightarrow> d | Inr d' \<Rightarrow> d')"

definition exportStarted :: "io \<Rightarrow> string \<Rightarrow> db \<Rightarrow> db" where
  "exportStarted io oid d = bestEffort (OperationsStore_UpdateStatus io oid OperationStatusRunning [] [] d) d"

definition exportFinished :: "io \<Rightarrow> string \<Rightarrow> exportOutcome \<Rightarrow> db \<Rightarrow> db" where
  "exportFinished io oid r d = bestEffort (OperationsStore_UpdateStatus io oid (eo_Status r) (eo_ResultBody r) (eo_ProblemBody r) d) d"

section \<open>The loop ends and misses nothing\<close>

lemma ExportEvents_batch:
  assumes ok: "audit_ok x d" and c: "\<not> io_fault io ''AuditStore.ExportEvents''"
  shows "AuditStore_ExportEvents io since 500 d = Inr (map scanAuditEvent (take 500 (filter (\<lambda>r. since < ar_Sequence r) (db_audit d))))"
  using c by (simp add: AuditStore_ExportEvents_def auditBySequence_id [OF ok] stmt_def)

lemma consecutive_sorted_strict: "consecutive s ns \<Longrightarrow> sorted_wrt (<) ns"
  by (induction ns arbitrary: s) (auto dest: consecutive_bounds)

text \<open>In a strictly ordered list, what is not beyond the last of a prefix is in the prefix.\<close>

lemma sorted_prefix_complete:
  assumes "sorted_wrt (<) (map f xs)" and "ys = take n xs" and "ys \<noteq> []" and "r \<in> set xs" and "(f r :: int) \<le> f (last ys)"
  shows "r \<in> set ys"
proof (rule ccontr)
  assume "r \<notin> set ys"
  then have "r \<in> set (drop n xs)" using assms(2,4) by (metis Un_iff append_take_drop_id set_append)
  moreover have "sorted_wrt (<) (map f (take n xs) @ map f (drop n xs))" using assms(1) by (metis append_take_drop_id map_append)
  moreover have "last ys \<in> set (take n xs)" using assms(2,3) by simp
  ultimately have "f (last ys) < f r" by (auto simp: sorted_wrt_append)
  with assms(5) show False by simp
qed

lemma sorted_last_greatest: "sorted_wrt (<) (map f xs) \<Longrightarrow> r \<in> set xs \<Longrightarrow> (f r :: int) \<le> f (last xs)"
  by (induction xs) (auto intro: less_imp_le split: if_splits)

lemma scanAuditEvent_Sequence [simp]: "ae_Sequence (scanAuditEvent r) = ar_Sequence r"
  by (simp add: scanAuditEvent_def)

lemma exportLoop_complete:
  assumes ok: "\<And>k. audit_ok x (feed k)" and bound: "\<And>k r. r \<in> set (db_audit (feed k)) \<Longrightarrow> ar_Sequence r \<le> N"
    and calm: "\<And>k. calm (ios k)"
  shows "\<exists>evs. exportLoop ios feed k since out = Some (Inr (out @ evs)) \<and> sorted_wrt (<) (map ae_Sequence evs)
     \<and> (\<forall>e\<in>set evs. since < ae_Sequence e) \<and> (\<forall>e\<in>set evs. \<exists>j. \<exists>r\<in>set (db_audit (feed j)). e = scanAuditEvent r)
     \<and> (\<forall>r. (\<forall>j. r \<in> set (db_audit (feed j))) \<and> since < ar_Sequence r \<longrightarrow> scanAuditEvent r \<in> set evs)"
proof (induction "nat (N - since)" arbitrary: k since out rule: less_induct)
  case less
  define rows where "rows = filter (\<lambda>r. since < ar_Sequence r) (db_audit (feed k))"
  define batch where "batch = take 500 rows"
  have q: "AuditStore_ExportEvents (ios k) since 500 (feed k) = Inr (map scanAuditEvent batch)"
    unfolding batch_def rows_def by (rule ExportEvents_batch [OF ok]) (use calm in simp)
  have step: "exportLoop ios feed k since out =
      (if batch = [] then Some (Inr out) else exportLoop ios feed (Suc k) (ar_Sequence (last batch)) (out @ map scanAuditEvent batch))"
    by (subst exportLoop.simps) (use calm in \<open>simp add: q last_map\<close>)
  show ?case
  proof (cases "batch = []")
    case True
    then have "rows = []" by (simp add: batch_def)
    then have "\<not> since < ar_Sequence r" if "\<forall>j. r \<in> set (db_audit (feed j))" for r using that by (auto simp: rows_def filter_empty_conv)
    with True step show ?thesis by (intro exI [of _ "[]"]) auto
  next
    case False
    define m where "m = ar_Sequence (last batch)"
    have lb: "last batch \<in> set rows" using False unfolding batch_def by (metis in_set_takeD last_in_set)
    then have m: "since < m" "m \<le> N" using bound [of "last batch" k] by (auto simp: rows_def m_def)
    have "sorted_wrt (<) (map ar_Sequence (db_audit (feed k)))" using ok [of k] by (auto simp: audit_ok_def dest: consecutive_sorted_strict)
    then have srt: "sorted_wrt (<) (map ar_Sequence rows)" by (simp add: rows_def sorted_wrt_map sorted_wrt_filter)
    then have bsrt: "sorted_wrt (<) (map ar_Sequence batch)" unfolding batch_def by (simp add: sorted_wrt_map sorted_wrt_take)
    have upto: "ar_Sequence r \<le> m" if "r \<in> set batch" for r
      unfolding m_def using bsrt that by (rule sorted_last_greatest)
    have "nat (N - m) < nat (N - since)" using m by simp
    then obtain evs where IH: "exportLoop ios feed (Suc k) m (out @ map scanAuditEvent batch) = Some (Inr ((out @ map scanAuditEvent batch) @ evs))"
        "sorted_wrt (<) (map ae_Sequence evs)" "\<forall>e\<in>set evs. m < ae_Sequence e" "\<forall>e\<in>set evs. \<exists>j. \<exists>r\<in>set (db_audit (feed j)). e = scanAuditEvent r"
        "\<forall>r. (\<forall>j. r \<in> set (db_audit (feed j))) \<and> m < ar_Sequence r \<longrightarrow> scanAuditEvent r \<in> set evs"
      using less [of m "Suc k" "out @ map scanAuditEvent batch"] by blast
    have e: "exportLoop ios feed k since out = Some (Inr (out @ (map scanAuditEvent batch @ evs)))"
      using step False IH(1) by (simp add: m_def)
    have s: "sorted_wrt (<) (map ae_Sequence (map scanAuditEvent batch @ evs))"
      using bsrt IH(2,3) upto by (fastforce simp: sorted_wrt_append o_def)
    have g: "\<forall>e\<in>set (map scanAuditEvent batch @ evs). since < ae_Sequence e"
      using IH(3) m by (auto simp: batch_def rows_def dest: in_set_takeD)
    have o: "\<forall>e\<in>set (map scanAuditEvent batch @ evs). \<exists>j. \<exists>r\<in>set (db_audit (feed j)). e = scanAuditEvent r"
      using IH(4) by (auto simp: batch_def rows_def dest!: in_set_takeD) blast
    have c: "scanAuditEvent r \<in> set (map scanAuditEvent batch @ evs)" if "\<forall>j. r \<in> set (db_audit (feed j))" "since < ar_Sequence r" for r
    proof (cases "m < ar_Sequence r")
      case True
      with IH(5) that show ?thesis by simp
    next
      case le: False
      have "r \<in> set rows" using that by (simp add: rows_def)
      then have "r \<in> set batch" using sorted_prefix_complete [OF srt batch_def False] le by (simp add: m_def)
      then show ?thesis by simp
    qed
    show ?thesis by (intro exI [of _ "map scanAuditEvent batch @ evs"] conjI) (use e s g o c in blast)+
  qed
qed

text \<open>
  C22. The audit export ends and misses nothing, although the trail grows while it runs. Let
  every query find a trail the control plane can have produced, and let the trail stay finite
  (no event beyond sequence \<open>N\<close> appears while the job runs). Then, when no query or write
  fails, the job ends with success; the file is the header line followed by one line per
  event, in strictly increasing order of sequence, each event stored at some moment of the
  run; and every event that was stored throughout the run is in it.
\<close>

theorem audit_export_completes:
  assumes "\<And>k. trail_reachable x m (feed k)" and "\<And>k r. r \<in> set (db_audit (feed k)) \<Longrightarrow> ar_Sequence r \<le> N" and "\<And>k. calm (ios k)"
  shows "\<exists>r evs. exportJob reencode errorText dataDir oid ios feed = Some r \<and> eo_Status r = OperationStatusSucceeded
     \<and> eo_File r = concat (map (\<lambda>l. l @ [CHR 0x0A]) (exportHeader (io_now (ios 0)) (fst (lastAudit (feed 0))) (snd (lastAudit (feed 0)))
         # map (exportRow reencode) evs))
     \<and> sorted_wrt (<) (map ae_Sequence evs) \<and> (\<forall>e\<in>set evs. \<exists>j. \<exists>r\<in>set (db_audit (feed j)). e = scanAuditEvent r)
     \<and> (\<forall>r. (\<forall>j. r \<in> set (db_audit (feed j))) \<longrightarrow> scanAuditEvent r \<in> set evs)"
proof -
  have ok: "audit_ok x (feed k)" for k using assms(1) by (rule trail_reachable_audit_ok)
  have pos: "0 < ar_Sequence r" if "r \<in> set (db_audit (feed 0))" for r
    using ok [of 0] that consecutive_bounds [of "firstSequence (db_audit (feed 0))" "map ar_Sequence (db_audit (feed 0))" "ar_Sequence r"]
    by (auto simp: audit_ok_def)
  have "\<exists>evs. exportLoop ios feed 1 0 [] = Some (Inr ([] @ evs)) \<and> sorted_wrt (<) (map ae_Sequence evs)
     \<and> (\<forall>e\<in>set evs. 0 < ae_Sequence e) \<and> (\<forall>e\<in>set evs. \<exists>j. \<exists>r\<in>set (db_audit (feed j)). e = scanAuditEvent r)
     \<and> (\<forall>r. (\<forall>j. r \<in> set (db_audit (feed j))) \<and> 0 < ar_Sequence r \<longrightarrow> scanAuditEvent r \<in> set evs)"
    by (rule exportLoop_complete [where x = x and N = N]) (fact ok, fact assms(2), fact assms(3))
  then obtain evs where e: "exportLoop ios feed 1 0 [] = Some (Inr ([] @ evs))" "sorted_wrt (<) (map ae_Sequence evs)"
      "\<forall>e\<in>set evs. \<exists>j. \<exists>r\<in>set (db_audit (feed j)). e = scanAuditEvent r"
      "\<forall>r. (\<forall>j. r \<in> set (db_audit (feed j))) \<and> 0 < ar_Sequence r \<longrightarrow> scanAuditEvent r \<in> set evs"
    by (elim exE conjE)
  obtain q h where l: "lastAudit (feed 0) = (q, h)" by (cases "lastAudit (feed 0)")
  have "exportJob reencode errorText dataDir oid ios feed = Some
      \<lparr>eo_File = concat (map (\<lambda>l. l @ [CHR 0x0A]) (exportHeader (io_now (ios 0)) q h # map (exportRow reencode) evs)),
       eo_Status = OperationStatusSucceeded,
       eo_ResultBody = jsonMarshal (jsonMap [(''path'', JStr (exportPath dataDir oid)), (''eventCount'', JInt (int (length evs))),
         (''lastSequence'', JInt q), (''chainHash'', JStr (hexEncode h)), (''schemaVersion'', JInt 1)]),
       eo_ProblemBody = []\<rparr>"
    using assms(3) [of 0] e(1) by (simp add: exportJob_def AuditStore_LatestSequence_def l)
  moreover have "scanAuditEvent r \<in> set evs" if "\<forall>j. r \<in> set (db_audit (feed j))" for r using that e(4) pos by blast
  ultimately show ?thesis using e(2,3) by (intro exI [of _ evs] exI conjI) (assumption | simp add: l)+
qed

definition sampleExportDb :: db where
  "sampleExportDb = sampleDb\<lparr>db_audit := [chainedTo sampleExt sampleDb (recordedEvent sampleExt sampleIO SystemActor sampleEvent)]\<rparr>"

theorem audit_export_completes_witness:
  "\<exists>r evs. exportJob (\<lambda>b. None) (\<lambda>e. []) ''/data'' ''op1'' (\<lambda>k. sampleIO) (\<lambda>k. sampleExportDb) = Some r \<and> eo_Status r = OperationStatusSucceeded
     \<and> scanAuditEvent (hd (db_audit sampleExportDb)) \<in> set evs"
proof -
  have "trail_reachable sampleExt ''UNIQUE constraint failed: users.username'' sampleExportDb"
    unfolding sampleExportDb_def by (rule sampleTrail_reachable)
  moreover have "calm sampleIO" by (simp add: calm_def fun_eq_iff)
  moreover have "ar_Sequence r \<le> ar_Sequence (hd (db_audit sampleExportDb))" if "r \<in> set (db_audit sampleExportDb)" for r
    using that by (simp add: sampleExportDb_def)
  moreover have "hd (db_audit sampleExportDb) \<in> set (db_audit sampleExportDb)" by (simp add: sampleExportDb_def)
  ultimately show ?thesis
    using audit_export_completes [of sampleExt "''UNIQUE constraint failed: users.username''" "\<lambda>k. sampleExportDb"
        "ar_Sequence (hd (db_audit sampleExportDb))" "\<lambda>k. sampleIO" "\<lambda>b. None" "\<lambda>e. []" "''/data''" "''op1''"]
    by blast
qed

end
