(* ===== verification/Builds.thy ===== *)
theory Builds
  imports BuildStore
begin

text \<open>
  Builds (internal/builds): validation of a request, idempotent creation, the credentials a
  build pod pushes with, submission to the workflow engine, and the reconciliation of stored
  status with the engine. The world of the service is the database, the secret store, the
  service's list of values to hide and the calls it made to the engine; the engine's answers
  at the moment of an operation are the record \<open>engine\<close>, the Go interface workflows.Engine.
\<close>

section \<open>The workflow engine\<close>

record GitCredentialRef =
  gc_Name :: string
  gc_Host :: string
  gc_SecretName :: string

datatype Kind = KindBuild | KindWorkspacePrepare

record WorkspaceRepo =
  wr_Name :: string
  wr_URL :: string
  wr_Ref :: string

record Spec =
  sp_Name :: string
  sp_Kind :: Kind
  sp_BuilderImageDigest :: string
  sp_GitCredentials :: "GitCredentialRef list"
  sp_SourceCredentialRef :: string
  sp_SourceCredentialSecret :: string
  sp_KnownHostsSecret :: string
  sp_Deadline :: time
  sp_SourceRepoURL :: string
  sp_SourceCommitSHA :: string
  sp_Execution :: string
  sp_Args :: "string list option"
  sp_WorkingDirectory :: string
  sp_ContainerfilePath :: string
  sp_TargetRepository :: string
  sp_TargetTag :: string
  sp_RegistryHost :: string
  sp_RegistryTLSVerify :: string
  sp_RegistryCredentialSecret :: string
  sp_WorkspaceRootDir :: string
  sp_WorkspaceClaimName :: string
  sp_WorkspaceName :: string
  sp_WorkspaceRepo :: string
  sp_WorkspaceRepos :: "WorkspaceRepo list"

datatype Phase = PhasePending | PhaseRunning | PhaseSucceeded | PhaseFailed

record wfStatus =
  ws_Phase :: Phase
  ws_Message :: string

text \<open>Submit answers with the text of an error, if any; the builds service ignores the answer of Cancel.\<close>

record engine =
  en_Submit :: "Spec \<Rightarrow> string option"
  en_Status :: "string \<Rightarrow> wfStatus result"
  en_Logs :: "string \<Rightarrow> string result"
  en_Cancel :: "string \<Rightarrow> unit result"

datatype engineCall = CallSubmit Spec | CallCancel string

section \<open>The service\<close>

record CreateRequest =
  cr_SourceRepoURL :: string
  cr_SourceCommitSHA :: string
  cr_WorkspaceName :: string
  cr_WorkspaceRepo :: string
  cr_Execution :: string
  cr_Args :: "string list option"
  cr_WorkingDirectory :: string
  cr_ContainerfilePath :: string
  cr_ImageRepository :: string
  cr_ImageTag :: string
  cr_BuilderImageDigest :: string
  cr_SourceCredentialRef :: string
  cr_SourceCredentialSecret :: string
  cr_KnownHostsSecret :: string

record RegistryPushConfig =
  rp_Host :: string
  rp_TLSVerify :: string
  rp_Namespace :: string

record buildConfig =
  bc_allowedGitHosts :: "string list"
  bc_allowedBuilderImages :: "string list"
  bc_defaultDeadline :: duration
  bc_workspaceRootDir :: string
  bc_workspaceClaimName :: string
  bc_builderGit :: "gitService option"
  bc_registryPush :: "RegistryPushConfig option"
  bc_keys :: Material

record buildWorld =
  bw_db :: db
  bw_secrets :: secretMap
  bw_sensitive :: "string list"
  bw_calls :: "engineCall list"

text \<open>A database step of the service, and one whose failure is ignored.\<close>

definition onDb :: "(db \<Rightarrow> db \<times> 'a result) \<Rightarrow> buildWorld \<Rightarrow> buildWorld \<times> 'a result" where
  "onDb f w = (case f (bw_db w) of (d, r) \<Rightarrow> (w\<lparr>bw_db := d\<rparr>, r))"

definition ignoring :: "(db \<Rightarrow> db result) \<Rightarrow> buildWorld \<Rightarrow> buildWorld" where
  "ignoring f w = (case f (bw_db w) of Inl e \<Rightarrow> w | Inr d \<Rightarrow> w\<lparr>bw_db := d\<rparr>)"

fun thenW :: "buildWorld \<times> 'a result \<Rightarrow> ('a \<Rightarrow> buildWorld \<Rightarrow> buildWorld \<times> 'b result) \<Rightarrow> buildWorld \<times> 'b result" where
  "thenW (w, Inl e) f = (w, Inl e)"
| "thenW (w, Inr a) f = f a w"

section \<open>Sources and images\<close>

definition commitSHAPattern :: "string \<Rightarrow> bool" where
  "commitSHAPattern s \<longleftrightarrow> length s = 40 \<and> list_all (\<lambda>c. digit c \<or> inRange 97 102 (of_char c)) s"

definition gitSourceHost :: "ext \<Rightarrow> string \<Rightarrow> string result" where
  "gitSourceHost x repoURL0 =
    (let repoURL = TrimSpace repoURL0
     in if repoURL = [] then Inl (ErrMessage ''source repository URL is required'')
        else case x_urlParse x repoURL of
          None \<Rightarrow> Inl (ErrMessage ''invalid source repository URL'')
        | Some (scheme, hostname) \<Rightarrow>
            if scheme \<noteq> ''https'' then Inl (ErrMessage ''source repository URL must use https'')
            else if hostname = [] then Inl (ErrMessage ''source repository URL must include a host'')
            else Inr (ToLower (x_ulower x) hostname))"

definition ValidateSource :: "ext \<Rightarrow> string \<Rightarrow> string \<Rightarrow> string list \<Rightarrow> unit result" where
  "ValidateSource x repoURL commitSHA allowedHosts =
     andThen (require (commitSHAPattern commitSHA) (ErrMessage ''commit SHA must be exactly 40 lowercase hexadecimal characters'')) (\<lambda>_.
     andThen (gitSourceHost x repoURL) (\<lambda>host.
     andThen (require (allowedHosts \<noteq> []) (ErrMessage ''no allowlisted git source hosts are configured'')) (\<lambda>_.
     require (list_ex (\<lambda>a. EqualFold x host a) allowedHosts) (ErrMessage ''source host is not an allowlisted git source''))))"

definition ValidateBuilderImage :: "string \<Rightarrow> string list \<Rightarrow> unit result" where
  "ValidateBuilderImage digest allowed =
     andThen (require (Contains (TrimSpace digest) ''@sha256:'') (ErrMessage ''builder image must be digest-pinned'')) (\<lambda>_.
     require (allowed = [] \<or> digest \<in> set allowed) (ErrMessage ''not an approved builder image''))"

definition SetAllowedGitHosts :: "ext \<Rightarrow> string list \<Rightarrow> buildConfig \<Rightarrow> buildConfig" where
  "SetAllowedGitHosts x hosts cfg =
     cfg\<lparr>bc_allowedGitHosts := sort (remdups (filter (\<lambda>h. h \<noteq> []) (map (\<lambda>h. ToLower (x_ulower x) (TrimSpace h)) hosts)))\<rparr>"

definition DefaultBuildNamespace :: string where "DefaultBuildNamespace = ''appliance-builds''"

definition ConfigureRegistryPush :: "RegistryPushConfig \<Rightarrow> buildConfig \<Rightarrow> buildConfig result" where
  "ConfigureRegistryPush rp cfg =
    (let host = TrimSpace (rp_Host rp); ns = TrimSpace (rp_Namespace rp); tls = TrimSpace (rp_TLSVerify rp)
     in if host = [] then Inl (ErrMessage ''registry push host is required'')
        else Inr (cfg\<lparr>bc_registryPush := Some \<lparr>rp_Host = host, rp_TLSVerify = (if tls = [] then ''false'' else tls),
          rp_Namespace = (if ns = [] then DefaultBuildNamespace else ns)\<rparr>\<rparr>))"

definition SetSensitiveLogValues :: "string list \<Rightarrow> buildWorld \<Rightarrow> buildWorld" where
  "SetSensitiveLogValues vs w = w\<lparr>bw_sensitive := normalizeSensitiveValues vs\<rparr>"

section \<open>Creating a build\<close>

definition idempotencyScope :: string where "idempotencyScope = ''builds.create''"
definition idempotencyTTL :: duration where "idempotencyTTL = 24 * Hour"

definition jsonStrings :: "string list option \<Rightarrow> json" where
  "jsonStrings v = (case v of None \<Rightarrow> JNull | Some xs \<Rightarrow> JArr (map JStr xs))"

definition requestJSON :: "CreateRequest \<Rightarrow> json" where
  "requestJSON r = JObj
     [(''SourceRepoURL'', JStr (cr_SourceRepoURL r)), (''SourceCommitSHA'', JStr (cr_SourceCommitSHA r)),
      (''WorkspaceName'', JStr (cr_WorkspaceName r)), (''WorkspaceRepo'', JStr (cr_WorkspaceRepo r)), (''Execution'', JStr (cr_Execution r)),
      (''Args'', jsonStrings (cr_Args r)), (''WorkingDirectory'', JStr (cr_WorkingDirectory r)),
      (''ContainerfilePath'', JStr (cr_ContainerfilePath r)), (''ImageRepository'', JStr (cr_ImageRepository r)),
      (''ImageTag'', JStr (cr_ImageTag r)), (''BuilderImageDigest'', JStr (cr_BuilderImageDigest r)),
      (''SourceCredentialRef'', JStr (cr_SourceCredentialRef r)), (''SourceCredentialSecret'', JStr (cr_SourceCredentialSecret r)),
      (''KnownHostsSecret'', JStr (cr_KnownHostsSecret r))]"

definition hexText :: "bytes \<Rightarrow> string" where
  "hexText bs = concat (map (\<lambda>b. [hexDigit (of_char b div 16), hexDigit (of_char b mod 16)]) bs)"

definition hashRequest :: "ext \<Rightarrow> CreateRequest \<Rightarrow> string" where
  "hashRequest x r = hexText (x_sha256 x (jsonMarshal (requestJSON r)))"

definition workspaceBuild :: "CreateRequest \<Rightarrow> bool" where
  "workspaceBuild r \<longleftrightarrow> TrimSpace (cr_WorkspaceName r) \<noteq> [] \<and> TrimSpace (cr_WorkspaceRepo r) \<noteq> []"

definition validateOrigin :: "ext \<Rightarrow> buildConfig \<Rightarrow> CreateRequest \<Rightarrow> unit result" where
  "validateOrigin x cfg r =
    (if workspaceBuild r
     then andThen (require (TrimSpace (bc_workspaceRootDir cfg) \<noteq> [] \<and> TrimSpace (bc_workspaceClaimName cfg) \<noteq> [])
            (ErrMessage ''workspace storage is not configured'')) (\<lambda>_.
          require (TrimSpace (cr_SourceRepoURL r) \<noteq> []) (ErrMessage ''source repository URL is required for attribution''))
     else ValidateSource x (cr_SourceRepoURL r) (cr_SourceCommitSHA r) (bc_allowedGitHosts cfg))"

definition pinBuilder :: "buildConfig \<Rightarrow> CreateRequest \<Rightarrow> CreateRequest result" where
  "pinBuilder cfg r = (case bc_allowedBuilderImages cfg of
     [only] \<Rightarrow> if cr_BuilderImageDigest r \<noteq> [] \<and> cr_BuilderImageDigest r \<noteq> only
              then Inl (ErrMessage ''builderImageDigest must be the appliance builder image'')
              else Inr (r\<lparr>cr_BuilderImageDigest := only\<rparr>)
   | _ \<Rightarrow> Inr r)"

text \<open>The checks of Create: the request with its builder image, and the canonical target repository.\<close>

definition validateCreate :: "ext \<Rightarrow> buildConfig \<Rightarrow> CreateRequest \<Rightarrow> (CreateRequest \<times> string) result" where
  "validateCreate x cfg r0 =
     andThen (validateOrigin x cfg r0) (\<lambda>_.
     andThen (require (TrimSpace (cr_SourceCredentialRef r0) = [] \<and> TrimSpace (cr_SourceCredentialSecret r0) = [] \<and> TrimSpace (cr_KnownHostsSecret r0) = [])
        (ErrMessage ''HTTPS Git sources do not accept SSH credential inputs'')) (\<lambda>_.
     andThen (pinBuilder cfg r0) (\<lambda>r.
     andThen (ValidateBuilderImage (cr_BuilderImageDigest r) (bc_allowedBuilderImages cfg)) (\<lambda>_.
     andThen (NormalizeRepositoryName x (cr_ImageRepository r)) (\<lambda>imageRepo.
     andThen (require (cr_ImageTag r \<noteq> []) (ErrMessage ''imageTag is required'')) (\<lambda>_.
     Inr (r, imageRepo)))))))"

definition newBuild :: "buildConfig \<Rightarrow> io \<Rightarrow> string \<Rightarrow> CreateRequest \<Rightarrow> string \<Rightarrow> Build" where
  "newBuild cfg io ownerID r imageRepo =
    \<lparr>b_ID = io_newID io, b_OwnerID = ownerID, b_Status = BuildStatusPending, b_SourceRepoURL = cr_SourceRepoURL r,
     b_SourceCommitSHA = (if workspaceBuild r \<and> cr_SourceCommitSHA r = [] then ''workspace-local'' else cr_SourceCommitSHA r),
     b_ContainerfilePath = (if cr_ContainerfilePath r = [] then ''Containerfile'' else cr_ContainerfilePath r),
     b_ImageRepository = imageRepo, b_ImageTag = cr_ImageTag r, b_BuilderImageDigest = cr_BuilderImageDigest r,
     b_WorkflowName = [], b_CancelRequested = False, b_ReasonCode = [], b_ErrorMessage = [], b_PushTokenID = [], b_RegistrySecretName = [],
     b_CreatedAt = io_now io, b_UpdatedAt = io_now io, b_StartedAt = None, b_CompletedAt = None,
     b_DeadlineAt = io_now io + bc_defaultDeadline cfg\<rparr>"

text \<open>
  One request draws several identifiers and reads the clock several times: \<open>bi_create\<close> is
  the clock and failures of the build row, \<open>bi_token\<close> of the push token, \<open>bi_revoke\<close>
  of a revocation, \<open>bi_submit\<close> after the submission.
\<close>

record buildIO =
  bi_create :: io
  bi_token :: io
  bi_revoke :: io
  bi_submit :: io

definition registrySecretPrefix :: string where "registrySecretPrefix = ''build-registry-''"
definition pushTokenTTLBuffer :: duration where "pushTokenTTLBuffer = 15 * Minute"

definition pushTokenTTL :: "time \<Rightarrow> time \<Rightarrow> duration" where
  "pushTokenTTL now deadline =
    (let ttl = timeSub deadline now + pushTokenTTLBuffer;
         ttl1 = (if ttl < MinLifetime then MinLifetime else ttl)
     in if MaxLifetime < ttl1 then MaxLifetime else ttl1)"

definition registrySecret :: "RegistryPushConfig \<Rightarrow> string \<Rightarrow> string \<Rightarrow> string \<Rightarrow> string \<Rightarrow> Secret" where
  "registrySecret rp buildID secretName username raw =
    \<lparr>se_Name = secretName, se_ResourceVersion = [],
     se_Labels = [''app.kubernetes.io/part-of'' \<mapsto> ''appliance'', ''appliance.zon/build-id'' \<mapsto> buildID,
       ''appliance.zon/registry-push'' \<mapsto> ''true'', ''appliance.zon/registry-push-host'' \<mapsto> rp_Host rp],
     se_Data = [''username'' \<mapsto> username, ''token'' \<mapsto> raw]\<rparr>"

definition secretUpsert :: "io \<Rightarrow> string \<Rightarrow> string \<Rightarrow> Secret \<Rightarrow> buildWorld \<Rightarrow> buildWorld \<times> unit result" where
  "secretUpsert io ns name secret w =
    (if io_fault io ''SecretManager.Upsert'' then (w, Inl (ErrDriver ''SecretManager.Upsert''))
     else case memoryUpsert ns name secret (bw_secrets w) of (s, r) \<Rightarrow> (w\<lparr>bw_secrets := s\<rparr>, r))"

definition secretDelete :: "io \<Rightarrow> string \<Rightarrow> string \<Rightarrow> buildWorld \<Rightarrow> buildWorld" where
  "secretDelete io ns name w =
    (if io_fault io ''SecretManager.Delete'' then w else w\<lparr>bw_secrets := fst (memoryDelete ns name (bw_secrets w))\<rparr>)"

definition provisionRegistryPush :: "ext \<Rightarrow> buildConfig \<Rightarrow> Actor \<Rightarrow> buildIO \<Rightarrow> Build \<Rightarrow> buildWorld \<Rightarrow> buildWorld \<times> Build result" where
  "provisionRegistryPush x cfg actor bi build w =
    (case bc_registryPush cfg of
       None \<Rightarrow> (w, Inr build)
     | Some rp \<Rightarrow>
         (case andThen (UserStore_Get (bi_token bi) (b_OwnerID build) (bw_db w)) (\<lambda>user.
                 let username = TrimSpace (u_Username user)
                 in if username = [] then Inl (ErrMessage ''owner username is empty'') else Inr username) of
            Inl e \<Rightarrow> (w, Inl e)
          | Inr username \<Rightarrow>
              thenW (onDb (Tokens_Create x (bc_keys cfg) actor (b_OwnerID build) (''bld-'' @ b_ID build)
                  (pushTokenTTL (io_now (bi_token bi)) (b_DeadlineAt build)) (Some [''artifacts.read'', ''artifacts.write'']) (bi_token bi)) w)
                (\<lambda>(raw, token) w1.
                  let w2 = w1\<lparr>bw_sensitive := normalizeSensitiveValues (bw_sensitive w1 @ [raw])\<rparr>;
                      secretName = registrySecretPrefix @ b_ID build
                  in case secretUpsert (bi_token bi) (rp_Namespace rp) secretName (registrySecret rp (b_ID build) secretName username raw) w2 of
                       (w3, Inl e) \<Rightarrow> (fst (onDb (Tokens_Revoke x actor (t_ID token) (bi_revoke bi)) w3), Inl e)
                     | (w3, Inr _) \<Rightarrow> (w3, Inr (build\<lparr>b_PushTokenID := t_ID token, b_RegistrySecretName := secretName\<rparr>)))))"

definition cleanupActor :: Actor where
  "cleanupActor = SystemActor\<lparr>ac_AuthMethod := ''builds.cleanup''\<rparr>"

definition cleanupRegistryPush :: "ext \<Rightarrow> buildConfig \<Rightarrow> io \<Rightarrow> Build \<Rightarrow> buildWorld \<Rightarrow> buildWorld" where
  "cleanupRegistryPush x cfg io build w =
    (case bc_registryPush cfg of
       None \<Rightarrow> w
     | Some rp \<Rightarrow>
         let tid = TrimSpace (b_PushTokenID build); name = TrimSpace (b_RegistrySecretName build);
             w1 = (if tid = [] then w else fst (onDb (Tokens_Revoke x cleanupActor tid io) w))
         in if name = [] then w1 else secretDelete io (rp_Namespace rp) name w1)"

definition applyRegistryPushSpec :: "buildConfig \<Rightarrow> Build \<Rightarrow> Spec \<Rightarrow> Spec" where
  "applyRegistryPushSpec cfg build spec =
    (case bc_registryPush cfg of
       None \<Rightarrow> spec
     | Some rp \<Rightarrow> if TrimSpace (b_RegistrySecretName build) = [] then spec
                 else spec\<lparr>sp_RegistryHost := rp_Host rp, sp_RegistryTLSVerify := rp_TLSVerify rp,
                           sp_RegistryCredentialSecret := b_RegistrySecretName build\<rparr>)"

definition buildSpec :: "buildConfig \<Rightarrow> CreateRequest \<Rightarrow> GitCredentialRef list \<Rightarrow> Build \<Rightarrow> Spec" where
  "buildSpec cfg r gitCredentials b =
    \<lparr>sp_Name = ''build-'' @ b_ID b, sp_Kind = KindBuild, sp_BuilderImageDigest = b_BuilderImageDigest b, sp_GitCredentials = gitCredentials,
     sp_SourceCredentialRef = cr_SourceCredentialRef r, sp_SourceCredentialSecret = cr_SourceCredentialSecret r,
     sp_KnownHostsSecret = cr_KnownHostsSecret r, sp_Deadline = b_DeadlineAt b, sp_SourceRepoURL = b_SourceRepoURL b,
     sp_SourceCommitSHA = b_SourceCommitSHA b, sp_Execution = cr_Execution r, sp_Args = cr_Args r, sp_WorkingDirectory = cr_WorkingDirectory r,
     sp_ContainerfilePath = b_ContainerfilePath b, sp_TargetRepository = b_ImageRepository b, sp_TargetTag = b_ImageTag b,
     sp_RegistryHost = [], sp_RegistryTLSVerify = [], sp_RegistryCredentialSecret = [],
     sp_WorkspaceRootDir = bc_workspaceRootDir cfg, sp_WorkspaceClaimName = bc_workspaceClaimName cfg,
     sp_WorkspaceName = cr_WorkspaceName r, sp_WorkspaceRepo = cr_WorkspaceRepo r, sp_WorkspaceRepos = []\<rparr>"

definition resolveGit :: "ext \<Rightarrow> buildConfig \<Rightarrow> CreateRequest \<Rightarrow> buildWorld \<Rightarrow> GitCredentialRef list result" where
  "resolveGit x cfg r w =
    (if workspaceBuild r then Inr []
     else case bc_builderGit cfg of
       None \<Rightarrow> Inr []
     | Some v \<Rightarrow> andThen (Resolve x MemorySecretManager v (cr_SourceRepoURL r) (bw_secrets w)) (\<lambda>c.
         Inr [\<lparr>gc_Name = ci_Name c, gc_Host = ci_Host c, gc_SecretName = ci_SecretName c\<rparr>]))"

definition insertBuild :: "ext \<Rightarrow> Actor \<Rightarrow> io \<Rightarrow> CreateRequest \<Rightarrow> Build \<Rightarrow> db \<Rightarrow> db \<times> unit result" where
  "insertBuild x actor io r b =
     WithTx io (unitTx (\<lambda>d. andThen (BuildStore_Create io b d) (\<lambda>d1.
       Recorder_Record x io actor (successEvent ''builds.create'' ''build'' (b_ID b)
         (Some [(''sourceRepoURL'', JStr (cr_SourceRepoURL r)), (''sourceCommitSHA'', JStr (b_SourceCommitSHA b)),
                (''imageRepository'', JStr (b_ImageRepository b)), (''workspaceName'', JStr (cr_WorkspaceName r)),
                (''workspaceRepo'', JStr (cr_WorkspaceRepo r))])) d1)))"

text \<open>Submission and what is stored of its outcome; the updates of the row are best effort.\<close>

definition submitBuild :: "ext \<Rightarrow> buildConfig \<Rightarrow> engine \<Rightarrow> io \<Rightarrow> Spec \<Rightarrow> Build \<Rightarrow> buildWorld \<Rightarrow> buildWorld \<times> Build" where
  "submitBuild x cfg eng io spec b w0 =
    (let w = w0\<lparr>bw_calls := bw_calls w0 @ [CallSubmit spec]\<rparr>; now = io_now io
     in case en_Submit eng spec of
          Some msg \<Rightarrow>
            let w1 = cleanupRegistryPush x cfg io b w; message = redact (bw_sensitive w1) msg
            in (ignoring (BuildStore_UpdateStatus io (b_ID b) BuildStatusFailed ''workflow_submit_failed'' message None (Some now)) w1,
                b\<lparr>b_Status := BuildStatusFailed, b_ReasonCode := ''workflow_submit_failed'', b_ErrorMessage := message, b_CompletedAt := Some now\<rparr>)
        | None \<Rightarrow>
            let w1 = ignoring (BuildStore_SetWorkflowName io (b_ID b) (sp_Name spec)) w
            in (ignoring (BuildStore_UpdateStatus io (b_ID b) BuildStatusRunning [] [] (Some now) None) w1,
                b\<lparr>b_WorkflowName := sp_Name spec, b_Status := BuildStatusRunning, b_StartedAt := Some now\<rparr>))"

text \<open>Everything after the idempotency key has been claimed.\<close>

definition createBuild ::
    "ext \<Rightarrow> buildConfig \<Rightarrow> engine \<Rightarrow> Actor \<Rightarrow> string \<Rightarrow> CreateRequest \<Rightarrow> string \<Rightarrow> buildIO \<Rightarrow> buildWorld \<Rightarrow> buildWorld \<times> Build result" where
  "createBuild x cfg eng actor ownerID r imageRepo bi w =
    (let b0 = newBuild cfg (bi_create bi) ownerID r imageRepo
     in case resolveGit x cfg r w of
          Inl e \<Rightarrow> (w, Inl e)
        | Inr gitCredentials \<Rightarrow>
            thenW (provisionRegistryPush x cfg actor bi b0 w) (\<lambda>b w1.
              case onDb (insertBuild x actor (bi_create bi) r b) w1 of
                (w2, Inl e) \<Rightarrow> (cleanupRegistryPush x cfg (bi_revoke bi) b w2, Inl e)
              | (w2, Inr _) \<Rightarrow>
                  (case submitBuild x cfg eng (bi_submit bi) (applyRegistryPushSpec cfg b (buildSpec cfg r gitCredentials b)) b w2 of
                     (w3, b') \<Rightarrow> (w3, Inr b'))))"

definition Builds_Create ::
    "ext \<Rightarrow> buildConfig \<Rightarrow> engine \<Rightarrow> Actor \<Rightarrow> string \<Rightarrow> CreateRequest \<Rightarrow> string \<Rightarrow> buildIO \<Rightarrow> buildWorld \<Rightarrow> buildWorld \<times> Build result" where
  "Builds_Create x cfg eng actor ownerID r0 key bi w =
    (case validateCreate x cfg r0 of
       Inl e \<Rightarrow> (w, Inl e)
     | Inr (r, imageRepo) \<Rightarrow>
         if key = [] then createBuild x cfg eng actor ownerID r imageRepo bi w
         else thenW (onDb (IdempotencyStore_Reserve (bi_create bi) idempotencyScope key (hashRequest x r) idempotencyTTL) w) (\<lambda>found w1.
           case found of
             Some e \<Rightarrow> if ir_RequestHash e \<noteq> hashRequest x r then (w1, Inl ErrIdempotencyKeyReused)
                      else if ir_ResponseBody e = [] then (w1, Inl ErrIdempotencyInProgress)
                      else (w1, BuildStore_Get (bi_create bi) (ir_ResponseBody e) (bw_db w1))
           | None \<Rightarrow>
               thenW (createBuild x cfg eng actor ownerID r imageRepo bi w1) (\<lambda>b w2.
                 (ignoring (IdempotencyStore_Complete (bi_submit bi) idempotencyScope key 201 (b_ID b)) w2, Inr b))))"

section \<open>Following a build\<close>

definition finishBuild :: "ext \<Rightarrow> buildConfig \<Rightarrow> io \<Rightarrow> Build \<Rightarrow> BuildStatus \<Rightarrow> string \<Rightarrow> string \<Rightarrow> buildWorld \<Rightarrow> buildWorld \<times> Build result" where
  "finishBuild x cfg io b status reason message w =
    (case BuildStore_UpdateStatus io (b_ID b) status reason message None (Some (io_now io)) (bw_db w) of
       Inl e \<Rightarrow> (w, Inl e)
     | Inr d \<Rightarrow>
         let b' = b\<lparr>b_Status := status, b_ReasonCode := reason, b_ErrorMessage := message, b_CompletedAt := Some (io_now io)\<rparr>
         in (cleanupRegistryPush x cfg io b' (w\<lparr>bw_db := d\<rparr>), Inr b'))"

definition cancelCall :: "string \<Rightarrow> buildWorld \<Rightarrow> buildWorld" where
  "cancelCall name w = w\<lparr>bw_calls := bw_calls w @ [CallCancel name]\<rparr>"

text \<open>
  A success keeps the reason and message of the row as it was read, since the code leaves
  them in place in the returned build; in the table they are cleared.
\<close>

definition reconcile :: "ext \<Rightarrow> buildConfig \<Rightarrow> engine \<Rightarrow> io \<Rightarrow> Build \<Rightarrow> buildWorld \<Rightarrow> buildWorld \<times> Build result" where
  "reconcile x cfg eng io b w =
    (if Terminal (b_Status b) then (w, Inr b)
     else if b_DeadlineAt b < io_now io
     then finishBuild x cfg io b BuildStatusTimedOut ''deadline_exceeded'' ''build exceeded its deadline''
            (if b_WorkflowName b \<noteq> [] then cancelCall (b_WorkflowName b) w else w)
     else if b_WorkflowName b = [] then (w, Inr b)
     else
       let w1 = (if b_CancelRequested b then cancelCall (b_WorkflowName b) w else w)
       in case en_Status eng (b_WorkflowName b) of
            Inl e \<Rightarrow> if e = ErrWorkflowNotFound
                     then finishBuild x cfg io b BuildStatusFailed ''workflow_not_found'' ''workflow was not found'' w1
                     else (w1, Inl e)
          | Inr st \<Rightarrow>
              (case ws_Phase st of
                 PhaseSucceeded \<Rightarrow>
                   (case finishBuild x cfg io b BuildStatusSucceeded [] [] w1 of
                      (w2, Inl e) \<Rightarrow> (w2, Inl e)
                    | (w2, Inr b') \<Rightarrow> (w2, Inr (b'\<lparr>b_ReasonCode := b_ReasonCode b, b_ErrorMessage := b_ErrorMessage b\<rparr>)))
               | PhaseFailed \<Rightarrow>
                   finishBuild x cfg io b (if b_CancelRequested b then BuildStatusCancelled else BuildStatusFailed)
                     (if b_CancelRequested b then ''cancelled'' else ''build_failed'') (redact (bw_sensitive w1) (ws_Message st)) w1
               | PhaseRunning \<Rightarrow>
                   if b_Status b = BuildStatusRunning then (w1, Inr b)
                   else (case BuildStore_UpdateStatus io (b_ID b) BuildStatusRunning [] [] (Some (io_now io)) None (bw_db w1) of
                           Inl e \<Rightarrow> (w1, Inl e) | Inr d \<Rightarrow> (w1\<lparr>bw_db := d\<rparr>, Inr (b\<lparr>b_Status := BuildStatusRunning\<rparr>)))
               | PhasePending \<Rightarrow> (w1, Inr b)))"

definition Builds_Get :: "ext \<Rightarrow> buildConfig \<Rightarrow> engine \<Rightarrow> string \<Rightarrow> io \<Rightarrow> buildWorld \<Rightarrow> buildWorld \<times> Build result" where
  "Builds_Get x cfg eng bid io w =
    (case BuildStore_Get io bid (bw_db w) of Inl e \<Rightarrow> (w, Inl e) | Inr b \<Rightarrow> reconcile x cfg eng io b w)"

text \<open>Each reconciliation has its own clock and identifiers.\<close>

fun reconcileEach :: "ext \<Rightarrow> buildConfig \<Rightarrow> engine \<Rightarrow> (nat \<Rightarrow> io) \<Rightarrow> nat \<Rightarrow> Build list \<Rightarrow> buildWorld \<Rightarrow> buildWorld \<times> Build list result" where
  "reconcileEach x cfg eng ios k [] w = (w, Inr [])"
| "reconcileEach x cfg eng ios k (b # bs) w =
     thenW (reconcile x cfg eng (ios k) b w) (\<lambda>b' w1. thenW (reconcileEach x cfg eng ios (Suc k) bs w1) (\<lambda>bs' w2. (w2, Inr (b' # bs'))))"

definition Builds_List :: "ext \<Rightarrow> buildConfig \<Rightarrow> engine \<Rightarrow> BuildFilter \<Rightarrow> (nat \<Rightarrow> io) \<Rightarrow> buildWorld \<Rightarrow> buildWorld \<times> Build list result" where
  "Builds_List x cfg eng flt ios w =
    (case BuildStore_List (ios 0) flt (bw_db w) of Inl e \<Rightarrow> (w, Inl e) | Inr bs \<Rightarrow> reconcileEach x cfg eng ios 1 bs w)"

definition Builds_Cancel :: "ext \<Rightarrow> buildConfig \<Rightarrow> engine \<Rightarrow> Actor \<Rightarrow> string \<Rightarrow> io \<Rightarrow> buildWorld \<Rightarrow> buildWorld \<times> Build result" where
  "Builds_Cancel x cfg eng actor bid io w =
    (case BuildStore_Get io bid (bw_db w) of
       Inl e \<Rightarrow> (w, Inl e)
     | Inr b \<Rightarrow>
         if Terminal (b_Status b) then (w, Inr b)
         else thenW (onDb (autoCommit (BuildStore_RequestCancel io bid)) w) (\<lambda>_ w1.
           thenW (onDb (autoCommit (Recorder_Record x io actor (successEvent ''builds.cancel'' ''build'' bid None))) w1) (\<lambda>_ w2.
             reconcile x cfg eng io (b\<lparr>b_CancelRequested := True\<rparr>) w2)))"

definition Builds_Logs :: "engine \<Rightarrow> string \<Rightarrow> io \<Rightarrow> buildWorld \<Rightarrow> string result" where
  "Builds_Logs eng bid io w =
    (case BuildStore_Get io bid (bw_db w) of
       Inl e \<Rightarrow> Inl e
     | Inr b \<Rightarrow> if b_WorkflowName b = [] then Inr []
               else (case en_Logs eng (b_WorkflowName b) of
                       Inl e \<Rightarrow> if e = ErrWorkflowNotFound then Inr [] else Inl e
                     | Inr logs \<Rightarrow> Inr (redact (bw_sensitive w) logs)))"

definition ReconcileAll :: "ext \<Rightarrow> buildConfig \<Rightarrow> engine \<Rightarrow> (nat \<Rightarrow> io) \<Rightarrow> buildWorld \<Rightarrow> buildWorld \<times> unit result" where
  "ReconcileAll x cfg eng ios w =
    (case BuildStore_ListReconcilable (ios 0) (bw_db w) of
       Inl e \<Rightarrow> (w, Inl e)
     | Inr bs \<Rightarrow> thenW (reconcileEach x cfg eng ios 1 bs w) (\<lambda>_ w1. (w1, Inr ())))"

end
