(* ===== verification/BuildLife.thy ===== *)
theory BuildLife
  imports Builds
begin

text \<open>
  The life of a build: what each operation of the build service does to the rows of the
  builds table, to push credentials and to the texts it stores and shows.
\<close>

section \<open>Frames\<close>

lemma thenW_Inr: "thenW p f = (w', Inr b) \<longleftrightarrow> (\<exists>w a. p = (w, Inr a) \<and> f a w = (w', Inr b))"
  by (cases "(p, f)" rule: thenW.cases) auto

text \<open>The list of values to hide only grows, as long as its values are kept trimmed.\<close>

definition trimmed :: "string list \<Rightarrow> bool" where
  "trimmed vs \<longleftrightarrow> (\<forall>v\<in>set vs. v \<noteq> [] \<and> TrimSpace v = v)"

definition grows :: "string list \<Rightarrow> string list \<Rightarrow> bool" where
  "grows vs vs' \<longleftrightarrow> (trimmed vs \<longrightarrow> trimmed vs' \<and> set vs \<subseteq> set vs')"

lemma grows_refl [simp]: "grows vs vs" by (simp add: grows_def)

lemma grows_trans: "grows a b \<Longrightarrow> grows b c \<Longrightarrow> grows a c" by (auto simp: grows_def)

lemma normalized_grows: "grows vs (normalizeSensitiveValues (vs @ [raw]))"
  by (fastforce simp: grows_def trimmed_def set_normalizeSensitiveValues TrimSpace_idem image_iff)

text \<open>The parts of the world that revoking a token or deleting a secret leaves alone.\<close>

definition sameBuilds :: "buildWorld \<Rightarrow> buildWorld \<Rightarrow> bool" where
  "sameBuilds w w' \<longleftrightarrow> db_builds (bw_db w') = db_builds (bw_db w) \<and> db_idempotency (bw_db w') = db_idempotency (bw_db w)
     \<and> grows (bw_sensitive w) (bw_sensitive w')"

lemma sameBuilds_refl [simp]: "sameBuilds w w" by (simp add: sameBuilds_def)

lemma sameBuilds_trans: "sameBuilds w w1 \<Longrightarrow> sameBuilds w1 w2 \<Longrightarrow> sameBuilds w w2"
  unfolding sameBuilds_def using grows_trans by auto

lemma Recorder_Record_tables:
  assumes "Recorder_Record x io actor e d = Inr d'"
  shows "db_builds d' = db_builds d" "db_idempotency d' = db_idempotency d" "db_users d' = db_users d" "db_tokens d' = db_tokens d"
  by (subst Recorder_Record_InrD(1) [OF assms], simp)+

lemma Tokens_Revoke_frame: "Tokens_Revoke x actor tid io d = (d', r) \<Longrightarrow> db_builds d' = db_builds d \<and> db_idempotency d' = db_idempotency d \<and> db_users d' = db_users d"
proof (cases r)
  case (Inr u)
  assume "Tokens_Revoke x actor tid io d = (d', r)"
  then obtain d1 e where 1: "TokenStore_Revoke io tid d = Inr d1" and 2: "Recorder_Record x io actor e d1 = Inr d'"
    unfolding Tokens_Revoke_def Inr by (auto dest!: WithTx_Inr)
  then show ?thesis by (auto simp: TokenStore_Revoke_def Let_def Recorder_Record_tables [OF 2])
qed (auto simp: Tokens_Revoke_def dest: WithTx_Inl)

lemma Tokens_Create_frame:
  assumes "Tokens_Create x keys actor owner name ttl scopes io d = (d', r)"
  shows "db_builds d' = db_builds d \<and> db_idempotency d' = db_idempotency d \<and> db_users d' = db_users d"
proof (cases r)
  case (Inl e)
  with assms have "d' = d"
    by (auto simp: Tokens_Create_def guarded_def apsnd_def map_prod_def dest!: WithTx_Inl split: sum.splits prod.splits)
  then show ?thesis by simp
next
  case (Inr p)
  then obtain raw t where r: "r = Inr (raw, t)" by (cases p) simp
  have i: "insertToken x actor io (raw, t) d = Inr ((raw, t), d')"
    using assms unfolding Tokens_Create_def r guarded_Inr by (auto simp: insertToken_def dest!: WithTx_Inr)
  then obtain d1 e where c: "TokenStore_Create io t d = Inr d1" and q: "Recorder_Record x io actor e d1 = Inr d'"
    by (auto simp: insertToken_def)
  then show ?thesis by (auto simp: TokenStore_Create_def Recorder_Record_tables [OF q])
qed

lemma cleanup_same: "sameBuilds w (cleanupRegistryPush x cfg io b w)"
proof -
  have r: "sameBuilds w (fst (onDb (Tokens_Revoke x cleanupActor tid io) w))" for tid
    using Tokens_Revoke_frame [of x cleanupActor tid io "bw_db w"]
    by (cases "Tokens_Revoke x cleanupActor tid io (bw_db w)") (simp add: sameBuilds_def onDb_def)
  have d: "sameBuilds w (secretDelete io ns n w)" for ns n w by (simp add: sameBuilds_def secretDelete_def)
  show ?thesis
    using r d sameBuilds_trans [OF r d] by (auto simp: cleanupRegistryPush_def Let_def split: option.splits)
qed

section \<open>The state machine of a row\<close>

definition buildIdentity :: "Build \<Rightarrow> string list \<times> time" where
  "buildIdentity r = ([b_ID r, b_OwnerID r, b_SourceRepoURL r, b_SourceCommitSHA r, b_ContainerfilePath r, b_ImageRepository r, b_ImageTag r,
     b_BuilderImageDigest r, b_PushTokenID r, b_RegistrySecretName r], b_DeadlineAt r)"

text \<open>
  \<open>follows r r'\<close>: \<open>r'\<close> is a later state of the row \<open>r\<close>. What was asked for never changes, a
  finished build never changes at all, and a running build is never pending again.
\<close>

definition follows :: "Build \<Rightarrow> Build \<Rightarrow> bool" where
  "follows r r' \<longleftrightarrow> buildIdentity r' = buildIdentity r \<and> (Terminal (b_Status r) \<longrightarrow> r' = r)
     \<and> (b_Status r = BuildStatusRunning \<longrightarrow> b_Status r' \<noteq> BuildStatusPending)"

definition advances :: "Build list \<Rightarrow> Build list \<Rightarrow> bool" where
  "advances xs ys \<longleftrightarrow> (\<forall>r\<in>set xs. \<exists>r'\<in>set ys. follows r r')"

lemma follows_refl [simp]: "follows r r"
  by (auto simp: follows_def)

lemma BuildStatus_trichotomy: "s = BuildStatusPending \<or> s = BuildStatusRunning \<or> Terminal s"
  by (cases s) simp_all

lemma follows_trans: "follows a b \<Longrightarrow> follows b c \<Longrightarrow> follows a c"
  using BuildStatus_trichotomy [of "b_Status b"] by (auto simp: follows_def)

lemma advances_refl [simp]: "advances xs xs"
  by (auto simp: advances_def intro!: bexI [of _ r for r])

lemma advances_trans: "advances xs ys \<Longrightarrow> advances ys zs \<Longrightarrow> advances xs zs"
  unfolding advances_def using follows_trans by blast

text \<open>An update of the row of an unfinished build that keeps what was asked for.\<close>

lemma exec1_row:
  assumes d: "distinct (map b_ID (db_builds d))" and b: "b \<in> set (db_builds d)" "\<not> Terminal (b_Status b)"
    and f: "\<And>r. buildIdentity (f r) = buildIdentity r" "b_Status b = BuildStatusRunning \<Longrightarrow> b_Status (f b) \<noteq> BuildStatusPending"
    and u: "buildsExec1 io name (b_ID b) f d = Inr d'"
  shows "advances (db_builds d) (db_builds d')" and "map b_ID (db_builds d') = map b_ID (db_builds d)"
    and "\<And>r. r \<in> set (db_builds d) \<Longrightarrow> b_ID r \<noteq> b_ID b \<Longrightarrow> r \<in> set (db_builds d')" and "f b \<in> set (db_builds d')" and "db_idempotency d' = db_idempotency d"
proof -
  have id: "b_ID (f r) = b_ID r" for r using f(1) [of r] by (simp add: buildIdentity_def)
  have d': "db_builds d' = updateWhere (\<lambda>r. b_ID r = b_ID b) f (db_builds d)" using buildsExec1_Inr [OF u] by simp
  have mem: "(if b_ID r = b_ID b then f r else r) \<in> set (db_builds d')" if "r \<in> set (db_builds d)" for r
    using that by (auto simp: d' set_updateWhere)
  have one: "r = b" if "r \<in> set (db_builds d)" "b_ID r = b_ID b" for r
    using d b(1) that by (metis distinct_map inj_onD)
  have "follows b (f b)" using b(2) f by (auto simp: follows_def)
  then show "advances (db_builds d) (db_builds d')" unfolding advances_def using mem one by (metis follows_refl)
  show "db_idempotency d' = db_idempotency d" using buildsExec1_Inr [OF u] by simp
  show "map b_ID (db_builds d') = map b_ID (db_builds d)" unfolding d' by (rule map_updateWhere_same) (simp add: id)
  show "r \<in> set (db_builds d')" if "r \<in> set (db_builds d)" "b_ID r \<noteq> b_ID b" for r using mem [OF that(1)] that(2) by simp
  show "f b \<in> set (db_builds d')" using mem [OF b(1)] by simp
qed

text \<open>
  \<open>builtOn w bid w'\<close>: the world moved on, touching only the row \<open>bid\<close> and only forward.
\<close>

definition builtOn :: "buildWorld \<Rightarrow> string \<Rightarrow> buildWorld \<Rightarrow> bool" where
  "builtOn w bid w' \<longleftrightarrow> advances (db_builds (bw_db w)) (db_builds (bw_db w')) \<and> map b_ID (db_builds (bw_db w')) = map b_ID (db_builds (bw_db w))
     \<and> (\<forall>r\<in>set (db_builds (bw_db w)). b_ID r \<noteq> bid \<longrightarrow> r \<in> set (db_builds (bw_db w'))) \<and> grows (bw_sensitive w) (bw_sensitive w')
     \<and> db_idempotency (bw_db w') = db_idempotency (bw_db w)"

lemma builtOn_same: "sameBuilds w w' \<Longrightarrow> builtOn w bid w'"
  by (simp add: builtOn_def sameBuilds_def)

lemma builtOn_trans: "builtOn w bid w1 \<Longrightarrow> builtOn w1 bid w2 \<Longrightarrow> builtOn w bid w2"
  unfolding builtOn_def using advances_trans grows_trans by fastforce

lemma UpdateStatus_builtOn:
  assumes d: "distinct (map b_ID (db_builds (bw_db w)))" and b: "b \<in> set (db_builds (bw_db w))" "\<not> Terminal (b_Status b)"
    and u: "BuildStore_UpdateStatus io (b_ID b) status reason message s c (bw_db w) = Inr d'" and st: "status \<noteq> BuildStatusPending"
  shows "builtOn w (b_ID b) (w\<lparr>bw_db := d'\<rparr>)"
  using exec1_row [OF d b _ _ u [unfolded BuildStore_UpdateStatus_def]] st by (simp add: builtOn_def buildIdentity_def)

lemma finishBuild_builtOn:
  assumes "distinct (map b_ID (db_builds (bw_db w)))" and "b0 \<in> set (db_builds (bw_db w))" "\<not> Terminal (b_Status b0)"
    and "b_ID b0 = b_ID b" and "status \<noteq> BuildStatusPending"
  shows "builtOn w (b_ID b) (fst (finishBuild x cfg io b status reason message w))"
proof (cases "BuildStore_UpdateStatus io (b_ID b) status reason message None (Some (io_now io)) (bw_db w)")
  case (Inr d)
  have "builtOn w (b_ID b) (w\<lparr>bw_db := d\<rparr>)"
    using UpdateStatus_builtOn [OF assms(1-3), unfolded assms(4), OF Inr assms(5)] .
  from builtOn_trans [OF this builtOn_same [OF cleanup_same]] show ?thesis by (simp add: finishBuild_def Inr Let_def)
qed (simp add: finishBuild_def builtOn_same)

lemma cancelCall_same [simp]: "db_builds (bw_db (cancelCall n w)) = db_builds (bw_db w)" "sameBuilds w (cancelCall n w)"
  by (simp_all add: cancelCall_def sameBuilds_def)

lemma reconcile_builtOn:
  assumes d: "distinct (map b_ID (db_builds (bw_db w)))" and b0: "b0 \<in> set (db_builds (bw_db w))" "b_Status b0 = b_Status b" "b_ID b0 = b_ID b"
  shows "builtOn w (b_ID b) (fst (reconcile x cfg eng io b w))"
proof (cases "Terminal (b_Status b)")
  case False
  have fin: "builtOn w (b_ID b) (fst (finishBuild x cfg io b status reason message w1))"
    if "w1 = w \<or> w1 = cancelCall n w" "status \<noteq> BuildStatusPending" for w1 n status reason message
  proof -
    have s: "sameBuilds w w1" "db_builds (bw_db w1) = db_builds (bw_db w)" using that(1) by auto
    then have "builtOn w1 (b_ID b) (fst (finishBuild x cfg io b status reason message w1))"
      using False b0 d that(2) by (intro finishBuild_builtOn [of w1 b0]) auto
    with s show ?thesis by (blast intro: builtOn_trans builtOn_same)
  qed
  have run: "builtOn w (b_ID b) (w1\<lparr>bw_db := d1\<rparr>)"
    if "w1 = w \<or> w1 = cancelCall n w" "BuildStore_UpdateStatus io (b_ID b) BuildStatusRunning [] [] s c (bw_db w1) = Inr d1" for w1 n s c d1
  proof -
    have s: "sameBuilds w w1" "db_builds (bw_db w1) = db_builds (bw_db w)" using that(1) by auto
    then have "builtOn w1 (b_ID b) (w1\<lparr>bw_db := d1\<rparr>)"
      using UpdateStatus_builtOn [of w1 b0, unfolded b0(3), OF _ _ _ that(2)] False b0 d by simp
    with s show ?thesis by (blast intro: builtOn_trans builtOn_same)
  qed
  have w1: "builtOn w (b_ID b) w1" if "w1 = w \<or> w1 = cancelCall n w" for w1 n using that by (auto intro: builtOn_same)
  have succ: "builtOn w (b_ID b) (fst (case finishBuild x cfg io b BuildStatusSucceeded [] [] w1 of (w2, Inl e) \<Rightarrow> (w2, Inl e) | (w2, Inr b') \<Rightarrow> (w2, Inr (g b'))))"
    if "w1 = w \<or> w1 = cancelCall n w" for w1 n and g :: "Build \<Rightarrow> Build"
    using fin [OF that, of BuildStatusSucceeded "[]" "[]"] by (auto split: prod.splits sum.splits)
  define w1 where "w1 = (if b_CancelRequested b then cancelCall (b_WorkflowName b) w else w)"
  have c: "w1 = w \<or> w1 = cancelCall (b_WorkflowName b) w" by (simp add: w1_def)
  show ?thesis
    using False fin [OF c] run [OF c] w1 [OF c] succ [OF c] fin [of _ "b_WorkflowName b" BuildStatusTimedOut]
    unfolding reconcile_def Let_def w1_def [symmetric] by (auto intro: builtOn_same split: sum.splits Phase.splits)
qed (simp add: reconcile_def builtOn_same)

section \<open>Every operation moves builds forward\<close>

definition steady :: "buildWorld \<Rightarrow> buildWorld \<Rightarrow> bool" where
  "steady w w' \<longleftrightarrow> advances (db_builds (bw_db w)) (db_builds (bw_db w'))
     \<and> (distinct (map b_ID (db_builds (bw_db w))) \<longrightarrow> distinct (map b_ID (db_builds (bw_db w')))) \<and> grows (bw_sensitive w) (bw_sensitive w')
     \<and> db_idempotency (bw_db w') = db_idempotency (bw_db w)"

lemma steady_refl [simp]: "steady w w" by (simp add: steady_def)

lemma steady_trans: "steady w w1 \<Longrightarrow> steady w1 w2 \<Longrightarrow> steady w w2"
  unfolding steady_def using advances_trans grows_trans by (metis (no_types, lifting))

lemma builtOn_steady: "builtOn w bid w' \<Longrightarrow> steady w w'"
  by (simp add: builtOn_def steady_def)

lemma sameBuilds_steady: "sameBuilds w w' \<Longrightarrow> steady w w'"
  by (simp add: sameBuilds_def steady_def)

lemma reconcileEach_steady:
  assumes "distinct (map b_ID (db_builds (bw_db w)))" and "set bs \<subseteq> set (db_builds (bw_db w))" and "distinct (map b_ID bs)"
  shows "steady w (fst (reconcileEach x cfg eng ios k bs w))"
  using assms
proof (induction bs arbitrary: w k)
  case (Cons b bs)
  obtain w1 r where r: "reconcile x cfg eng (ios k) b w = (w1, r)" by (cases "reconcile x cfg eng (ios k) b w")
  have on: "builtOn w (b_ID b) w1" using reconcile_builtOn [OF Cons.prems(1), of b b x cfg eng "ios k"] Cons.prems(2) by (simp add: r)
  have "steady w1 (fst (reconcileEach x cfg eng ios (Suc k) bs w1))"
  proof (rule Cons.IH)
    show "distinct (map b_ID (db_builds (bw_db w1)))" using on Cons.prems(1) by (simp add: builtOn_def)
    show "set bs \<subseteq> set (db_builds (bw_db w1))"
    proof
      fix q assume q: "q \<in> set bs"
      then have "b_ID q \<noteq> b_ID b" using Cons.prems(3) by (auto simp: image_iff)
      then show "q \<in> set (db_builds (bw_db w1))" using on q Cons.prems(2) by (auto simp: builtOn_def)
    qed
    show "distinct (map b_ID bs)" using Cons.prems(3) by simp
  qed
  then have "steady w (fst (reconcileEach x cfg eng ios (Suc k) bs w1))" using builtOn_steady [OF on] steady_trans by blast
  moreover have "fst (thenW p (\<lambda>bs' w2. (w2, Inr (c # bs')))) = fst p" for p and c :: Build by (cases p; cases "snd p") auto
  ultimately show ?case using builtOn_steady [OF on] by (cases r) (simp_all add: r)
qed simp

lemma distinct_map_sort_key: "distinct (map f (sort_key g xs)) = distinct (map f xs)"
  by (metis distinct_map distinct_sort set_sort)

lemma Builds_List_steady:
  assumes "distinct (map b_ID (db_builds (bw_db w)))"
  shows "steady w (fst (Builds_List x cfg eng flt ios w))"
proof (cases "BuildStore_List (ios 0) flt (bw_db w)")
  case (Inr bs)
  then obtain n where bs: "bs = take n (rev (sort_key (\<lambda>b. RFC3339Nano (b_CreatedAt b))
      (filter (\<lambda>b. bf_OwnerID flt = [] \<or> b_OwnerID b = bf_OwnerID flt) (db_builds (bw_db w)))))"
    by (auto simp: BuildStore_List_def Let_def)
  have "set bs \<subseteq> set (db_builds (bw_db w))" by (auto simp: bs dest: in_set_takeD)
  moreover have "distinct (map b_ID bs)"
    using assms by (simp add: bs take_map [symmetric] rev_map [symmetric] distinct_map_sort_key distinct_map_filter)
  ultimately show ?thesis using reconcileEach_steady [OF assms] by (simp add: Builds_List_def Inr)
qed (simp add: Builds_List_def)

lemma ReconcileAll_steady:
  assumes "distinct (map b_ID (db_builds (bw_db w)))"
  shows "steady w (fst (ReconcileAll x cfg eng ios w))"
proof (cases "BuildStore_ListReconcilable (ios 0) (bw_db w)")
  case (Inr bs)
  then have bs: "bs = sort_key (\<lambda>b. RFC3339Nano (b_CreatedAt b)) (filter (\<lambda>b. b_Status b \<in> {BuildStatusPending, BuildStatusRunning}) (db_builds (bw_db w)))"
    by (auto simp: BuildStore_ListReconcilable_def)
  have "steady w (fst (reconcileEach x cfg eng ios 1 bs w))"
    using assms by (intro reconcileEach_steady) (auto simp: bs distinct_map_sort_key distinct_map_filter)
  then show ?thesis
    by (cases "reconcileEach x cfg eng ios 1 bs w"; cases "snd (reconcileEach x cfg eng ios 1 bs w)") (auto simp: ReconcileAll_def Inr)
qed (simp add: ReconcileAll_def)

lemma Builds_Get_steady:
  assumes "distinct (map b_ID (db_builds (bw_db w)))"
  shows "steady w (fst (Builds_Get x cfg eng bid io w))"
proof (cases "BuildStore_Get io bid (bw_db w)")
  case (Inr b)
  then have "b \<in> set (db_builds (bw_db w))" using BuildStore_Get_Inr by blast
  then show ?thesis using builtOn_steady [OF reconcile_builtOn [OF assms]] by (simp add: Builds_Get_def Inr)
qed (simp add: Builds_Get_def)

lemma Builds_Cancel_steady:
  assumes d: "distinct (map b_ID (db_builds (bw_db w)))"
  shows "steady w (fst (Builds_Cancel x cfg eng actor bid io w))"
proof (cases "BuildStore_Get io bid (bw_db w)")
  case (Inr b)
  then have b: "b \<in> set (db_builds (bw_db w))" "b_ID b = bid" using BuildStore_Get_Inr by blast+
  define f where "f r = r\<lparr>b_CancelRequested := True, b_UpdatedAt := io_now io\<rparr>" for r :: Build
  show ?thesis
  proof (cases "Terminal (b_Status b) \<or> (\<exists>e. BuildStore_RequestCancel io bid (bw_db w) = Inl e)")
    case False
    then obtain d1 where nt: "\<not> Terminal (b_Status b)" and rc: "BuildStore_RequestCancel io bid (bw_db w) = Inr d1" by (metis sum.exhaust)
    have u: "buildsExec1 io ''BuildStore.RequestCancel'' (b_ID b) f (bw_db w) = Inr d1"
      using rc b(2) unfolding BuildStore_RequestCancel_def f_def by simp
    have row: "advances (db_builds (bw_db w)) (db_builds d1)" "map b_ID (db_builds d1) = map b_ID (db_builds (bw_db w))" "f b \<in> set (db_builds d1)"
      "db_idempotency d1 = db_idempotency (bw_db w)"
      using exec1_row [OF d b(1) nt _ _ u] by (auto simp: f_def buildIdentity_def)
    define w1 where "w1 = w\<lparr>bw_db := d1\<rparr>"
    have p1: "steady w w1" using row d by (simp add: steady_def w1_def)
    have p2: "steady w1 (fst (reconcile x cfg eng io (b\<lparr>b_CancelRequested := True\<rparr>) (w1\<lparr>bw_db := d2\<rparr>)))" if "db_builds d2 = db_builds d1" "db_idempotency d2 = db_idempotency d1" for d2
    proof -
      have "builtOn (w1\<lparr>bw_db := d2\<rparr>) (b_ID (b\<lparr>b_CancelRequested := True\<rparr>)) (fst (reconcile x cfg eng io (b\<lparr>b_CancelRequested := True\<rparr>) (w1\<lparr>bw_db := d2\<rparr>)))"
        using row(2,3) d that by (intro reconcile_builtOn [where ?b0.0 = "f b"]) (simp_all add: f_def)
      then show ?thesis using builtOn_steady that by (fastforce simp: steady_def w1_def)
    qed
    have start: "Builds_Cancel x cfg eng actor bid io w = thenW (onDb (autoCommit (Recorder_Record x io actor (successEvent ''builds.cancel'' ''build'' bid None))) w1)
        (\<lambda>_ w2. reconcile x cfg eng io (b\<lparr>b_CancelRequested := True\<rparr>) w2)"
      using nt by (cases "Recorder_Record x io actor (successEvent ''builds.cancel'' ''build'' bid None) d1")
        (simp_all add: Builds_Cancel_def Inr onDb_def autoCommit_def rc w1_def)
    show ?thesis
    proof (cases "Recorder_Record x io actor (successEvent ''builds.cancel'' ''build'' bid None) d1")
      case (Inl e)
      then show ?thesis unfolding start using p1 by (simp add: onDb_def autoCommit_def w1_def)
    next
      case rec: (Inr d2)
      have "steady w1 (fst (reconcile x cfg eng io (b\<lparr>b_CancelRequested := True\<rparr>) (w1\<lparr>bw_db := d2\<rparr>)))"
        by (rule p2) (rule Recorder_Record_tables [OF rec])+
      then show ?thesis unfolding start using steady_trans [OF p1] by (simp add: onDb_def autoCommit_def w1_def rec)
    qed
  qed (auto simp: Builds_Cancel_def Inr onDb_def autoCommit_def split: sum.splits)
qed (simp add: Builds_Cancel_def)

text \<open>Creation adds a row under a new identifier and works on that row only.\<close>

lemma provision_same: "sameBuilds w (fst (provisionRegistryPush x cfg actor bi b w))"
proof -
  have rv: "sameBuilds v (fst (onDb (Tokens_Revoke x actor tid io) v))" for v tid io
    using Tokens_Revoke_frame [of x actor tid io "bw_db v"] by (cases "Tokens_Revoke x actor tid io (bw_db v)") (simp add: sameBuilds_def onDb_def)
  have tc: "sameBuilds w (w\<lparr>bw_db := d\<rparr>)" if "Tokens_Create x k actor ow nm ttl sc io (bw_db w) = (d, r)" for k ow nm ttl sc io d r
    using Tokens_Create_frame [OF that] by (simp add: sameBuilds_def)
  have grow: "sameBuilds v (v\<lparr>bw_sensitive := normalizeSensitiveValues (bw_sensitive v @ [raw])\<rparr>)" for v raw
    by (simp add: sameBuilds_def normalized_grows)
  have up: "sameBuilds v w3" if "secretUpsert io ns n sec v = (w3, r)" for v io ns n sec w3 r
    using that by (auto simp: secretUpsert_def sameBuilds_def split: if_splits prod.splits)
  have after: "sameBuilds w (fst (case secretUpsert io ns n sec (v\<lparr>bw_sensitive := normalizeSensitiveValues (bw_sensitive v @ [raw])\<rparr>) of
        (w3, Inl e) \<Rightarrow> (fst (onDb (Tokens_Revoke x actor tid io2) w3), Inl e) | (w3, Inr _) \<Rightarrow> (w3, Inr b')))"
    if "sameBuilds w v" for v io ns n sec raw tid io2 and b' :: Build
  proof -
    obtain w3 r where u: "secretUpsert io ns n sec (v\<lparr>bw_sensitive := normalizeSensitiveValues (bw_sensitive v @ [raw])\<rparr>) = (w3, r)"
      by (metis surj_pair)
    have "sameBuilds w w3" using sameBuilds_trans [OF that sameBuilds_trans [OF grow up [OF u]]] .
    then show ?thesis using sameBuilds_trans [OF _ rv] by (cases r) (simp_all add: u)
  qed
  show ?thesis
  proof (cases "bc_registryPush cfg")
    case (Some rp)
    define q where "q = andThen (UserStore_Get (bi_token bi) (b_OwnerID b) (bw_db w)) (\<lambda>user.
        let username = TrimSpace (u_Username user) in if username = [] then Inl (ErrMessage ''owner username is empty'') else Inr username)"
    show ?thesis
    proof (cases q)
      case (Inr username)
      obtain d r where t: "Tokens_Create x (bc_keys cfg) actor (b_OwnerID b) (''bld-'' @ b_ID b)
          (pushTokenTTL (io_now (bi_token bi)) (b_DeadlineAt b)) (Some [''artifacts.read'', ''artifacts.write'']) (bi_token bi) (bw_db w) = (d, r)"
        by (metis surj_pair)
      have tw: "onDb (Tokens_Create x (bc_keys cfg) actor (b_OwnerID b) (''bld-'' @ b_ID b)
          (pushTokenTTL (io_now (bi_token bi)) (b_DeadlineAt b)) (Some [''artifacts.read'', ''artifacts.write'']) (bi_token bi)) w = (w\<lparr>bw_db := d\<rparr>, r)"
        unfolding onDb_def t by simp
      show ?thesis
      proof (cases r)
        case (Inl e)
        then show ?thesis
          unfolding provisionRegistryPush_def Some option.case q_def [symmetric] Inr sum.case tw using tc [OF t] by simp
      next
        case rt: (Inr p)
        obtain raw tok where p: "p = (raw, tok)" by (cases p)
        show ?thesis
          unfolding provisionRegistryPush_def Some option.case q_def [symmetric] Inr sum.case tw rt p thenW.simps prod.case Let_def [of "w\<lparr>bw_db := d\<rparr>\<lparr>bw_sensitive := normalizeSensitiveValues (bw_sensitive (w\<lparr>bw_db := d\<rparr>) @ [raw])\<rparr>"]
            Let_def [of "registrySecretPrefix @ b_ID b"]
          by (rule after [OF tc [OF t]])
      qed
    qed (simp add: provisionRegistryPush_def Some q_def [symmetric])
  qed (simp add: provisionRegistryPush_def)
qed

lemma secretUpsert_Inr:
  "secretUpsert io ns n sec w = (w', Inr u) \<longleftrightarrow> \<not> io_fault io ''SecretManager.Upsert'' \<and> w' = w\<lparr>bw_secrets := fst (memoryUpsert ns n sec (bw_secrets w))\<rparr>"
  by (auto simp: secretUpsert_def memoryUpsert_def)

lemma provision_Inr:
  assumes p: "provisionRegistryPush x cfg actor bi b w = (w', Inr b')" and rp: "bc_registryPush cfg = Some rp"
  obtains username d raw tok where "Tokens_Create x (bc_keys cfg) actor (b_OwnerID b) (''bld-'' @ b_ID b)
          (pushTokenTTL (io_now (bi_token bi)) (b_DeadlineAt b)) (Some [''artifacts.read'', ''artifacts.write'']) (bi_token bi) (bw_db w) = (d, Inr (raw, tok))"
    and "b' = b\<lparr>b_PushTokenID := t_ID tok, b_RegistrySecretName := registrySecretPrefix @ b_ID b\<rparr>"
    and "w' = w\<lparr>bw_db := d, bw_sensitive := normalizeSensitiveValues (bw_sensitive w @ [raw]),
       bw_secrets := fst (memoryUpsert (rp_Namespace rp) (registrySecretPrefix @ b_ID b)
         (registrySecret rp (b_ID b) (registrySecretPrefix @ b_ID b) username raw) (bw_secrets w))\<rparr>"
proof -
  obtain username w1 raw tok where t: "onDb (Tokens_Create x (bc_keys cfg) actor (b_OwnerID b) (''bld-'' @ b_ID b)
          (pushTokenTTL (io_now (bi_token bi)) (b_DeadlineAt b)) (Some [''artifacts.read'', ''artifacts.write'']) (bi_token bi)) w = (w1, Inr (raw, tok))"
    and u: "(case secretUpsert (bi_token bi) (rp_Namespace rp) (registrySecretPrefix @ b_ID b)
              (registrySecret rp (b_ID b) (registrySecretPrefix @ b_ID b) username raw) (w1\<lparr>bw_sensitive := normalizeSensitiveValues (bw_sensitive w1 @ [raw])\<rparr>) of
            (w3, Inl e) \<Rightarrow> (fst (onDb (Tokens_Revoke x actor (t_ID tok) (bi_revoke bi)) w3), Inl e)
          | (w3, Inr _) \<Rightarrow> (w3, Inr (b\<lparr>b_PushTokenID := t_ID tok, b_RegistrySecretName := registrySecretPrefix @ b_ID b\<rparr>))) = (w', Inr b')"
    using p unfolding provisionRegistryPush_def rp option.case Let_def
    by (auto simp only: thenW_Inr split_paired_Ex prod.case sum.case split: sum.splits)
  obtain d where d: "Tokens_Create x (bc_keys cfg) actor (b_OwnerID b) (''bld-'' @ b_ID b)
          (pushTokenTTL (io_now (bi_token bi)) (b_DeadlineAt b)) (Some [''artifacts.read'', ''artifacts.write'']) (bi_token bi) (bw_db w) = (d, Inr (raw, tok))"
      "w1 = w\<lparr>bw_db := d\<rparr>"
    using t unfolding onDb_def by (auto split: prod.splits)
  obtain w3 where w3: "secretUpsert (bi_token bi) (rp_Namespace rp) (registrySecretPrefix @ b_ID b)
        (registrySecret rp (b_ID b) (registrySecretPrefix @ b_ID b) username raw) (w1\<lparr>bw_sensitive := normalizeSensitiveValues (bw_sensitive w1 @ [raw])\<rparr>) = (w3, Inr ())"
      "w' = w3" "b' = b\<lparr>b_PushTokenID := t_ID tok, b_RegistrySecretName := registrySecretPrefix @ b_ID b\<rparr>"
    using u by (auto split: prod.splits sum.splits)
  show ?thesis using that [OF d(1) w3(3)] w3(1,2) d(2) by (simp add: secretUpsert_Inr)
qed

lemma provision_result:
  assumes "provisionRegistryPush x cfg actor bi b w = (w', Inr b')"
  shows "b_ID b' = b_ID b" and "b_Status b' = b_Status b"
proof -
  have "b_ID b' = b_ID b \<and> b_Status b' = b_Status b"
  proof (cases "bc_registryPush cfg")
    case None
    with assms show ?thesis by (simp add: provisionRegistryPush_def)
  next
    case (Some rp)
    from provision_Inr [OF assms Some] show ?thesis by (metis (no_types, lifting) Build.select_convs(1,3) Build.surjective Build.update_convs(14,15))
  qed
  then show "b_ID b' = b_ID b" "b_Status b' = b_Status b" by simp_all
qed

lemma insertBuild_rows:
  assumes "insertBuild x actor io r b d = (d', q)"
  shows "case q of Inl e \<Rightarrow> d' = d
    | Inr _ \<Rightarrow> b_ID b \<notin> b_ID ` set (db_builds d) \<and> db_idempotency d' = db_idempotency d
        \<and> (\<exists>b1. db_builds d' = db_builds d @ [b1] \<and> b_ID b1 = b_ID b \<and> b_Status b1 = b_Status b)"
proof (cases q)
  case (Inr u)
  then obtain d1 e where c: "BuildStore_Create io b d = Inr d1" and q: "Recorder_Record x io actor e d1 = Inr d'"
    using assms unfolding insertBuild_def by (auto dest!: WithTx_Inr)
  show ?thesis using c unfolding Inr by (auto simp: BuildStore_Create_def Let_def Recorder_Record_tables [OF q])
qed (use assms in \<open>auto simp: insertBuild_def dest: WithTx_Inl\<close>)

lemma ignoring_exec1:
  assumes "distinct (map b_ID (db_builds (bw_db w)))" and b0: "b0 \<in> set (db_builds (bw_db w))" "\<not> Terminal (b_Status b0)" "b_ID b0 = bid"
    and f: "\<And>r. buildIdentity (f r) = buildIdentity r" "b_Status b0 = BuildStatusRunning \<Longrightarrow> b_Status (f b0) \<noteq> BuildStatusPending"
  shows "builtOn w bid (ignoring (buildsExec1 io name bid f) w)"
    and "b_Status (f b0) = b_Status b0 \<Longrightarrow> \<exists>b1\<in>set (db_builds (bw_db (ignoring (buildsExec1 io name bid f) w))). b_ID b1 = bid \<and> b_Status b1 = b_Status b0"
proof -
  have id: "b_ID (f b0) = bid" using f(1) [of b0] b0(3) by (simp add: buildIdentity_def)
  show "builtOn w bid (ignoring (buildsExec1 io name bid f) w)"
    using exec1_row [OF assms(1) b0(1,2) f] b0(3)
    by (cases "buildsExec1 io name bid f (bw_db w)") (simp_all add: ignoring_def builtOn_def)
  show "\<exists>b1\<in>set (db_builds (bw_db (ignoring (buildsExec1 io name bid f) w))). b_ID b1 = bid \<and> b_Status b1 = b_Status b0"
    if "b_Status (f b0) = b_Status b0"
  proof (cases "buildsExec1 io name bid f (bw_db w)")
    case (Inl e)
    then show ?thesis using b0 by (auto simp: ignoring_def)
  next
    case (Inr d)
    then have "f b0 \<in> set (db_builds d)" using exec1_row(4) [OF assms(1) b0(1,2) f] b0(3) by simp
    then show ?thesis using that id by (auto simp: ignoring_def Inr)
  qed
qed

lemma submitBuild_builtOn:
  assumes d: "distinct (map b_ID (db_builds (bw_db w)))" and b0: "b0 \<in> set (db_builds (bw_db w))" "b_Status b0 = BuildStatusPending" "b_ID b0 = b_ID b"
  shows "builtOn w (b_ID b) (fst (submitBuild x cfg eng io spec b w))"
proof -
  define v where "v = w\<lparr>bw_calls := bw_calls w @ [CallSubmit spec]\<rparr>"
  have v: "sameBuilds w v" "db_builds (bw_db v) = db_builds (bw_db w)" by (simp_all add: v_def sameBuilds_def)
  have upd: "builtOn v1 (b_ID b) (ignoring (BuildStore_UpdateStatus io (b_ID b) st rs ms sa ca) v1)"
    if "distinct (map b_ID (db_builds (bw_db v1)))" "r \<in> set (db_builds (bw_db v1))" "b_Status r = BuildStatusPending" "b_ID r = b_ID b" for v1 r st rs ms sa ca
    using that unfolding BuildStore_UpdateStatus_def by (intro ignoring_exec1(1) [of v1 r]) (simp_all add: buildIdentity_def)
  show ?thesis
  proof (cases "en_Submit eng spec")
    case (Some msg)
    define v1 where "v1 = cleanupRegistryPush x cfg io b v"
    have same: "sameBuilds w v1" using sameBuilds_trans [OF v(1) cleanup_same] by (simp add: v1_def)
    then have rows: "db_builds (bw_db v1) = db_builds (bw_db w)" by (simp add: sameBuilds_def)
    have "builtOn v1 (b_ID b) (fst (submitBuild x cfg eng io spec b w))"
      using upd [of v1 b0] d b0 rows by (simp add: submitBuild_def Some Let_def v_def [symmetric] v1_def [symmetric])
    then show ?thesis using builtOn_trans [OF builtOn_same [OF same]] by blast
  next
    case None
    define v1 where "v1 = ignoring (BuildStore_SetWorkflowName io (b_ID b) (sp_Name spec)) v"
    have on1: "builtOn v (b_ID b) v1" and ex: "\<exists>b1\<in>set (db_builds (bw_db v1)). b_ID b1 = b_ID b \<and> b_Status b1 = b_Status b0"
      using ignoring_exec1 [of v b0 "b_ID b" "\<lambda>r. r\<lparr>b_WorkflowName := sp_Name spec, b_UpdatedAt := io_now io\<rparr>" io "''BuildStore.SetWorkflowName''"] d b0 v(2)
      by (simp_all add: v1_def BuildStore_SetWorkflowName_def buildIdentity_def)
    then obtain b1 where b1: "b1 \<in> set (db_builds (bw_db v1))" "b_ID b1 = b_ID b" "b_Status b1 = BuildStatusPending" using b0(2) by auto
    have "distinct (map b_ID (db_builds (bw_db v1)))" using on1 d v(2) by (simp add: builtOn_def)
    then have "builtOn v1 (b_ID b) (fst (submitBuild x cfg eng io spec b w))"
      using upd [of v1 b1] b1 by (simp add: submitBuild_def None Let_def v_def [symmetric] v1_def [symmetric])
    then show ?thesis using builtOn_trans [OF builtOn_same [OF v(1)]] builtOn_trans [OF on1] by blast
  qed
qed

lemma createBuild_steady:
  assumes d: "distinct (map b_ID (db_builds (bw_db w)))"
  shows "steady w (fst (createBuild x cfg eng actor ownerID r imageRepo bi w))"
proof (cases "resolveGit x cfg r w")
  case (Inr creds)
  define b0 where "b0 = newBuild cfg (bi_create bi) ownerID r imageRepo"
  obtain w1 q where p: "provisionRegistryPush x cfg actor bi b0 w = (w1, q)" by (cases "provisionRegistryPush x cfg actor bi b0 w")
  have same: "sameBuilds w w1" using provision_same [of w x cfg actor bi b0] by (simp add: p)
  then have rows: "db_builds (bw_db w1) = db_builds (bw_db w)" by (simp add: sameBuilds_def)
  show ?thesis
  proof (cases q)
    case (Inl e)
    then show ?thesis using sameBuilds_steady [OF same] by (simp add: createBuild_def Inr b0_def [symmetric] p)
  next
    case q: (Inr b)
    have b: "b_Status b = BuildStatusPending" using provision_result(2) p q by (simp add: b0_def newBuild_def)
    obtain d2 t where i: "insertBuild x actor (bi_create bi) r b (bw_db w1) = (d2, t)" by (metis surj_pair)
    define w2 where "w2 = w1\<lparr>bw_db := d2\<rparr>"
    have ins: "onDb (insertBuild x actor (bi_create bi) r b) w1 = (w2, t)" by (simp add: onDb_def i w2_def)
    show ?thesis
    proof (cases t)
      case (Inl e)
      then have "w2 = w1" using insertBuild_rows [OF i] by (simp add: w2_def)
      then have "steady w (cleanupRegistryPush x cfg (bi_revoke bi) b w2)"
        using steady_trans [OF sameBuilds_steady [OF same] sameBuilds_steady [OF cleanup_same]] by simp
      then show ?thesis using q by (simp add: createBuild_def Inr b0_def [symmetric] p ins Inl Let_def)
    next
      case t: (Inr u)
      obtain b1 where b1: "db_builds d2 = db_builds (bw_db w1) @ [b1]" "b_ID b1 = b_ID b" "b_Status b1 = BuildStatusPending"
          "b_ID b \<notin> b_ID ` set (db_builds (bw_db w1))" "db_idempotency d2 = db_idempotency (bw_db w1)"
        using insertBuild_rows [OF i] t b by auto
      have d2: "distinct (map b_ID (db_builds (bw_db w2)))" using b1 d rows by (simp add: w2_def)
      have "steady w1 w2" using b1 d2 by (auto simp: steady_def w2_def advances_def intro!: bexI [of _ r for r])
      moreover have "steady w2 (fst (submitBuild x cfg eng (bi_submit bi) spec b w2))" for spec
        using builtOn_steady [OF submitBuild_builtOn [OF d2, of b1 b]] b1 by (simp add: w2_def)
      ultimately have "steady w (fst (submitBuild x cfg eng (bi_submit bi) spec b w2))" for spec
        using steady_trans [OF sameBuilds_steady [OF same]] steady_trans by blast
      then show ?thesis using q by (simp add: createBuild_def Inr b0_def [symmetric] p ins t Let_def case_prod_beta)
    qed
  qed
qed (simp add: createBuild_def)

section \<open>Idempotent creation\<close>

lemma selectFirst_append_Some: "selectFirst P xs = Some y \<Longrightarrow> selectFirst P (xs @ ys) = Some y"
  by (induction xs) (auto simp: selectFirst_def split: if_splits)

text \<open>\<open>claimed d key e\<close>: the key has been used and its request answered.\<close>

definition claimed :: "db \<Rightarrow> string \<Rightarrow> IdempotencyRecord \<Rightarrow> bool" where
  "claimed d key e \<longleftrightarrow> selectFirst (idempotencyKey idempotencyScope key) (db_idempotency d) = Some e \<and> ir_ResponseBody e \<noteq> []"

definition progress :: "buildWorld \<Rightarrow> buildWorld \<Rightarrow> bool" where
  "progress w w' \<longleftrightarrow> advances (db_builds (bw_db w)) (db_builds (bw_db w'))
     \<and> (distinct (map b_ID (db_builds (bw_db w))) \<longrightarrow> distinct (map b_ID (db_builds (bw_db w')))) \<and> grows (bw_sensitive w) (bw_sensitive w')
     \<and> (\<forall>key e. claimed (bw_db w) key e \<longrightarrow> claimed (bw_db w') key e)"

lemma progress_refl [simp]: "progress w w" by (simp add: progress_def)

lemma progress_trans: "progress w w1 \<Longrightarrow> progress w1 w2 \<Longrightarrow> progress w w2"
  unfolding progress_def using advances_trans grows_trans by blast

lemma steady_progress: "steady w w' \<Longrightarrow> progress w w'"
  by (simp add: steady_def progress_def claimed_def)

lemma Reserve_progress:
  assumes "onDb (IdempotencyStore_Reserve io idempotencyScope key h ttl) w = (w1, r)"
  shows "progress w w1" and "db_builds (bw_db w1) = db_builds (bw_db w)" and "w1 = w\<lparr>bw_db := bw_db w1\<rparr>"
proof -
  obtain d where d: "IdempotencyStore_Reserve io idempotencyScope key h ttl (bw_db w) = (d, r)" "w1 = w\<lparr>bw_db := d\<rparr>"
    using assms by (auto simp: onDb_def split: prod.splits)
  have "db_builds d = db_builds (bw_db w) \<and> (\<exists>rs. db_idempotency d = db_idempotency (bw_db w) @ rs)"
  proof (cases r)
    case (Inl e)
    then show ?thesis using d(1) by (auto simp: IdempotencyStore_Reserve_def dest: WithTx_Inl)
  next
    case (Inr q)
    then show ?thesis using IdempotencyStore_Reserve_Inr [OF d(1) [unfolded Inr]] by (auto split: option.splits)
  qed
  then have "db_builds d = db_builds (bw_db w)" "\<And>k e. claimed (bw_db w) k e \<Longrightarrow> claimed d k e"
    by (auto simp: claimed_def selectFirst_append_Some)
  with d(2) show "progress w w1" "db_builds (bw_db w1) = db_builds (bw_db w)" "w1 = w\<lparr>bw_db := bw_db w1\<rparr>"
    by (simp_all add: progress_def)
qed

lemma Complete_claims:
  assumes "claimed (bw_db w) k e" and "k \<noteq> key"
  shows "claimed (bw_db (ignoring (IdempotencyStore_Complete io idempotencyScope key st body) w)) k e"
proof -
  have "selectFirst (idempotencyKey idempotencyScope k) (updateWhere (idempotencyKey idempotencyScope key)
      (\<lambda>r. r\<lparr>ir_ResponseStatus := st, ir_ResponseBody := body\<rparr>) (db_idempotency (bw_db w))) = Some e"
    using assms selectFirst_SomeD [of "idempotencyKey idempotencyScope k" "db_idempotency (bw_db w)" e]
    by (subst selectFirst_updateWhere) (auto simp: idempotencyKey_def claimed_def)
  with assms show ?thesis by (auto simp: ignoring_def IdempotencyStore_Complete_def claimed_def split: sum.splits)
qed

lemma Complete_progress:
  assumes "progress w w1" and "selectFirst (idempotencyKey idempotencyScope key) (db_idempotency (bw_db w)) = None"
  shows "progress w (ignoring (IdempotencyStore_Complete io idempotencyScope key st body) w1)"
proof -
  have "db_builds (bw_db (ignoring (IdempotencyStore_Complete io idempotencyScope key st body) w1)) = db_builds (bw_db w1)"
    "bw_sensitive (ignoring (IdempotencyStore_Complete io idempotencyScope key st body) w1) = bw_sensitive w1"
    by (auto simp: ignoring_def IdempotencyStore_Complete_def split: sum.splits)
  with assms show ?thesis unfolding progress_def using Complete_claims [of w1]
    by (metis claimed_def option.distinct(1))
qed

text \<open>How a request with a key is answered.\<close>

lemma Reserve_cases:
  assumes "onDb (IdempotencyStore_Reserve io idempotencyScope key h ttl) w = (w1, Inr found)"
  obtains (found) e where "found = Some e" "w1 = w" "selectFirst (idempotencyKey idempotencyScope key) (db_idempotency (bw_db w)) = Some e"
  | (new) e where "found = None" "selectFirst (idempotencyKey idempotencyScope key) (db_idempotency (bw_db w)) = None"
      "selectFirst (idempotencyKey idempotencyScope key) (db_idempotency (bw_db w1)) = Some e" "ir_RequestHash e = h"
proof -
  obtain d where d: "IdempotencyStore_Reserve io idempotencyScope key h ttl (bw_db w) = (d, Inr found)" "w1 = w\<lparr>bw_db := d\<rparr>"
    using assms by (auto simp: onDb_def split: prod.splits)
  show thesis
  proof (cases found)
    case None
    then show thesis using IdempotencyStore_Reserve_Inr [OF d(1)] d(2)
      by (intro new) (auto simp: selectFirst_append_new idempotencyKey_def)
  next
    case (Some e)
    then show thesis using IdempotencyStore_Reserve_Inr [OF d(1)] d(2) by (intro found) auto
  qed
qed

lemma Builds_Create_progress:
  assumes d: "distinct (map b_ID (db_builds (bw_db w)))"
  shows "progress w (fst (Builds_Create x cfg eng actor ownerID r0 key bi w))"
proof (cases "validateCreate x cfg r0")
  case (Inr p)
  obtain r imageRepo where p: "p = (r, imageRepo)" by (cases p)
  show ?thesis
  proof (cases "key = []")
    case True
    then show ?thesis using steady_progress [OF createBuild_steady [OF d]] by (simp add: Builds_Create_def Inr p)
  next
    case False
    obtain w1 q where rs: "onDb (IdempotencyStore_Reserve (bi_create bi) idempotencyScope key (hashRequest x r) idempotencyTTL) w = (w1, q)" by (metis surj_pair)
    note w1 = Reserve_progress [OF rs]
    have p1: "progress w (fst (createBuild x cfg eng actor ownerID r imageRepo bi w1))"
      using progress_trans [OF w1(1) steady_progress [OF createBuild_steady]] d w1(2) by simp
    obtain w2 c where cb: "createBuild x cfg eng actor ownerID r imageRepo bi w1 = (w2, c)" by (metis surj_pair)
    show ?thesis
    proof (cases q)
      case q: (Inr found)
      from rs [unfolded q] show ?thesis
      proof (cases rule: Reserve_cases)
        case new
        then show ?thesis using p1 Complete_progress [OF p1 new(2)] False
          by (cases c) (simp_all add: Builds_Create_def Inr p rs q cb)
      qed (use False in \<open>simp add: Builds_Create_def Inr p rs q\<close>)
    qed (use False w1 in \<open>simp add: Builds_Create_def Inr p rs\<close>)
  qed
qed (simp add: Builds_Create_def)

text \<open>A build that was created is in the table, under the identifier that was returned.\<close>

lemma submitBuild_ID: "b_ID (snd (submitBuild x cfg eng io spec b w)) = b_ID b"
  by (simp add: submitBuild_def Let_def split: option.splits)

lemma createBuild_Inr:
  assumes d: "distinct (map b_ID (db_builds (bw_db w)))" and c: "createBuild x cfg eng actor ownerID r imageRepo bi w = (w', Inr b)"
  shows "b_ID b \<in> b_ID ` set (db_builds (bw_db w'))"
proof -
  obtain w1 b1 spec where p: "provisionRegistryPush x cfg actor bi (newBuild cfg (bi_create bi) ownerID r imageRepo) w = (w1, Inr b1)"
    and rest: "(case onDb (insertBuild x actor (bi_create bi) r b1) w1 of (w2, Inl e) \<Rightarrow> (cleanupRegistryPush x cfg (bi_revoke bi) b1 w2, Inl e)
      | (w2, Inr _) \<Rightarrow> (case submitBuild x cfg eng (bi_submit bi) spec b1 w2 of (w3, b') \<Rightarrow> (w3, Inr b'))) = (w', Inr b)"
    using c unfolding createBuild_def Let_def by (cases "resolveGit x cfg r w") (auto simp: thenW_Inr)
  obtain w2 q where q: "onDb (insertBuild x actor (bi_create bi) r b1) w1 = (w2, q)" by (metis surj_pair)
  with rest obtain u where i: "onDb (insertBuild x actor (bi_create bi) r b1) w1 = (w2, Inr u)" by (cases q) auto
  with rest have s: "submitBuild x cfg eng (bi_submit bi) spec b1 w2 = (w', b)" by (auto split: prod.splits)
  have same: "db_builds (bw_db w1) = db_builds (bw_db w)"
    using provision_same [of w x cfg actor bi "newBuild cfg (bi_create bi) ownerID r imageRepo"] by (simp add: p sameBuilds_def)
  obtain d2 where d2: "insertBuild x actor (bi_create bi) r b1 (bw_db w1) = (d2, Inr u)" "w2 = w1\<lparr>bw_db := d2\<rparr>"
    using i by (auto simp: onDb_def split: prod.splits)
  obtain r1 where r1: "db_builds d2 = db_builds (bw_db w1) @ [r1]" "b_ID r1 = b_ID b1" "b_Status r1 = BuildStatusPending" "b_ID b1 \<notin> b_ID ` set (db_builds (bw_db w1))"
    using insertBuild_rows [OF d2(1)] provision_result(2) [OF p] by (auto simp: newBuild_def)
  have "builtOn w2 (b_ID b1) w'"
    using submitBuild_builtOn [of w2 r1 b1 x cfg eng "bi_submit bi" spec] s d same r1 d2(2) by simp
  then have "map b_ID (db_builds (bw_db w')) = map b_ID (db_builds d2)" by (simp add: builtOn_def d2(2))
  then have "b_ID ` set (db_builds (bw_db w')) = b_ID ` set (db_builds d2)" by (metis set_map)
  moreover have "b_ID b = b_ID b1" using submitBuild_ID [of x cfg eng "bi_submit bi" spec b1 w2] s by simp
  ultimately show ?thesis using r1 by simp
qed

lemma Builds_Create_claims:
  assumes d: "distinct (map b_ID (db_builds (bw_db w)))" and c: "Builds_Create x cfg eng actor ownerID r0 key bi w = (w', Inr b)"
    and v: "validateCreate x cfg r0 = Inr (r, imageRepo)" and k: "key \<noteq> []" and b: "b_ID b \<noteq> []" and io: "\<not> io_fault (bi_submit bi) ''IdempotencyStore.Complete''"
  shows "\<exists>e. claimed (bw_db w') key e \<and> ir_RequestHash e = hashRequest x r \<and> ir_ResponseBody e = b_ID b" and "b_ID b \<in> b_ID ` set (db_builds (bw_db w'))"
proof -
  obtain w1 found where rs: "onDb (IdempotencyStore_Reserve (bi_create bi) idempotencyScope key (hashRequest x r) idempotencyTTL) w = (w1, Inr found)"
    using c k unfolding Builds_Create_def v by (auto simp: thenW_Inr)
  from rs have "(\<exists>e. claimed (bw_db w') key e \<and> ir_RequestHash e = hashRequest x r \<and> ir_ResponseBody e = b_ID b) \<and> b_ID b \<in> b_ID ` set (db_builds (bw_db w'))"
  proof (cases rule: Reserve_cases)
    case (found e)
    then have e: "ir_RequestHash e = hashRequest x r" "ir_ResponseBody e \<noteq> []" "BuildStore_Get (bi_create bi) (ir_ResponseBody e) (bw_db w) = Inr b" "w' = w"
      using c k unfolding Builds_Create_def v by (auto simp: rs split: if_splits)
    from e(3) have "b \<in> set (db_builds (bw_db w))" "b_ID b = ir_ResponseBody e"
      by (auto simp: BuildStore_Get_def dest!: selectFirst_SomeD split: option.splits)
    with e found show ?thesis by (auto simp: claimed_def intro!: image_eqI [of _ _ b])
  next
    case (new e)
    obtain w2 where w2: "createBuild x cfg eng actor ownerID r imageRepo bi w1 = (w2, Inr b)"
        "w' = ignoring (IdempotencyStore_Complete (bi_submit bi) idempotencyScope key 201 (b_ID b)) w2"
      using c k new(1) unfolding Builds_Create_def v by (auto simp: rs thenW_Inr)
    have d1: "distinct (map b_ID (db_builds (bw_db w1)))" using d Reserve_progress(2) [OF rs] by simp
    have same: "db_idempotency (bw_db w2) = db_idempotency (bw_db w1)"
      using createBuild_steady [OF d1, of x cfg eng actor ownerID r imageRepo bi] by (simp add: w2(1) steady_def)
    have in2: "e \<in> set (db_idempotency (bw_db w2))" "idempotencyKey idempotencyScope key e" using selectFirst_SomeD [OF new(3)] same by auto
    let ?f = "\<lambda>r. r\<lparr>ir_ResponseStatus := 201, ir_ResponseBody := b_ID b\<rparr>"
    have w': "bw_db w' = (bw_db w2)\<lparr>db_idempotency := updateWhere (idempotencyKey idempotencyScope key) ?f (db_idempotency (bw_db w2))\<rparr>"
      using io in2 by (auto simp add: w2(2) ignoring_def IdempotencyStore_Complete_def stmt_def require_def)
    have "selectFirst (idempotencyKey idempotencyScope key) (db_idempotency (bw_db w')) = Some (?f e)"
      using new(3) in2(2) same by (simp add: w', subst selectFirst_updateWhere) (auto simp: idempotencyKey_def)
    with b new(4) have "claimed (bw_db w') key (?f e)" "ir_RequestHash (?f e) = hashRequest x r" "ir_ResponseBody (?f e) = b_ID b" by (simp_all add: claimed_def)
    moreover have "b_ID b \<in> b_ID ` set (db_builds (bw_db w'))" using createBuild_Inr [OF d1 w2(1)] by (simp add: w')
    ultimately show ?thesis by blast
  qed
  then show "\<exists>e. claimed (bw_db w') key e \<and> ir_RequestHash e = hashRequest x r \<and> ir_ResponseBody e = b_ID b" "b_ID b \<in> b_ID ` set (db_builds (bw_db w'))" by blast+
qed

section \<open>Reachable worlds\<close>

inductive build_step :: "ext \<Rightarrow> buildConfig \<Rightarrow> buildWorld \<Rightarrow> buildWorld \<Rightarrow> bool" for x cfg where
  create: "build_step x cfg w (fst (Builds_Create x cfg eng actor ownerID r key bi w))"
| get: "build_step x cfg w (fst (Builds_Get x cfg eng bid io w))"
| list: "build_step x cfg w (fst (Builds_List x cfg eng flt ios w))"
| cancel: "build_step x cfg w (fst (Builds_Cancel x cfg eng actor bid io w))"
| reconcileAll: "build_step x cfg w (fst (ReconcileAll x cfg eng ios w))"

inductive build_reachable :: "ext \<Rightarrow> buildConfig \<Rightarrow> buildWorld \<Rightarrow> buildWorld \<Rightarrow> bool" for x cfg where
  start: "build_reachable x cfg w w"
| step: "build_reachable x cfg w w1 \<Longrightarrow> build_step x cfg w1 w2 \<Longrightarrow> build_reachable x cfg w w2"

lemma build_step_progress: "build_step x cfg w w' \<Longrightarrow> distinct (map b_ID (db_builds (bw_db w))) \<Longrightarrow> progress w w'"
  by (induction rule: build_step.induct)
    (auto intro: Builds_Create_progress steady_progress Builds_Get_steady Builds_List_steady Builds_Cancel_steady ReconcileAll_steady)

lemma build_reachable_progress:
  assumes "build_reachable x cfg w w'" and "distinct (map b_ID (db_builds (bw_db w)))"
  shows "progress w w'" and "distinct (map b_ID (db_builds (bw_db w')))"
proof -
  have "progress w w' \<and> distinct (map b_ID (db_builds (bw_db w')))"
    using assms
  proof (induction rule: build_reachable.induct)
    case (step w w1 w2)
    then have p: "progress w w1" "distinct (map b_ID (db_builds (bw_db w1)))" by auto
    then have "progress w1 w2" using build_step_progress [OF step.hyps(2)] by simp
    moreover from this p have "distinct (map b_ID (db_builds (bw_db w2)))" by (simp add: progress_def)
    ultimately show ?case using progress_trans [OF p(1)] by blast
  qed simp
  then show "progress w w'" "distinct (map b_ID (db_builds (bw_db w')))" by simp_all
qed

text \<open>
  C23. Builds only move forward. From a start with no builds, whatever requests (creating,
  reading, listing, cancelling, periodic reconciliation) follow, whatever the workflow engine
  answers and whichever database or secret operations fail: no build row disappears, what a
  build was asked to build and for whom never changes, a running build is never pending again,
  and a build that has succeeded, failed, been cancelled or timed out is never changed again.
\<close>

theorem builds_only_move_forward:
  assumes "db_builds (bw_db w0) = []" and "build_reachable x cfg w0 w" and "build_reachable x cfg w w'" and r: "r \<in> set (db_builds (bw_db w))"
  shows "\<exists>r'\<in>set (db_builds (bw_db w')). buildIdentity r' = buildIdentity r
     \<and> (b_Status r = BuildStatusRunning \<longrightarrow> b_Status r' \<noteq> BuildStatusPending) \<and> (Terminal (b_Status r) \<longrightarrow> r' = r)"
proof -
  have "distinct (map b_ID (db_builds (bw_db w)))" using build_reachable_progress(2) [OF assms(2)] assms(1) by simp
  from build_reachable_progress(1) [OF assms(3) this] r show ?thesis by (auto simp: progress_def advances_def follows_def)
qed

text \<open>A configured service, for evaluating the model: one builder image, workspace storage and a registry to push to.\<close>

definition sampleBuilds :: buildConfig where
  "sampleBuilds = \<lparr>bc_allowedGitHosts = [''github.com''], bc_allowedBuilderImages = [''b@sha256:1''], bc_defaultDeadline = Hour,
     bc_workspaceRootDir = ''/w'', bc_workspaceClaimName = ''c'', bc_builderGit = None,
     bc_registryPush = Some \<lparr>rp_Host = ''registry'', rp_TLSVerify = ''true'', rp_Namespace = ''builds''\<rparr>, bc_keys = ss_keys sampleService\<rparr>"

definition sampleRequest :: CreateRequest where
  "sampleRequest = \<lparr>cr_SourceRepoURL = ''r'', cr_SourceCommitSHA = [], cr_WorkspaceName = ''w'', cr_WorkspaceRepo = ''r'', cr_Execution = [],
     cr_Args = None, cr_WorkingDirectory = [], cr_ContainerfilePath = [], cr_ImageRepository = ''app'', cr_ImageTag = ''1'',
     cr_BuilderImageDigest = [], cr_SourceCredentialRef = [], cr_SourceCredentialSecret = [], cr_KnownHostsSecret = []\<rparr>"

definition sampleEngine :: "wfStatus result \<Rightarrow> engine" where
  "sampleEngine st = \<lparr>en_Submit = (\<lambda>_. None), en_Status = (\<lambda>_. st), en_Logs = (\<lambda>_. Inr ''step 1''), en_Cancel = (\<lambda>_. Inr ())\<rparr>"

definition sampleBuildIO :: buildIO where
  "sampleBuildIO = \<lparr>bi_create = sampleIO\<lparr>io_newID := ''b1''\<rparr>, bi_token = sampleIO\<lparr>io_newID := ''t1'', io_eventID := ''e2''\<rparr>,
     bi_revoke = sampleIO\<lparr>io_eventID := ''e3''\<rparr>, bi_submit = sampleIO\<lparr>io_eventID := ''e4''\<rparr>\<rparr>"

definition sampleWorld :: buildWorld where
  "sampleWorld = \<lparr>bw_db = sampleDb, bw_secrets = [], bw_sensitive = [], bw_calls = []\<rparr>"

definition sampleCreated :: "buildWorld \<times> Build result" where
  "sampleCreated = Builds_Create sampleExt sampleBuilds (sampleEngine (Inl ErrWorkflowNotFound)) SystemActor ''u1'' sampleRequest ''k'' sampleBuildIO sampleWorld"

fun createdFacts :: "buildWorld \<times> Build result \<Rightarrow> (string \<times> BuildStatus) list \<times> (unit + string) \<times> (string \<times> string option) list" where
  "createdFacts (w, r) = (map (\<lambda>b. (b_ID b, b_Status b)) (db_builds (bw_db w)), map_sum (\<lambda>_. ()) b_ID r,
     map (\<lambda>(n, s). (n, se_Data s ''token'')) (bw_secrets w))"

lemma sampleCreated_facts:
  "createdFacts sampleCreated = ([(''b1'', BuildStatusRunning)], Inr ''b1'', [(''build-registry-b1'', Some (fst sampleToken))])"
  by code_simp

lemma sampleCreated_outcome:
  "map (\<lambda>b. (b_ID b, b_Status b)) (db_builds (bw_db (fst sampleCreated))) = [(''b1'', BuildStatusRunning)]"
  "map_sum (\<lambda>_. ()) b_ID (snd sampleCreated) = Inr ''b1''"
  "map (\<lambda>(n, s). (n, se_Data s ''token'')) (bw_secrets (fst sampleCreated)) = [(''build-registry-b1'', Some (fst sampleToken))]"
  using sampleCreated_facts createdFacts.simps [of "fst sampleCreated" "snd sampleCreated"] unfolding prod.collapse by simp_all

lemma sampleCreated_reachable: "build_reachable sampleExt sampleBuilds sampleWorld (fst sampleCreated)"
  unfolding sampleCreated_def by (rule build_reachable.step [OF build_reachable.start build_step.create])

lemma sampleWorld_empty [simp]: "db_builds (bw_db sampleWorld) = []" "bw_secrets sampleWorld = []" "bw_sensitive sampleWorld = []"
  by (simp_all add: sampleWorld_def sampleDb_def emptyDb_def)

theorem builds_only_move_forward_witness:
  "\<exists>r'\<in>set (db_builds (bw_db (fst (Builds_Get sampleExt sampleBuilds (sampleEngine (Inl ErrWorkflowNotFound)) ''b1'' sampleIO (fst sampleCreated))))).
     b_ID r' = ''b1'' \<and> b_Status r' \<noteq> BuildStatusPending"
proof -
  have r': "build_reachable sampleExt sampleBuilds (fst sampleCreated)
      (fst (Builds_Get sampleExt sampleBuilds (sampleEngine (Inl ErrWorkflowNotFound)) ''b1'' sampleIO (fst sampleCreated)))"
    by (rule build_reachable.step [OF build_reachable.start build_step.get])
  obtain r where r: "db_builds (bw_db (fst sampleCreated)) = [r]" "b_Status r = BuildStatusRunning" "b_ID r = ''b1''"
    using sampleCreated_outcome(1) by auto
  from builds_only_move_forward [OF sampleWorld_empty(1) sampleCreated_reachable r', of r] r show ?thesis by (auto simp: buildIdentity_def)
qed

end
