(* ===== verification/BuildGuarantees.thy ===== *)
theory BuildGuarantees
  imports BuildLife
begin

text \<open>
  What the build service promises its callers: a repeated request is answered with the build
  it already made, the token a build pushes with is never shown, and it ends with the build.
\<close>

section \<open>Repeated requests\<close>

lemma build_reachable_trans: "build_reachable x cfg w1 w2 \<Longrightarrow> build_reachable x cfg w w1 \<Longrightarrow> build_reachable x cfg w w2"
  by (induction rule: build_reachable.induct) (auto intro: build_reachable.step)

lemma replayed:
  assumes v: "validateCreate x cfg r' = Inr (n', repo')" and e: "claimed (bw_db w) key e" and k: "key \<noteq> []"
    and calm: "\<And>s. \<not> io_fault (bi_create bi) s"
  shows "Builds_Create x cfg eng actor owner r' key bi w =
     (w, if ir_RequestHash e = hashRequest x n' then BuildStore_Get (bi_create bi) (ir_ResponseBody e) (bw_db w) else Inl ErrIdempotencyKeyReused)"
proof -
  have "onDb (IdempotencyStore_Reserve (bi_create bi) idempotencyScope key (hashRequest x n') idempotencyTTL) w = (w, Inr (Some e))"
    using e calm by (simp add: onDb_def IdempotencyStore_Reserve_def WithTx_def claimed_def stmt_def)
  with k e show ?thesis by (simp add: Builds_Create_def v claimed_def)
qed



section \<open>The token a build pushes with is never shown\<close>

lemma b64_char_plain: "b64Alphabet c \<Longrightarrow> c \<noteq> CHR ''['' \<and> c \<noteq> CHR '']'' \<and> (of_char c :: int) < 128 \<and> \<not> asciiSpace c"
  by (auto simp: b64Alphabet_def b64Val_def Let_def inRange_def asciiSpace_def isSpace_def split: if_splits)

lemma set_GenerateAPIToken:
  assumes "GenerateAPIToken io = Inr (raw, l, s)"
  shows "\<And>c. c \<in> set raw \<Longrightarrow> c \<noteq> CHR ''['' \<and> c \<noteq> CHR '']'' \<and> (of_char c :: int) < 128 \<and> \<not> asciiSpace c" and "CHR ''a'' \<in> set raw"
proof -
  obtain p q where raw: "raw = ''apt_'' @ EncodeToString p @ CHR ''.'' # EncodeToString q"
    using assms by (auto simp: GenerateAPIToken_def generateLookupSecretPair_def APITokenPrefix_def Let_def)
  show "c \<noteq> CHR ''['' \<and> c \<noteq> CHR '']'' \<and> (of_char c :: int) < 128 \<and> \<not> asciiSpace c" if "c \<in> set raw" for c
    using that b64_char_plain [of c] EncodeToString_alphabet [of c] unfolding raw by (auto simp: asciiSpace_def isSpace_def inRange_def)
  show "CHR ''a'' \<in> set raw" by (simp add: raw)
qed

lemma token_hideable:
  assumes "GenerateAPIToken io = Inr (raw, l, s)"
  shows "hideable raw" and "TrimSpace raw = raw"
proof -
  note c = set_GenerateAPIToken [OF assms]
  have "\<not> Contains ''REDACTED'' raw"
  proof
    assume "Contains ''REDACTED'' raw"
    then obtain p q where "''REDACTED'' = p @ raw @ q" by (auto simp: Contains_iff)
    then have "CHR ''a'' \<in> set ''REDACTED''" using c(2) by (metis Un_iff set_append)
    then show False by simp
  qed
  then show "hideable raw" using c by (auto simp: hideable_def)
  show "TrimSpace raw = raw" using c(1) by (intro TrimSpace_id) (auto simp: ascii_def list_all_iff)
qed

definition pushTokensHidden :: "buildWorld \<Rightarrow> bool" where
  "pushTokensHidden w \<longleftrightarrow> trimmed (bw_sensitive w) \<and> (\<forall>n s raw. (n, s) \<in> set (bw_secrets w) \<longrightarrow> HasPrefix n registrySecretPrefix \<longrightarrow>
     se_Data s ''token'' = Some raw \<longrightarrow> raw \<in> set (bw_sensitive w) \<and> hideable raw)"

text \<open>Every step but the provisioning of a token leaves the secrets alone or deletes some.\<close>

definition noNewSecrets :: "buildWorld \<Rightarrow> buildWorld \<Rightarrow> bool" where
  "noNewSecrets w w' \<longleftrightarrow> set (bw_secrets w') \<subseteq> set (bw_secrets w) \<and> bw_sensitive w' = bw_sensitive w"

lemma noNewSecrets_refl [simp]: "noNewSecrets w w" by (simp add: noNewSecrets_def)

lemma noNewSecrets_trans: "noNewSecrets w w1 \<Longrightarrow> noNewSecrets w1 w2 \<Longrightarrow> noNewSecrets w w2" by (auto simp: noNewSecrets_def)

lemma noNewSecrets_hidden: "noNewSecrets w w' \<Longrightarrow> pushTokensHidden w \<Longrightarrow> pushTokensHidden w'"
  unfolding noNewSecrets_def pushTokensHidden_def by (metis subsetD)

lemma noNewSecrets_basic [simp]:
  "noNewSecrets w (w\<lparr>bw_db := d\<rparr>)" "noNewSecrets w (w\<lparr>bw_calls := c\<rparr>)" "noNewSecrets w (cancelCall n w)" "noNewSecrets w (ignoring f w)"
  "noNewSecrets w (secretDelete io ns n w)" "noNewSecrets w (fst (onDb g w))"
  by (auto simp: noNewSecrets_def cancelCall_def ignoring_def secretDelete_def memoryDelete_def AList.delete_eq onDb_def split: sum.splits prod.splits)

lemma cleanup_noNewSecrets [simp]: "noNewSecrets w (cleanupRegistryPush x cfg io b w)"
  unfolding cleanupRegistryPush_def Let_def
  using noNewSecrets_trans [OF noNewSecrets_basic(6) noNewSecrets_basic(5)] by (auto split: option.splits)

lemma finishBuild_noNewSecrets [simp]: "noNewSecrets w (fst (finishBuild x cfg io b st rs ms w))"
  unfolding finishBuild_def Let_def using noNewSecrets_trans [OF noNewSecrets_basic(1) cleanup_noNewSecrets] by (auto split: sum.splits)

lemma finishBuild_cancelled [simp]: "noNewSecrets w (fst (finishBuild x cfg io b st rs ms (cancelCall n w)))"
  by (rule noNewSecrets_trans [OF noNewSecrets_basic(3) finishBuild_noNewSecrets])

lemma reconcile_noNewSecrets: "noNewSecrets w (fst (reconcile x cfg eng io b w))"
proof -
  define w1 where "w1 = (if b_CancelRequested b then cancelCall (b_WorkflowName b) w else w)"
  have w1: "noNewSecrets w w1" by (simp add: w1_def)
  have db: "noNewSecrets w (w1\<lparr>bw_db := d\<rparr>)" for d using noNewSecrets_trans [OF w1 noNewSecrets_basic(1)] .
  have fin: "noNewSecrets w (fst (finishBuild x cfg io b st rs ms w1))" for st rs ms
    using noNewSecrets_trans [OF w1 finishBuild_noNewSecrets] .
  have succ: "noNewSecrets w (fst (case finishBuild x cfg io b st rs ms w1 of (w2, Inl e) \<Rightarrow> (w2, Inl e) | (w2, Inr b') \<Rightarrow> (w2, Inr (g b'))))"
    for st rs ms and g :: "Build \<Rightarrow> Build"
    using fin [of st rs ms] by (auto split: prod.splits sum.splits)
  show ?thesis
    unfolding reconcile_def Let_def w1_def [symmetric] using w1 db fin succ
    by (auto split: sum.splits Phase.splits)
qed

lemma reconcileEach_noNewSecrets: "noNewSecrets w (fst (reconcileEach x cfg eng ios k bs w))"
proof (induction bs arbitrary: k w)
  case (Cons b bs)
  obtain w1 q where r: "reconcile x cfg eng (ios k) b w = (w1, q)" by (metis surj_pair)
  obtain w2 q2 where rs: "reconcileEach x cfg eng ios (Suc k) bs w1 = (w2, q2)" by (metis surj_pair)
  have "noNewSecrets w w1" "noNewSecrets w1 w2" using reconcile_noNewSecrets [of w x cfg eng "ios k" b] Cons [of w1 "Suc k"] by (simp_all add: r rs)
  then show ?case using noNewSecrets_trans by (cases q; cases q2) (auto simp: r rs)
qed simp

lemma reading_noNewSecrets:
  "noNewSecrets w (fst (Builds_Get x cfg eng bid io w))" "noNewSecrets w (fst (Builds_List x cfg eng flt ios w))"
  "noNewSecrets w (fst (ReconcileAll x cfg eng ios w))"
proof -
  show "noNewSecrets w (fst (Builds_Get x cfg eng bid io w))"
    using reconcile_noNewSecrets by (auto simp: Builds_Get_def split: sum.splits)
  show "noNewSecrets w (fst (Builds_List x cfg eng flt ios w))"
    using reconcileEach_noNewSecrets by (auto simp: Builds_List_def split: sum.splits)
  show "noNewSecrets w (fst (ReconcileAll x cfg eng ios w))"
  proof (cases "BuildStore_ListReconcilable (ios 0) (bw_db w)")
    case (Inr bs)
    obtain w1 q where r: "reconcileEach x cfg eng ios 1 bs w = (w1, q)" by (metis surj_pair)
    have "noNewSecrets w w1" using reconcileEach_noNewSecrets [of w x cfg eng ios 1 bs] unfolding r by simp
    then show ?thesis using r by (cases q) (simp_all add: ReconcileAll_def Inr)
  qed (simp add: ReconcileAll_def)
qed

lemma thenW_noNewSecrets:
  "noNewSecrets w (fst p) \<Longrightarrow> (\<And>a w1. noNewSecrets w1 (fst (f a w1))) \<Longrightarrow> noNewSecrets w (fst (thenW p f))"
  by (cases "(p, f)" rule: thenW.cases) (auto intro: noNewSecrets_trans)

lemma Builds_Cancel_noNewSecrets: "noNewSecrets w (fst (Builds_Cancel x cfg eng actor bid io w))"
  unfolding Builds_Cancel_def
  by (auto split: sum.splits intro!: thenW_noNewSecrets reconcile_noNewSecrets)

lemma submitBuild_noNewSecrets: "noNewSecrets w (fst (submitBuild x cfg eng io spec b w))"
proof -
  define v where "v = w\<lparr>bw_calls := bw_calls w @ [CallSubmit spec]\<rparr>"
  have v: "noNewSecrets w v" by (simp add: v_def)
  have 1: "noNewSecrets w (ignoring f (ignoring g v))" for f g
    using noNewSecrets_trans [OF v noNewSecrets_trans [OF noNewSecrets_basic(4) noNewSecrets_basic(4)]] .
  have 2: "noNewSecrets w (ignoring f (cleanupRegistryPush x cfg io b v))" for f
    using noNewSecrets_trans [OF v noNewSecrets_trans [OF cleanup_noNewSecrets noNewSecrets_basic(4)]] .
  show ?thesis unfolding submitBuild_def Let_def v_def [symmetric] using 1 2 by (simp split: option.splits)
qed

lemma Tokens_Create_raw:
  assumes "Tokens_Create x keys actor owner name ttl scopes io d = (d', Inr (raw, t))"
  shows "\<exists>l s. GenerateAPIToken io = Inr (raw, l, s)"
  using assms unfolding Tokens_Create_def guarded_Inr
  by (auto simp: insertToken_def newToken_def Let_def dest!: WithTx_Inr split: if_splits)

lemma add_sensitive:
  assumes "pushTokensHidden w" and g: "GenerateAPIToken io = Inr (raw, l, s)"
  shows "pushTokensHidden (w\<lparr>bw_db := d, bw_sensitive := normalizeSensitiveValues (bw_sensitive w @ [raw])\<rparr>)"
    and "raw \<in> set (normalizeSensitiveValues (bw_sensitive w @ [raw]))"
proof -
  have gr: "grows (bw_sensitive w) (normalizeSensitiveValues (bw_sensitive w @ [raw]))" by (rule normalized_grows)
  with assms(1) show "pushTokensHidden (w\<lparr>bw_db := d, bw_sensitive := normalizeSensitiveValues (bw_sensitive w @ [raw])\<rparr>)"
    unfolding pushTokensHidden_def grows_def by auto
  show "raw \<in> set (normalizeSensitiveValues (bw_sensitive w @ [raw]))"
    using token_hideable [OF g] by (auto simp: set_normalizeSensitiveValues hideable_def image_iff)
qed

lemma store_hidden:
  assumes "pushTokensHidden w" and "hideable raw" "raw \<in> set (bw_sensitive w)" and "se_Data sec ''token'' = Some raw"
  shows "pushTokensHidden (w\<lparr>bw_secrets := fst (memoryUpsert ns n sec (bw_secrets w))\<rparr>)"
proof -
  have "(m, s) = (n, y) \<or> (m, s) \<in> set xs" if "(m, s) \<in> set (AList.update n y xs)" for m s y and xs :: secretMap
    using that by (induction xs) (auto split: if_splits)
  then show ?thesis using assms unfolding pushTokensHidden_def memoryUpsert_def by fastforce
qed

lemma provision_hidden:
  assumes h: "pushTokensHidden w"
  shows "pushTokensHidden (fst (provisionRegistryPush x cfg actor bi b w))"
proof (cases "bc_registryPush cfg")
  case (Some rp)
  define q where "q = andThen (UserStore_Get (bi_token bi) (b_OwnerID b) (bw_db w)) (\<lambda>user.
      let username = TrimSpace (u_Username user) in if username = [] then Inl (ErrMessage ''owner username is empty'') else Inr username)"
  define create where "create = Tokens_Create x (bc_keys cfg) actor (b_OwnerID b) (''bld-'' @ b_ID b)
      (pushTokenTTL (io_now (bi_token bi)) (b_DeadlineAt b)) (Some [''artifacts.read'', ''artifacts.write'']) (bi_token bi)"
  obtain d r where t: "create (bw_db w) = (d, r)" by (metis surj_pair)
  have tw: "onDb create w = (w\<lparr>bw_db := d\<rparr>, r)" by (simp add: onDb_def t)
  note start = provisionRegistryPush_def [of x cfg actor bi b w, unfolded Some option.case q_def [symmetric] create_def [symmetric] tw]
  show ?thesis
  proof (cases q)
    case (Inl e)
    with h show ?thesis by (simp add: start)
  next
    case (Inr username)
    show ?thesis
    proof (cases r)
      case (Inl e)
      with h Inr show ?thesis by (simp add: start noNewSecrets_hidden [OF noNewSecrets_basic(1)])
    next
      case r: (Inr p)
      obtain raw tok where p: "p = (raw, tok)" by (cases p)
      obtain l sec where g: "GenerateAPIToken (bi_token bi) = Inr (raw, l, sec)"
        using Tokens_Create_raw t [unfolded r p create_def] by blast
      define w2 where "w2 = w\<lparr>bw_db := d, bw_sensitive := normalizeSensitiveValues (bw_sensitive w @ [raw])\<rparr>"
      have h2: "pushTokensHidden w2" "raw \<in> set (bw_sensitive w2)" using add_sensitive [OF h g] by (simp_all add: w2_def)
      have up: "pushTokensHidden (fst (case secretUpsert (bi_token bi) ns n (registrySecret rp (b_ID b) n username raw) w2 of
          (w3, Inl e) \<Rightarrow> (fst (onDb (Tokens_Revoke x actor (t_ID tok) (bi_revoke bi)) w3), Inl e) | (w3, Inr _) \<Rightarrow> (w3, Inr b')))" for ns n and b' :: Build
        using noNewSecrets_hidden [OF noNewSecrets_basic(6) [of w2 "Tokens_Revoke x actor (t_ID tok) (bi_revoke bi)"] h2(1)] store_hidden [OF h2(1) token_hideable(1) [OF g] h2(2), of "registrySecret rp (b_ID b) n username raw"]
        by (simp add: secretUpsert_def memoryUpsert_def registrySecret_def)
      show ?thesis unfolding start Inr r p using up by (simp add: w2_def Let_def)
    qed
  qed
qed (use h in \<open>simp add: provisionRegistryPush_def\<close>)

lemma createBuild_hidden:
  assumes h: "pushTokensHidden w"
  shows "pushTokensHidden (fst (createBuild x cfg eng actor ownerID r imageRepo bi w))"
proof (cases "resolveGit x cfg r w")
  case (Inr creds)
  define b0 where "b0 = newBuild cfg (bi_create bi) ownerID r imageRepo"
  obtain w1 q where p: "provisionRegistryPush x cfg actor bi b0 w = (w1, q)" by (metis surj_pair)
  have h1: "pushTokensHidden w1" using provision_hidden [OF h, of x cfg actor bi b0] by (simp add: p)
  show ?thesis
  proof (cases q)
    case (Inl e)
    then show ?thesis using h1 by (simp add: createBuild_def Inr b0_def [symmetric] p)
  next
    case q: (Inr b)
    obtain w2 t where i: "onDb (insertBuild x actor (bi_create bi) r b) w1 = (w2, t)" by (metis surj_pair)
    have "noNewSecrets w1 w2" using noNewSecrets_basic(6) [of w1 "insertBuild x actor (bi_create bi) r b"] by (simp add: i)
    then have "pushTokensHidden w2" using noNewSecrets_hidden h1 by blast
    then have "pushTokensHidden (cleanupRegistryPush x cfg (bi_revoke bi) b w2)" "pushTokensHidden (fst (submitBuild x cfg eng (bi_submit bi) spec b w2))" for spec
      using noNewSecrets_hidden cleanup_noNewSecrets submitBuild_noNewSecrets by blast+
    then show ?thesis using q by (cases t) (simp_all add: createBuild_def Inr b0_def [symmetric] p i Let_def case_prod_beta)
  qed
qed (use h in \<open>simp add: createBuild_def\<close>)

lemma Builds_Create_hidden:
  assumes h: "pushTokensHidden w"
  shows "pushTokensHidden (fst (Builds_Create x cfg eng actor ownerID r0 key bi w))"
proof (cases "validateCreate x cfg r0")
  case (Inr p)
  obtain r imageRepo where p: "p = (r, imageRepo)" by (cases p)
  obtain w1 q where rs: "onDb (IdempotencyStore_Reserve (bi_create bi) idempotencyScope key (hashRequest x r) idempotencyTTL) w = (w1, q)" by (metis surj_pair)
  have "noNewSecrets w w1"
    using noNewSecrets_basic(6) [of w "IdempotencyStore_Reserve (bi_create bi) idempotencyScope key (hashRequest x r) idempotencyTTL"] by (simp add: rs)
  then have h1: "pushTokensHidden w1" using noNewSecrets_hidden h by blast
  obtain w2 c where cb: "createBuild x cfg eng actor ownerID r imageRepo bi w1 = (w2, c)" by (metis surj_pair)
  have h2: "pushTokensHidden w2" using createBuild_hidden [OF h1, of x cfg eng actor ownerID r imageRepo bi] by (simp add: cb)
  show ?thesis
    using h1 h2 createBuild_hidden [OF h] noNewSecrets_hidden [OF noNewSecrets_basic(4) h2]
    by (cases q; cases c) (auto simp: Builds_Create_def Inr p rs cb split: option.splits)
qed (use h in \<open>simp add: Builds_Create_def\<close>)

lemma build_step_hidden: "build_step x cfg w w' \<Longrightarrow> pushTokensHidden w \<Longrightarrow> pushTokensHidden w'"
  by (induction rule: build_step.induct)
    (auto intro: Builds_Create_hidden noNewSecrets_hidden reading_noNewSecrets Builds_Cancel_noNewSecrets)

lemma build_reachable_hidden: "build_reachable x cfg w w' \<Longrightarrow> pushTokensHidden w \<Longrightarrow> pushTokensHidden w'"
  by (induction rule: build_reachable.induct) (auto intro: build_step_hidden)


definition chattyEngine :: engine where
  "chattyEngine = (sampleEngine (Inl ErrWorkflowNotFound))\<lparr>en_Logs := (\<lambda>_. Inr (''push with '' @ fst sampleToken))\<rparr>"


section \<open>Push rights end with the build\<close>

lemma Tokens_Revoke_revokes:
  assumes ok: "audit_ok x d" "io_eventID io \<notin> ar_ID ` set (db_audit d)" and calm: "\<And>s. \<not> io_fault io s"
    and t: "t \<in> set (db_tokens (fst (Tokens_Revoke x actor tid io d)))" "t_ID t = tid"
  shows "t_RevokedAt t \<noteq> None"
proof (cases "TokenStore_Revoke io tid d")
  case (Inl e)
  then have none: "\<forall>t\<in>set (db_tokens d). t_ID t = tid \<longrightarrow> t_RevokedAt t \<noteq> None"
    using calm by (auto simp: TokenStore_Revoke_def stmt_def require_def Let_def split: if_splits)
  have "fst (Tokens_Revoke x actor tid io d) = d" using Inl by (simp add: Tokens_Revoke_def WithTx_def unitTx_def)
  with none t show ?thesis by simp
next
  case (Inr d1)
  then have d1: "d1 = d\<lparr>db_tokens := updateWhere (\<lambda>t. t_ID t = tid \<and> t_RevokedAt t = None) (\<lambda>t. t\<lparr>t_RevokedAt := Some (io_now io)\<rparr>) (db_tokens d)\<rparr>"
    by (auto simp: TokenStore_Revoke_def Let_def)
  have "audit_ok x d1" using ok(1) by (simp add: d1 audit_ok_def)
  then have "\<exists>d2. Recorder_Record x io actor (successEvent ''tokens.revoke'' ''api_token'' tid None) d1 = Inr d2"
    by (rule Recorder_Record_total) (use ok(2) calm d1 in simp_all)
  then obtain d2 where r: "Recorder_Record x io actor (successEvent ''tokens.revoke'' ''api_token'' tid None) d1 = Inr d2" by blast
  have "fst (Tokens_Revoke x actor tid io d) = d2" using Inr r calm by (simp add: Tokens_Revoke_def WithTx_def unitTx_def)
  with t(1) Recorder_Record_tables(4) [OF r] have "t \<in> set (db_tokens d1)" by simp
  then have "(\<exists>t0. t = t0\<lparr>t_RevokedAt := Some (io_now io)\<rparr>) \<or> (t_ID t = tid \<longrightarrow> (\<exists>y. t_RevokedAt t = Some y))"
    unfolding d1 updateWhere_def by auto
  then show ?thesis using t(2) by auto
qed

lemma cleanup_ends:
  assumes rp: "bc_registryPush cfg = Some rp" and ok: "audit_ok x (bw_db w)" "io_eventID io \<notin> ar_ID ` set (db_audit (bw_db w))"
    and calm: "\<And>s. \<not> io_fault io s"
    and tid: "TrimSpace (b_PushTokenID b) = b_PushTokenID b" "b_PushTokenID b \<noteq> []"
    and name: "TrimSpace (b_RegistrySecretName b) = b_RegistrySecretName b" "b_RegistrySecretName b \<noteq> []"
  shows "t \<in> set (db_tokens (bw_db (cleanupRegistryPush x cfg io b w))) \<Longrightarrow> t_ID t = b_PushTokenID b \<Longrightarrow> t_RevokedAt t \<noteq> None"
    and "map_of (bw_secrets (cleanupRegistryPush x cfg io b w)) (b_RegistrySecretName b) = None"
proof -
  obtain d r where rv: "Tokens_Revoke x cleanupActor (b_PushTokenID b) io (bw_db w) = (d, r)" by (metis surj_pair)
  have c: "cleanupRegistryPush x cfg io b w = w\<lparr>bw_db := d, bw_secrets := AList.delete (b_RegistrySecretName b) (bw_secrets w)\<rparr>"
    using tid name calm by (simp add: cleanupRegistryPush_def rp Let_def onDb_def rv secretDelete_def memoryDelete_def)
  show "t_RevokedAt t \<noteq> None" if "t \<in> set (db_tokens (bw_db (cleanupRegistryPush x cfg io b w)))" "t_ID t = b_PushTokenID b"
    using Tokens_Revoke_revokes [OF ok calm, of t cleanupActor "b_PushTokenID b"] that by (simp add: c rv)
  show "map_of (bw_secrets (cleanupRegistryPush x cfg io b w)) (b_RegistrySecretName b) = None" by (simp add: c AList.delete_conv')
qed

text \<open>A reconciliation that ends a build ends with the clean-up, after nothing but the update of its row.\<close>

definition cleanedUp :: "ext \<Rightarrow> buildConfig \<Rightarrow> io \<Rightarrow> Build \<Rightarrow> buildWorld \<Rightarrow> buildWorld \<Rightarrow> bool" where
  "cleanedUp x cfg io b w w' \<longleftrightarrow> (\<exists>b1 w1. w' = cleanupRegistryPush x cfg io b1 w1 \<and> db_audit (bw_db w1) = db_audit (bw_db w)
     \<and> b_PushTokenID b1 = b_PushTokenID b \<and> b_RegistrySecretName b1 = b_RegistrySecretName b)"

lemma finishBuild_cleanedUp:
  assumes "finishBuild x cfg io b st rs ms v = (w', Inr b')" and "db_audit (bw_db v) = db_audit (bw_db w)"
  shows "cleanedUp x cfg io b w w'"
proof (cases "BuildStore_UpdateStatus io (b_ID b) st rs ms None (Some (io_now io)) (bw_db v)")
  case (Inr d)
  then have "w' = cleanupRegistryPush x cfg io b' (v\<lparr>bw_db := d\<rparr>)" "b_PushTokenID b' = b_PushTokenID b" "b_RegistrySecretName b' = b_RegistrySecretName b"
    using assms(1) by (auto simp: finishBuild_def Let_def)
  moreover have "db_audit d = db_audit (bw_db w)" using Inr assms(2) by (auto simp: BuildStore_UpdateStatus_def dest: buildsExec1_Inr)
  ultimately show ?thesis unfolding cleanedUp_def by (intro exI [of _ b'] exI [of _ "v\<lparr>bw_db := d\<rparr>"]) simp
qed (use assms in \<open>simp add: finishBuild_def\<close>)

lemma reconcile_cleanedUp:
  assumes "reconcile x cfg eng io b w = (w', Inr b')" and "\<not> Terminal (b_Status b)" and "Terminal (b_Status b')"
  shows "cleanedUp x cfg io b w w'"
proof -
  have fin: "cleanedUp x cfg io b w w'" if "finishBuild x cfg io b st rs ms w = (w', Inr b2)" for st rs ms b2
    using finishBuild_cleanedUp [OF that] by simp
  have finc: "cleanedUp x cfg io b w w'" if "finishBuild x cfg io b st rs ms (cancelCall n w) = (w', Inr b2)" for st rs ms b2 n
    using finishBuild_cleanedUp [OF that] by (simp add: cancelCall_def)
  have succ: "\<exists>b2. q = (w', Inr b2)" if "(case q of (w2, Inl e) \<Rightarrow> (w2, Inl e) | (w2, Inr b1) \<Rightarrow> (w2, Inr (g b1))) = (w', Inr b')"
    for q :: "buildWorld \<times> Build result" and g :: "Build \<Rightarrow> Build"
    using that by (cases q; cases "snd q") auto
  show ?thesis
    using assms unfolding reconcile_def Let_def
    by (auto split: if_split_asm sum.split_asm Phase.split_asm dest!: succ dest: fin finc)
qed


text \<open>A running build with its token and secret, and an engine that reports success.\<close>

definition runningBuild :: Build where
  "runningBuild = (newBuild sampleBuilds (sampleIO\<lparr>io_newID := ''b1''\<rparr>) ''u1'' sampleRequest ''app'')\<lparr>b_Status := BuildStatusRunning, b_WorkflowName := ''b1'',
     b_PushTokenID := ''t1'', b_RegistrySecretName := ''build-registry-b1''\<rparr>"

definition runningToken :: APIToken where
  "runningToken = \<lparr>t_ID = ''t1'', t_UserID = ''u1'', t_Name = ''bld-b1'', t_LookupID = ''l'', t_Digest = ''d'', t_Scopes = None,
     t_CreatedAt = 0, t_ExpiresAt = 2 * io_now sampleIO, t_LastUsedAt = None, t_RevokedAt = None\<rparr>"

definition runningWorld :: buildWorld where
  "runningWorld = \<lparr>bw_db = sampleDb\<lparr>db_builds := [runningBuild], db_tokens := [runningToken]\<rparr>,
     bw_secrets = [(''build-registry-b1'', registrySecret \<lparr>rp_Host = ''registry'', rp_TLSVerify = ''true'', rp_Namespace = ''builds''\<rparr> ''b1'' ''build-registry-b1'' ''alice'' ''raw'')],
     bw_sensitive = [''raw''], bw_calls = []\<rparr>"

definition endedBuild :: "buildWorld \<times> Build result" where
  "endedBuild = Builds_Get sampleExt sampleBuilds (sampleEngine (Inr \<lparr>ws_Phase = PhaseSucceeded, ws_Message = []\<rparr>)) ''b1'' sampleIO runningWorld"


end
