(* ===== verification/Migrations.thy ===== *)
theory Migrations
  imports Redaction Schema
begin

text \<open>
  The SQL layer under the stores (internal/storage/sqlstore): rewriting of placeholders for
  PostgreSQL (store.go) and the schema migrations (migrate.go). The database is seen here as
  the rows of schema_migrations and the list of scripts that have been run against it.
\<close>

section \<open>Placeholders\<close>

fun rewritePlaceholders :: "bool \<Rightarrow> int \<Rightarrow> int list \<Rightarrow> string" where
  "rewritePlaceholders inQuote index [] = []"
| "rewritePlaceholders inQuote index (r # rs) =
    (let q = (if r = 39 then \<not> inQuote else inQuote)
     in if r = 63 \<and> \<not> q then CHR ''$'' # Itoa (index + 1) @ rewritePlaceholders q (index + 1) rs
        else encodeRune r @ rewritePlaceholders q index rs)"

definition postgresPlaceholders :: "string \<Rightarrow> string" where
  "postgresPlaceholders query = rewritePlaceholders False 0 (runes query)"

definition placeholderSQL :: "bool \<Rightarrow> string \<Rightarrow> string" where
  "placeholderSQL postgres sql = (if postgres then postgresPlaceholders sql else sql)"

text \<open>
  What it is meant to do, said without an index or a flag: the text between quotes stays as it
  is, and the question marks of the rest become consecutive numbers.
\<close>

fun numberMarks :: "int \<Rightarrow> string list \<Rightarrow> string" where
  "numberMarks n [] = []"
| "numberMarks n [p] = p"
| "numberMarks n (p # ps) = p @ CHR ''$'' # Itoa n @ numberMarks (n + 1) ps"

fun quoteParts :: "bool \<Rightarrow> int \<Rightarrow> string list \<Rightarrow> string list" where
  "quoteParts inside n [] = []"
| "quoteParts inside n (s # ss) =
    (if inside then s # quoteParts False n ss
     else let marks = Split s (CHR ''?'') in numberMarks n marks # quoteParts True (n + int (length marks) - 1) ss)"

definition numberedQuery :: "string \<Rightarrow> string" where
  "numberedQuery q = joinWith (CHR 0x27) (quoteParts False 1 (Split q (CHR 0x27)))"

lemma runes_ascii: "ascii s \<Longrightarrow> runes s = map of_char s"
  by (simp add: runes_def runeChunks_ascii)

lemma encodeRune_ascii: "(of_char c :: int) < 128 \<Longrightarrow> encodeRune (of_char c) = [c]"
  by (simp add: encodeRune_def)

lemma numberMarks_Cons: "numberMarks n ((x # m) # ms) = x # numberMarks n (m # ms)"
  by (cases ms) auto

lemma numberMarks_sep: "ms \<noteq> [] \<Longrightarrow> numberMarks n ([] # ms) = CHR ''$'' # Itoa n @ numberMarks (n + 1) ms"
  by (cases ms) auto

lemma joinWith_extend: "joinWith c ((a @ p) # ps) = a @ joinWith c (p # ps)"
  by (cases ps) auto

lemma joinWith_sep: "ps \<noteq> [] \<Longrightarrow> joinWith c ([] # ps) = c # joinWith c ps"
  by (cases ps) auto

lemma quoteParts_Nil [simp]: "quoteParts b n ss = [] \<longleftrightarrow> ss = []"
  by (cases ss) (auto simp: Let_def)

lemma rewritePlaceholders_parts:
  "ascii s \<Longrightarrow> rewritePlaceholders b n (map of_char s) = joinWith (CHR 0x27) (quoteParts b (n + 1) (Split s (CHR 0x27)))"
proof (induction s arbitrary: b n)
  case (Cons x xs)
  then have x: "(of_char x :: int) < 128" and xs: "ascii xs" by (auto simp: ascii_def)
  note IH = Cons.IH [OF xs]
  obtain y ys where y: "Split xs (CHR 0x27) = y # ys" by (cases "Split xs (CHR 0x27)") auto
  obtain m ms where m: "Split y (CHR ''?'') = m # ms" by (cases "Split y (CHR ''?'')") auto
  have code: "(of_char x :: int) = 39 \<longleftrightarrow> x = CHR 0x27" "(of_char x :: int) = 63 \<longleftrightarrow> x = CHR ''?''"
    using of_char_eq_iff [where ?'a = int, of x "CHR 0x27"] of_char_eq_iff [where ?'a = int, of x "CHR ''?''"] by simp_all
  consider "x = CHR 0x27" | "x = CHR ''?''" "\<not> b" | "x \<noteq> CHR 0x27" "x \<noteq> CHR ''?'' \<or> b" by blast
  then show ?case
  proof cases
    case 1
    then show ?thesis using IH encodeRune_ascii [OF x] by (simp add: joinWith_sep)
  next
    case 2
    define N where "N = n + 1 + 1"
    have qp: "quoteParts False M (y # ys) = numberMarks M (m # ms) # quoteParts True (M + int (length ms)) ys" for M
      by (simp add: m Let_def)
    have "quoteParts b (n + 1) (Split (x # xs) (CHR 0x27)) = (CHR ''$'' # Itoa (n + 1) @ numberMarks N (m # ms)) # quoteParts True (N + int (length ms)) ys"
      using 2 by (simp add: y m Let_def numberMarks_sep N_def ac_simps)
    then have "joinWith (CHR 0x27) (quoteParts b (n + 1) (Split (x # xs) (CHR 0x27))) = (CHR ''$'' # Itoa (n + 1)) @ joinWith (CHR 0x27) (quoteParts False N (y # ys))"
      using joinWith_extend [of "CHR 0x27" "CHR ''$'' # Itoa (n + 1)" "numberMarks N (m # ms)"] by (simp only: qp append_Cons append_assoc)
    then show ?thesis using 2 IH [of False "n + 1", folded N_def] by (simp add: y)
  next
    case 3
    then have "quoteParts b (n + 1) (Split (x # xs) (CHR 0x27)) = ([x] @ hd (quoteParts b (n + 1) (y # ys))) # tl (quoteParts b (n + 1) (y # ys))"
      by (auto simp: y m Let_def numberMarks_Cons)
    then have "joinWith (CHR 0x27) (quoteParts b (n + 1) (Split (x # xs) (CHR 0x27))) = [x] @ joinWith (CHR 0x27) (quoteParts b (n + 1) (y # ys))"
      using quoteParts_Nil [of b "n + 1" "y # ys"] by (simp only: joinWith_extend) simp
    then show ?thesis using 3 IH [of b n] encodeRune_ascii [OF x] by (auto simp: y code)
  qed
qed (simp add: numberMarks.simps)

text \<open>
  C27. The rewriting of placeholders does what a reader of SQL expects: it equals the reference
  that splits the query at its quotes, leaves every quoted part as it is and numbers the question
  marks of the other parts from 1, for every query in ASCII, which all queries of the stores are.
\<close>

theorem placeholders_as_specified:
  assumes "ascii query"
  shows "postgresPlaceholders query = numberedQuery query"
  using rewritePlaceholders_parts [OF assms, of False 0] by (simp add: postgresPlaceholders_def numberedQuery_def runes_ascii [OF assms])

theorem placeholders_as_specified_witness:
  "postgresPlaceholders ''SELECT ? WHERE a = 'why?' AND b = ?'' = ''SELECT $1 WHERE a = 'why?' AND b = $2''"
proof -
  have "numberedQuery ''SELECT ? WHERE a = 'why?' AND b = ?'' = ''SELECT $1 WHERE a = 'why?' AND b = $2''" by code_simp
  then show ?thesis using placeholders_as_specified [of "''SELECT ? WHERE a = 'why?' AND b = ?''"] by (simp add: ascii_def)
qed

section \<open>Loading migrations\<close>

record migration =
  mi_Version :: int
  mi_Name :: string
  mi_SQL :: string

text \<open>\<open>strconv.Atoi\<close>: an optional sign and decimal digits, within the range of an int.\<close>

definition digitsValue :: "string \<Rightarrow> int" where
  "digitsValue s = foldl (\<lambda>n c. 10 * n + (of_char c - 48)) 0 s"

definition Atoi :: "string \<Rightarrow> int option" where
  "Atoi s =
    (let neg = HasPrefix s ''-''; ds = (if HasPrefix s ''-'' \<or> HasPrefix s ''+'' then tl s else s); n = (if neg then - digitsValue ds else digitsValue ds)
     in if ds = [] \<or> \<not> list_all (\<lambda>c. inRange 48 57 (of_char c)) ds \<or> n < - (2 ^ 63) \<or> 2 ^ 63 \<le> n then None else Some n)"

text \<open>An entry of the embedded directory: whether it is a directory, its name, and its content.\<close>

type_synonym dirEntry = "bool \<times> string \<times> string"

definition loadMigration :: "dirEntry \<Rightarrow> migration result" where
  "loadMigration entry = (case entry of (_, name, data) \<Rightarrow>
     (case Cut name (CHR ''_'') of (versionPart, namePart, ok) \<Rightarrow>
        if \<not> ok then Inl (ErrMessage ''migration filename must be NNNN_description.sql'')
        else case Atoi versionPart of
          None \<Rightarrow> Inl (ErrMessage ''migration filename has non-numeric version'')
        | Some version \<Rightarrow> Inr \<lparr>mi_Version = version, mi_Name = TrimSuffix namePart ''.sql'', mi_SQL = data\<rparr>))"

fun loadEach :: "dirEntry list \<Rightarrow> migration list result" where
  "loadEach [] = Inr []"
| "loadEach (e # es) = andThen (loadMigration e) (\<lambda>m. andThen (loadEach es) (\<lambda>ms. Inr (m # ms)))"

definition upTo :: "nat \<Rightarrow> int list" where "upTo n = map (\<lambda>i. int i + 1) [0..<n]"

definition loadMigrations :: "dirEntry list \<Rightarrow> migration list result" where
  "loadMigrations entries =
     andThen (loadEach (filter (\<lambda>(isDir, name, _). \<not> isDir \<and> HasSuffix name ''.sql'') entries)) (\<lambda>ms.
       let sorted = sort_key mi_Version ms
       in if map mi_Version sorted = upTo (length sorted) then Inr sorted
          else Inl (ErrMessage ''migrations must be numbered contiguously from 1''))"

section \<open>Applying migrations\<close>

text \<open>The rows of schema_migrations in the order they were written, and the scripts that took effect.\<close>

record migDb =
  md_rows :: "(int \<times> string) list"
  md_scripts :: "string list"

definition timestampSqlite :: string where
  "timestampSqlite = ''strftime('%Y-%m-%dT%H:%M:%fZ', 'now')''"

definition timestampPostgres :: string where
  "timestampPostgres = ''to_char(CURRENT_TIMESTAMP AT TIME ZONE 'UTC', 'YYYY-MM-DD'' @ [CHR 0x22] @ ''T'' @ [CHR 0x22]
     @ ''HH24:MI:SS.US'' @ [CHR 0x22] @ ''Z'' @ [CHR 0x22, CHR 0x27, CHR 0x29]"

definition postgresMigrationSQL :: "string \<Rightarrow> string" where
  "postgresMigrationSQL sql = ReplaceAll (ReplaceAll sql ''BLOB'' ''BYTEA'') timestampSqlite timestampPostgres"

definition migrationSQL :: "bool \<Rightarrow> migration \<Rightarrow> string" where
  "migrationSQL postgres m = (if postgres then postgresMigrationSQL (mi_SQL m) else mi_SQL m)"

text \<open>
  One migration in its own transaction: the script and the row take effect together or not at
  all. A statement, the primary key of the table or the commit may fail.
\<close>

definition applyMigration :: "bool \<Rightarrow> io \<Rightarrow> migration \<Rightarrow> migDb \<Rightarrow> migDb \<times> unit result" where
  "applyMigration postgres io m d =
    (case andThen (stmt io ''BeginTx'') (\<lambda>_. andThen (stmt io ''migration script'') (\<lambda>_. andThen (stmt io ''INSERT schema_migrations'') (\<lambda>_.
          andThen (require (mi_Version m \<notin> fst ` set (md_rows d)) (ErrDriver ''schema_migrations'')) (\<lambda>_. stmt io ''Commit'')))) of
       Inl e \<Rightarrow> (d, Inl e)
     | Inr _ \<Rightarrow> (d\<lparr>md_rows := md_rows d @ [(mi_Version m, mi_Name m)], md_scripts := md_scripts d @ [migrationSQL postgres m]\<rparr>, Inr ()))"

fun applyEach :: "bool \<Rightarrow> (int \<Rightarrow> io) \<Rightarrow> migration list \<Rightarrow> migDb \<Rightarrow> migDb \<times> unit result" where
  "applyEach postgres ios [] d = (d, Inr ())"
| "applyEach postgres ios (m # ms) d =
    (case applyMigration postgres (ios (mi_Version m)) m d of (d', Inl e) \<Rightarrow> (d', Inl e) | (d', Inr _) \<Rightarrow> applyEach postgres ios ms d')"

definition appliedVersions :: "migDb \<Rightarrow> int list" where "appliedVersions d = sort (map fst (md_rows d))"

definition migrateWith :: "bool \<Rightarrow> io \<Rightarrow> (int \<Rightarrow> io) \<Rightarrow> migration list \<Rightarrow> migDb \<Rightarrow> migDb \<times> unit result" where
  "migrateWith postgres io ios ms d =
    (case andThen (stmt io ''CREATE schema_migrations'') (\<lambda>_. stmt io ''SELECT schema_migrations'') of
       Inl e \<Rightarrow> (d, Inl e)
     | Inr _ \<Rightarrow>
         let applied = appliedVersions d; maxKnown = (if ms = [] then 0 else mi_Version (last ms))
         in if list_ex (\<lambda>v. maxKnown < v) applied then (d, Inl (ErrMessage ''database schema is newer than this binary''))
            else if applied \<noteq> upTo (length applied) then (d, Inl (ErrMessage ''applied migration history has a gap''))
            else applyEach postgres ios (filter (\<lambda>m. \<not> mi_Version m < int (length applied) + 1) ms) d)"

definition Migrate :: "bool \<Rightarrow> dirEntry list \<Rightarrow> io \<Rightarrow> (int \<Rightarrow> io) \<Rightarrow> migDb \<Rightarrow> migDb \<times> unit result" where
  "Migrate postgres files io ios d = (case loadMigrations files of Inl e \<Rightarrow> (d, Inl e) | Inr ms \<Rightarrow> migrateWith postgres io ios ms d)"

section \<open>The schema after any history of starts\<close>

text \<open>\<open>migratedTo pg ms k d\<close>: exactly the first \<open>k\<close> migrations have been run, in order.\<close>

definition migratedTo :: "bool \<Rightarrow> migration list \<Rightarrow> nat \<Rightarrow> migDb \<Rightarrow> bool" where
  "migratedTo pg ms k d \<longleftrightarrow> k \<le> length ms \<and> d = \<lparr>md_rows = map (\<lambda>m. (mi_Version m, mi_Name m)) (take k ms), md_scripts = map (migrationSQL pg) (take k ms)\<rparr>"

definition numbered :: "migration list \<Rightarrow> bool" where
  "numbered ms \<longleftrightarrow> map mi_Version ms = upTo (length ms)"

lemma upTo_simps [simp]: "length (upTo n) = n" "i < n \<Longrightarrow> upTo n ! i = int i + 1" "take k (upTo n) = upTo (min k n)" "upTo n = [] \<longleftrightarrow> n = 0"
  by (auto simp: upTo_def take_map min_def)

lemma set_upTo: "set (upTo n) = {1..int n}"
proof -
  have "x \<in> (\<lambda>i. int i + 1) ` {0..<n}" if "1 \<le> x" "x \<le> int n" for x
    using that by (intro image_eqI [of _ _ "nat (x - 1)"]) auto
  then show ?thesis by (auto simp: upTo_def)
qed

lemma sorted_upTo: "sorted (upTo n)"
  by (auto simp: upTo_def sorted_iff_nth_mono)

lemma numbered_nth: "numbered ms \<Longrightarrow> i < length ms \<Longrightarrow> mi_Version (ms ! i) = int i + 1"
  by (metis numbered_def nth_map upTo_simps(2))

lemma loadMigrations_numbered: "loadMigrations files = Inr ms \<Longrightarrow> numbered ms"
  by (auto simp: loadMigrations_def numbered_def Let_def split: if_splits)

lemma numbered_filter:
  assumes "numbered ms" "k \<le> length ms"
  shows "filter (\<lambda>m. \<not> mi_Version m < int k + 1) ms = drop k ms"
proof -
  have "filter (\<lambda>m. \<not> mi_Version m < int k + 1) (take k ms) = []"
    using numbered_nth [OF assms(1)] by (auto simp: filter_empty_conv in_set_conv_nth)
  moreover have "filter (\<lambda>m. \<not> mi_Version m < int k + 1) (drop k ms) = drop k ms"
    using numbered_nth [OF assms(1)] by (auto simp: filter_id_conv in_set_conv_nth)
  ultimately show ?thesis by (metis append_take_drop_id append_Nil filter_append)
qed

lemma migratedTo_versions: "numbered ms \<Longrightarrow> migratedTo pg ms k d \<Longrightarrow> map fst (md_rows d) = upTo k"
  by (auto simp: migratedTo_def numbered_def take_map [symmetric] comp_def)

lemma applyEach_migrated:
  assumes "numbered ms" "migratedTo pg ms k d"
  shows "\<exists>k'. k \<le> k' \<and> migratedTo pg ms k' (fst (applyEach pg ios (drop k ms) d))
     \<and> (snd (applyEach pg ios (drop k ms) d) = Inr () \<longrightarrow> k' = length ms)
     \<and> ((\<forall>v s. \<not> io_fault (ios v) s) \<longrightarrow> snd (applyEach pg ios (drop k ms) d) = Inr ())"
  using assms
proof (induction "drop k ms" arbitrary: k d)
  case Nil
  then show ?case by (auto simp: migratedTo_def)
next
  case (Cons m rest)
  have k: "k < length ms" using Cons.hyps(2) by (metis drop_all leI list.discI)
  then have m: "m = ms ! k" "rest = drop (Suc k) ms" using Cons.hyps(2) by (metis Cons_nth_drop_Suc list.inject)+
  have new: "mi_Version m \<notin> fst ` set (md_rows d)"
    using migratedTo_versions [OF Cons.prems] numbered_nth [OF Cons.prems(1) k] m(1) by (metis atLeastAtMost_iff add_le_same_cancel1 not_one_le_zero set_map set_upTo)
  define d' where "d' = d\<lparr>md_rows := md_rows d @ [(mi_Version m, mi_Name m)], md_scripts := md_scripts d @ [migrationSQL pg m]\<rparr>"
  have d': "migratedTo pg ms (Suc k) d'" using Cons.prems(2) k by (simp add: migratedTo_def d'_def m(1) take_Suc_conv_app_nth)
  have step: "applyMigration pg (ios (mi_Version m)) m d = (d', Inr ()) \<or> (\<exists>e. applyMigration pg (ios (mi_Version m)) m d = (d, Inl e))
      \<and> \<not> (\<forall>v s. \<not> io_fault (ios v) s)"
    using new by (auto simp: applyMigration_def d'_def stmt_def require_def)
  show ?case
  proof (cases "applyMigration pg (ios (mi_Version m)) m d = (d', Inr ())")
    case True
    from Cons.hyps(1) [OF m(2) Cons.prems(1) d'] show ?thesis unfolding Cons.hyps(2) [symmetric] m(2) using True by (auto intro: Suc_leD)
  next
    case False
    with step show ?thesis unfolding Cons.hyps(2) [symmetric] using Cons.prems(2) by auto
  qed
qed

lemma migrateWith_migrated:
  assumes n: "numbered ms" and d: "migratedTo pg ms k d" and j: "j \<le> length ms"
  shows "j < k \<Longrightarrow> \<exists>e. migrateWith pg io ios (take j ms) d = (d, Inl e)"
    and "k \<le> j \<Longrightarrow> \<exists>k'. k \<le> k' \<and> migratedTo pg (take j ms) k' (fst (migrateWith pg io ios (take j ms) d))
       \<and> ((\<forall>s. \<not> io_fault io s) \<and> (\<forall>v s. \<not> io_fault (ios v) s) \<longrightarrow> snd (migrateWith pg io ios (take j ms) d) = Inr () \<and> k' = j)"
proof -
  have v: "appliedVersions d = upTo k" by (simp add: appliedVersions_def migratedTo_versions [OF n d] sorted_upTo sorted_sort_id)
  have nj: "numbered (take j ms)" using n j by (simp add: numbered_def take_map [symmetric])
  have maxKnown: "(if take j ms = [] then 0 else mi_Version (last (take j ms))) = int j"
    using numbered_nth [OF nj, of "j - 1"] j by (cases "j = 0") (auto simp: last_conv_nth)
  have newer: "list_ex (\<lambda>v. int j < v) (upTo k) \<longleftrightarrow> j < k"
    by (auto simp: list_ex_iff set_upTo intro: bexI [of _ "int k"])
  show "\<exists>e. migrateWith pg io ios (take j ms) d = (d, Inl e)" if "j < k"
    using that newer unfolding migrateWith_def v Let_def maxKnown by (auto split: sum.splits)
  assume kj: "k \<le> j"
  have dj: "migratedTo pg (take j ms) k d" using d kj j by (simp add: migratedTo_def min_def)
  have run: "migrateWith pg io ios (take j ms) d = (case andThen (stmt io ''CREATE schema_migrations'') (\<lambda>_. stmt io ''SELECT schema_migrations'') of
      Inl e \<Rightarrow> (d, Inl e) | Inr _ \<Rightarrow> applyEach pg ios (drop k (take j ms)) d)"
    using kj newer j numbered_filter [OF nj, of k] unfolding migrateWith_def v Let_def maxKnown upTo_simps(1) by (simp split: sum.split)
  from applyEach_migrated [OF nj dj, of ios] dj j
  show "\<exists>k'. k \<le> k' \<and> migratedTo pg (take j ms) k' (fst (migrateWith pg io ios (take j ms) d))
       \<and> ((\<forall>s. \<not> io_fault io s) \<and> (\<forall>v s. \<not> io_fault (ios v) s) \<longrightarrow> snd (migrateWith pg io ios (take j ms) d) = Inr () \<and> k' = j)"
    unfolding run by (cases "andThen (stmt io ''CREATE schema_migrations'') (\<lambda>_. stmt io ''SELECT schema_migrations'')") (auto simp: stmt_def min_def)
qed

text \<open>
  Any history of starts: each is a start of some release, whose migrations are the first of
  those of the newest release, with any statement failing at any point.
\<close>

inductive mig_reachable :: "bool \<Rightarrow> migration list \<Rightarrow> migDb \<Rightarrow> bool" for pg ms where
  new: "mig_reachable pg ms \<lparr>md_rows = [], md_scripts = []\<rparr>"
| start: "mig_reachable pg ms d \<Longrightarrow> loadMigrations files = Inr (take j ms) \<Longrightarrow> mig_reachable pg ms (fst (Migrate pg files io ios d))"

lemma migratedTo_take: "migratedTo pg (take j ms) k d \<Longrightarrow> migratedTo pg ms k d"
  by (auto simp: migratedTo_def min.absorb1)

lemma mig_reachable_migrated: "mig_reachable pg ms d \<Longrightarrow> numbered ms \<Longrightarrow> \<exists>k. migratedTo pg ms k d"
proof (induction rule: mig_reachable.induct)
  case new
  then show ?case by (auto simp: migratedTo_def intro: exI [of _ 0])
next
  case (start d files j io ios)
  then obtain k where k: "migratedTo pg ms k d" by blast
  define i where "i = min j (length ms)"
  have i: "take j ms = take i ms" "i \<le> length ms" by (auto simp: i_def min_def)
  show ?case
  proof (cases "i < k")
    case True
    then show ?thesis using migrateWith_migrated(1) [OF start.prems k i(2) True, of io ios] k start.hyps(2) by (auto simp: Migrate_def i(1))
  next
    case False
    then show ?thesis using migrateWith_migrated(2) [OF start.prems k i(2), of io ios] start.hyps(2) by (auto simp: Migrate_def i(1) dest: migratedTo_take)
  qed
qed

text \<open>
  C28. Migrations survive any history of starts. Whatever releases were started in whatever order
  and whichever statements failed, the database holds the effect of the first k migrations, each
  run exactly once and in order, for some k. Starting the newest release without a failure then
  runs exactly the missing ones and succeeds; starting an older one than the database refuses
  and changes nothing.
\<close>

theorem migrations_survive_failures:
  assumes n: "loadMigrations files = Inr ms" and d: "mig_reachable pg ms d"
  shows "\<exists>k. migratedTo pg ms k d
    \<and> ((\<forall>s. \<not> io_fault io s) \<and> (\<forall>v s. \<not> io_fault (ios v) s) \<longrightarrow>
         Migrate pg files io ios d = (\<lparr>md_rows = map (\<lambda>m. (mi_Version m, mi_Name m)) ms, md_scripts = map (migrationSQL pg) ms\<rparr>, Inr ()))
    \<and> (\<forall>old j. loadMigrations old = Inr (take j ms) \<and> j < k \<longrightarrow> (\<exists>e. Migrate pg old io ios d = (d, Inl e)))"
proof -
  have num: "numbered ms" using n by (rule loadMigrations_numbered)
  obtain k where k: "migratedTo pg ms k d" using mig_reachable_migrated [OF d num] by blast
  then have kl: "k \<le> length ms" by (simp add: migratedTo_def)
  have "Migrate pg files io ios d = (\<lparr>md_rows = map (\<lambda>m. (mi_Version m, mi_Name m)) ms, md_scripts = map (migrationSQL pg) ms\<rparr>, Inr ())"
    if "\<forall>s. \<not> io_fault io s" "\<forall>v s. \<not> io_fault (ios v) s"
    using migrateWith_migrated(2) [OF num k le_refl kl, of io ios] that by (cases "migrateWith pg io ios ms d") (auto simp: Migrate_def n migratedTo_def)
  moreover have "\<exists>e. Migrate pg old io ios d = (d, Inl e)" if "loadMigrations old = Inr (take j ms)" "j < k" for old j
    using migrateWith_migrated(1) [OF num k _ that(2), of io ios] that kl by (simp add: Migrate_def)
  ultimately show ?thesis using k by blast
qed

definition sampleFiles :: "dirEntry list" where
  "sampleFiles = [(False, ''0001_schema.sql'', ''CREATE TABLE a(x BLOB)''), (False, ''0002_more.sql'', ''CREATE TABLE b(y TEXT)''), (False, ''README'', [])]"

definition failingAt :: "int \<Rightarrow> int \<Rightarrow> io" where
  "failingAt v w = (if v = w then sampleIO\<lparr>io_fault := (\<lambda>_. True)\<rparr> else sampleIO)"

theorem migrations_survive_failures_witness:
  "snd (Migrate True sampleFiles sampleIO (failingAt 2) \<lparr>md_rows = [], md_scripts = []\<rparr>) \<noteq> Inr ()
   \<and> md_scripts (fst (Migrate True sampleFiles sampleIO (\<lambda>_. sampleIO) (fst (Migrate True sampleFiles sampleIO (failingAt 2) \<lparr>md_rows = [], md_scripts = []\<rparr>))))
     = [''CREATE TABLE a(x BYTEA)'', ''CREATE TABLE b(y TEXT)'']"
proof -
  define ms where "ms = [\<lparr>mi_Version = 1, mi_Name = ''schema'', mi_SQL = ''CREATE TABLE a(x BLOB)''\<rparr>, \<lparr>mi_Version = 2, mi_Name = ''more'', mi_SQL = ''CREATE TABLE b(y TEXT)''\<rparr>]"
  have l: "loadMigrations sampleFiles = Inr ms" unfolding ms_def by code_simp
  then have "mig_reachable True ms (fst (Migrate True sampleFiles sampleIO (failingAt 2) \<lparr>md_rows = [], md_scripts = []\<rparr>))"
    by (intro mig_reachable.start [where j = 2] mig_reachable.new) (simp add: ms_def)
  from migrations_survive_failures [OF l this, of sampleIO "\<lambda>_. sampleIO"]
  have "Migrate True sampleFiles sampleIO (\<lambda>_. sampleIO) (fst (Migrate True sampleFiles sampleIO (failingAt 2) \<lparr>md_rows = [], md_scripts = []\<rparr>))
      = (\<lparr>md_rows = map (\<lambda>m. (mi_Version m, mi_Name m)) ms, md_scripts = map (migrationSQL True) ms\<rparr>, Inr ())" by auto
  moreover have "map (migrationSQL True) ms = [''CREATE TABLE a(x BYTEA)'', ''CREATE TABLE b(y TEXT)'']" unfolding ms_def by code_simp
  moreover have "snd (Migrate True sampleFiles sampleIO (failingAt 2) \<lparr>md_rows = [], md_scripts = []\<rparr>) \<noteq> Inr ()" by code_simp
  ultimately show ?thesis by simp
qed

end
