(* ===== verification/ListCursor.thy ===== *)
theory ListCursor
  imports Extern "HOL-Library.Word"
begin

text \<open>
  List cursors (internal/listcursor/cursor.go): the opaque text a client hands back to get the
  next page. A cursor is the length of its body in eight bytes, the JSON body and an HMAC of
  the body, in base64. Lengths are kept at 64 bits, where the decoder computes with them.
  \<open>json.Unmarshal\<close> into the payload is the parameter \<open>unmarshal\<close>.
\<close>

definition cursorTTL :: duration where "cursorTTL = 24 * Hour"

definition ErrInvalidCursor :: err where "ErrInvalidCursor = ErrSentinel ''listcursor.ErrInvalid''"
definition ErrExpiredCursor :: err where "ErrExpiredCursor = ErrSentinel ''listcursor.ErrExpired''"

record cursorPayload =
  cu_Scope :: string
  cu_Before :: int
  cu_Exp :: int

definition cursorJSON :: "cursorPayload \<Rightarrow> bytes" where
  "cursorJSON p = jsonMarshal (JObj [(''scope'', JStr (cu_Scope p)), (''before'', JInt (cu_Before p)), (''exp'', JInt (cu_Exp p))])"

text \<open>\<open>binary.BigEndian\<close>: eight bytes, the most significant first.\<close>

definition PutUint64 :: "64 word \<Rightarrow> bytes" where
  "PutUint64 n = map (\<lambda>i. char_of (uint n div 256 ^ i mod 256)) [7, 6, 5, 4, 3, 2, 1, 0]"

definition Uint64 :: "bytes \<Rightarrow> 64 word" where
  "Uint64 bs = of_int (foldl (\<lambda>n b. n * 256 + of_char b) 0 bs)"

definition Cursor_Encode :: "ext \<Rightarrow> bytes \<Rightarrow> string \<Rightarrow> int \<Rightarrow> time \<Rightarrow> duration \<Rightarrow> string result" where
  "Cursor_Encode x key scope beforeSequence now ttl0 =
    (if key = [] then Inl (ErrMessage ''listcursor: empty key'')
     else let ttl = (if ttl0 \<le> 0 then cursorTTL else ttl0);
              body = cursorJSON \<lparr>cu_Scope = scope, cu_Before = beforeSequence, cu_Exp = toUnix (now + ttl)\<rparr>
          in Inr (EncodeToString (PutUint64 (of_nat (length body)) @ body @ x_hmac x key body)))"

text \<open>
  \<open>bodyLen\<close> is an int, \<open>8+bodyLen+sha256.Size\<close> wraps: \<open>sint (n + 40)\<close>. The slice
  expressions of the code panic when a bound lies outside of the bytes; \<open>sliceOk\<close> says it does not.
\<close>

definition sliceOk :: "bytes \<Rightarrow> int \<Rightarrow> int \<Rightarrow> bool" where
  "sliceOk raw lo hi \<longleftrightarrow> 0 \<le> lo \<and> lo \<le> hi \<and> hi \<le> int (length raw)"

definition slice :: "bytes \<Rightarrow> int \<Rightarrow> int \<Rightarrow> bytes" where
  "slice raw lo hi = take (nat (hi - lo)) (drop (nat lo) raw)"

definition cursorBody :: "bytes \<Rightarrow> (bytes \<times> bytes) option result" where
  "cursorBody raw =
    (if length raw < 8 + 32 then Inr None
     else let n = Uint64 (slice raw 0 8); bodyLen = sint n
          in if bodyLen \<le> 0 \<or> sint (8 + n + 32) \<noteq> int (length raw) then Inr None
             else if sliceOk raw 8 (sint (8 + n)) \<and> sliceOk raw (sint (8 + n)) (int (length raw))
             then Inr (Some (slice raw 8 (sint (8 + n)), slice raw (sint (8 + n)) (int (length raw))))
             else Inl (ErrDriver ''slice bounds out of range''))"

definition Cursor_Decode :: "ext \<Rightarrow> (bytes \<Rightarrow> cursorPayload option) \<Rightarrow> bytes \<Rightarrow> string \<Rightarrow> string \<Rightarrow> time \<Rightarrow> int result" where
  "Cursor_Decode x unmarshal key scope cursor now =
    (if cursor = [] then Inl ErrInvalidCursor
     else case DecodeString cursor of None \<Rightarrow> Inl ErrInvalidCursor
     | Some raw \<Rightarrow> andThen (cursorBody raw) (\<lambda>parts.
         case parts of None \<Rightarrow> Inl ErrInvalidCursor
         | Some (body, sig) \<Rightarrow>
             if sig \<noteq> x_hmac x key body then Inl ErrInvalidCursor
             else case unmarshal body of None \<Rightarrow> Inl ErrInvalidCursor
             | Some p \<Rightarrow>
                 if cu_Scope p \<noteq> scope \<or> cu_Before p \<le> 0 then Inl ErrInvalidCursor
                 else if cu_Exp p < toUnix now then Inl ErrExpiredCursor
                 else Inr (cu_Before p)))"

section \<open>Lengths\<close>

lemma bytes8_value:
  fixes n :: int
  assumes "0 \<le> n" "n < 2 ^ 64"
  shows "((((((((n div 256 ^ 7 mod 256) * 256 + n div 256 ^ 6 mod 256) * 256 + n div 256 ^ 5 mod 256) * 256 + n div 256 ^ 4 mod 256) * 256
     + n div 256 ^ 3 mod 256) * 256 + n div 256 ^ 2 mod 256) * 256 + n div 256 ^ 1 mod 256) * 256 + n div 256 ^ 0 mod 256) = n"
proof -
  have step: "(n div 256 ^ Suc i) * 256 + n div 256 ^ i mod 256 = n div 256 ^ i" for i
    by (metis div_mult_mod_eq power_Suc2 zdiv_zmult2_eq zero_le_numeral zero_le_power)
  have top: "n div 256 ^ 7 mod 256 = n div 256 ^ 7" using assms by (intro mod_pos_pos_trivial) (simp_all add: pos_imp_zdiv_nonneg_iff div_less_iff_less_mult)
  show ?thesis
    using step [of 6] step [of 5] step [of 4] step [of 3] step [of 2] step [of 1] step [of 0] top by (simp add: eval_nat_numeral)
qed

lemma length_PutUint64 [simp]: "length (PutUint64 n) = 8"
  by (simp add: PutUint64_def)

lemma Uint64_PutUint64: "Uint64 (PutUint64 n) = n"
proof -
  have b: "(of_char (char_of (m mod 256 :: int)) :: int) = m mod 256" for m by simp
  have "foldl (\<lambda>n b. n * 256 + of_char b) 0 (PutUint64 n) = uint n"
    unfolding PutUint64_def list.map foldl_Cons foldl_Nil b mult_zero_left add_0_left
    by (rule bytes8_value) (use uint_bounded [of n] in simp_all)
  then show ?thesis by (simp add: Uint64_def)
qed

lemma sint_wrap:
  fixes n :: "64 word"
  assumes "0 < sint n" and "0 \<le> k" "k < 2 ^ 62"
  shows "sint (n + of_int k) = (if sint n + k < 2 ^ 63 then sint n + k else sint n + k - 2 ^ 64)"
proof -
  have n: "sint n < 2 ^ 63" using sint_lt [of n] by simp
  have "n + of_int k = of_int (sint n + k)" by simp
  then have "sint (n + of_int k) = signed_take_bit 63 (sint n + k)" using sint_sbintrunc' [where ?'a = 64, of "sint n + k"] by simp
  also have "\<dots> = (sint n + k + 2 ^ 63) mod 2 ^ 64 - 2 ^ 63" by (simp add: signed_take_bit_eq_take_bit_shift take_bit_eq_mod)
  also have "\<dots> = (if sint n + k < 2 ^ 63 then sint n + k else sint n + k - 2 ^ 64)"
  proof (cases "sint n + k < 2 ^ 63")
    case True
    then have "(sint n + k + 2 ^ 63) mod 2 ^ 64 = sint n + k + 2 ^ 63" using assms by (intro mod_pos_pos_trivial) simp_all
    with True show ?thesis by simp
  next
    case False
    have "(sint n + k + 2 ^ 63) mod 2 ^ 64 = (sint n + k + 2 ^ 63 - 2 ^ 64) mod 2 ^ 64" by (rule minus_mod_self2 [symmetric])
    also have "\<dots> = sint n + k + 2 ^ 63 - 2 ^ 64" using False n assms by (intro mod_pos_pos_trivial) simp_all
    finally show ?thesis using False by simp
  qed
  finally show ?thesis .
qed

lemma accepted_length:
  fixes n :: "64 word"
  assumes "0 < sint n" and "sint (8 + n + 32) = int l"
  shows "sint (8 + n) = 8 + sint n" and "8 + sint n + 32 = int l"
proof -
  have "sint (n + of_int 40) = int l" using assms(2) by (simp add: algebra_simps)
  then have l: "sint n + 40 = int l" using sint_wrap [OF assms(1), of 40] sint_lt [of n] by (auto split: if_splits)
  then show "8 + sint n + 32 = int l" by simp
  have "sint n + 40 < 2 ^ 63" using sint_wrap [OF assms(1), of 40] assms(2) sint_lt [of n] by (auto simp: algebra_simps split: if_splits)
  then show "sint (8 + n) = 8 + sint n" using sint_wrap [OF assms(1), of 8] by (simp add: algebra_simps)
qed

lemma cursorBody_total: "\<exists>r. cursorBody raw = Inr r"
  using accepted_length(1) [of "Uint64 (slice raw 0 8)" "length raw"] accepted_length(2) [of "Uint64 (slice raw 0 8)" "length raw"]
  by (auto simp: cursorBody_def Let_def sliceOk_def)

lemma cursorBody_Some:
  "cursorBody raw = Inr (Some (body, sig)) \<Longrightarrow> \<exists>h. raw = h @ body @ sig \<and> length h = 8 \<and> length sig = 32 \<and> sint (Uint64 h) = int (length body) \<and> body \<noteq> []"
proof -
  assume a: "cursorBody raw = Inr (Some (body, sig))"
  define n where "n = Uint64 (slice raw 0 8)"
  have c: "40 \<le> length raw" "0 < sint n" "sint (8 + n + 32) = int (length raw)" "body = slice raw 8 (sint (8 + n))" "sig = slice raw (sint (8 + n)) (int (length raw))"
    using a by (auto simp: cursorBody_def Let_def n_def split: if_splits)
  note l = accepted_length [OF c(2,3)]
  define b where "b = nat (sint n)"
  have b: "0 < b" "8 + b + 32 = length raw" "nat (sint (8 + n)) = 8 + b" "nat (8 + sint n) = 8 + b" using l c(2) by (auto simp: b_def)
  have body: "body = take b (drop 8 raw)" "sig = drop (8 + b) raw" using c(4,5) l b(2,4) by (auto simp: slice_def b_def)
  have "raw = take 8 raw @ body @ sig" unfolding body by (metis append_take_drop_id drop_drop add.commute)
  moreover have "sint (Uint64 (take 8 raw)) = int (length body)" using b c(2) by (simp add: body b_def n_def slice_def)
  ultimately show ?thesis using b body by (intro exI [of _ "take 8 raw"]) auto
qed

lemma cursorBody_made:
  assumes "0 < length body" "length body < 2 ^ 62" "length sig = 32"
  shows "cursorBody (PutUint64 (of_nat (length body)) @ body @ sig) = Inr (Some (body, sig))"
proof -
  define n :: "64 word" where "n = of_nat (length body)"
  have "n = of_int (int (length body))" by (simp add: n_def)
  then have n: "sint n = int (length body)"
    using sint_sbintrunc' [where ?'a = 64, of "int (length body)"] assms by (simp add: signed_take_bit_int_eq_self)
  have s: "sint (8 + n) = 8 + int (length body)" "sint (8 + n + 32) = 8 + int (length body) + 32"
    using sint_wrap [of n 8] sint_wrap [of n 40] n assms by (simp_all add: algebra_simps)
  show ?thesis using assms s n by (simp add: cursorBody_def Let_def slice_def Uint64_PutUint64 n_def [symmetric] sliceOk_def nat_add_distrib)
qed

section \<open>Cursors\<close>

text \<open>What is relied on of the HMAC: an HMAC-SHA256 has 32 bytes.\<close>

definition hmac_ok :: "ext \<Rightarrow> bool" where
  "hmac_ok x \<longleftrightarrow> (\<forall>key m. length (x_hmac x key m) = 32)"

lemma cursorJSON_nonempty: "cursorJSON p \<noteq> []"
  by (simp add: cursorJSON_def)

text \<open>
  A list cursor comes back as it was handed out: until it expires it decodes to the sequence
  number it was made of, under its own key and scope; for any other scope it is invalid, and after
  its time it is reported as expired.
\<close>

theorem cursor_round_trip:
  assumes enc: "Cursor_Encode x key scope n now ttl = Inr c" and x: "hmac_ok x" and n: "0 < n"
    and j: "unmarshal (cursorJSON \<lparr>cu_Scope = scope, cu_Before = n, cu_Exp = e\<rparr>) = Some \<lparr>cu_Scope = scope, cu_Before = n, cu_Exp = e\<rparr>"
    and small: "length (cursorJSON \<lparr>cu_Scope = scope, cu_Before = n, cu_Exp = e\<rparr>) < 2 ^ 62"
    and e: "e = toUnix (now + (if ttl \<le> 0 then cursorTTL else ttl))"
  shows "Cursor_Decode x unmarshal key scope' c now'
     = (if scope' \<noteq> scope then Inl ErrInvalidCursor else if e < toUnix now' then Inl ErrExpiredCursor else Inr n)"
proof -
  define p where "p = \<lparr>cu_Scope = scope, cu_Before = n, cu_Exp = e\<rparr>"
  have "c = EncodeToString (PutUint64 (of_nat (length (cursorJSON p))) @ cursorJSON p @ x_hmac x key (cursorJSON p))"
    using enc by (auto simp: Cursor_Encode_def Let_def p_def e split: if_splits)
  moreover have "cursorBody (PutUint64 (of_nat (length (cursorJSON p))) @ cursorJSON p @ x_hmac x key (cursorJSON p)) = Inr (Some (cursorJSON p, x_hmac x key (cursorJSON p)))"
    using x small cursorJSON_nonempty [of p] by (intro cursorBody_made) (simp_all add: hmac_ok_def p_def)
  ultimately have "Cursor_Decode x unmarshal key scope' c now' = (if cu_Scope p \<noteq> scope' \<or> cu_Before p \<le> 0 then Inl ErrInvalidCursor
      else if cu_Exp p < toUnix now' then Inl ErrExpiredCursor else Inr (cu_Before p))"
    using j [folded p_def] by (simp add: Cursor_Decode_def length_PutUint64 [symmetric] del: length_PutUint64) (metis length_0_conv length_PutUint64 zero_neq_numeral)
  then show ?thesis using n by (auto simp: p_def)
qed

definition macExt :: ext where
  "macExt = sampleExt\<lparr>x_hmac := (\<lambda>k m. take 32 (k @ m @ replicate 32 (CHR 0x00)))\<rparr>"

definition samplePayload :: cursorPayload where
  "samplePayload = \<lparr>cu_Scope = ''audit'', cu_Before = 42, cu_Exp = 86400\<rparr>"

definition sampleUnmarshal :: "bytes \<Rightarrow> cursorPayload option" where
  "sampleUnmarshal b = (if b = cursorJSON samplePayload then Some samplePayload else None)"

definition sampleCursor :: string where "sampleCursor = projr (Cursor_Encode macExt ''key'' ''audit'' 42 0 0)"

theorem cursor_round_trip_witness: "Cursor_Decode macExt sampleUnmarshal ''key'' ''audit'' sampleCursor 0 = Inr 42"
proof -
  have enc: "Cursor_Encode macExt ''key'' ''audit'' 42 0 0 = Inr sampleCursor" by (simp add: sampleCursor_def Cursor_Encode_def Let_def)
  have mac: "hmac_ok macExt" by (auto simp: hmac_ok_def macExt_def)
  have e: "86400 = toUnix (0 + (if (0 :: int) \<le> 0 then cursorTTL else 0))" by (simp add: toUnix_def cursorTTL_def duration_defs)
  have "length (cursorJSON samplePayload) < 100" by code_simp
  then have small: "length (cursorJSON samplePayload) < 2 ^ 62" by simp
  have j: "sampleUnmarshal (cursorJSON samplePayload) = Some samplePayload" by (simp add: sampleUnmarshal_def)
  have now: "\<not> 86400 < toUnix 0" by (simp add: toUnix_def)
  have "Cursor_Decode macExt sampleUnmarshal ''key'' ''audit'' sampleCursor 0
      = (if ''audit'' \<noteq> ''audit'' then Inl ErrInvalidCursor else if 86400 < toUnix 0 then Inl ErrExpiredCursor else Inr 42)"
    by (rule cursor_round_trip [where unmarshal = sampleUnmarshal, OF enc mac _ j [unfolded samplePayload_def] small [unfolded samplePayload_def] e]) simp
  with now show ?thesis by simp
qed

text \<open>
  C29. Decoding a cursor is safe for every text. The slices it takes are always in bounds, even
  when the 64-bit arithmetic on the claimed length wraps around; and it accepts only a text that
  carries, for its body, the HMAC under the key, with the scope asked for and not expired.
\<close>

theorem cursor_decode_safe:
  "(\<forall>raw. \<exists>r. cursorBody raw = Inr r)
   \<and> (\<forall>n. Cursor_Decode x unmarshal key scope c now = Inr n \<longrightarrow> 0 < n \<and> (\<exists>h body p. DecodeString c = Some (h @ body @ x_hmac x key body) \<and> length h = 8
        \<and> sint (Uint64 h) = int (length body) \<and> unmarshal body = Some p \<and> cu_Scope p = scope \<and> cu_Before p = n \<and> toUnix now \<le> cu_Exp p))"
proof -
  have "0 < n \<and> (\<exists>h body p. DecodeString c = Some (h @ body @ x_hmac x key body) \<and> length h = 8
        \<and> sint (Uint64 h) = int (length body) \<and> unmarshal body = Some p \<and> cu_Scope p = scope \<and> cu_Before p = n \<and> toUnix now \<le> cu_Exp p)"
    if d: "Cursor_Decode x unmarshal key scope c now = Inr n" for n
  proof -
    obtain raw body p where r: "DecodeString c = Some raw" "cursorBody raw = Inr (Some (body, x_hmac x key body))" "unmarshal body = Some p" "cu_Scope p = scope"
        "0 < cu_Before p" "n = cu_Before p" "toUnix now \<le> cu_Exp p"
      using d by (auto simp: Cursor_Decode_def split: if_splits option.splits)
    from cursorBody_Some [OF r(2)] r show ?thesis by auto
  qed
  then show ?thesis using cursorBody_total by blast
qed

theorem cursor_decode_safe_witness:
  "\<exists>h body. DecodeString sampleCursor = Some (h @ body @ x_hmac macExt ''key'' body) \<and> length h = 8 \<and> sampleUnmarshal body = Some samplePayload"
proof -
  have "Cursor_Decode macExt sampleUnmarshal ''key'' ''audit'' sampleCursor 0 = Inr 42" by code_simp
  then obtain h body p where "DecodeString sampleCursor = Some (h @ body @ x_hmac macExt ''key'' body)" "length h = 8" "sampleUnmarshal body = Some p"
    using cursor_decode_safe [of macExt sampleUnmarshal "''key''" "''audit''" sampleCursor 0] by blast
  moreover from this have "p = samplePayload" by (simp add: sampleUnmarshal_def split: if_splits)
  ultimately show ?thesis by blast
qed

end
