(* ===== verification/Appliance.thy ===== *)
theory Appliance
  imports Redaction Extern "HOL-Library.AList"
begin

text \<open>
  Profiles, capabilities and modules of the appliance (internal/appliance) and the registry of
  services the control plane routes to (internal/serviceregistry). A Go map is an association
  list in the order in which the code happens to iterate over it.
\<close>

section \<open>Catalogs\<close>

type_synonym CapabilityCatalog = "(string \<times> string list) list"
type_synonym ProfileCatalog = "(string \<times> string list) list"

definition CapabilityBase :: string where "CapabilityBase = ''base''"

text \<open>Names are trimmed; of two that become equal the later entry wins.\<close>

fun trimCatalog :: "string \<Rightarrow> (string \<times> string list) list \<Rightarrow> (string \<times> string list) list \<Rightarrow> (string \<times> string list) list result" where
  "trimCatalog what acc [] = Inr acc"
| "trimCatalog what acc ((name, items) # rest) =
    (if TrimSpace name = [] then Inl (ErrMessage what)
     else trimCatalog what (AList.update (TrimSpace name) (map TrimSpace items) acc) rest)"

definition ProfileCatalogFromMetadata :: "(string \<times> string list) list \<Rightarrow> ProfileCatalog result" where
  "ProfileCatalogFromMetadata profiles = trimCatalog ''profiles catalog contains an empty profile name'' [] profiles"

definition CapabilityCatalogFromMetadata :: "(string \<times> string list) list \<Rightarrow> CapabilityCatalog result" where
  "CapabilityCatalogFromMetadata capabilities = trimCatalog ''capabilities catalog contains an empty capability name'' [] capabilities"

text \<open>An enabled set of capabilities, as its sorted list of names.\<close>

type_synonym capSet = "string list"

definition capEnabled :: "capSet \<Rightarrow> string \<Rightarrow> bool" where "capEnabled s c \<longleftrightarrow> c \<in> set s"

record ResolvedProfile =
  rv_Name :: string
  rv_Capabilities :: capSet

definition ResolveProfileWithCatalogs :: "string \<Rightarrow> ProfileCatalog \<Rightarrow> CapabilityCatalog \<Rightarrow> ResolvedProfile result" where
  "ResolveProfileWithCatalogs name catalog capabilityCatalog =
    (let profile = TrimSpace name
     in case map_of catalog profile of
          None \<Rightarrow> Inl (ErrMessage ''unknown appliance profile'')
        | Some capabilities \<Rightarrow>
            if list_ex (\<lambda>c. map_of capabilityCatalog c = None) capabilities then Inl (ErrMessage ''references unknown capability'')
            else let enabled = sort (remdups capabilities)
                 in if \<not> capEnabled enabled CapabilityBase then Inl (ErrMessage ''must include base'')
                    else if list_ex (\<lambda>c. list_ex (\<lambda>d. \<not> capEnabled enabled d) (the (map_of capabilityCatalog c))) enabled
                    then Inl (ErrMessage ''is missing a dependency'')
                    else Inr \<lparr>rv_Name = profile, rv_Capabilities = enabled\<rparr>)"

section \<open>Modules\<close>

record ModuleRoute =
  mr_Method :: string
  mr_ExternalPath :: string
  mr_UpstreamPath :: string
  mr_StripPrefix :: string
  mr_Permission :: string

record ModuleDescriptor =
  mo_Name :: string
  mo_Kind :: string
  mo_RequiredCapabilities :: "string list"
  mo_Dependencies :: "string list"
  mo_ExecutionMode :: string
  mo_EntitlementKey :: string
  mo_BaseURL :: string
  mo_Routes :: "ModuleRoute list"
  mo_SecurityClass :: string

text \<open>\<open>strings.ToUpper\<close>, with the case mapping of the runes beyond ASCII as its first argument.\<close>

definition upperRune :: "(int \<Rightarrow> int) \<Rightarrow> int \<Rightarrow> int" where
  "upperRune uupper r = (if r < 128 then (if inRange 97 122 r then r - 32 else r) else uupper r)"

definition ToUpper :: "(int \<Rightarrow> int) \<Rightarrow> string \<Rightarrow> string" where
  "ToUpper uupper s = concat (map (\<lambda>p. encodeRune (upperRune uupper (fst p))) (runeChunks s))"

definition PrimaryCapability :: "ModuleDescriptor \<Rightarrow> string" where
  "PrimaryCapability m = (case mo_RequiredCapabilities m of [] \<Rightarrow> [] | c # _ \<Rightarrow> c)"

definition moduleEnabled :: "ModuleDescriptor \<Rightarrow> capSet \<Rightarrow> bool" where
  "moduleEnabled m caps \<longleftrightarrow> list_all (capEnabled caps) (mo_RequiredCapabilities m)"

definition normalizeRoute :: "(int \<Rightarrow> int) \<Rightarrow> ModuleRoute \<Rightarrow> ModuleRoute" where
  "normalizeRoute uupper r =
    \<lparr>mr_Method = ToUpper uupper (TrimSpace (mr_Method r)), mr_ExternalPath = TrimSpace (mr_ExternalPath r),
     mr_UpstreamPath = TrimSpace (mr_UpstreamPath r), mr_StripPrefix = TrimSpace (mr_StripPrefix r), mr_Permission = TrimSpace (mr_Permission r)\<rparr>"

definition normalizeModule :: "(int \<Rightarrow> int) \<Rightarrow> ModuleDescriptor \<Rightarrow> ModuleDescriptor" where
  "normalizeModule uupper m =
     m\<lparr>mo_Name := TrimSpace (mo_Name m), mo_BaseURL := TrimSpace (mo_BaseURL m), mo_Routes := map (normalizeRoute uupper) (mo_Routes m)\<rparr>"

text \<open>The evaluator decides on entitlements; a nil evaluator entitles everything.\<close>

definition ResolveModulesWithCatalog ::
    "(int \<Rightarrow> int) \<Rightarrow> ResolvedProfile \<Rightarrow> (ModuleDescriptor \<Rightarrow> ResolvedProfile \<Rightarrow> bool) option \<Rightarrow> ModuleDescriptor list \<Rightarrow> ModuleDescriptor list" where
  "ResolveModulesWithCatalog uupper resolved evaluator catalog =
    (let entitled = (case evaluator of None \<Rightarrow> \<lambda>m. True | Some f \<Rightarrow> \<lambda>m. f m resolved)
     in map (normalizeModule uupper) (filter (\<lambda>m. moduleEnabled m (rv_Capabilities resolved) \<and> entitled m) catalog))"

definition ModuleNamed :: "ModuleDescriptor list \<Rightarrow> string \<Rightarrow> ModuleDescriptor option" where
  "ModuleNamed modules name = List.find (\<lambda>m. TrimSpace (mo_Name m) = TrimSpace name) modules"

definition ModuleEnabled :: "ModuleDescriptor list \<Rightarrow> string \<Rightarrow> bool" where
  "ModuleEnabled modules name \<longleftrightarrow> ModuleNamed modules name \<noteq> None"

section \<open>The service registry\<close>

record RegistryRoute =
  rr_Method :: string
  rr_ExternalPath :: string
  rr_UpstreamPath :: string
  rr_StripPrefix :: string
  rr_Permission :: string

record RegistryService =
  rs_Name :: string
  rs_Capability :: string
  rs_BaseURL :: string
  rs_Routes :: "RegistryRoute list"

definition registryRoute :: "(int \<Rightarrow> int) \<Rightarrow> ModuleRoute \<Rightarrow> RegistryRoute" where
  "registryRoute uupper r =
    \<lparr>rr_Method = ToUpper uupper (TrimSpace (mr_Method r)), rr_ExternalPath = TrimSpace (mr_ExternalPath r),
     rr_UpstreamPath = TrimSpace (mr_UpstreamPath r), rr_StripPrefix = TrimSpace (mr_StripPrefix r), rr_Permission = TrimSpace (mr_Permission r)\<rparr>"

definition RegistryFromModules :: "(int \<Rightarrow> int) \<Rightarrow> ModuleDescriptor list \<Rightarrow> RegistryService list" where
  "RegistryFromModules uupper modules =
     map (\<lambda>m. \<lparr>rs_Name = TrimSpace (mo_Name m), rs_Capability = PrimaryCapability m, rs_BaseURL = TrimSpace (mo_BaseURL m),
                rs_Routes = map (registryRoute uupper) (mo_Routes m)\<rparr>)
       (filter (\<lambda>m. TrimSpace (mo_BaseURL m) \<noteq> [] \<and> mo_Routes m \<noteq> []) modules)"

definition validMethod :: "string \<Rightarrow> bool" where
  "validMethod m \<longleftrightarrow> m \<in> {''GET'', ''POST'', ''PUT'', ''PATCH'', ''DELETE'', ''HEAD'', ''OPTIONS'', ''ANY'', ''*''}"

text \<open>
  Validate collects the text of every problem (without the label of the place here) and the
  routes it has seen, keyed by method and path with the name of their owner.
\<close>

type_synonym seenRoutes = "(string \<times> string) list"

definition complain :: "bool \<Rightarrow> string \<Rightarrow> string list" where "complain bad msg = (if bad then [msg] else [])"

definition routeKey :: "(int \<Rightarrow> int) \<Rightarrow> RegistryRoute \<Rightarrow> string" where
  "routeKey uupper r = ToUpper uupper (TrimSpace (rr_Method r)) @ '' '' @ TrimSpace (rr_ExternalPath r)"

definition routeErrors :: "(int \<Rightarrow> int) \<Rightarrow> RegistryRoute \<Rightarrow> string list" where
  "routeErrors uupper r =
    (let mth = ToUpper uupper (TrimSpace (rr_Method r)); externalPath = TrimSpace (rr_ExternalPath r);
         stripPrefix = TrimSpace (rr_StripPrefix r); upstreamPath = TrimSpace (rr_UpstreamPath r)
     in (if mth = [] then [''method must not be empty''] else complain (\<not> validMethod mth) ''method is not supported'')
        @ complain (\<not> HasPrefix externalPath ''/'') ''externalPath must start with /''
        @ (if stripPrefix \<noteq> []
           then complain (\<not> HasPrefix stripPrefix ''/'') ''stripPrefix must start with /''
                @ complain (upstreamPath \<noteq> []) ''upstreamPath must be empty when stripPrefix is set''
                @ complain (\<not> Contains externalPath ''{path...'') ''externalPath must use {path...} when stripPrefix is set''
           else complain (\<not> HasPrefix upstreamPath ''/'') ''upstreamPath must start with /'')
        @ complain (TrimSpace (rr_Permission r) = []) ''permission must not be empty'')"

definition claimRoute :: "(int \<Rightarrow> int) \<Rightarrow> string \<Rightarrow> RegistryRoute \<Rightarrow> seenRoutes \<Rightarrow> string list \<times> seenRoutes" where
  "claimRoute uupper owner r seen =
    (if ToUpper uupper (TrimSpace (rr_Method r)) \<noteq> [] \<and> HasPrefix (TrimSpace (rr_ExternalPath r)) ''/''
     then (case map_of seen (routeKey uupper r) of
             Some _ \<Rightarrow> ([''duplicates route''], seen)
           | None \<Rightarrow> ([], (routeKey uupper r, owner) # seen))
     else ([], seen))"

fun validateRoutes :: "(int \<Rightarrow> int) \<Rightarrow> string \<Rightarrow> RegistryRoute list \<Rightarrow> seenRoutes \<Rightarrow> string list \<times> seenRoutes" where
  "validateRoutes uupper owner [] seen = ([], seen)"
| "validateRoutes uupper owner (r # rs) seen =
    (let (dup, seen1) = claimRoute uupper owner r seen; (errs, seen2) = validateRoutes uupper owner rs seen1
     in (routeErrors uupper r @ dup @ errs, seen2))"

text \<open>\<open>url.Parse\<close> gives the scheme and the host of a base URL; it is the first argument.\<close>

definition serviceErrors :: "(string \<Rightarrow> (string \<times> string) option) \<Rightarrow> capSet \<Rightarrow> RegistryService \<Rightarrow> string list" where
  "serviceErrors urlParse enabled s =
     complain (TrimSpace (rs_Name s) = []) ''name must not be empty''
     @ (if TrimSpace (rs_Capability s) = [] then [''capability must not be empty'']
        else complain (\<not> capEnabled enabled (rs_Capability s)) ''capability is not enabled by applianceProfile'')
     @ (if TrimSpace (rs_BaseURL s) = [] then [''baseURL must not be empty'']
        else complain (case urlParse (TrimSpace (rs_BaseURL s)) of None \<Rightarrow> True
             | Some (scheme, host) \<Rightarrow> scheme \<notin> {''http'', ''https''} \<or> host = []) ''baseURL must be an absolute http(s) URL'')
     @ complain (rs_Routes s = []) ''routes must not be empty''"

fun validateServices :: "(int \<Rightarrow> int) \<Rightarrow> (string \<Rightarrow> (string \<times> string) option) \<Rightarrow> capSet \<Rightarrow> RegistryService list \<Rightarrow> seenRoutes \<Rightarrow> string list" where
  "validateServices uupper urlParse enabled [] seen = []"
| "validateServices uupper urlParse enabled (s # ss) seen =
    (let (errs, seen1) = validateRoutes uupper (TrimSpace (rs_Name s)) (rs_Routes s) seen
     in serviceErrors urlParse enabled s @ errs @ validateServices uupper urlParse enabled ss seen1)"

definition Registry_Validate :: "(int \<Rightarrow> int) \<Rightarrow> (string \<Rightarrow> (string \<times> string) option) \<Rightarrow> capSet \<Rightarrow> RegistryService list \<Rightarrow> unit result" where
  "Registry_Validate uupper urlParse enabled services =
    (let errs = validateServices uupper urlParse enabled services []
     in if errs \<noteq> [] then Inl (ErrMessage (concat errs)) else Inr ())"

section \<open>Properties\<close>

definition closedUnder :: "CapabilityCatalog \<Rightarrow> string set \<Rightarrow> bool" where
  "closedUnder cat S \<longleftrightarrow> (\<forall>c\<in>S. \<exists>deps. map_of cat c = Some deps \<and> set deps \<subseteq> S)"

lemma ResolveProfile_iff:
  "ResolveProfileWithCatalogs name catalog cat = Inr rp \<longleftrightarrow> (\<exists>caps. map_of catalog (TrimSpace name) = Some caps \<and> CapabilityBase \<in> set caps
     \<and> closedUnder cat (set caps) \<and> rp = \<lparr>rv_Name = TrimSpace name, rv_Capabilities = sort (remdups caps)\<rparr>)"
proof (cases "map_of catalog (TrimSpace name)")
  case (Some caps)
  have "closedUnder cat (set caps) \<longleftrightarrow> \<not> list_ex (\<lambda>c. map_of cat c = None) caps
      \<and> \<not> list_ex (\<lambda>c. list_ex (\<lambda>d. \<not> capEnabled (sort (remdups caps)) d) (the (map_of cat c))) (sort (remdups caps))"
    unfolding closedUnder_def list_ex_iff capEnabled_def by (fastforce simp: subset_iff)
  then show ?thesis by (auto simp: ResolveProfileWithCatalogs_def Some Let_def capEnabled_def)
qed (simp add: ResolveProfileWithCatalogs_def)

text \<open>
  A profile is resolved exactly when it is safe to run. Resolving succeeds if and only if
  the profile is in the catalog, contains the base capability, and every capability it lists is
  known and has all its dependencies in the profile too; nothing is added to it. Every module
  that is then enabled needs only capabilities of the profile.
\<close>

theorem resolved_profile_is_closed:
  "(ResolveProfileWithCatalogs name catalog cat = Inr rp \<longleftrightarrow> (\<exists>caps. map_of catalog (TrimSpace name) = Some caps \<and> CapabilityBase \<in> set caps
      \<and> closedUnder cat (set caps) \<and> rp = \<lparr>rv_Name = TrimSpace name, rv_Capabilities = sort (remdups caps)\<rparr>))
   \<and> (\<forall>m \<in> set (ResolveModulesWithCatalog uupper rp evaluator modules). set (mo_RequiredCapabilities m) \<subseteq> set (rv_Capabilities rp))"
proof -
  have "set (mo_RequiredCapabilities m) \<subseteq> set (rv_Capabilities rp)" if "m \<in> set (ResolveModulesWithCatalog uupper rp evaluator modules)" for m
    using that by (auto simp: ResolveModulesWithCatalog_def Let_def normalizeModule_def moduleEnabled_def capEnabled_def list_all_iff)
  with ResolveProfile_iff show ?thesis by blast
qed

definition sampleCapabilities :: CapabilityCatalog where "sampleCapabilities = [(''base'', []), (''files'', [''base'']), (''dns'', [''host''])]"

definition sampleModule :: ModuleDescriptor where
  "sampleModule = \<lparr>mo_Name = '' files '', mo_Kind = ''platform'', mo_RequiredCapabilities = [''files''], mo_Dependencies = [], mo_ExecutionMode = ''cluster-service'',
     mo_EntitlementKey = [], mo_BaseURL = ''http://files'', mo_Routes = [\<lparr>mr_Method = ''get'', mr_ExternalPath = ''/files'', mr_UpstreamPath = ''/'',
       mr_StripPrefix = [], mr_Permission = ''files.read''\<rparr>], mo_SecurityClass = ''restricted''\<rparr>"

definition filesProfile :: ResolvedProfile where "filesProfile = \<lparr>rv_Name = ''core'', rv_Capabilities = [''base'', ''files'']\<rparr>"

theorem resolved_profile_is_closed_witness:
  "ResolveProfileWithCatalogs ''core '' [(''core'', [''files'', ''base''])] sampleCapabilities = Inr filesProfile
   \<and> map mo_RequiredCapabilities (ResolveModulesWithCatalog (\<lambda>r. r) filesProfile None [sampleModule]) = [[''files'']]"
proof -
  have t: "TrimSpace ''core '' = ''core''" by code_simp
  have c: "closedUnder sampleCapabilities (set [''files'', ''base''])" by (simp add: closedUnder_def sampleCapabilities_def)
  have "sort (remdups [''files'', ''base'']) = [''base'', ''files'']" by code_simp
  then have "ResolveProfileWithCatalogs ''core '' [(''core'', [''files'', ''base''])] sampleCapabilities = Inr filesProfile"
    using resolved_profile_is_closed [of "''core ''" "[(''core'', [''files'', ''base''])]" sampleCapabilities filesProfile "\<lambda>r. r" None "[]"] c
    by (simp add: t CapabilityBase_def filesProfile_def)
  then show ?thesis by code_simp
qed

lemma complain_Nil [simp]: "complain bad msg = [] \<longleftrightarrow> \<not> bad" by (simp add: complain_def)

lemma routeErrors_Nil:
  "routeErrors uupper r = [] \<Longrightarrow> validMethod (ToUpper uupper (TrimSpace (rr_Method r))) \<and> HasPrefix (TrimSpace (rr_ExternalPath r)) ''/''
     \<and> TrimSpace (rr_Permission r) \<noteq> []"
  by (auto simp: routeErrors_def Let_def split: if_splits)

lemma validMethod_nonempty: "validMethod m \<Longrightarrow> m \<noteq> []" by (auto simp: validMethod_def)

lemma validateRoutes_Nil:
  assumes "validateRoutes uupper owner rs seen = ([], seen')"
  shows "distinct (map (routeKey uupper) rs) \<and> (\<forall>r\<in>set rs. routeErrors uupper r = [])
    \<and> (routeKey uupper ` set rs) \<inter> fst ` set seen = {} \<and> fst ` set seen' = fst ` set seen \<union> routeKey uupper ` set rs"
  using assms
proof (induction rs arbitrary: seen)
  case (Cons r rs)
  obtain dup seen1 where c: "claimRoute uupper owner r seen = (dup, seen1)" by (metis surj_pair)
  obtain errs seen2 where v: "validateRoutes uupper owner rs seen1 = (errs, seen2)" by (metis surj_pair)
  have e: "routeErrors uupper r = []" "dup = []" "errs = []" "seen2 = seen'" using Cons.prems by (auto simp: c v)
  have new: "routeKey uupper r \<notin> fst ` set seen" "seen1 = (routeKey uupper r, owner) # seen"
    using c e(2) routeErrors_Nil [OF e(1)] validMethod_nonempty by (auto simp: claimRoute_def map_of_eq_None_iff split: option.splits if_splits)
  from Cons.IH [of seen1] v e(3,4) have "distinct (map (routeKey uupper) rs)" "\<forall>r\<in>set rs. routeErrors uupper r = []"
      "routeKey uupper ` set rs \<inter> fst ` set seen1 = {}" "fst ` set seen' = fst ` set seen1 \<union> routeKey uupper ` set rs" by auto
  with e(1) new show ?case by auto
qed simp

lemma validateServices_Nil:
  assumes "validateServices uupper urlParse enabled ss seen = []"
  shows "distinct (map (routeKey uupper) (concat (map rs_Routes ss))) \<and> (\<forall>s\<in>set ss. serviceErrors urlParse enabled s = [] \<and> (\<forall>r\<in>set (rs_Routes s). routeErrors uupper r = []))
    \<and> (routeKey uupper ` set (concat (map rs_Routes ss))) \<inter> fst ` set seen = {}"
  using assms
proof (induction ss arbitrary: seen)
  case (Cons s ss)
  obtain errs seen1 where v: "validateRoutes uupper (TrimSpace (rs_Name s)) (rs_Routes s) seen = (errs, seen1)" by (metis surj_pair)
  have e: "serviceErrors urlParse enabled s = []" "errs = []" "validateServices uupper urlParse enabled ss seen1 = []" using Cons.prems by (auto simp: v)
  note r = validateRoutes_Nil [OF v [unfolded e(2)]]
  note IH = Cons.IH [OF e(3)]
  have "fst ` set seen1 = fst ` set seen \<union> routeKey uupper ` set (rs_Routes s)" using r by blast
  then have "routeKey uupper ` set (rs_Routes s) \<inter> routeKey uupper ` set (concat (map rs_Routes ss)) = {}" using IH by (simp only: Int_Un_distrib Un_empty Int_commute)
  then have "distinct (map (routeKey uupper) (rs_Routes s @ concat (map rs_Routes ss)))"
    unfolding map_append distinct_append set_map using r IH by (intro conjI) simp_all
  moreover have "routeKey uupper ` set (concat (map rs_Routes (s # ss))) \<inter> fst ` set seen = {}"
    unfolding list.map concat.simps set_append image_Un Int_Un_distrib2 using r IH \<open>fst ` set seen1 = _\<close> by (simp only: Int_Un_distrib Un_empty)
  ultimately show ?case using r IH e(1) by auto
qed simp

text \<open>
  A registry that validates is unambiguous and guarded: no two routes of any services have
  the same method and path, every route asks for a permission, and every service belongs to a
  capability that the profile of the appliance enables.
\<close>

theorem registry_is_unambiguous:
  assumes "Registry_Validate uupper urlParse enabled services = Inr ()"
  shows "distinct (map (routeKey uupper) (concat (map rs_Routes services)))
    \<and> (\<forall>s\<in>set services. capEnabled enabled (rs_Capability s) \<and> rs_Routes s \<noteq> []
         \<and> (\<forall>r\<in>set (rs_Routes s). TrimSpace (rr_Permission r) \<noteq> [] \<and> validMethod (ToUpper uupper (TrimSpace (rr_Method r)))))"
proof -
  have "validateServices uupper urlParse enabled services [] = []" using assms by (auto simp: Registry_Validate_def Let_def split: if_splits)
  from validateServices_Nil [OF this] show ?thesis
    by (auto simp: serviceErrors_def dest!: routeErrors_Nil split: if_splits)
qed

definition sampleUrlParse :: "string \<Rightarrow> (string \<times> string) option" where
  "sampleUrlParse s = (if HasPrefix s ''http://'' then Some (''http'', drop 7 s) else None)"

theorem registry_is_unambiguous_witness:
  "(\<exists>s. RegistryFromModules (\<lambda>r. r) [sampleModule] = [s] \<and> capEnabled (rv_Capabilities filesProfile) (rs_Capability s))
   \<and> Registry_Validate (\<lambda>r. r) sampleUrlParse [''base''] (RegistryFromModules (\<lambda>r. r) [sampleModule]) \<noteq> Inr ()"
proof -
  have v: "Registry_Validate (\<lambda>r. r) sampleUrlParse (rv_Capabilities filesProfile) (RegistryFromModules (\<lambda>r. r) [sampleModule]) = Inr ()" by code_simp
  have "length (RegistryFromModules (\<lambda>r. r) [sampleModule]) = 1" by code_simp
  then obtain s where s: "RegistryFromModules (\<lambda>r. r) [sampleModule] = [s]" by (metis One_nat_def length_0_conv length_Suc_conv)
  moreover have "capEnabled (rv_Capabilities filesProfile) (rs_Capability s)" using registry_is_unambiguous [OF v] s by simp
  moreover have "Registry_Validate (\<lambda>r. r) sampleUrlParse [''base''] (RegistryFromModules (\<lambda>r. r) [sampleModule]) \<noteq> Inr ()" by code_simp
  ultimately show ?thesis by blast
qed

end
