(* ===== verification/Licensing.thy ===== *)
theory Licensing
  imports Appliance Sessions
begin

text \<open>
  Licensing (internal/licensing), profiles and their activation (internal/profiles), the
  notification about a missing license (internal/notifications) and their store
  (storage/sqlstore/licensing.go). Decoding JSON and RFC 3339 times and quoting a string (the verb \<open>%q\<close>) are the fields of
  \<open>licExt\<close>; the active metadata bundle is an argument.
\<close>

section \<open>Store\<close>

definition GetLicensing :: "io \<Rightarrow> db \<Rightarrow> LicensingRecord result" where
  "GetLicensing io d = andThen (stmt io ''LicensingStore.GetLicensing'') (\<lambda>_. Inr (db_licensing d))"

definition PutLicensing :: "io \<Rightarrow> LicensingRecord \<Rightarrow> db \<Rightarrow> db result" where
  "PutLicensing io r d = andThen (stmt io ''LicensingStore.PutLicensing'') (\<lambda>_.
     Inr (d\<lparr>db_licensing := r\<lparr>lr_UpdatedAt := (if IsZero (lr_UpdatedAt r) then io_now io else lr_UpdatedAt r),
       lr_LicenseSummaryJSON := (if lr_LicenseSummaryJSON r = [] then ''{}'' else lr_LicenseSummaryJSON r)\<rparr>\<rparr>))"

definition ListCustomProfiles :: "io \<Rightarrow> db \<Rightarrow> CustomApplianceProfile list result" where
  "ListCustomProfiles io d = andThen (stmt io ''LicensingStore.ListCustomProfiles'') (\<lambda>_. Inr (sort_key ca_ID (db_customProfiles d)))"

definition GetCustomProfile :: "io \<Rightarrow> string \<Rightarrow> db \<Rightarrow> CustomApplianceProfile result" where
  "GetCustomProfile io pid d = andThen (stmt io ''LicensingStore.GetCustomProfile'') (\<lambda>_.
     case selectFirst (\<lambda>p. ca_ID p = pid) (db_customProfiles d) of None \<Rightarrow> Inl ErrNotFound | Some p \<Rightarrow> Inr p)"

definition UpsertCustomProfile :: "io \<Rightarrow> CustomApplianceProfile \<Rightarrow> db \<Rightarrow> db result" where
  "UpsertCustomProfile io p0 d =
    (let p = p0\<lparr>ca_CreatedAt := (if IsZero (ca_CreatedAt p0) then io_now io else ca_CreatedAt p0),
                ca_UpdatedAt := (if IsZero (ca_UpdatedAt p0) then io_now io else ca_UpdatedAt p0)\<rparr>;
         same = (\<lambda>q. ca_ID q = ca_ID p)
     in andThen (stmt io ''LicensingStore.UpsertCustomProfile'') (\<lambda>_.
        Inr (d\<lparr>db_customProfiles :=
          (if 0 < affected same (db_customProfiles d)
           then updateWhere same (\<lambda>q. q\<lparr>ca_DisplayName := ca_DisplayName p, ca_Description := ca_Description p,
                  ca_CapabilitiesJSON := ca_CapabilitiesJSON p, ca_UpdatedAt := ca_UpdatedAt p\<rparr>) (db_customProfiles d)
           else db_customProfiles d @ [p])\<rparr>)))"

definition DeleteCustomProfile :: "io \<Rightarrow> string \<Rightarrow> db \<Rightarrow> db result" where
  "DeleteCustomProfile io pid d = andThen (stmt io ''LicensingStore.DeleteCustomProfile'') (\<lambda>_.
     andThen (require (0 < affected (\<lambda>p. ca_ID p = pid) (db_customProfiles d)) ErrNotFound) (\<lambda>_.
     Inr (d\<lparr>db_customProfiles := filter (\<lambda>p. ca_ID p \<noteq> pid) (db_customProfiles d)\<rparr>)))"

definition GetActivation :: "io \<Rightarrow> db \<Rightarrow> ProfileActivationRecord result" where
  "GetActivation io d = andThen (stmt io ''LicensingStore.GetActivation'') (\<lambda>_. Inr (db_activation d))"

definition PutActivation :: "io \<Rightarrow> ProfileActivationRecord \<Rightarrow> db \<Rightarrow> db result" where
  "PutActivation io r d = andThen (stmt io ''LicensingStore.PutActivation'') (\<lambda>_.
     Inr (d\<lparr>db_activation := r\<lparr>pa_UpdatedAt := (if IsZero (pa_UpdatedAt r) then io_now io else pa_UpdatedAt r)\<rparr>\<rparr>))"

definition AcknowledgeNotification :: "io \<Rightarrow> NotificationAck \<Rightarrow> db \<Rightarrow> db result" where
  "AcknowledgeNotification io a0 d =
    (let a = a0\<lparr>na_AcknowledgedAt := (if IsZero (na_AcknowledgedAt a0) then io_now io else na_AcknowledgedAt a0)\<rparr>;
         same = (\<lambda>q. na_NotificationID q = na_NotificationID a)
     in andThen (stmt io ''LicensingStore.AcknowledgeNotification'') (\<lambda>_.
        Inr (d\<lparr>db_acks := (if 0 < affected same (db_acks d)
          then updateWhere same (\<lambda>q. q\<lparr>na_UserID := na_UserID a, na_AcknowledgedAt := na_AcknowledgedAt a\<rparr>) (db_acks d)
          else db_acks d @ [a])\<rparr>)))"

definition IsNotificationAcknowledged :: "io \<Rightarrow> string \<Rightarrow> string \<Rightarrow> db \<Rightarrow> bool result" where
  "IsNotificationAcknowledged io nid uid d = andThen (stmt io ''LicensingStore.IsNotificationAcknowledged'') (\<lambda>_.
     Inr (0 < affected (\<lambda>a. na_NotificationID a = nid \<and> na_UserID a = uid) (db_acks d)))"

section \<open>License documents\<close>

record Document =
  do_Version :: int
  do_Issuer :: string
  do_CustomerID :: string
  do_ApplianceID :: string
  do_ValidFrom :: string
  do_ValidTo :: string
  do_Capabilities :: "string list"
  do_Signature :: string

record licExt =
  lx_parseDoc :: "string \<Rightarrow> Document option"
  lx_parseTime :: "string \<Rightarrow> time option"
  lx_summaryCaps :: "string \<Rightarrow> string list option"
  lx_summary :: "string \<Rightarrow> json option"
  lx_quote :: "string \<Rightarrow> string"

definition ErrInvalidDocument :: err where "ErrInvalidDocument = ErrSentinel ''licensing.ErrInvalidDocument''"

definition normalizeCapabilities :: "string list \<Rightarrow> string list" where
  "normalizeCapabilities cs = dedup {} cs"

definition validateValidityWindow :: "licExt \<Rightarrow> string \<Rightarrow> string \<Rightarrow> time \<Rightarrow> unit result" where
  "validateValidityWindow lx from to now =
     andThen (if TrimSpace from = [] then Inr ()
              else case lx_parseTime lx from of None \<Rightarrow> Inl ErrInvalidDocument | Some t \<Rightarrow> require (\<not> now < t) ErrInvalidDocument) (\<lambda>_.
     if TrimSpace to = [] then Inr ()
     else case lx_parseTime lx to of None \<Rightarrow> Inl ErrInvalidDocument | Some t \<Rightarrow> require (\<not> t < now) ErrInvalidDocument)"

definition trustedSignature :: "string \<Rightarrow> bool" where
  "trustedSignature sig \<longleftrightarrow> TrimSpace sig = ''offline-dev'' \<or> HasPrefix (TrimSpace sig) ''offline:''"

definition parseAndValidateDocument :: "licExt \<Rightarrow> CapabilityCatalog \<Rightarrow> time \<Rightarrow> string \<Rightarrow> Document result" where
  "parseAndValidateDocument lx catalog now raw0 =
    (let raw = TrimSpace raw0
     in if raw = [] then Inl ErrInvalidDocument
        else case lx_parseDoc lx raw of None \<Rightarrow> Inl ErrInvalidDocument
        | Some doc \<Rightarrow>
            let caps = normalizeCapabilities (do_Capabilities doc)
            in if do_Version doc \<noteq> 1 \<or> TrimSpace (do_Issuer doc) = [] \<or> TrimSpace (do_Signature doc) = [] \<or> \<not> trustedSignature (do_Signature doc)
                  \<or> do_Capabilities doc = [] \<or> list_ex (\<lambda>c. map_of catalog c = None) caps \<or> CapabilityBase \<notin> set caps
               then Inl ErrInvalidDocument
               else andThen (validateValidityWindow lx (do_ValidFrom doc) (do_ValidTo doc) now) (\<lambda>_. Inr (doc\<lparr>do_Capabilities := caps\<rparr>)))"

section \<open>The licensing service\<close>

definition baseFreeCapabilities :: "string list" where
  "baseFreeCapabilities = [''base'', ''lan-discovery'', ''host'', ''files'', ''workflows'']"

definition entitledCapabilities :: "licExt \<Rightarrow> LicensingRecord \<Rightarrow> string list result" where
  "entitledCapabilities lx r = (case lr_State r of
     LicensingUnresolved \<Rightarrow> Inr []
   | LicensingBaseFree \<Rightarrow> Inr baseFreeCapabilities
   | LicensingLicensed \<Rightarrow> (case lx_summaryCaps lx (lr_LicenseSummaryJSON r) of
       None \<Rightarrow> Inl (ErrMessage ''licensing: parse summary'') | Some caps \<Rightarrow> Inr (normalizeCapabilities caps)))"

record licStatus =
  ls_State :: LicensingState
  ls_Resolved :: bool
  ls_ProfileActivationOK :: bool
  ls_EntitledCapabilities :: "string list"
  ls_AcceptedAt :: "time option"
  ls_Summary :: "json option"

definition Licensing_Status :: "licExt \<Rightarrow> io \<Rightarrow> db \<Rightarrow> licStatus result" where
  "Licensing_Status lx io d =
     andThen (GetLicensing io d) (\<lambda>r.
     andThen (entitledCapabilities lx r) (\<lambda>caps.
     Inr \<lparr>ls_State = lr_State r, ls_Resolved = (lr_State r \<noteq> LicensingUnresolved), ls_ProfileActivationOK = (lr_State r \<noteq> LicensingUnresolved),
          ls_EntitledCapabilities = caps, ls_AcceptedAt = lr_AcceptedAt r,
          ls_Summary = (if lr_LicenseSummaryJSON r \<in> {[], ''{}''} then None else lx_summary lx (lr_LicenseSummaryJSON r))\<rparr>))"

definition Entitlements :: "licExt \<Rightarrow> io \<Rightarrow> db \<Rightarrow> string list result" where
  "Entitlements lx io d = andThen (Licensing_Status lx io d) (\<lambda>st. Inr (ls_EntitledCapabilities st))"

definition IsResolved :: "licExt \<Rightarrow> io \<Rightarrow> db \<Rightarrow> bool result" where
  "IsResolved lx io d = andThen (Licensing_Status lx io d) (\<lambda>st. Inr (ls_Resolved st))"

definition IsCapabilityEntitled :: "licExt \<Rightarrow> io \<Rightarrow> string \<Rightarrow> db \<Rightarrow> bool result" where
  "IsCapabilityEntitled lx io capability d = andThen (Entitlements lx io d) (\<lambda>caps. Inr (capability \<in> set caps))"

definition baseSummary :: string where
  "baseSummary = jsonMarshal (jsonMap [(''mode'', JStr ''base_free''), (''capabilities'', JArr (map JStr baseFreeCapabilities))])"

definition AcceptBaseEntitlement :: "ext \<Rightarrow> licExt \<Rightarrow> Actor \<Rightarrow> io \<Rightarrow> db \<Rightarrow> db \<times> licStatus result" where
  "AcceptBaseEntitlement x lx actor io = WithTx io (\<lambda>d.
     andThen (GetLicensing io d) (\<lambda>r.
       if lr_State r \<in> {LicensingBaseFree, LicensingLicensed} then andThen (Licensing_Status lx io d) (\<lambda>st. Inr (st, d))
       else andThen (PutLicensing io (r\<lparr>lr_State := LicensingBaseFree, lr_LicenseDocument := [], lr_LicenseSummaryJSON := baseSummary,
                lr_AcceptedAt := Some (io_now io), lr_AcceptedByUserID := ac_UserID actor, lr_UpdatedAt := io_now io\<rparr>) d) (\<lambda>d1.
            andThen (Recorder_Record x io actor (successEvent ''licensing.base_entitlement.accept'' ''licensing'' ''appliance'' None) d1) (\<lambda>d2.
            andThen (Licensing_Status lx io d2) (\<lambda>st. Inr (st, d2))))))"

definition licensedSummary :: "Document \<Rightarrow> string" where
  "licensedSummary doc = jsonMarshal (jsonMap [(''mode'', JStr ''licensed''), (''issuer'', JStr (do_Issuer doc)), (''customerId'', JStr (do_CustomerID doc)),
     (''applianceId'', JStr (do_ApplianceID doc)), (''validFrom'', JStr (do_ValidFrom doc)), (''validTo'', JStr (do_ValidTo doc)),
     (''capabilities'', JArr (map JStr (do_Capabilities doc)))])"

definition ImportLicense :: "ext \<Rightarrow> licExt \<Rightarrow> CapabilityCatalog \<Rightarrow> Actor \<Rightarrow> string \<Rightarrow> io \<Rightarrow> db \<Rightarrow> db \<times> licStatus result" where
  "ImportLicense x lx catalog actor raw io =
     (\<lambda>d. guarded (parseAndValidateDocument lx catalog (io_now io) raw) (\<lambda>doc. WithTx io (\<lambda>d.
       andThen (GetLicensing io d) (\<lambda>r.
       andThen (PutLicensing io (r\<lparr>lr_State := LicensingLicensed, lr_LicenseDocument := TrimSpace raw, lr_LicenseSummaryJSON := licensedSummary doc,
           lr_AcceptedAt := Some (io_now io), lr_AcceptedByUserID := ac_UserID actor, lr_UpdatedAt := io_now io\<rparr>) d) (\<lambda>d1.
       andThen (Recorder_Record x io actor (successEvent ''licensing.license.import'' ''licensing'' ''appliance''
           (Some [(''issuer'', JStr (do_Issuer doc)), (''customerId'', JStr (do_CustomerID doc))])) d1) (\<lambda>d2.
       andThen (Licensing_Status lx io d2) (\<lambda>st. Inr (st, d2))))))) d)"

section \<open>Profiles\<close>

record capDef =
  cd_DisplayName :: string
  cd_Requires :: "string list"
  cd_Conflicts :: "string list"
  cd_RequiredArtifacts :: "string list"
  cd_RequiredEntitlement :: string

record profileDef =
  pd_DisplayName :: string
  pd_Description :: string
  pd_Capabilities :: "string list"

record metaBundle =
  mb_MetadataVersion :: string
  mb_Capabilities :: "(string \<times> capDef) list"
  mb_Profiles :: "(string \<times> profileDef) list"

definition zeroCapDef :: capDef where
  "zeroCapDef = \<lparr>cd_DisplayName = [], cd_Requires = [], cd_Conflicts = [], cd_RequiredArtifacts = [], cd_RequiredEntitlement = []\<rparr>"

text \<open>Indexing a Go map with a missing key gives the zero value.\<close>

definition capDefOf :: "metaBundle \<Rightarrow> string \<Rightarrow> capDef" where
  "capDefOf b c = (case map_of (mb_Capabilities b) c of None \<Rightarrow> zeroCapDef | Some def \<Rightarrow> def)"

record ProfileView =
  pv_ID :: string
  pv_DisplayName :: string
  pv_Description :: string
  pv_Active :: bool
  pv_Capabilities :: "string list"
  pv_MetadataVersion :: string

datatype problem = UnknownCapability string | MissingDependency string string | MissingArtifact string string
  | EntitlementsUnavailable err | NoCapabilityGranted | NotLicensed string

record ValidationGroup =
  vg_Name :: string
  vg_Errors :: "problem list"

definition vg_OK :: "ValidationGroup \<Rightarrow> bool" where "vg_OK g \<longleftrightarrow> vg_Errors g = []"

record ValidationResult =
  vr_ProfileID :: string
  vr_MetadataVersion :: string
  vr_OK :: bool
  vr_Groups :: "ValidationGroup list"

definition definitionProblems :: "metaBundle \<Rightarrow> string list \<Rightarrow> problem list" where
  "definitionProblems b caps =
     map UnknownCapability (filter (\<lambda>c. map_of (mb_Capabilities b) c = None) caps)
     @ concat (map (\<lambda>c. map (MissingDependency c) (filter (\<lambda>d. d \<notin> set caps) (cd_Requires (capDefOf b c)))) caps)"

definition bundleProblems :: "(string \<Rightarrow> bool) \<Rightarrow> metaBundle \<Rightarrow> string list \<Rightarrow> problem list" where
  "bundleProblems artifactPresent b caps =
     concat (map (\<lambda>c. map (\<lambda>a. MissingArtifact a c) (filter (\<lambda>a. \<not> artifactPresent a) (cd_RequiredArtifacts (capDefOf b c)))) caps)"

definition licenseProblems :: "string list result \<Rightarrow> string list \<Rightarrow> problem list" where
  "licenseProblems entitled caps = (case entitled of
     Inl e \<Rightarrow> [EntitlementsUnavailable e]
   | Inr es \<Rightarrow> (if es = [] then [NoCapabilityGranted] else []) @ map NotLicensed (filter (\<lambda>c. c \<notin> set es) caps))"

definition validateCapabilities :: "licExt \<Rightarrow> (string \<Rightarrow> bool) \<Rightarrow> io \<Rightarrow> string \<Rightarrow> string list \<Rightarrow> metaBundle \<Rightarrow> db \<Rightarrow> ValidationResult" where
  "validateCapabilities lx artifactPresent io profileID caps b d =
    (let groups = [\<lparr>vg_Name = ''profile_definition'', vg_Errors = definitionProblems b caps\<rparr>,
                   \<lparr>vg_Name = ''bundle_availability'', vg_Errors = bundleProblems artifactPresent b caps\<rparr>,
                   \<lparr>vg_Name = ''license_entitlement'', vg_Errors = licenseProblems (Entitlements lx io d) caps\<rparr>]
     in \<lparr>vr_ProfileID = profileID, vr_MetadataVersion = mb_MetadataVersion b, vr_OK = list_all vg_OK groups, vr_Groups = groups\<rparr>)"

definition ErrProfileNotFound :: err where "ErrProfileNotFound = ErrSentinel ''profiles.ErrNotFound''"
definition ErrLicensingUnresolved :: err where "ErrLicensingUnresolved = ErrSentinel ''profiles.ErrLicensingUnresolved''"
definition ErrValidationFailed :: err where "ErrValidationFailed = ErrSentinel ''profiles.ErrValidationFailed''"

definition activeBundle :: "metaBundle option result \<Rightarrow> metaBundle result" where
  "activeBundle mb = andThen mb (\<lambda>b. case b of None \<Rightarrow> Inl (ErrMessage ''profiles: no active metadata bundle'') | Some b \<Rightarrow> Inr b)"

definition Profiles_Validate :: "licExt \<Rightarrow> metaBundle option result \<Rightarrow> (string \<Rightarrow> bool) \<Rightarrow> io \<Rightarrow> string \<Rightarrow> db \<Rightarrow> ValidationResult result" where
  "Profiles_Validate lx mb artifactPresent io profileID d = andThen (activeBundle mb) (\<lambda>b.
     case map_of (mb_Profiles b) profileID of None \<Rightarrow> Inl ErrProfileNotFound
     | Some def \<Rightarrow> Inr (validateCapabilities lx artifactPresent io profileID (pd_Capabilities def) b d))"

definition activeProfileID :: "string \<Rightarrow> io \<Rightarrow> db \<Rightarrow> string result" where
  "activeProfileID runtimeProfile io d = andThen (GetActivation io d) (\<lambda>act.
     Inr (if pa_DesiredProfileID act \<noteq> [] \<and> pa_Status act = ProfileActivationActive then pa_DesiredProfileID act else runtimeProfile))"

definition ListCapabilities :: "metaBundle option result \<Rightarrow> (string \<times> capDef) list" where
  "ListCapabilities mb = (case activeBundle mb of Inl e \<Rightarrow> [] | Inr b \<Rightarrow> map (\<lambda>c. (c, capDefOf b c)) (sort (remdups (map fst (mb_Capabilities b)))))"

definition Profiles_List :: "metaBundle option result \<Rightarrow> string \<Rightarrow> io \<Rightarrow> db \<Rightarrow> ProfileView list result" where
  "Profiles_List mb runtimeProfile io d = andThen (activeBundle mb) (\<lambda>b. andThen (activeProfileID runtimeProfile io d) (\<lambda>active.
     Inr (map (\<lambda>pid. case map_of (mb_Profiles b) pid of
         Some def \<Rightarrow> \<lparr>pv_ID = pid, pv_DisplayName = pd_DisplayName def, pv_Description = pd_Description def, pv_Active = (pid = active),
           pv_Capabilities = pd_Capabilities def, pv_MetadataVersion = mb_MetadataVersion b\<rparr>
       | None \<Rightarrow> \<lparr>pv_ID = pid, pv_DisplayName = [], pv_Description = [], pv_Active = (pid = active), pv_Capabilities = [], pv_MetadataVersion = mb_MetadataVersion b\<rparr>)
       (sort (remdups (map fst (mb_Profiles b)))))))"

definition Profiles_Get :: "metaBundle option result \<Rightarrow> string \<Rightarrow> io \<Rightarrow> string \<Rightarrow> db \<Rightarrow> ProfileView result" where
  "Profiles_Get mb runtimeProfile io pid d = andThen (Profiles_List mb runtimeProfile io d) (\<lambda>ps.
     case List.find (\<lambda>p. pv_ID p = pid) ps of None \<Rightarrow> Inl ErrProfileNotFound | Some p \<Rightarrow> Inr p)"

definition ActivationState :: "io \<Rightarrow> db \<Rightarrow> ProfileActivationRecord result" where
  "ActivationState io d = GetActivation io d"

definition requireResolved :: "licExt \<Rightarrow> io \<Rightarrow> db \<Rightarrow> unit result" where
  "requireResolved lx io d = andThen (IsResolved lx io d) (\<lambda>ok. require ok ErrLicensingUnresolved)"

record ActivationResult =
  ar_ProfileID :: string
  ar_Status :: ProfileActivationStatus
  ar_Message :: string
  ar_RequiresRestart :: bool

definition activationRecord :: "licExt \<Rightarrow> string \<Rightarrow> string \<Rightarrow> Actor \<Rightarrow> io \<Rightarrow> ProfileActivationRecord" where
  "activationRecord lx runtimeProfile profileID actor io =
    (if profileID = runtimeProfile
     then \<lparr>pa_DesiredProfileID = profileID, pa_Status = ProfileActivationActive, pa_Message = ''Profile is already active for this control-plane process.'',
           pa_UpdatedAt = io_now io, pa_UpdatedByUserID = ac_UserID actor\<rparr>
     else \<lparr>pa_DesiredProfileID = profileID, pa_Status = ProfileActivationPendingRestart,
           pa_Message = ''Profile '' @ lx_quote lx profileID @ '' accepted; restart the control plane with this appliance profile to complete activation.'',
           pa_UpdatedAt = io_now io, pa_UpdatedByUserID = ac_UserID actor\<rparr>)"

definition activationStatusText :: "ProfileActivationStatus \<Rightarrow> string" where
  "activationStatusText s = (case s of ProfileActivationActive \<Rightarrow> ''active'' | ProfileActivationPendingRestart \<Rightarrow> ''pending_restart'' | ProfileActivationFailed \<Rightarrow> ''failed'')"

definition commitActivation :: "ext \<Rightarrow> Actor \<Rightarrow> string \<Rightarrow> ProfileActivationRecord \<Rightarrow> io \<Rightarrow> db \<Rightarrow> db \<times> unit result" where
  "commitActivation x actor metadataVersion r io =
     WithTx io (unitTx (\<lambda>d. andThen (PutActivation io r d) (\<lambda>d1.
       Recorder_Record x io actor (successEvent ''profiles.activate'' ''appliance_profile'' (pa_DesiredProfileID r)
         (Some [(''status'', JStr (activationStatusText (pa_Status r))), (''requiresRestart'', JBool (pa_Status r = ProfileActivationPendingRestart)),
                (''metadataVersion'', JStr metadataVersion)])) d1)))"

definition Activate ::
    "ext \<Rightarrow> licExt \<Rightarrow> metaBundle option result \<Rightarrow> (string \<Rightarrow> bool) \<Rightarrow> string \<Rightarrow> Actor \<Rightarrow> string \<Rightarrow> io \<Rightarrow> db \<Rightarrow> db \<times> (ActivationResult \<times> ValidationResult) result" where
  "Activate x lx mb artifactPresent runtimeProfile actor profileID io d =
     guarded (andThen (requireResolved lx io d) (\<lambda>_. andThen (Profiles_Validate lx mb artifactPresent io profileID d) (\<lambda>v.
         andThen (require (vr_OK v) ErrValidationFailed) (\<lambda>_. Inr v))))
       (\<lambda>v d. thenTx (commitActivation x actor (vr_MetadataVersion v) (activationRecord lx runtimeProfile profileID actor io) io d) (\<lambda>_ d1.
         (d1, andThen (GetActivation io d1) (\<lambda>act. Inr (\<lparr>ar_ProfileID = profileID, ar_Status = pa_Status act, ar_Message = pa_Message act,
            ar_RequiresRestart = (pa_Status act = ProfileActivationPendingRestart)\<rparr>, v))))) d"

section \<open>Notifications\<close>

definition UnresolvedLicenseNotificationID :: string where "UnresolvedLicenseNotificationID = ''licensing-unresolved''"

text \<open>The only notification there is carries fixed texts; its identifier and time stand for it.\<close>

definition Notifications_List :: "licExt \<Rightarrow> io \<Rightarrow> db \<Rightarrow> (string \<times> time) list result" where
  "Notifications_List lx io d = andThen (Licensing_Status lx io d) (\<lambda>st.
     Inr (if ls_Resolved st then [] else [(UnresolvedLicenseNotificationID, io_now io)]))"

definition Notifications_Acknowledge :: "io \<Rightarrow> string \<Rightarrow> string \<Rightarrow> db \<Rightarrow> db \<times> unit result" where
  "Notifications_Acknowledge io userID notificationID d =
    (if notificationID = UnresolvedLicenseNotificationID then (d, Inr ())
     else autoCommit (AcknowledgeNotification io \<lparr>na_NotificationID = notificationID, na_UserID = userID, na_AcknowledgedAt = io_now io\<rparr>) d)"

section \<open>The license only moves up\<close>

interpretation licensing_import: audited_op x "ImportLicense x lx catalog actor raw" "''licensing.license.import''" for x lx catalog actor raw
  unfolding ImportLicense_def
  by (rule audited_op_guarded, rule audited_op_WithTx)
    (auto simp: PutLicensing_def successEvent_def dest: Recorder_Record_InrD(3) intro!: audited_body)

interpretation profiles_activate: audited_op x "commitActivation x actor version r" "''profiles.activate''" for x actor version r
  unfolding commitActivation_def
  by (rule audited_op_WithTx) (auto simp: PutActivation_def successEvent_def dest: Recorder_Record_InrD(3) intro!: audited_body)

fun licenseRank :: "LicensingState \<Rightarrow> nat" where
  "licenseRank LicensingUnresolved = 0"
| "licenseRank LicensingBaseFree = 1"
| "licenseRank LicensingLicensed = 2"

text \<open>
  What is relied on of the JSON package: the capabilities in the summary of an imported document
  are read back as they were written. (A string that came out of \<open>json.Unmarshal\<close> is valid
  UTF-8, so no text is changed on the way.)
\<close>

definition summary_ok :: "licExt \<Rightarrow> bool" where
  "summary_ok lx \<longleftrightarrow> (\<forall>raw doc. lx_parseDoc lx raw = Some doc \<longrightarrow>
     (let caps = normalizeCapabilities (do_Capabilities doc) in lx_summaryCaps lx (licensedSummary (doc\<lparr>do_Capabilities := caps\<rparr>)) = Some caps))"

lemma dedup_fixed: "distinct cs \<Longrightarrow> (\<forall>c\<in>set cs. c \<noteq> [] \<and> TrimSpace c = c \<and> c \<notin> seen) \<Longrightarrow> dedup seen cs = cs"
proof (induction cs arbitrary: seen)
  case (Cons a cs)
  then have "dedup (insert a seen) cs = cs" by (intro Cons.IH) auto
  with Cons.prems show ?case by (simp add: Let_def)
qed simp

lemma distinct_dedup: "distinct (dedup seen cs)"
  by (induction seen cs rule: dedup.induct) (auto simp: Let_def set_dedup)

lemma normalizeCapabilities_idem: "normalizeCapabilities (normalizeCapabilities cs) = normalizeCapabilities cs"
  unfolding normalizeCapabilities_def by (rule dedup_fixed) (auto simp: distinct_dedup set_dedup TrimSpace_idem)

definition knownCaps :: "CapabilityCatalog \<Rightarrow> string list \<Rightarrow> bool" where
  "knownCaps catalog caps \<longleftrightarrow> CapabilityBase \<in> set caps \<and> set caps \<subseteq> dom (map_of catalog) \<and> distinct caps"

definition license_ok :: "licExt \<Rightarrow> CapabilityCatalog \<Rightarrow> db \<Rightarrow> bool" where
  "license_ok lx catalog d \<longleftrightarrow> (lr_State (db_licensing d) = LicensingLicensed \<longrightarrow>
     (\<exists>caps. entitledCapabilities lx (db_licensing d) = Inr caps \<and> knownCaps catalog caps))"

lemma parse_Inr:
  assumes "parseAndValidateDocument lx catalog now raw = Inr doc" and "summary_ok lx"
  shows "knownCaps catalog (do_Capabilities doc)" and "lx_summaryCaps lx (licensedSummary doc) = Some (do_Capabilities doc)"
    and "normalizeCapabilities (do_Capabilities doc) = do_Capabilities doc" and "licensedSummary doc \<noteq> []"
proof -
  obtain doc0 where d: "lx_parseDoc lx (TrimSpace raw) = Some doc0" "doc = doc0\<lparr>do_Capabilities := normalizeCapabilities (do_Capabilities doc0)\<rparr>"
      "\<not> list_ex (\<lambda>c. map_of catalog c = None) (normalizeCapabilities (do_Capabilities doc0))" "CapabilityBase \<in> set (normalizeCapabilities (do_Capabilities doc0))"
    using assms(1) by (auto simp: parseAndValidateDocument_def Let_def split: if_splits option.splits)
  then show "knownCaps catalog (do_Capabilities doc)"
    by (auto simp: knownCaps_def list_ex_iff normalizeCapabilities_def distinct_dedup)
  show "lx_summaryCaps lx (licensedSummary doc) = Some (do_Capabilities doc)" using assms(2) d by (simp add: summary_ok_def Let_def)
  show "normalizeCapabilities (do_Capabilities doc) = do_Capabilities doc" using d(2) by (simp add: normalizeCapabilities_idem)
  show "licensedSummary doc \<noteq> []" by (simp add: licensedSummary_def jsonMap_def)
qed

lemma Record_licensing: "Recorder_Record x io actor e d = Inr d' \<Longrightarrow> db_licensing d' = db_licensing d \<and> db_activation d' = db_activation d"
  by (subst (1 2) Recorder_Record_InrD(1)) auto

lemma Import_cases:
  assumes "ImportLicense x lx catalog actor raw io d = (d', Inr st)"
  obtains doc where "parseAndValidateDocument lx catalog (io_now io) raw = Inr doc" and "lr_State (db_licensing d') = LicensingLicensed"
    and "lr_LicenseSummaryJSON (db_licensing d') = (if licensedSummary doc = [] then ''{}'' else licensedSummary doc)" and "Licensing_Status lx io d' = Inr st"
  using assms unfolding ImportLicense_def guarded_Inr
  by (auto simp: PutLicensing_def GetLicensing_def dest!: WithTx_Inr Record_licensing)

lemma Accept_cases:
  assumes "AcceptBaseEntitlement x lx actor io d = (d', r)"
  shows "d' = d \<or> (lr_State (db_licensing d) = LicensingUnresolved \<and> lr_State (db_licensing d') = LicensingBaseFree)"
proof (cases r)
  case (Inr st)
  then show ?thesis using assms unfolding AcceptBaseEntitlement_def
    by (cases "lr_State (db_licensing d)") (auto simp: GetLicensing_def PutLicensing_def dest!: WithTx_Inr Record_licensing)
qed (use assms in \<open>auto simp: AcceptBaseEntitlement_def dest: WithTx_Inl\<close>)

inductive license_step :: "ext \<Rightarrow> licExt \<Rightarrow> CapabilityCatalog \<Rightarrow> db \<Rightarrow> db \<Rightarrow> bool" for x lx catalog where
  accept: "license_step x lx catalog d (fst (AcceptBaseEntitlement x lx actor io d))"
| import_license: "license_step x lx catalog d (fst (ImportLicense x lx catalog actor raw io d))"
| activate: "license_step x lx catalog d (fst (Activate x lx mb present runtimeProfile actor pid io d))"
| acknowledge: "license_step x lx catalog d (fst (Notifications_Acknowledge io uid nid d))"

inductive license_reachable :: "ext \<Rightarrow> licExt \<Rightarrow> CapabilityCatalog \<Rightarrow> db \<Rightarrow> db \<Rightarrow> bool" for x lx catalog where
  start: "license_reachable x lx catalog d d"
| step: "license_reachable x lx catalog d d1 \<Longrightarrow> license_step x lx catalog d1 d2 \<Longrightarrow> license_reachable x lx catalog d d2"

lemma commitActivation_licensing: "db_licensing (fst (commitActivation x actor v r io d)) = db_licensing d"
proof (cases "commitActivation x actor v r io d")
  case (Pair d' q)
  then show ?thesis
    by (cases q) (auto simp: commitActivation_def PutActivation_def dest!: WithTx_Inr WithTx_Inl Record_licensing)
qed

lemma thenTx_read: "fst (thenTx p (\<lambda>a d. (d, f a d))) = fst p"
  by (cases "(p, \<lambda>a d. (d, f a d))" rule: thenTx.cases) auto

lemma Activate_licensing: "db_licensing (fst (Activate x lx mb present rt actor pid io d)) = db_licensing d"
  unfolding Activate_def guarded_def by (auto simp: thenTx_read commitActivation_licensing split: sum.splits)

lemma Acknowledge_licensing: "db_licensing (fst (Notifications_Acknowledge io uid nid d)) = db_licensing d"
  by (auto simp: Notifications_Acknowledge_def autoCommit_def AcknowledgeNotification_def Let_def split: sum.splits)

lemma license_step_ok:
  assumes "license_step x lx catalog d d'" and s: "summary_ok lx"
  shows "licenseRank (lr_State (db_licensing d)) \<le> licenseRank (lr_State (db_licensing d'))" and "license_ok lx catalog d \<Longrightarrow> license_ok lx catalog d'"
proof -
  have "licenseRank (lr_State (db_licensing d)) \<le> licenseRank (lr_State (db_licensing d')) \<and> (license_ok lx catalog d \<longrightarrow> license_ok lx catalog d')"
    using assms(1)
  proof cases
    case (accept actor io)
    then show ?thesis using Accept_cases [of x lx actor io d d'] by (cases "AcceptBaseEntitlement x lx actor io d") (auto simp: license_ok_def)
  next
    case (import_license actor raw io)
    show ?thesis
    proof (cases "ImportLicense x lx catalog actor raw io d")
      case (Pair d1 r)
      with import_license have d': "d' = d1" by simp
      show ?thesis
      proof (cases r)
        case (Inl e)
        then show ?thesis using licensing_import.failure_keeps Pair d' by blast
      next
        case (Inr st)
        from Import_cases [OF Pair [unfolded Inr]] obtain doc where doc: "parseAndValidateDocument lx catalog (io_now io) raw = Inr doc"
          "lr_State (db_licensing d') = LicensingLicensed" "lr_LicenseSummaryJSON (db_licensing d') = (if licensedSummary doc = [] then ''{}'' else licensedSummary doc)"
          unfolding d' by metis
        note p = parse_Inr [OF doc(1) s]
        have "entitledCapabilities lx (db_licensing d') = Inr (do_Capabilities doc)" using doc(2,3) p(2-4) by (simp add: entitledCapabilities_def)
        then show ?thesis using p(1) doc(2) by (cases "lr_State (db_licensing d)") (auto simp: license_ok_def)
      qed
    qed
  qed (simp_all add: license_ok_def Activate_licensing Acknowledge_licensing)
  then show "licenseRank (lr_State (db_licensing d)) \<le> licenseRank (lr_State (db_licensing d'))" "license_ok lx catalog d \<Longrightarrow> license_ok lx catalog d'" by blast+
qed

lemma license_reachable_ok:
  assumes "license_reachable x lx catalog d d'" and "summary_ok lx"
  shows "licenseRank (lr_State (db_licensing d)) \<le> licenseRank (lr_State (db_licensing d')) \<and> (license_ok lx catalog d \<longrightarrow> license_ok lx catalog d')"
  using assms by (induction rule: license_reachable.induct) (use license_step_ok order_trans in blast)+

text \<open>
  C30. The license of an appliance only moves up. Starting from a fresh database, whatever
  requests to accept the base entitlement, import a license, activate a profile or acknowledge a
  notification follow and whatever fails, the state never goes back (unresolved, base, licensed),
  and while it is licensed the entitlements can be computed: they are distinct known capabilities
  among which is the base capability.
\<close>

theorem license_only_moves_up:
  assumes "license_reachable x lx catalog (emptyDb msg) d" and "license_reachable x lx catalog d d'" and "summary_ok lx"
  shows "licenseRank (lr_State (db_licensing d)) \<le> licenseRank (lr_State (db_licensing d')) \<and> license_ok lx catalog d'"
proof -
  have "license_ok lx catalog (emptyDb msg)" by (simp add: license_ok_def emptyDb_def)
  then show ?thesis using license_reachable_ok [OF assms(1,3)] license_reachable_ok [OF assms(2,3)] by blast
qed

definition sampleDocument :: Document where
  "sampleDocument = \<lparr>do_Version = 1, do_Issuer = ''acme'', do_CustomerID = [], do_ApplianceID = [], do_ValidFrom = [], do_ValidTo = [],
     do_Capabilities = [''base'', '' files '', ''base''], do_Signature = ''offline-dev''\<rparr>"

definition sampleLicExt :: licExt where
  "sampleLicExt = \<lparr>lx_parseDoc = (\<lambda>s. if s = ''doc'' then Some sampleDocument else None), lx_parseTime = (\<lambda>_. None),
     lx_summaryCaps = (\<lambda>_. Some [''base'', ''files'']), lx_summary = (\<lambda>_. None), lx_quote = (\<lambda>s. s)\<rparr>"

definition sampleLicensed :: db where
  "sampleLicensed = fst (ImportLicense sampleExt sampleLicExt sampleCapabilities SystemActor '' doc'' sampleIO (emptyDb []))"

lemma summary_ok_sample: "summary_ok sampleLicExt"
proof -
  have "normalizeCapabilities (do_Capabilities sampleDocument) = [''base'', ''files'']" by code_simp
  then show ?thesis by (simp add: summary_ok_def sampleLicExt_def)
qed

theorem license_only_moves_up_witness:
  "license_ok sampleLicExt sampleCapabilities sampleLicensed \<and> lr_State (db_licensing (emptyDb [])) = LicensingUnresolved
   \<and> lr_State (db_licensing sampleLicensed) = LicensingLicensed \<and> entitledCapabilities sampleLicExt (db_licensing sampleLicensed) = Inr [''base'', ''files'']"
proof -
  have "license_reachable sampleExt sampleLicExt sampleCapabilities (emptyDb []) sampleLicensed"
    unfolding sampleLicensed_def by (rule license_reachable.step [OF license_reachable.start]) (rule license_step.import_license)
  then have "license_ok sampleLicExt sampleCapabilities sampleLicensed"
    using license_only_moves_up [OF license_reachable.start _ summary_ok_sample] by blast
  moreover have "lr_State (db_licensing sampleLicensed) = LicensingLicensed" by code_simp
  moreover have "entitledCapabilities sampleLicExt (db_licensing sampleLicensed) = Inr [''base'', ''files'']" by code_simp
  ultimately show ?thesis by (simp add: emptyDb_def)
qed

section \<open>Activation\<close>

definition profileAllowed :: "licExt \<Rightarrow> metaBundle option result \<Rightarrow> (string \<Rightarrow> bool) \<Rightarrow> io \<Rightarrow> string \<Rightarrow> db \<Rightarrow> bool" where
  "profileAllowed lx mb present io pid d \<longleftrightarrow> (\<exists>b def es. mb = Inr (Some b) \<and> map_of (mb_Profiles b) pid = Some def
     \<and> lr_State (db_licensing d) \<noteq> LicensingUnresolved \<and> Entitlements lx io d = Inr es \<and> es \<noteq> []
     \<and> (\<forall>c\<in>set (pd_Capabilities def). c \<in> set es \<and> c \<in> dom (map_of (mb_Capabilities b))
          \<and> set (cd_Requires (capDefOf b c)) \<subseteq> set (pd_Capabilities def) \<and> (\<forall>a\<in>set (cd_RequiredArtifacts (capDefOf b c)). present a)))"

lemma definitionProblems_none:
  "definitionProblems b caps = [] \<longleftrightarrow> (\<forall>c\<in>set caps. c \<in> dom (map_of (mb_Capabilities b)) \<and> set (cd_Requires (capDefOf b c)) \<subseteq> set caps)"
  by (auto simp: definitionProblems_def filter_empty_conv)

lemma bundleProblems_none:
  "bundleProblems present b caps = [] \<longleftrightarrow> (\<forall>c\<in>set caps. \<forall>a\<in>set (cd_RequiredArtifacts (capDefOf b c)). present a)"
  by (auto simp: bundleProblems_def filter_empty_conv)

lemma licenseProblems_none:
  "licenseProblems r caps = [] \<longleftrightarrow> (\<exists>es. r = Inr es \<and> es \<noteq> [] \<and> (\<forall>c\<in>set caps. c \<in> set es))"
  by (cases r) (auto simp: licenseProblems_def filter_empty_conv)

lemma activation_checks:
  "(\<exists>v. andThen (requireResolved lx io d) (\<lambda>_. andThen (Profiles_Validate lx mb present io pid d) (\<lambda>v.
      andThen (require (vr_OK v) ErrValidationFailed) (\<lambda>_. Inr v))) = Inr v) \<longleftrightarrow> profileAllowed lx mb present io pid d"
proof -
  have ok: "vr_OK (validateCapabilities lx present io pid caps b d) \<longleftrightarrow> definitionProblems b caps = [] \<and> bundleProblems present b caps = []
      \<and> licenseProblems (Entitlements lx io d) caps = []" for caps b
    by (simp add: validateCapabilities_def Let_def vg_OK_def)
  have res: "requireResolved lx io d = Inr () \<longleftrightarrow> lr_State (db_licensing d) \<noteq> LicensingUnresolved \<and> (\<exists>es. Entitlements lx io d = Inr es)"
    by (cases "io_fault io ''LicensingStore.GetLicensing''"; cases "entitledCapabilities lx (db_licensing d)")
      (simp_all add: requireResolved_def IsResolved_def Entitlements_def Licensing_Status_def GetLicensing_def stmt_def)
  show ?thesis
    unfolding andThen_Inr_iff
    by (auto simp: res ok profileAllowed_def Profiles_Validate_def activeBundle_def definitionProblems_none bundleProblems_none licenseProblems_none
      split: option.splits) (blast | force)+
qed

text \<open>
  C31. A profile is activated exactly when it may run. An activation that succeeds was for a
  profile of the active metadata bundle whose capabilities are all known, licensed, closed under
  their dependencies and have their artifacts in the installed software; the profile is then the
  stored choice, waiting for a restart unless the process already runs it, and the license is as
  before. A profile that fails any of these checks is refused and nothing is stored.
\<close>

theorem activated_profile_is_licensed:
  "(\<not> profileAllowed lx mb present io pid d \<longrightarrow> (\<exists>e. Activate x lx mb present rt actor pid io d = (d, Inl e)))
   \<and> (Activate x lx mb present rt actor pid io d = (d', Inr (res, v)) \<longrightarrow> profileAllowed lx mb present io pid d
       \<and> pa_DesiredProfileID (db_activation d') = pid \<and> ar_RequiresRestart res = (pid \<noteq> rt) \<and> pa_Status (db_activation d') = ar_Status res
       \<and> db_licensing d' = db_licensing d)"
proof (intro conjI impI)
  let ?checks = "andThen (requireResolved lx io d) (\<lambda>_. andThen (Profiles_Validate lx mb present io pid d) (\<lambda>v.
      andThen (require (vr_OK v) ErrValidationFailed) (\<lambda>_. Inr v)))"
  note checks = activation_checks [of lx io d mb present pid]
  show "\<exists>e. Activate x lx mb present rt actor pid io d = (d, Inl e)" if "\<not> profileAllowed lx mb present io pid d"
    using that checks by (cases ?checks) (auto simp: Activate_def guarded_def)
  assume act: "Activate x lx mb present rt actor pid io d = (d', Inr (res, v))"
  then obtain w where w: "?checks = Inr w" and t: "thenTx (commitActivation x actor (vr_MetadataVersion w) (activationRecord lx rt pid actor io) io d)
      (\<lambda>_ d1. (d1, andThen (GetActivation io d1) (\<lambda>act. Inr (\<lparr>ar_ProfileID = pid, ar_Status = pa_Status act, ar_Message = pa_Message act,
        ar_RequiresRestart = (pa_Status act = ProfileActivationPendingRestart)\<rparr>, w)))) = (d', Inr (res, v))"
    unfolding Activate_def guarded_Inr by (elim exE conjE)
  show "profileAllowed lx mb present io pid d" using w by (intro iffD1 [OF checks]) (rule exI)
  from t have c: "commitActivation x actor (vr_MetadataVersion w) (activationRecord lx rt pid actor io) io d = (d', Inr ())"
    and r: "ar_Status res = pa_Status (db_activation d')" "ar_RequiresRestart res = (pa_Status (db_activation d') = ProfileActivationPendingRestart)"
    by (auto simp: thenTx_Inr GetActivation_def)
  from c have "pa_DesiredProfileID (db_activation d') = pid \<and> pa_Status (db_activation d') = (if pid = rt then ProfileActivationActive else ProfileActivationPendingRestart)"
    by (auto simp: commitActivation_def PutActivation_def activationRecord_def dest!: WithTx_Inr Record_licensing)
  with r show "pa_DesiredProfileID (db_activation d') = pid" "ar_RequiresRestart res = (pid \<noteq> rt)" "pa_Status (db_activation d') = ar_Status res" by auto
  show "db_licensing d' = db_licensing d" using commitActivation_licensing [of x actor "vr_MetadataVersion w" "activationRecord lx rt pid actor io" io d] c by simp
qed

definition sampleBundle :: metaBundle where
  "sampleBundle = \<lparr>mb_MetadataVersion = ''7'', mb_Capabilities = [(''base'', zeroCapDef), (''files'', zeroCapDef\<lparr>cd_Requires := [''base''], cd_RequiredArtifacts := [''img'']\<rparr>)],
     mb_Profiles = [(''home'', \<lparr>pd_DisplayName = ''Home'', pd_Description = [], pd_Capabilities = [''base'', ''files'']\<rparr>),
                    (''bad'', \<lparr>pd_DisplayName = ''Bad'', pd_Description = [], pd_Capabilities = [''files'']\<rparr>)]\<rparr>"

definition sampleActivate :: "string \<Rightarrow> db \<times> (ActivationResult \<times> ValidationResult) result" where
  "sampleActivate pid = Activate sampleExt sampleLicExt (Inr (Some sampleBundle)) (\<lambda>a. a = ''img'') ''edge'' SystemActor pid (sampleIO\<lparr>io_eventID := ''ev2''\<rparr>) sampleLicensed"

definition homeResult :: "db \<times> (ActivationResult \<times> ValidationResult) result" where "homeResult = sampleActivate ''home''"

theorem activated_profile_is_licensed_witness:
  "profileAllowed sampleLicExt (Inr (Some sampleBundle)) (\<lambda>a. a = ''img'') (sampleIO\<lparr>io_eventID := ''ev2''\<rparr>) ''home'' sampleLicensed
   \<and> pa_DesiredProfileID (db_activation (fst homeResult)) = ''home'' \<and> snd (sampleActivate ''bad'') = Inl ErrValidationFailed"
proof -
  have "\<not> isl (snd homeResult)" by code_simp
  then obtain d' res v where "sampleActivate ''home'' = (d', Inr (res, v))" and d': "fst homeResult = d'"
    unfolding homeResult_def by (cases "sampleActivate ''home''"; cases "snd (sampleActivate ''home'')") auto
  then have "profileAllowed sampleLicExt (Inr (Some sampleBundle)) (\<lambda>a. a = ''img'') (sampleIO\<lparr>io_eventID := ''ev2''\<rparr>) ''home'' sampleLicensed
      \<and> pa_DesiredProfileID (db_activation (fst homeResult)) = ''home''"
    unfolding sampleActivate_def using activated_profile_is_licensed by blast
  moreover have "snd (sampleActivate ''bad'') = Inl ErrValidationFailed" by code_simp
  ultimately show ?thesis by blast
qed

end
