(* ===== verification/DevCatalog.thy ===== *)
theory DevCatalog
  imports BuildGuarantees
begin

text \<open>
  The catalog of developer workflows (internal/devflows/catalog.go): normalization, validation
  and the lookups on it. The catalog is a value; the decoders and printers of JSON and YAML are
  the fields of \<open>catExt\<close>.
\<close>

section \<open>Names, paths and patterns\<close>

definition normalizeName :: "ext \<Rightarrow> string \<Rightarrow> string" where
  "normalizeName x v = ToLower (x_ulower x) (TrimSpace v)"

definition nameStart :: "char \<Rightarrow> bool" where "nameStart c \<longleftrightarrow> lowerLetter c \<or> digit c"

definition nameRE :: "string \<Rightarrow> bool" where
  "nameRE s \<longleftrightarrow> s \<noteq> [] \<and> length s \<le> 63 \<and> nameStart (hd s) \<and> list_all (\<lambda>c. nameStart c \<or> c \<in> set ''._-'') (tl s)"

definition validName :: "string \<Rightarrow> bool" where "validName v \<longleftrightarrow> nameRE v"

text \<open>\<open>afterName\<close> says whether the character before was a letter or a digit.\<close>

fun ociRepoRE :: "bool \<Rightarrow> string \<Rightarrow> bool" where
  "ociRepoRE afterName [] \<longleftrightarrow> afterName"
| "ociRepoRE afterName (c # cs) \<longleftrightarrow> (if nameStart c then ociRepoRE True cs else c \<in> set ''._/-'' \<and> afterName \<and> ociRepoRE False cs)"

definition upperLetter :: "char \<Rightarrow> bool" where "upperLetter c \<longleftrightarrow> inRange 65 90 (of_char c)"

definition makeTargetRE :: "string \<Rightarrow> bool" where
  "makeTargetRE s \<longleftrightarrow> s \<noteq> [] \<and> length s \<le> 128 \<and> (upperLetter (hd s) \<or> nameStart (hd s))
     \<and> list_all (\<lambda>c. upperLetter c \<or> nameStart c \<or> c \<in> set ''._:/-'') (tl s)"

definition hexLower :: "char \<Rightarrow> bool" where "hexLower c \<longleftrightarrow> digit c \<or> inRange 97 102 (of_char c)"

definition imageDigestRE :: "string \<Rightarrow> bool" where
  "imageDigestRE s \<longleftrightarrow> 72 < length s \<and> list_all hexLower (drop (length s - 64) s) \<and> take 8 (drop (length s - 72) s) = ''@sha256:''
     \<and> CHR 0x0A \<notin> set (take (length s - 72) s)"

fun cleanParts :: "bool \<Rightarrow> string list \<Rightarrow> string list \<Rightarrow> string list" where
  "cleanParts rooted acc [] = rev acc"
| "cleanParts rooted acc (p # ps) =
    (if p = [] \<or> p = ''.'' then cleanParts rooted acc ps
     else if p = ''..'' then
       (case acc of [] \<Rightarrow> cleanParts rooted (if rooted then [] else [p]) ps
        | a # as \<Rightarrow> cleanParts rooted (if a = ''..'' then p # acc else as) ps)
     else cleanParts rooted (p # acc) ps)"

definition path_Clean :: "string \<Rightarrow> string" where
  "path_Clean s = (let rooted = HasPrefix s ''/'';
       out = (if rooted then ''/'' else []) @ joinWith (CHR ''/'') (cleanParts rooted [] (Split s (CHR ''/'')))
     in if out = [] then ''.'' else out)"

definition validRepoRelativePath :: "string \<Rightarrow> bool" where
  "validRepoRelativePath v0 =
    (let v = TrimSpace v0; clean = path_Clean v
     in if v = [] \<or> HasPrefix v ''/'' \<or> CHR 0x5C \<in> set v then False
        else if list_ex (\<lambda>part. part = ''.'' \<or> part = ''..'') (Split v (CHR ''/'')) then False
        else clean \<noteq> ''.'' \<and> clean \<noteq> ''..'' \<and> \<not> HasPrefix clean ''../'')"

definition validMakeTarget :: "string \<Rightarrow> bool" where "validMakeTarget v = makeTargetRE (TrimSpace v)"

definition IsCommitSHA :: "ext \<Rightarrow> string \<Rightarrow> bool" where
  "IsCommitSHA x ref = commitSHAPattern (ToLower (x_ulower x) (TrimSpace ref))"

definition containsName :: "ext \<Rightarrow> string list \<Rightarrow> string \<Rightarrow> bool" where
  "containsName x vs name \<longleftrightarrow> list_ex (\<lambda>v. normalizeName x v = name) vs"

definition sourceHost :: "ext \<Rightarrow> string \<Rightarrow> string result" where
  "sourceHost x raw0 =
    (let raw = TrimSpace raw0
     in if raw = [] then Inl (ErrMessage ''source url is required'')
        else case x_urlParse x raw of None \<Rightarrow> Inl (ErrMessage ''invalid url'')
        | Some (scheme, host) \<Rightarrow>
            if scheme \<noteq> ''https'' then Inl (ErrMessage ''unsupported source scheme'')
            else if host = [] then Inl (ErrMessage ''source host is required'')
            else Inr (ToLower (x_ulower x) host))"

section \<open>Builder images\<close>

text \<open>What follows the first occurrence of a separator, empty when there is none.\<close>

fun afterFirst :: "string \<Rightarrow> string \<Rightarrow> string" where
  "afterFirst sep [] = []"
| "afterFirst sep (c # cs) = (if HasPrefix (c # cs) sep then drop (length sep) (c # cs) else afterFirst sep cs)"

definition placeholderDigest :: string where
  "placeholderDigest = concat (replicate 4 ''0123456789abcdef'')"

definition validPinnedBuilderImage :: "string \<Rightarrow> bool" where
  "validPinnedBuilderImage ref0 =
    (let ref = TrimSpace ref0 in imageDigestRE ref \<and> afterFirst ''@sha256:'' ref \<noteq> placeholderDigest)"

definition validateCatalogBuilderImage :: "string \<Rightarrow> bool" where
  "validateCatalogBuilderImage ref0 = (let ref = TrimSpace ref0 in ref = [] \<or> validPinnedBuilderImage ref)"

definition ResolveBuilderImage :: "string \<Rightarrow> string \<Rightarrow> string result" where
  "ResolveBuilderImage ref0 applianceBuilderDigest0 =
    (let ref = TrimSpace ref0; dflt = TrimSpace applianceBuilderDigest0
     in if ref = [] then (if dflt = [] then Inl (ErrMessage ''builderImageDigest is required'')
          else if \<not> validPinnedBuilderImage dflt then Inl (ErrMessage ''configured appliance builder image is not digest-pinned'') else Inr dflt)
        else if validPinnedBuilderImage ref then Inr ref
        else Inl (ErrMessage ''builderImageDigest is invalid''))"

section \<open>The catalog\<close>

record BuildTarget =
  bt_Name :: string
  bt_Aliases :: "string list"
  bt_Description :: string
  bt_Repo :: string
  bt_Execution :: string
  bt_Args :: "string list"
  bt_WorkingDirectory :: string
  bt_ContainerfilePath :: string
  bt_ImageRepository :: string
  bt_ImageTagTemplate :: string
  bt_BuilderImageDigest :: string
  bt_ScriptPath :: string
  bt_MakeTarget :: string

record Repo =
  re_Name :: string
  re_URL :: string
  re_DefaultRef :: string
  re_BuildTargets :: "BuildTarget list"

record ProfileRepo =
  pr_RepoName :: string
  pr_EnabledByDefault :: bool

record WorkProfile =
  wp_Name :: string
  wp_Description :: string
  wp_Repos :: "ProfileRepo list"

record Catalog =
  ct_WorkProfiles :: "WorkProfile list"
  ct_Repos :: "Repo list"
  ct_BuildTargets :: "BuildTarget list"

record ResolvedTarget =
  rt_Target :: BuildTarget
  rt_Repo :: Repo

definition Catalog_Empty :: "Catalog \<Rightarrow> bool" where
  "Catalog_Empty c \<longleftrightarrow> ct_WorkProfiles c = [] \<and> ct_BuildTargets c = [] \<and> list_all (\<lambda>r. re_BuildTargets r = []) (ct_Repos c) \<and> ct_Repos c = []"

definition compactArgs :: "string list \<Rightarrow> string list" where
  "compactArgs vs = filter (\<lambda>v. v \<noteq> []) (map TrimSpace vs)"

definition PrimaryArg :: "BuildTarget \<Rightarrow> string" where
  "PrimaryArg t = (case bt_Args t of [] \<Rightarrow> [] | a # _ \<Rightarrow> a)"

definition normalizeTargetExecution :: "BuildTarget \<Rightarrow> BuildTarget" where
  "normalizeTargetExecution t =
    (let execution = TrimSpace (bt_Execution t); args = compactArgs (bt_Args t)
     in if execution \<in> {''make_target'', ''make''}
        then t\<lparr>bt_Execution := ''make'', bt_MakeTarget := [], bt_ScriptPath := [],
               bt_Args := (if args = [] \<and> TrimSpace (bt_MakeTarget t) \<noteq> [] then [TrimSpace (bt_MakeTarget t)] else args)\<rparr>
        else if execution \<in> {''repo_script'', ''script''}
        then t\<lparr>bt_Execution := ''script'', bt_MakeTarget := [], bt_ScriptPath := [],
               bt_Args := (if args = [] then [if TrimSpace (bt_ScriptPath t) \<noteq> [] then TrimSpace (bt_ScriptPath t) else ''build.sh''] else args)\<rparr>
        else t\<lparr>bt_Execution := execution, bt_MakeTarget := [], bt_ScriptPath := [], bt_Args := args\<rparr>)"

definition normalizeWorkingDirectory :: "BuildTarget \<Rightarrow> BuildTarget" where
  "normalizeWorkingDirectory t =
    (let wd = TrimSpace (bt_WorkingDirectory t)
     in t\<lparr>bt_WorkingDirectory := (if wd = [] \<or> wd = ''.'' \<or> wd = ''./'' then [] else TrimSuffix wd ''/'')\<rparr>)"

definition normalizeTarget :: "BuildTarget \<Rightarrow> BuildTarget" where
  "normalizeTarget t0 =
    (let t = normalizeWorkingDirectory (normalizeTargetExecution t0) in t\<lparr>bt_BuilderImageDigest := TrimSpace (bt_BuilderImageDigest t)\<rparr>)"

definition liftedTargets :: "ext \<Rightarrow> Repo \<Rightarrow> BuildTarget list" where
  "liftedTargets x repo = map (\<lambda>t. if TrimSpace (bt_Repo t) = [] then t\<lparr>bt_Repo := normalizeName x (re_Name repo)\<rparr> else t) (re_BuildTargets repo)"

definition Normalize :: "ext \<Rightarrow> Catalog \<Rightarrow> Catalog" where
  "Normalize x c = c\<lparr>ct_Repos := map (\<lambda>r. r\<lparr>re_BuildTargets := []\<rparr>) (ct_Repos c),
     ct_BuildTargets := map normalizeTarget (ct_BuildTargets c @ concat (map (liftedTargets x) (ct_Repos c)))\<rparr>"

section \<open>Validation\<close>

definition objection :: "bool \<Rightarrow> string \<Rightarrow> string list" where "objection bad msg = (if bad then [msg] else [])"

fun profileRepoProblems :: "ext \<Rightarrow> string set \<Rightarrow> ProfileRepo list \<Rightarrow> string list" where
  "profileRepoProblems x seen [] = []"
| "profileRepoProblems x seen (p # ps) =
    (let name = normalizeName x (pr_RepoName p)
     in if \<not> validName name then ''workspace profile repo has an invalid name'' # profileRepoProblems x seen ps
        else if name \<in> seen then ''workspace profile repo is duplicated'' # profileRepoProblems x seen ps
        else profileRepoProblems x (insert name seen) ps)"

fun profileProblems :: "ext \<Rightarrow> string set \<Rightarrow> WorkProfile list \<Rightarrow> string list" where
  "profileProblems x seen [] = []"
| "profileProblems x seen (p # ps) =
    (let name = normalizeName x (wp_Name p)
     in if \<not> validName name then ''workspace profile has an invalid name'' # profileProblems x seen ps
        else objection (name \<in> seen) ''workspace profile is duplicated'' @ profileRepoProblems x {} (wp_Repos p) @ profileProblems x (insert name seen) ps)"

fun repoProblems :: "ext \<Rightarrow> string set \<Rightarrow> Repo list \<Rightarrow> string list" where
  "repoProblems x seen [] = []"
| "repoProblems x seen (r # rs) =
    (let name = normalizeName x (re_Name r)
     in if \<not> validName name then ''repo has an invalid name'' # repoProblems x seen rs
        else objection (isl (sourceHost x (re_URL r))) ''repo has invalid url'' @ objection (name \<in> seen) ''repo is duplicated'' @ repoProblems x (insert name seen) rs)"

definition repoNames :: "ext \<Rightarrow> Repo list \<Rightarrow> string list" where
  "repoNames x rs = filter validName (map (\<lambda>r. normalizeName x (re_Name r)) rs)"

fun aliasProblems :: "ext \<Rightarrow> string set \<Rightarrow> string list \<Rightarrow> string list \<times> string set" where
  "aliasProblems x seen [] = ([], seen)"
| "aliasProblems x seen (a # as) =
    (let alias = normalizeName x a
     in if \<not> validName alias then (case aliasProblems x seen as of (errs, s) \<Rightarrow> (''build target has invalid alias'' # errs, s))
        else case aliasProblems x (insert alias seen) as of (errs, s) \<Rightarrow> (objection (alias \<in> seen) ''build target alias is duplicated'' @ errs, s))"

definition executionProblems :: "BuildTarget \<Rightarrow> string list" where
  "executionProblems t =
    (if bt_Execution t = ''script'' then
       (case bt_Args t of [a] \<Rightarrow> objection (\<not> validRepoRelativePath a) ''invalid script args entry'' | _ \<Rightarrow> [''script execution requires exactly one args entry''])
     else if bt_Execution t = ''make'' then
       (case bt_Args t of [a] \<Rightarrow> objection (\<not> validMakeTarget a) ''invalid make args entry'' | _ \<Rightarrow> [''make execution requires exactly one args entry''])
     else [''unsupported execution''])"

definition pathProblems :: "BuildTarget \<Rightarrow> string list" where
  "pathProblems t =
    (let wd = TrimSpace (bt_WorkingDirectory t)
     in objection (wd \<noteq> [] \<and> wd \<noteq> ''.'' \<and> wd \<noteq> ''./'' \<and> \<not> validRepoRelativePath wd) ''invalid workingDirectory''
        @ objection (bt_ContainerfilePath t \<noteq> [] \<and> \<not> validRepoRelativePath (bt_ContainerfilePath t)) ''invalid containerfilePath'')"

definition imageProblems :: "BuildTarget \<Rightarrow> string list" where
  "imageProblems t = objection (\<not> ociRepoRE False (bt_ImageRepository t)) ''invalid imageRepository''
     @ objection (\<not> validateCatalogBuilderImage (bt_BuilderImageDigest t)) ''invalid builderImageDigest''"

fun targetProblems :: "ext \<Rightarrow> string list \<Rightarrow> string set \<Rightarrow> BuildTarget list \<Rightarrow> string list" where
  "targetProblems x repos seen [] = []"
| "targetProblems x repos seen (t # ts) =
    (let name = normalizeName x (bt_Name t)
     in if \<not> validName name then ''build target has an invalid name'' # targetProblems x repos seen ts
        else case aliasProblems x (insert name seen) (bt_Aliases t) of (errs, seen1) \<Rightarrow>
          objection (name \<in> seen) ''build target name/alias is duplicated'' @ errs
          @ objection (normalizeName x (bt_Repo t) \<notin> set repos) ''build target references unknown repo''
          @ executionProblems t @ pathProblems t @ imageProblems t @ targetProblems x repos seen1 ts)"

definition profileUnusable :: "ext \<Rightarrow> string list \<Rightarrow> WorkProfile \<Rightarrow> bool" where
  "profileUnusable x repos p \<longleftrightarrow> wp_Repos p = [] \<or> list_ex (\<lambda>r. normalizeName x (pr_RepoName r) \<notin> set repos) (wp_Repos p)"

definition catalogProblems :: "ext \<Rightarrow> Catalog \<Rightarrow> string list" where
  "catalogProblems x c =
     objection (ct_WorkProfiles c = []) ''build catalog must declare at least one workspace profile''
     @ objection (ct_Repos c = []) ''build catalog must declare at least one repo''
     @ profileProblems x {} (ct_WorkProfiles c) @ repoProblems x {} (ct_Repos c)
     @ targetProblems x (repoNames x (ct_Repos c)) {} (ct_BuildTargets c)"

definition validateNormalized :: "ext \<Rightarrow> Catalog \<Rightarrow> unit result" where
  "validateNormalized x c =
     andThen (require (catalogProblems x c = []) (ErrMessage (concat (sort (catalogProblems x c))))) (\<lambda>_.
     require (\<not> list_ex (profileUnusable x (repoNames x (ct_Repos c))) (ct_WorkProfiles c)) (ErrMessage ''workspace profile without usable repos''))"

definition Catalog_Validate :: "ext \<Rightarrow> Catalog \<Rightarrow> unit result" where
  "Catalog_Validate x c = validateNormalized x (Normalize x c)"

text \<open>
  \<open>cx_yaml\<close> is what decoding as YAML leaves after decoding as JSON has failed; \<open>cx_indent\<close> and
  \<open>cx_yamlText\<close> print a catalog.
\<close>

record catExt =
  cx_json :: "string \<Rightarrow> Catalog option"
  cx_yaml :: "string \<Rightarrow> Catalog option"
  cx_indent :: "Catalog \<Rightarrow> string"
  cx_yamlText :: "Catalog \<Rightarrow> string"

definition ParseCatalogDocument :: "ext \<Rightarrow> catExt \<Rightarrow> string \<Rightarrow> (Catalog \<times> string) result" where
  "ParseCatalogDocument x cx raw0 =
    (let raw = TrimSpace raw0;
         checked = (\<lambda>c contentType. andThen (Catalog_Validate x (Normalize x c)) (\<lambda>_. Inr (Normalize x c, contentType)))
     in if raw = [] then Inl (ErrMessage ''catalog document is empty'')
        else case cx_json cx raw of Some c \<Rightarrow> checked c ''application/json''
        | None \<Rightarrow> (case cx_yaml cx raw of Some c \<Rightarrow> checked c ''application/yaml'' | None \<Rightarrow> Inl (ErrMessage ''must be valid JSON or YAML'')))"

section \<open>Lookups\<close>

definition Catalog_WorkProfile :: "ext \<Rightarrow> Catalog \<Rightarrow> string \<Rightarrow> WorkProfile option" where
  "Catalog_WorkProfile x c name0 =
    (let name = normalizeName x name0
     in map_option (\<lambda>p. p\<lparr>wp_Name := name, wp_Repos := map (\<lambda>r. r\<lparr>pr_RepoName := normalizeName x (pr_RepoName r)\<rparr>) (wp_Repos p)\<rparr>)
          (List.find (\<lambda>p. normalizeName x (wp_Name p) = name) (ct_WorkProfiles c)))"

definition Catalog_Repo :: "ext \<Rightarrow> Catalog \<Rightarrow> string \<Rightarrow> Repo option" where
  "Catalog_Repo x c name0 =
    (let name = normalizeName x name0
     in map_option (\<lambda>r. r\<lparr>re_Name := name\<rparr>) (List.find (\<lambda>r. normalizeName x (re_Name r) = name) (ct_Repos c)))"

definition withContainerfile :: "BuildTarget \<Rightarrow> BuildTarget" where
  "withContainerfile t0 = (let t = normalizeTargetExecution t0 in if bt_ContainerfilePath t = [] then t\<lparr>bt_ContainerfilePath := ''Containerfile''\<rparr> else t)"

definition answersTo :: "ext \<Rightarrow> string \<Rightarrow> BuildTarget \<Rightarrow> bool" where
  "answersTo x lookup t \<longleftrightarrow> normalizeName x (bt_Name t) = lookup \<or> containsName x (bt_Aliases t) lookup"

fun resolveTargetIn :: "ext \<Rightarrow> Repo list \<Rightarrow> string \<Rightarrow> string \<Rightarrow> BuildTarget list \<Rightarrow> ResolvedTarget option" where
  "resolveTargetIn x repos repoName lookup [] = None"
| "resolveTargetIn x repos repoName lookup (t # ts) =
    (if normalizeName x (bt_Repo t) \<noteq> repoName \<or> \<not> answersTo x lookup t then resolveTargetIn x repos repoName lookup ts
     else case List.find (\<lambda>r. normalizeName x (re_Name r) = normalizeName x (bt_Repo t)) repos of
            Some r \<Rightarrow> Some \<lparr>rt_Target = withContainerfile t, rt_Repo = r\<rparr> | None \<Rightarrow> resolveTargetIn x repos repoName lookup ts)"

definition ResolveTarget :: "ext \<Rightarrow> Catalog \<Rightarrow> string \<Rightarrow> string \<Rightarrow> ResolvedTarget result" where
  "ResolveTarget x c repoName name =
    (case resolveTargetIn x (ct_Repos c) (normalizeName x repoName) (normalizeName x name) (ct_BuildTargets c) of
       None \<Rightarrow> Inl (ErrMessage ''unknown build target'') | Some r \<Rightarrow> Inr r)"

fun hostsOf :: "ext \<Rightarrow> Repo list \<Rightarrow> string list result" where
  "hostsOf x [] = Inr []"
| "hostsOf x (r # rs) = andThen (sourceHost x (re_URL r)) (\<lambda>h. andThen (hostsOf x rs) (\<lambda>hs. Inr (h # hs)))"

definition RepoHosts :: "ext \<Rightarrow> Catalog \<Rightarrow> string list result" where
  "RepoHosts x c = andThen (hostsOf x (ct_Repos c)) (\<lambda>hs. Inr (sort (remdups hs)))"

definition BuilderImageDigests :: "Catalog \<Rightarrow> string list" where "BuilderImageDigests c = []"

definition SensitiveLogValues :: "Catalog \<Rightarrow> string list" where "SensitiveLogValues c = []"

fun reposNamed :: "ext \<Rightarrow> Catalog \<Rightarrow> ProfileRepo list \<Rightarrow> Repo list result" where
  "reposNamed x c [] = Inr []"
| "reposNamed x c (p # ps) = (case Catalog_Repo x c (pr_RepoName p) of
     None \<Rightarrow> Inl (ErrMessage ''unknown repo for workspace profile'') | Some r \<Rightarrow> andThen (reposNamed x c ps) (\<lambda>rs. Inr (r # rs)))"

definition ReposForProfile :: "ext \<Rightarrow> Catalog \<Rightarrow> string \<Rightarrow> Repo list result" where
  "ReposForProfile x c workProfile = (case Catalog_WorkProfile x c workProfile of
     None \<Rightarrow> Inl (ErrMessage ''unknown workspace profile'') | Some p \<Rightarrow> reposNamed x c (wp_Repos p))"

definition allowedRepos :: "ext \<Rightarrow> WorkProfile \<Rightarrow> string list" where
  "allowedRepos x p = map (\<lambda>r. normalizeName x (pr_RepoName r)) (wp_Repos p)"

definition ProfileAllowsRepo :: "ext \<Rightarrow> Catalog \<Rightarrow> string \<Rightarrow> string \<Rightarrow> bool" where
  "ProfileAllowsRepo x c workProfile repoName = (case Catalog_WorkProfile x c workProfile of
     None \<Rightarrow> False | Some p \<Rightarrow> normalizeName x repoName \<in> set (allowedRepos x p))"

definition TargetsForRepo :: "ext \<Rightarrow> Catalog \<Rightarrow> string \<Rightarrow> BuildTarget list" where
  "TargetsForRepo x c repoName = map withContainerfile (filter (\<lambda>t. normalizeName x (bt_Repo t) = normalizeName x repoName) (ct_BuildTargets c))"

definition TargetsForProfile :: "ext \<Rightarrow> Catalog \<Rightarrow> string \<Rightarrow> BuildTarget list result" where
  "TargetsForProfile x c workProfile = (case Catalog_WorkProfile x c workProfile of
     None \<Rightarrow> Inl (ErrMessage ''unknown workspace profile'')
   | Some p \<Rightarrow> Inr (map withContainerfile (filter (\<lambda>t. normalizeName x (bt_Repo t) \<in> set (allowedRepos x p)) (ct_BuildTargets c))))"

text \<open>The loop over the targets is left as soon as a matching target has no repository.\<close>

definition ResolveTargetForProfile :: "ext \<Rightarrow> Catalog \<Rightarrow> string \<Rightarrow> string \<Rightarrow> ResolvedTarget result" where
  "ResolveTargetForProfile x c workProfile name = (case Catalog_WorkProfile x c workProfile of
     None \<Rightarrow> Inl (ErrMessage ''unknown workspace profile'')
   | Some p \<Rightarrow>
      (case List.find (\<lambda>t. normalizeName x (bt_Repo t) \<in> set (allowedRepos x p) \<and> answersTo x (normalizeName x name) t) (ct_BuildTargets c) of
         None \<Rightarrow> Inl (ErrMessage ''unknown build target for workspace profile'')
       | Some t \<Rightarrow> (case Catalog_Repo x c (normalizeName x (bt_Repo t)) of
            None \<Rightarrow> Inl (ErrMessage ''unknown build target for workspace profile'')
          | Some r \<Rightarrow> Inr \<lparr>rt_Target = withContainerfile t, rt_Repo = r\<rparr>)))"


section \<open>What validation gives\<close>

lemma validName_fixed:
  assumes "validName n"
  shows "normalizeName x n = n"
proof -
  have c: "\<And>c. c \<in> set n \<Longrightarrow> nameStart c \<or> c \<in> set ''._-''" using assms by (cases n) (auto simp: validName_def nameRE_def list_all_iff)
  have k: "(of_char c :: int) < 128 \<and> \<not> asciiSpace c \<and> lowerAscii c = c" if "nameStart c \<or> c \<in> set ''._-''" for c
    using that by (auto simp: nameStart_def lowerLetter_def digit_def inRange_def asciiSpace_def isSpace_def lowerAscii_def)
  have a: "ascii n" "list_all (\<lambda>c. \<not> asciiSpace c) n" using c k by (auto simp: ascii_def list_all_iff)
  have "map lowerAscii n = n" using c k by (intro map_idI) blast
  with a show ?thesis by (simp add: normalizeName_def ToLower_ascii TrimSpace_id)
qed

lemma objection_none [simp]: "objection b m = [] \<longleftrightarrow> \<not> b"
  by (simp add: objection_def)

definition targetKeys :: "ext \<Rightarrow> BuildTarget \<Rightarrow> string list" where
  "targetKeys x t = normalizeName x (bt_Name t) # map (normalizeName x) (bt_Aliases t)"

lemma answersTo_keys: "answersTo x n t \<longleftrightarrow> n \<in> set (targetKeys x t)"
  by (auto simp: answersTo_def targetKeys_def containsName_def list_ex_iff)

lemma aliasProblems_none:
  "aliasProblems x seen as = ([], s) \<Longrightarrow> s = seen \<union> set (map (normalizeName x) as) \<and> distinct (map (normalizeName x) as)
     \<and> set (map (normalizeName x) as) \<inter> seen = {} \<and> (\<forall>a\<in>set as. validName (normalizeName x a))"
  by (induction as arbitrary: seen) (force simp: Let_def split: if_splits prod.splits)+

definition targetSound :: "BuildTarget \<Rightarrow> bool" where
  "targetSound t \<longleftrightarrow> executionProblems t = [] \<and> pathProblems t = [] \<and> imageProblems t = []"

lemma targetProblems_none:
  assumes "targetProblems x repos seen ts = []"
  shows "distinct (concat (map (targetKeys x) ts)) \<and> set (concat (map (targetKeys x) ts)) \<inter> seen = {}
    \<and> (\<forall>t\<in>set ts. targetSound t \<and> normalizeName x (bt_Repo t) \<in> set repos \<and> (\<forall>k\<in>set (targetKeys x t). validName k))"
  using assms
proof (induction ts arbitrary: seen)
  case (Cons t ts)
  obtain errs s1 where a: "aliasProblems x (insert (normalizeName x (bt_Name t)) seen) (bt_Aliases t) = (errs, s1)" by fastforce
  with Cons.prems have n: "validName (normalizeName x (bt_Name t))" "normalizeName x (bt_Name t) \<notin> seen" "errs = []" "targetSound t"
      "normalizeName x (bt_Repo t) \<in> set repos" and rest: "targetProblems x repos s1 ts = []"
    by (auto simp: Let_def targetSound_def split: if_splits)
  from aliasProblems_none [OF a [unfolded n(3)]] have s1: "s1 = seen \<union> set (targetKeys x t)" and d: "distinct (targetKeys x t)"
      and i: "set (targetKeys x t) \<inter> seen = {}" and v: "\<forall>k\<in>set (targetKeys x t). validName k"
    using n by (auto simp: targetKeys_def)
  from Cons.IH [OF rest] s1 d i v n show ?case by auto
qed simp

lemma profileProblems_none:
  assumes "profileProblems x seen ps = []"
  shows "distinct (map (\<lambda>p. normalizeName x (wp_Name p)) ps) \<and> (\<forall>p\<in>set ps. validName (normalizeName x (wp_Name p)) \<and> normalizeName x (wp_Name p) \<notin> seen)"
  using assms by (induction ps arbitrary: seen) (fastforce simp: Let_def split: if_splits)+

lemma repoProblems_none:
  assumes "repoProblems x seen rs = []"
  shows "distinct (map (\<lambda>r. normalizeName x (re_Name r)) rs)
    \<and> (\<forall>r\<in>set rs. validName (normalizeName x (re_Name r)) \<and> normalizeName x (re_Name r) \<notin> seen \<and> \<not> isl (sourceHost x (re_URL r)))"
  using assms by (induction rs arbitrary: seen) (fastforce simp: Let_def split: if_splits)+

lemma Normalize_fields:
  "ct_WorkProfiles (Normalize x c) = ct_WorkProfiles c" "map re_Name (ct_Repos (Normalize x c)) = map re_Name (ct_Repos c)"
  "map re_URL (ct_Repos (Normalize x c)) = map re_URL (ct_Repos c)"
  "list_all (\<lambda>r. re_BuildTargets r = []) (ct_Repos (Normalize x c))"
  by (simp_all add: Normalize_def comp_def list_all_iff)

lemma normalizeTarget_keeps [simp]:
  "bt_Name (normalizeTarget t) = bt_Name t" "bt_Aliases (normalizeTarget t) = bt_Aliases t" "bt_Repo (normalizeTarget t) = bt_Repo t"
  by (simp_all add: normalizeTarget_def normalizeWorkingDirectory_def normalizeTargetExecution_def Let_def)

lemma Normalize_again:
  assumes "list_all (\<lambda>r. re_BuildTargets r = []) (ct_Repos c)"
  shows "ct_BuildTargets (Normalize x c) = map normalizeTarget (ct_BuildTargets c)" and "ct_Repos (Normalize x c) = ct_Repos c"
proof -
  have "concat (map (liftedTargets x) (ct_Repos c)) = []" using assms by (auto simp: list_all_iff liftedTargets_def)
  then show "ct_BuildTargets (Normalize x c) = map normalizeTarget (ct_BuildTargets c)" by (simp add: Normalize_def)
  show "ct_Repos (Normalize x c) = ct_Repos c" using assms by (auto simp: Normalize_def list_all_iff intro: map_idI)
qed

lemma Parse_Inr:
  assumes "ParseCatalogDocument x cx raw = Inr (c, ct)"
  shows "Catalog_Validate x c = Inr ()" and "list_all (\<lambda>r. re_BuildTargets r = []) (ct_Repos c)"
proof -
  obtain c0 where "c = Normalize x c0" "Catalog_Validate x c = Inr ()"
    using assms by (auto simp: ParseCatalogDocument_def Let_def split: if_splits option.splits)
  then show "Catalog_Validate x c = Inr ()" "list_all (\<lambda>r. re_BuildTargets r = []) (ct_Repos c)" using Normalize_fields(4) by auto
qed

text \<open>What is known of the catalog the service keeps.\<close>

definition catalogSound :: "ext \<Rightarrow> Catalog \<Rightarrow> bool" where
  "catalogSound x c \<longleftrightarrow> distinct (concat (map (targetKeys x) (ct_BuildTargets c)))
     \<and> (\<forall>t\<in>set (ct_BuildTargets c). targetSound (normalizeTarget t) \<and> normalizeName x (bt_Repo t) \<in> set (repoNames x (ct_Repos c))
          \<and> (\<forall>k\<in>set (targetKeys x t). validName k))
     \<and> distinct (map (\<lambda>r. normalizeName x (re_Name r)) (ct_Repos c)) \<and> (\<forall>r\<in>set (ct_Repos c). \<not> isl (sourceHost x (re_URL r)))
     \<and> distinct (map (\<lambda>p. normalizeName x (wp_Name p)) (ct_WorkProfiles c))
     \<and> (\<forall>p\<in>set (ct_WorkProfiles c). \<not> profileUnusable x (repoNames x (ct_Repos c)) p)"

lemma Parse_sound:
  assumes "ParseCatalogDocument x cx raw = Inr (c, ct)"
  shows "catalogSound x c"
proof -
  note p = Parse_Inr [OF assms]
  note n = Normalize_again [OF p(2), of x]
  have v: "catalogProblems x (Normalize x c) = []" "\<not> list_ex (profileUnusable x (repoNames x (ct_Repos c))) (ct_WorkProfiles c)"
    using p(1) n by (auto simp: Catalog_Validate_def validateNormalized_def Normalize_fields)
  then have t: "targetProblems x (repoNames x (ct_Repos c)) {} (map normalizeTarget (ct_BuildTargets c)) = []"
    and r: "repoProblems x {} (ct_Repos c) = []" and w: "profileProblems x {} (ct_WorkProfiles c) = []"
    by (simp_all add: catalogProblems_def n Normalize_fields)
  have k: "targetKeys x (normalizeTarget t) = targetKeys x t" for t by (simp add: targetKeys_def)
  from targetProblems_none [OF t] have "distinct (concat (map (targetKeys x) (ct_BuildTargets c)))"
    and "\<forall>t\<in>set (ct_BuildTargets c). targetSound (normalizeTarget t) \<and> normalizeName x (bt_Repo t) \<in> set (repoNames x (ct_Repos c)) \<and> (\<forall>k\<in>set (targetKeys x t). validName k)"
    by (simp_all add: comp_def k)
  with repoProblems_none [OF r] profileProblems_none [OF w] v(2) show ?thesis unfolding catalogSound_def list_ex_iff by blast
qed

lemma find_only:
  assumes "distinct (map f xs)" and "y \<in> set xs"
  shows "List.find (\<lambda>z. f z = f y) xs = Some y"
  using assms by (induction xs) auto

lemma distinct_concat_key:
  assumes "distinct (concat (map f ts))" and "t \<in> set ts" and "u \<in> set ts" and "a \<in> set (f t)" and "a \<in> set (f u)"
  shows "t = u"
  using assms by (induction ts) auto

lemma find_by_key:
  assumes "distinct (concat (map f ts))" and "t \<in> set ts" and "a \<in> set (f t)" and "P t"
  shows "List.find (\<lambda>u. P u \<and> a \<in> set (f u)) ts = Some t"
  using assms by (induction ts) auto


section \<open>Resolving targets\<close>

text \<open>A path below the checkout, and a target that can be run as it stands.\<close>

definition staysInside :: "string \<Rightarrow> bool" where
  "staysInside p \<longleftrightarrow> p \<noteq> [] \<and> \<not> HasPrefix p ''/'' \<and> ''..'' \<notin> set (Split p (CHR ''/''))"

definition runnable :: "BuildTarget \<Rightarrow> bool" where
  "runnable t \<longleftrightarrow> (\<exists>a. bt_Args t = [a] \<and> (bt_Execution t = ''script'' \<and> staysInside (TrimSpace a) \<or> bt_Execution t = ''make'' \<and> makeTargetRE (TrimSpace a)))
     \<and> staysInside (TrimSpace (bt_ContainerfilePath t)) \<and> (TrimSpace (bt_BuilderImageDigest t) = [] \<or> imageDigestRE (TrimSpace (bt_BuilderImageDigest t)))"

lemma validRepoRelativePath_inside: "validRepoRelativePath v \<Longrightarrow> staysInside (TrimSpace v)"
  by (auto simp: validRepoRelativePath_def staysInside_def Let_def list_ex_iff split: if_splits)

lemma withContainerfile_fields:
  "bt_Args (withContainerfile t) = bt_Args (normalizeTarget t)" "bt_Execution (withContainerfile t) = bt_Execution (normalizeTarget t)"
  "bt_ContainerfilePath (withContainerfile t) = (if bt_ContainerfilePath (normalizeTarget t) = [] then ''Containerfile'' else bt_ContainerfilePath (normalizeTarget t))"
  "TrimSpace (bt_BuilderImageDigest (withContainerfile t)) = bt_BuilderImageDigest (normalizeTarget t)"
  by (simp_all add: withContainerfile_def normalizeTarget_def normalizeWorkingDirectory_def normalizeTargetExecution_def Let_def)

lemma sound_runnable:
  assumes "targetSound (normalizeTarget t)"
  shows "runnable (withContainerfile t)"
proof -
  have cf: "staysInside (TrimSpace ''Containerfile'')" by code_simp
  have trim: "TrimSpace (bt_BuilderImageDigest (normalizeTarget t)) = bt_BuilderImageDigest (normalizeTarget t)"
    by (simp add: normalizeTarget_def Let_def TrimSpace_idem)
  show ?thesis using assms cf
    by (auto simp: targetSound_def runnable_def withContainerfile_fields executionProblems_def pathProblems_def imageProblems_def Let_def trim
        validateCatalogBuilderImage_def validPinnedBuilderImage_def TrimSpace_idem validMakeTarget_def dest!: validRepoRelativePath_inside
        split: if_splits list.splits)
qed

lemma profile_found:
  assumes "catalogSound x c" and "p \<in> set (ct_WorkProfiles c)"
  shows "\<exists>q. Catalog_WorkProfile x c (wp_Name p) = Some q \<and> set (allowedRepos x q) = normalizeName x ` set (allowedRepos x p)"
proof -
  have "List.find (\<lambda>q. normalizeName x (wp_Name q) = normalizeName x (wp_Name p)) (ct_WorkProfiles c) = Some p"
    using assms by (intro find_only) (auto simp: catalogSound_def)
  then show ?thesis by (simp add: Catalog_WorkProfile_def Let_def allowedRepos_def image_image)
qed

lemma repo_found:
  assumes "catalogSound x c" and "n \<in> set (repoNames x (ct_Repos c))"
  shows "\<exists>r. Catalog_Repo x c n = Some r \<and> re_Name r = n \<and> \<not> isl (sourceHost x (re_URL r))"
proof -
  from assms(2) obtain r where r: "r \<in> set (ct_Repos c)" "n = normalizeName x (re_Name r)" "validName n" by (auto simp: repoNames_def)
  have "List.find (\<lambda>q. normalizeName x (re_Name q) = normalizeName x (re_Name r)) (ct_Repos c) = Some r"
    using assms r by (intro find_only) (auto simp: catalogSound_def)
  then show ?thesis using r assms(1) by (simp add: Catalog_Repo_def Let_def validName_fixed catalogSound_def)
qed


definition sampleTarget :: BuildTarget where
  "sampleTarget = \<lparr>bt_Name = ''Web'', bt_Aliases = [''ui''], bt_Description = [], bt_Repo = [], bt_Execution = ''repo_script'', bt_Args = [],
     bt_WorkingDirectory = ''./'', bt_ContainerfilePath = [], bt_ImageRepository = ''team/web'', bt_ImageTagTemplate = ''{workspace}'',
     bt_BuilderImageDigest = [], bt_ScriptPath = ''ci/build.sh'', bt_MakeTarget = []\<rparr>"

definition sampleCatalog :: Catalog where
  "sampleCatalog = \<lparr>ct_WorkProfiles = [\<lparr>wp_Name = ''default'', wp_Description = [], wp_Repos = [\<lparr>pr_RepoName = ''web'', pr_EnabledByDefault = True\<rparr>]\<rparr>],
     ct_Repos = [\<lparr>re_Name = '' web'', re_URL = ''https://git'', re_DefaultRef = [], re_BuildTargets = [sampleTarget]\<rparr>], ct_BuildTargets = []\<rparr>"

definition sampleCatExt :: catExt where
  "sampleCatExt = \<lparr>cx_json = (\<lambda>s. if s = ''doc'' then Some sampleCatalog else None), cx_yaml = (\<lambda>_. None), cx_indent = (\<lambda>_. ''doc''), cx_yamlText = (\<lambda>_. ''doc'')\<rparr>"

definition keptCatalog :: Catalog where "keptCatalog = Normalize sampleExt sampleCatalog"

lemma sample_parsed: "ParseCatalogDocument sampleExt sampleCatExt ''doc'' = Inr (keptCatalog, ''application/json'')"
proof -
  have "Catalog_Validate sampleExt (Normalize sampleExt sampleCatalog) = Inr ()" by code_simp
  moreover have "TrimSpace ''doc'' = ''doc''" by code_simp
  ultimately show ?thesis by (simp add: ParseCatalogDocument_def sampleCatExt_def keptCatalog_def)
qed


end
