(* ===== verification/DevStore.thy ===== *)
theory DevStore
  imports BuildStore
begin

text \<open>
  The stores of developer workflows: workspaces, the current workspace of a user, jobs and their
  steps (sqlstore/developer.go) and the builder catalog (sqlstore/buildercatalog.go). Text
  columns that may be null read back as the empty string, so a null and an empty value are one.
\<close>

record WorkspaceFilter =
  wf_OwnerID :: string
  wf_IncludeDeleted :: bool
  wf_Limit :: int

record JobFilter =
  jf_OwnerID :: string
  jf_WorkspaceID :: string
  jf_Type :: "JobType option"
  jf_Limit :: int

definition JobTerminal :: "JobStatus \<Rightarrow> bool" where
  "JobTerminal s \<longleftrightarrow> s \<in> {JobStatusSucceeded, JobStatusFailed, JobStatusCancelled}"

definition pageLimit :: "int \<Rightarrow> nat" where
  "pageLimit l = (if l \<le> 0 \<or> 200 < l then 50 else nat l)"

section \<open>Workspaces\<close>

definition workspaceExists :: "db \<Rightarrow> string \<Rightarrow> bool" where
  "workspaceExists d wid \<longleftrightarrow> wid \<in> wk_ID ` set (db_workspaces d)"

definition WorkspaceStore_Create :: "io \<Rightarrow> Workspace \<Rightarrow> db \<Rightarrow> db result" where
  "WorkspaceStore_Create io w0 d =
    (let w = w0\<lparr>wk_CreatedAt := (if IsZero (wk_CreatedAt w0) then io_now io else wk_CreatedAt w0),
                wk_UpdatedAt := (if IsZero (wk_UpdatedAt w0) then io_now io else wk_UpdatedAt w0)\<rparr>
     in andThen (stmt io ''WorkspaceStore.Create'') (\<lambda>_.
        andThen (require (\<not> workspaceExists d (wk_ID w) \<and> \<not> list_ex (\<lambda>v. wk_OwnerID v = wk_OwnerID w \<and> wk_Name v = wk_Name w) (db_workspaces d))
          (uniqueViolation d)) (\<lambda>_.
        andThen (foreignKey (userExists d (wk_OwnerID w))) (\<lambda>_.
        Inr (d\<lparr>db_workspaces := db_workspaces d @ [w]\<rparr>)))))"

definition WorkspaceStore_Get :: "io \<Rightarrow> string \<Rightarrow> db \<Rightarrow> Workspace result" where
  "WorkspaceStore_Get io wid d = andThen (stmt io ''WorkspaceStore.Get'') (\<lambda>_.
     case selectFirst (\<lambda>w. wk_ID w = wid) (db_workspaces d) of None \<Rightarrow> Inl ErrNotFound | Some w \<Rightarrow> Inr w)"

definition WorkspaceStore_List :: "io \<Rightarrow> WorkspaceFilter \<Rightarrow> db \<Rightarrow> Workspace list result" where
  "WorkspaceStore_List io flt d = andThen (stmt io ''WorkspaceStore.List'') (\<lambda>_.
     Inr (take (pageLimit (wf_Limit flt)) (rev (sort_key (\<lambda>w. RFC3339Nano (wk_CreatedAt w))
       (filter (\<lambda>w. (wf_OwnerID flt = [] \<or> wk_OwnerID w = wf_OwnerID flt) \<and> (wf_IncludeDeleted flt \<or> wk_DeletedAt w = None)) (db_workspaces d))))))"

definition workspacesExec1 :: "io \<Rightarrow> string \<Rightarrow> string \<Rightarrow> (Workspace \<Rightarrow> Workspace) \<Rightarrow> db \<Rightarrow> db result" where
  "workspacesExec1 io name wid f d = andThen (stmt io name) (\<lambda>_.
     andThen (require (0 < affected (\<lambda>w. wk_ID w = wid) (db_workspaces d)) ErrNotFound) (\<lambda>_.
     Inr (d\<lparr>db_workspaces := updateWhere (\<lambda>w. wk_ID w = wid) f (db_workspaces d)\<rparr>)))"

definition WorkspaceStore_UpdateStatus :: "io \<Rightarrow> string \<Rightarrow> WorkspaceStatus \<Rightarrow> string \<Rightarrow> string \<Rightarrow> db \<Rightarrow> db result" where
  "WorkspaceStore_UpdateStatus io wid status reasonCode errorMessage =
     workspacesExec1 io ''WorkspaceStore.UpdateStatus'' wid (\<lambda>w. w\<lparr>wk_Status := status, wk_ReasonCode := reasonCode, wk_ErrorMessage := errorMessage, wk_UpdatedAt := io_now io\<rparr>)"

definition WorkspaceStore_MarkDeleted :: "io \<Rightarrow> string \<Rightarrow> time \<Rightarrow> db \<Rightarrow> db result" where
  "WorkspaceStore_MarkDeleted io wid deletedAt =
     workspacesExec1 io ''WorkspaceStore.MarkDeleted'' wid (\<lambda>w. w\<lparr>wk_Status := WorkspaceStatusDeleted, wk_DeletedAt := Some deletedAt, wk_UpdatedAt := deletedAt\<rparr>)"

definition WorkspaceStore_SetCurrent :: "io \<Rightarrow> string \<Rightarrow> string \<Rightarrow> db \<Rightarrow> db result" where
  "WorkspaceStore_SetCurrent io uid wid d =
    (let same = (\<lambda>c. cw_UserID c = uid)
     in andThen (stmt io ''WorkspaceStore.SetCurrent'') (\<lambda>_.
        andThen (foreignKey (userExists d uid \<and> workspaceExists d wid)) (\<lambda>_.
        Inr (d\<lparr>db_currentWorkspaces := (if 0 < affected same (db_currentWorkspaces d)
          then updateWhere same (\<lambda>c. c\<lparr>cw_WorkspaceID := wid, cw_UpdatedAt := io_now io\<rparr>) (db_currentWorkspaces d)
          else db_currentWorkspaces d @ [\<lparr>cw_UserID = uid, cw_WorkspaceID = wid, cw_UpdatedAt = io_now io\<rparr>])\<rparr>))))"

definition WorkspaceStore_GetCurrent :: "io \<Rightarrow> string \<Rightarrow> db \<Rightarrow> CurrentWorkspace result" where
  "WorkspaceStore_GetCurrent io uid d = andThen (stmt io ''WorkspaceStore.GetCurrent'') (\<lambda>_.
     case selectFirst (\<lambda>c. cw_UserID c = uid) (db_currentWorkspaces d) of None \<Rightarrow> Inl ErrNotFound | Some c \<Rightarrow> Inr c)"

section \<open>Jobs\<close>

text \<open>A null workspace or build refers to nothing.\<close>

definition JobStore_Create :: "io \<Rightarrow> Job \<Rightarrow> db \<Rightarrow> db result" where
  "JobStore_Create io j0 d =
    (let j = j0\<lparr>jb_CreatedAt := (if IsZero (jb_CreatedAt j0) then io_now io else jb_CreatedAt j0),
                jb_UpdatedAt := (if IsZero (jb_UpdatedAt j0) then io_now io else jb_UpdatedAt j0)\<rparr>
     in andThen (stmt io ''JobStore.Create'') (\<lambda>_.
        andThen (require (jb_ID j \<notin> jb_ID ` set (db_jobs d)) (uniqueViolation d)) (\<lambda>_.
        andThen (foreignKey (userExists d (jb_OwnerID j) \<and> (jb_WorkspaceID j = [] \<or> workspaceExists d (jb_WorkspaceID j))
          \<and> (jb_BuildID j = [] \<or> jb_BuildID j \<in> b_ID ` set (db_builds d)))) (\<lambda>_.
        Inr (d\<lparr>db_jobs := db_jobs d @ [j]\<rparr>)))))"

definition JobStore_Get :: "io \<Rightarrow> string \<Rightarrow> db \<Rightarrow> Job result" where
  "JobStore_Get io jid d = andThen (stmt io ''JobStore.Get'') (\<lambda>_.
     case selectFirst (\<lambda>j. jb_ID j = jid) (db_jobs d) of None \<Rightarrow> Inl ErrNotFound | Some j \<Rightarrow> Inr j)"

definition jobSelected :: "JobFilter \<Rightarrow> Job \<Rightarrow> bool" where
  "jobSelected flt j \<longleftrightarrow> (jf_OwnerID flt = [] \<or> jb_OwnerID j = jf_OwnerID flt) \<and> (jf_WorkspaceID flt = [] \<or> jb_WorkspaceID j = jf_WorkspaceID flt)
     \<and> (jf_Type flt = None \<or> Some (jb_Type j) = jf_Type flt)"

definition JobStore_List :: "io \<Rightarrow> JobFilter \<Rightarrow> db \<Rightarrow> Job list result" where
  "JobStore_List io flt d = andThen (stmt io ''JobStore.List'') (\<lambda>_.
     Inr (take (pageLimit (jf_Limit flt)) (rev (sort_key (\<lambda>j. RFC3339Nano (jb_CreatedAt j)) (filter (jobSelected flt) (db_jobs d))))))"

definition JobStore_ListReconcilable :: "io \<Rightarrow> db \<Rightarrow> Job list result" where
  "JobStore_ListReconcilable io d = andThen (stmt io ''JobStore.ListReconcilable'') (\<lambda>_.
     Inr (sort_key (\<lambda>j. RFC3339Nano (jb_CreatedAt j)) (filter (\<lambda>j. jb_Status j \<in> {JobStatusQueued, JobStatusRunning}) (db_jobs d))))"

definition JobStore_UpdateStatus ::
    "io \<Rightarrow> string \<Rightarrow> JobStatus \<Rightarrow> string \<Rightarrow> string \<Rightarrow> time option \<Rightarrow> time option \<Rightarrow> db \<Rightarrow> db result" where
  "JobStore_UpdateStatus io jid status reasonCode errorMessage startedAt completedAt d = andThen (stmt io ''JobStore.UpdateStatus'') (\<lambda>_.
     andThen (require (0 < affected (\<lambda>j. jb_ID j = jid) (db_jobs d)) ErrNotFound) (\<lambda>_.
     Inr (d\<lparr>db_jobs := updateWhere (\<lambda>j. jb_ID j = jid) (\<lambda>j. j\<lparr>jb_Status := status, jb_ReasonCode := reasonCode, jb_ErrorMessage := errorMessage,
       jb_StartedAt := coalesce startedAt (jb_StartedAt j), jb_CompletedAt := coalesce completedAt (jb_CompletedAt j), jb_UpdatedAt := io_now io\<rparr>) (db_jobs d)\<rparr>)))"

definition JobStore_AddStep :: "io \<Rightarrow> JobStep \<Rightarrow> db \<Rightarrow> db result" where
  "JobStore_AddStep io s0 d =
    (let s = s0\<lparr>js_CreatedAt := (if IsZero (js_CreatedAt s0) then io_now io else js_CreatedAt s0)\<rparr>
     in andThen (stmt io ''JobStore.AddStep'') (\<lambda>_.
        andThen (require (js_ID s \<notin> js_ID ` set (db_jobSteps d)) (uniqueViolation d)) (\<lambda>_.
        andThen (foreignKey (js_JobID s \<in> jb_ID ` set (db_jobs d))) (\<lambda>_.
        Inr (d\<lparr>db_jobSteps := db_jobSteps d @ [s]\<rparr>)))))"

definition JobStore_ListSteps :: "io \<Rightarrow> string \<Rightarrow> db \<Rightarrow> JobStep list result" where
  "JobStore_ListSteps io jid d = andThen (stmt io ''JobStore.ListSteps'') (\<lambda>_.
     Inr (sort_key (\<lambda>s. RFC3339Nano (js_CreatedAt s)) (filter (\<lambda>s. js_JobID s = jid) (db_jobSteps d))))"

section \<open>The builder catalog\<close>

definition GetBuilderCatalog :: "io \<Rightarrow> db \<Rightarrow> BuilderCatalogRecord result" where
  "GetBuilderCatalog io d = andThen (stmt io ''BuilderCatalogStore.GetBuilderCatalog'') (\<lambda>_. Inr (db_builderCatalog d))"

definition PutBuilderCatalog :: "io \<Rightarrow> BuilderCatalogRecord \<Rightarrow> db \<Rightarrow> db result" where
  "PutBuilderCatalog io r d = andThen (stmt io ''BuilderCatalogStore.PutBuilderCatalog'') (\<lambda>_.
     Inr (d\<lparr>db_builderCatalog := r\<lparr>bk_UpdatedAt := (if IsZero (bk_UpdatedAt r) then io_now io else bk_UpdatedAt r),
       bk_ContentType := (if bk_ContentType r = [] then ''application/json'' else bk_ContentType r)\<rparr>\<rparr>))"

end
