(* ===== verification/DevFlows.thy ===== *)
theory DevFlows
  imports DevCatalog DevStore
begin

text \<open>
  The developer workflow service (internal/devflows/service.go): the catalog in memory and in
  the database, workspaces and their preparation by the workflow engine, builds of the current
  workspace, and jobs with the reconciliation of their status. The service runs on top of the
  builds service: \<open>dv_builds\<close> is its world and \<open>dv_cfg\<close> its configuration, whose list of
  hosts a new catalog replaces. Log lines are left out.
\<close>

section \<open>State\<close>

record devConfig =
  df_engine :: bool
  df_provisionerImage :: string
  df_builderImage :: string
  df_workspaceRootDir :: string
  df_workspaceClaimName :: string

record devWorld =
  dv_builds :: buildWorld
  dv_cfg :: buildConfig
  dv_catalog :: Catalog
  dv_contentType :: string
  dv_updatedAt :: time

abbreviation dv_db :: "devWorld \<Rightarrow> db" where "dv_db w \<equiv> bw_db (dv_builds w)"

definition ErrNoCurrentWorkspace :: err where "ErrNoCurrentWorkspace = ErrSentinel ''devflows.ErrNoCurrentWorkspace''"
definition ErrWorkspaceHasActiveJobs :: err where "ErrWorkspaceHasActiveJobs = ErrSentinel ''devflows.ErrWorkspaceHasActiveJobs''"
definition ErrWorkspaceNameConflict :: err where "ErrWorkspaceNameConflict = ErrSentinel ''devflows.ErrWorkspaceNameConflict''"
definition ErrWorkspaceProfileConflict :: err where "ErrWorkspaceProfileConflict = ErrSentinel ''devflows.ErrWorkspaceProfileConflict''"
definition ErrWorkspaceNotReady :: err where "ErrWorkspaceNotReady = ErrSentinel ''devflows.ErrWorkspaceNotReady''"
definition ErrCatalogRequired :: err where "ErrCatalogRequired = ErrSentinel ''devflows.ErrCatalogRequired''"

text \<open>A step on the world below, and sequencing of steps that may fail.\<close>

definition onBuilds :: "(buildWorld \<Rightarrow> buildWorld \<times> 'a result) \<Rightarrow> devWorld \<Rightarrow> devWorld \<times> 'a result" where
  "onBuilds f w = (case f (dv_builds w) of (b, r) \<Rightarrow> (w\<lparr>dv_builds := b\<rparr>, r))"

definition onDevDb :: "(db \<Rightarrow> db \<times> 'a result) \<Rightarrow> devWorld \<Rightarrow> devWorld \<times> 'a result" where
  "onDevDb f = onBuilds (onDb f)"

definition ignoringDev :: "(db \<Rightarrow> db result) \<Rightarrow> devWorld \<Rightarrow> devWorld" where
  "ignoringDev f w = w\<lparr>dv_builds := ignoring f (dv_builds w)\<rparr>"

fun thenD :: "devWorld \<times> 'a result \<Rightarrow> ('a \<Rightarrow> devWorld \<Rightarrow> devWorld \<times> 'b result) \<Rightarrow> devWorld \<times> 'b result" where
  "thenD (w, Inl e) f = (w, Inl e)"
| "thenD (w, Inr a) f = f a w"

definition reading :: "'a result \<Rightarrow> devWorld \<Rightarrow> devWorld \<times> 'a result" where "reading r w = (w, r)"

section \<open>The catalog\<close>

definition SetRequiredHosts :: "ext \<Rightarrow> string list \<Rightarrow> gitService \<Rightarrow> gitService" where
  "SetRequiredHosts x hosts v = v\<lparr>gv_requiredHosts := normalizeHosts x hosts\<rparr>"

definition syncDependentsLocked :: "ext \<Rightarrow> devWorld \<Rightarrow> devWorld \<times> unit result" where
  "syncDependentsLocked x w =
    (case RepoHosts x (dv_catalog w) of
       Inl e \<Rightarrow> (w, Inl e)
     | Inr hosts \<Rightarrow>
         let cfg = (dv_cfg w)\<lparr>bc_builderGit := map_option (SetRequiredHosts x hosts) (bc_builderGit (dv_cfg w))\<rparr>
         in (w\<lparr>dv_cfg := SetAllowedGitHosts x hosts cfg, dv_builds := SetSensitiveLogValues (SensitiveLogValues (dv_catalog w)) (dv_builds w)\<rparr>, Inr ()))"

definition LoadPersistedCatalog :: "ext \<Rightarrow> catExt \<Rightarrow> io \<Rightarrow> devWorld \<Rightarrow> devWorld \<times> unit result" where
  "LoadPersistedCatalog x cx io w =
    (case GetBuilderCatalog io (dv_db w) of
       Inl e \<Rightarrow> (w, Inl e)
     | Inr rec \<Rightarrow>
         if TrimSpace (bk_DocumentText rec) = [] then syncDependentsLocked x w
         else (case ParseCatalogDocument x cx (bk_DocumentText rec) of
                 Inl e \<Rightarrow> (w, Inl e)
               | Inr (c, contentType) \<Rightarrow> syncDependentsLocked x (w\<lparr>dv_catalog := c, dv_contentType := contentType, dv_updatedAt := bk_UpdatedAt rec\<rparr>)))"

record CatalogStatus =
  cs_Configured :: bool
  cs_Catalog :: Catalog
  cs_ContentType :: string
  cs_UpdatedAt :: "time option"
  cs_Document :: string

definition CatalogConfigured :: "devWorld \<Rightarrow> bool" where
  "CatalogConfigured w \<longleftrightarrow> \<not> Catalog_Empty (dv_catalog w)"

definition GetCatalogStatus :: "catExt \<Rightarrow> devWorld \<Rightarrow> CatalogStatus" where
  "GetCatalogStatus cx w =
    \<lparr>cs_Configured = CatalogConfigured w, cs_Catalog = dv_catalog w, cs_ContentType = dv_contentType w,
     cs_UpdatedAt = (if IsZero (dv_updatedAt w) then None else Some (dv_updatedAt w)),
     cs_Document = (if CatalogConfigured w then cx_yamlText cx (dv_catalog w) else ''{}'' @ [CHR 0x0A])\<rparr>"

definition catalogText :: "catExt \<Rightarrow> Catalog \<Rightarrow> string \<Rightarrow> string \<Rightarrow> string" where
  "catalogText cx c contentType raw = (if contentType = ''application/json'' then cx_indent cx c @ [CHR 0x0A] else TrimSpace raw)"

definition ReplaceCatalog :: "ext \<Rightarrow> catExt \<Rightarrow> Actor \<Rightarrow> string \<Rightarrow> io \<Rightarrow> devWorld \<Rightarrow> devWorld \<times> CatalogStatus result" where
  "ReplaceCatalog x cx actor raw io w =
    (case ParseCatalogDocument x cx raw of
       Inl e \<Rightarrow> (w, Inl e)
     | Inr (c, contentType) \<Rightarrow>
         let doc = catalogText cx c contentType raw
         in thenD (onDevDb (autoCommit (PutBuilderCatalog io \<lparr>bk_DocumentText = doc, bk_ContentType = contentType, bk_UpdatedAt = io_now io\<rparr>)) w) (\<lambda>_ w1.
            thenD (syncDependentsLocked x (w1\<lparr>dv_catalog := c, dv_contentType := contentType, dv_updatedAt := io_now io\<rparr>)) (\<lambda>_ w2.
            thenD (onDevDb (autoCommit (Recorder_Record x io actor (successEvent ''builder.catalog.replace'' ''builder_catalog'' ''1''
                (Some [(''workProfiles'', JInt (int (length (ct_WorkProfiles c)))), (''repos'', JInt (int (length (ct_Repos c)))),
                       (''buildTargets'', JInt (int (length (ct_BuildTargets c))))])))) w2) (\<lambda>_ w3.
            (w3, Inr \<lparr>cs_Configured = True, cs_Catalog = c, cs_ContentType = contentType, cs_UpdatedAt = Some (io_now io), cs_Document = doc\<rparr>)))))"

definition ListWorkProfiles :: "devWorld \<Rightarrow> WorkProfile list" where "ListWorkProfiles w = ct_WorkProfiles (dv_catalog w)"

section \<open>Following jobs\<close>

definition workspacePrepareWorkflowName :: "string \<Rightarrow> string" where
  "workspacePrepareWorkflowName jid = ''workspace-prepare-'' @ jid"

definition jobStatusFromBuild :: "BuildStatus \<Rightarrow> JobStatus" where
  "jobStatusFromBuild s = (case s of BuildStatusSucceeded \<Rightarrow> JobStatusSucceeded | BuildStatusFailed \<Rightarrow> JobStatusFailed | BuildStatusTimedOut \<Rightarrow> JobStatusFailed
     | BuildStatusCancelled \<Rightarrow> JobStatusCancelled | _ \<Rightarrow> JobStatusRunning)"

definition workspaceStatusFromJob :: "Job \<Rightarrow> WorkspaceStatus \<times> string \<times> string" where
  "workspaceStatusFromJob j = (case jb_Status j of JobStatusQueued \<Rightarrow> (WorkspaceStatusPending, [], []) | JobStatusRunning \<Rightarrow> (WorkspaceStatusPending, [], [])
     | JobStatusSucceeded \<Rightarrow> (WorkspaceStatusReady, [], []) | _ \<Rightarrow> (WorkspaceStatusFailed, jb_ReasonCode j, jb_ErrorMessage j))"

definition syncWorkspaceStatusFromJob :: "io \<Rightarrow> Job \<Rightarrow> db \<Rightarrow> db result" where
  "syncWorkspaceStatusFromJob io j d =
    (if jb_WorkspaceID j = [] then Inr d
     else andThen (WorkspaceStore_Get io (jb_WorkspaceID j) d) (\<lambda>ws.
       case workspaceStatusFromJob j of (status, reason, msg) \<Rightarrow>
         if wk_Status ws = status \<and> wk_ReasonCode ws = reason \<and> wk_ErrorMessage ws = msg then Inr d
         else WorkspaceStore_UpdateStatus io (wk_ID ws) status reason msg d))"

definition reconcileBuildJob :: "ext \<Rightarrow> buildConfig \<Rightarrow> engine \<Rightarrow> io \<Rightarrow> Job \<Rightarrow> buildWorld \<Rightarrow> buildWorld \<times> Job" where
  "reconcileBuildJob x cfg eng io j w =
    (if jb_BuildID j = [] then (w, j)
     else case Builds_Get x cfg eng (jb_BuildID j) io w of
            (w1, Inl e) \<Rightarrow> (w1, j)
          | (w1, Inr b) \<Rightarrow>
              let status = jobStatusFromBuild (b_Status b)
              in if status \<noteq> jb_Status j \<or> b_ReasonCode b \<noteq> jb_ReasonCode j \<or> b_ErrorMessage b \<noteq> jb_ErrorMessage j
                 then (ignoring (JobStore_UpdateStatus io (jb_ID j) status (b_ReasonCode b) (b_ErrorMessage b) (b_StartedAt b) (b_CompletedAt b)) w1,
                       j\<lparr>jb_Status := status, jb_ReasonCode := b_ReasonCode b, jb_ErrorMessage := b_ErrorMessage b, jb_StartedAt := b_StartedAt b, jb_CompletedAt := b_CompletedAt b\<rparr>)
                 else (w1, j))"

text \<open>The job as the phase of its workflow says it should be.\<close>

definition preparedJob :: "time \<Rightarrow> wfStatus \<Rightarrow> Job \<Rightarrow> Job" where
  "preparedJob now st j =
    (let started = (case jb_StartedAt j of None \<Rightarrow> Some now | t \<Rightarrow> t); msg = TrimSpace (ws_Message st)
     in case ws_Phase st of
          PhasePending \<Rightarrow> j\<lparr>jb_Status := JobStatusQueued, jb_ReasonCode := [], jb_ErrorMessage := []\<rparr>
        | PhaseRunning \<Rightarrow> j\<lparr>jb_Status := JobStatusRunning, jb_ReasonCode := [], jb_ErrorMessage := [], jb_StartedAt := started\<rparr>
        | PhaseSucceeded \<Rightarrow> j\<lparr>jb_Status := JobStatusSucceeded, jb_ReasonCode := [], jb_ErrorMessage := [], jb_StartedAt := started, jb_CompletedAt := Some now\<rparr>
        | PhaseFailed \<Rightarrow> j\<lparr>jb_Status := JobStatusFailed, jb_ReasonCode := ''workflow_failed'',
            jb_ErrorMessage := (if msg = [] then ''workspace workflow failed'' else msg), jb_CompletedAt := Some now\<rparr>)"

definition storeJob :: "io \<Rightarrow> Job \<Rightarrow> buildWorld \<Rightarrow> buildWorld" where
  "storeJob io j = ignoring (JobStore_UpdateStatus io (jb_ID j) (jb_Status j) (jb_ReasonCode j) (jb_ErrorMessage j) (jb_StartedAt j) (jb_CompletedAt j))"

definition reconcileWorkspacePrepareJob :: "bool \<Rightarrow> engine \<Rightarrow> io \<Rightarrow> Job \<Rightarrow> buildWorld \<Rightarrow> buildWorld \<times> Job result" where
  "reconcileWorkspacePrepareJob hasEngine eng io j w =
    (if \<not> hasEngine then (w, Inr j)
     else case en_Status eng (workspacePrepareWorkflowName (jb_ID j)) of
       Inl e \<Rightarrow>
         if e = ErrWorkflowNotFound
         then let j' = j\<lparr>jb_Status := JobStatusFailed, jb_ReasonCode := ''workflow_not_found'', jb_ErrorMessage := ''workspace workflow was not found'', jb_CompletedAt := Some (io_now io)\<rparr>
              in (ignoring (syncWorkspaceStatusFromJob io j') (storeJob io j' w), Inr j')
         else (w, Inl e)
     | Inr st \<Rightarrow>
         let j' = preparedJob (io_now io) st j
         in (ignoring (syncWorkspaceStatusFromJob io j') (if j' \<noteq> j then storeJob io j' w else w), Inr j'))"

definition reconcileJob :: "ext \<Rightarrow> buildConfig \<Rightarrow> bool \<Rightarrow> engine \<Rightarrow> io \<Rightarrow> Job \<Rightarrow> buildWorld \<Rightarrow> buildWorld \<times> Job result" where
  "reconcileJob x cfg hasEngine eng io j w =
    (if JobTerminal (jb_Status j) then (w, Inr j)
     else case jb_Type j of
       JobTypeBuild \<Rightarrow> (case reconcileBuildJob x cfg eng io j w of (w1, j') \<Rightarrow> (w1, Inr j'))
     | JobTypeWorkspacePrepare \<Rightarrow> reconcileWorkspacePrepareJob hasEngine eng io j w
     | JobTypeDeploy \<Rightarrow> (w, Inr j))"

definition latestWorkspacePrepareJob :: "io \<Rightarrow> string \<Rightarrow> db \<Rightarrow> Job result" where
  "latestWorkspacePrepareJob io wid d =
     andThen (JobStore_List io \<lparr>jf_OwnerID = [], jf_WorkspaceID = wid, jf_Type = Some JobTypeWorkspacePrepare, jf_Limit = 1\<rparr> d) (\<lambda>js.
     case js of [] \<Rightarrow> Inl ErrNotFound | j # _ \<Rightarrow> Inr j)"

definition reconcileWorkspace :: "ext \<Rightarrow> devConfig \<Rightarrow> engine \<Rightarrow> io \<Rightarrow> Workspace \<Rightarrow> devWorld \<Rightarrow> devWorld \<times> Workspace result" where
  "reconcileWorkspace x df eng io ws w =
    (if wk_DeletedAt ws \<noteq> None then (w, Inr ws)
     else case latestWorkspacePrepareJob io (wk_ID ws) (dv_db w) of
       Inl e \<Rightarrow> if e = ErrNotFound then (w, Inr ws) else (w, Inl e)
     | Inr j \<Rightarrow> thenD (onBuilds (reconcileJob x (dv_cfg w) (df_engine df) eng io j) w) (\<lambda>_ w1. (w1, WorkspaceStore_Get io (wk_ID ws) (dv_db w1))))"

section \<open>Workspaces\<close>

fun reconcileWorkspaces :: "ext \<Rightarrow> devConfig \<Rightarrow> engine \<Rightarrow> (nat \<Rightarrow> io) \<Rightarrow> nat \<Rightarrow> Workspace list \<Rightarrow> devWorld \<Rightarrow> devWorld \<times> Workspace list result" where
  "reconcileWorkspaces x df eng ios k [] w = (w, Inr [])"
| "reconcileWorkspaces x df eng ios k (v # vs) w =
     thenD (reconcileWorkspace x df eng (ios k) v w) (\<lambda>v' w1. thenD (reconcileWorkspaces x df eng ios (Suc k) vs w1) (\<lambda>vs' w2. (w2, Inr (v' # vs'))))"

definition ListWorkspaces :: "ext \<Rightarrow> devConfig \<Rightarrow> engine \<Rightarrow> string \<Rightarrow> bool \<Rightarrow> (nat \<Rightarrow> io) \<Rightarrow> devWorld \<Rightarrow> devWorld \<times> Workspace list result" where
  "ListWorkspaces x df eng ownerID canAny ios w =
     thenD (reading (WorkspaceStore_List (ios 0) \<lparr>wf_OwnerID = (if canAny then [] else ownerID), wf_IncludeDeleted = False, wf_Limit = 0\<rparr> (dv_db w)) w) (\<lambda>vs w1.
     reconcileWorkspaces x df eng ios 1 vs w1)"

definition GetWorkspace :: "ext \<Rightarrow> devConfig \<Rightarrow> engine \<Rightarrow> string \<Rightarrow> string \<Rightarrow> bool \<Rightarrow> io \<Rightarrow> devWorld \<Rightarrow> devWorld \<times> Workspace result" where
  "GetWorkspace x df eng wid ownerID canAny io w =
     thenD (reading (WorkspaceStore_Get io wid (dv_db w)) w) (\<lambda>ws w1.
     if wk_OwnerID ws \<noteq> ownerID \<and> \<not> canAny then (w1, Inl ErrNotFound) else reconcileWorkspace x df eng io ws w1)"

fun allFinished :: "ext \<Rightarrow> devConfig \<Rightarrow> engine \<Rightarrow> (nat \<Rightarrow> io) \<Rightarrow> nat \<Rightarrow> Job list \<Rightarrow> devWorld \<Rightarrow> devWorld \<times> unit result" where
  "allFinished x df eng ios k [] w = (w, Inr ())"
| "allFinished x df eng ios k (j # js) w =
     thenD (onBuilds (reconcileJob x (dv_cfg w) (df_engine df) eng (ios k) j) w) (\<lambda>j' w1.
       if \<not> JobTerminal (jb_Status j') then (w1, Inl ErrWorkspaceHasActiveJobs) else allFinished x df eng ios (Suc k) js w1)"

definition DeleteWorkspace :: "ext \<Rightarrow> devConfig \<Rightarrow> engine \<Rightarrow> Actor \<Rightarrow> string \<Rightarrow> string \<Rightarrow> bool \<Rightarrow> (nat \<Rightarrow> io) \<Rightarrow> devWorld \<Rightarrow> devWorld \<times> unit result" where
  "DeleteWorkspace x df eng actor wid ownerID canAny ios w =
     thenD (GetWorkspace x df eng wid ownerID canAny (ios 0) w) (\<lambda>ws w1.
     thenD (reading (JobStore_List (ios 1) \<lparr>jf_OwnerID = [], jf_WorkspaceID = wk_ID ws, jf_Type = None, jf_Limit = 200\<rparr> (dv_db w1)) w1) (\<lambda>js w2.
     thenD (allFinished x df eng ios 2 js w2) (\<lambda>_ w3.
     thenD (onDevDb (autoCommit (WorkspaceStore_MarkDeleted (ios 1) (wk_ID ws) (io_now (ios 1)))) w3) (\<lambda>_ w4.
     onDevDb (autoCommit (Recorder_Record x (ios 1) actor (successEvent ''workspaces.delete'' ''workspace'' (wk_ID ws) None))) w4))))"

definition SetCurrentWorkspace :: "ext \<Rightarrow> devConfig \<Rightarrow> engine \<Rightarrow> Actor \<Rightarrow> string \<Rightarrow> string \<Rightarrow> (nat \<Rightarrow> io) \<Rightarrow> devWorld \<Rightarrow> devWorld \<times> Workspace result" where
  "SetCurrentWorkspace x df eng actor userID wid ios w =
     thenD (GetWorkspace x df eng wid userID False (ios 0) w) (\<lambda>ws w1.
     if wk_DeletedAt ws \<noteq> None then (w1, Inl ErrNotFound)
     else thenD (onDevDb (autoCommit (WorkspaceStore_SetCurrent (ios 1) userID wid)) w1) (\<lambda>_ w2.
          thenD (onDevDb (autoCommit (Recorder_Record x (ios 1) actor (successEvent ''workspaces.current.set'' ''workspace'' (wk_ID ws) None))) w2) (\<lambda>_ w3.
          reconcileWorkspace x df eng (ios 2) ws w3)))"

definition Service_CurrentWorkspace :: "ext \<Rightarrow> devConfig \<Rightarrow> engine \<Rightarrow> string \<Rightarrow> io \<Rightarrow> devWorld \<Rightarrow> devWorld \<times> Workspace result" where
  "Service_CurrentWorkspace x df eng userID io w =
    (let found = andThen (WorkspaceStore_GetCurrent io userID (dv_db w)) (\<lambda>cur. WorkspaceStore_Get io (cw_WorkspaceID cur) (dv_db w))
     in case found of
          Inl e \<Rightarrow> (w, Inl (if e = ErrNotFound then ErrNoCurrentWorkspace else e))
        | Inr ws \<Rightarrow> if wk_OwnerID ws \<noteq> userID \<or> wk_DeletedAt ws \<noteq> None then (w, Inl ErrNoCurrentWorkspace)
                   else reconcileWorkspace x df eng io ws w)"

definition ListBuildTargetsForCurrent :: "ext \<Rightarrow> devConfig \<Rightarrow> engine \<Rightarrow> string \<Rightarrow> io \<Rightarrow> devWorld \<Rightarrow> devWorld \<times> BuildTarget list result" where
  "ListBuildTargetsForCurrent x df eng userID io w =
     thenD (Service_CurrentWorkspace x df eng userID io w) (\<lambda>ws w1. (w1, TargetsForProfile x (dv_catalog w1) (wk_WorkProfile ws)))"

section \<open>Creating a workspace\<close>

definition resolveWorkspaceGitCredentials :: "ext \<Rightarrow> Repo list \<Rightarrow> devWorld \<Rightarrow> GitCredentialRef list result" where
  "resolveWorkspaceGitCredentials x repos w =
    (case bc_builderGit (dv_cfg w) of
       None \<Rightarrow> Inr []
     | Some v \<Rightarrow> andThen (ResolveMany x MemorySecretManager v (map re_URL repos) (bw_secrets (dv_builds w))) (\<lambda>cs.
         Inr (map (\<lambda>c. \<lparr>gc_Name = ci_Name c, gc_Host = ci_Host c, gc_SecretName = ci_SecretName c\<rparr>) cs)))"

definition workspaceRepoSpecs :: "Repo list \<Rightarrow> WorkspaceRepo list" where
  "workspaceRepoSpecs repos = map (\<lambda>r. \<lparr>wr_Name = re_Name r, wr_URL = re_URL r, wr_Ref = re_DefaultRef r\<rparr>) repos"

text \<open>The request, the profile and its repositories, and the credentials the preparation uses.\<close>

definition checkWorkspace :: "ext \<Rightarrow> devConfig \<Rightarrow> io \<Rightarrow> string \<Rightarrow> string \<Rightarrow> string \<Rightarrow> devWorld \<Rightarrow> (string \<times> string \<times> Repo list \<times> GitCredentialRef list) result" where
  "checkWorkspace x df io ownerID reqName reqProfile w =
    (let name = normalizeName x reqName; p = normalizeName x reqProfile; profile = (if p = [] then ''default'' else p); c = dv_catalog w
     in andThen (require (validName name) (ErrMessage ''workspace name is invalid'')) (\<lambda>_.
        andThen (require (\<not> Catalog_Empty c) ErrCatalogRequired) (\<lambda>_.
        andThen (require (Catalog_WorkProfile x c profile \<noteq> None) (ErrMessage ''unknown workspace profile'')) (\<lambda>_.
        andThen (ReposForProfile x c profile) (\<lambda>repos.
        andThen (require (repos \<noteq> []) (ErrMessage ''workspace profile has no repos configured'')) (\<lambda>_.
        andThen (resolveWorkspaceGitCredentials x repos w) (\<lambda>creds.
        andThen (require (df_provisionerImage df \<noteq> []) (ErrMessage ''workspaceProvisionerImageDigest is required'')) (\<lambda>_.
        andThen (WorkspaceStore_List io \<lparr>wf_OwnerID = ownerID, wf_IncludeDeleted = False, wf_Limit = 200\<rparr> (dv_db w)) (\<lambda>existing.
        case List.find (\<lambda>v. normalizeName x (wk_Name v) = name) existing of
          Some v \<Rightarrow> Inl (if normalizeName x (wk_WorkProfile v) \<noteq> profile then ErrWorkspaceProfileConflict else ErrWorkspaceNameConflict)
        | None \<Rightarrow> Inr (name, profile, repos, creds))))))))))"

text \<open>
  One request draws three identifiers and reads the clock several times: \<open>ios 0\<close> is for the
  workspace, \<open>ios 1\<close> for its job, \<open>ios 2\<close> for the first step, \<open>ios 3\<close> for the submission.
\<close>

definition newWorkspace :: "io \<Rightarrow> string \<Rightarrow> string \<Rightarrow> string \<Rightarrow> Workspace" where
  "newWorkspace io ownerID name profile =
    \<lparr>wk_ID = io_newID io, wk_OwnerID = ownerID, wk_Name = name, wk_WorkProfile = profile, wk_SourceRepoURL = [], wk_SourceRef = [], wk_SourceCredentialRef = [],
     wk_Status = WorkspaceStatusPending, wk_ReasonCode = [], wk_ErrorMessage = [], wk_CreatedAt = io_now io, wk_UpdatedAt = io_now io, wk_DeletedAt = None\<rparr>"

definition prepareJob :: "string \<Rightarrow> string \<Rightarrow> string \<Rightarrow> time \<Rightarrow> Job" where
  "prepareJob jid ownerID wid now =
    \<lparr>jb_ID = jid, jb_OwnerID = ownerID, jb_WorkspaceID = wid, jb_BuildID = [], jb_Type = JobTypeWorkspacePrepare, jb_Status = JobStatusQueued,
     jb_TargetName = [], jb_ArtifactRef = [], jb_ReasonCode = [], jb_ErrorMessage = [], jb_CreatedAt = now, jb_UpdatedAt = now, jb_StartedAt = None, jb_CompletedAt = None\<rparr>"

definition prepareSpec :: "devConfig \<Rightarrow> time \<Rightarrow> string \<Rightarrow> string \<Rightarrow> Repo list \<Rightarrow> GitCredentialRef list \<Rightarrow> Spec" where
  "prepareSpec df now jid wsName repos creds =
    \<lparr>sp_Name = workspacePrepareWorkflowName jid, sp_Kind = KindWorkspacePrepare, sp_BuilderImageDigest = df_provisionerImage df, sp_GitCredentials = creds,
     sp_SourceCredentialRef = [], sp_SourceCredentialSecret = [], sp_KnownHostsSecret = [], sp_Deadline = now + 30 * Minute, sp_SourceRepoURL = [],
     sp_SourceCommitSHA = [], sp_Execution = [], sp_Args = None, sp_WorkingDirectory = [], sp_ContainerfilePath = [], sp_TargetRepository = [], sp_TargetTag = [],
     sp_RegistryHost = [], sp_RegistryTLSVerify = [], sp_RegistryCredentialSecret = [], sp_WorkspaceRootDir = df_workspaceRootDir df,
     sp_WorkspaceClaimName = df_workspaceClaimName df, sp_WorkspaceName = wsName, sp_WorkspaceRepo = [], sp_WorkspaceRepos = workspaceRepoSpecs repos\<rparr>"

definition failProvision :: "io \<Rightarrow> Workspace \<Rightarrow> string \<Rightarrow> string \<Rightarrow> string \<Rightarrow> devWorld \<Rightarrow> devWorld \<times> Workspace result" where
  "failProvision io ws jid reason msg w =
    (ignoringDev (WorkspaceStore_UpdateStatus io (wk_ID ws) WorkspaceStatusFailed reason msg)
       (ignoringDev (JobStore_UpdateStatus io jid JobStatusFailed reason msg None (Some (io_now io))) w),
     Inr (ws\<lparr>wk_Status := WorkspaceStatusFailed, wk_ReasonCode := reason, wk_ErrorMessage := msg, wk_UpdatedAt := io_now io\<rparr>))"

definition submitWorkspaceProvision ::
    "devConfig \<Rightarrow> engine \<Rightarrow> io \<Rightarrow> Workspace \<Rightarrow> string \<Rightarrow> Repo list \<Rightarrow> GitCredentialRef list \<Rightarrow> devWorld \<Rightarrow> devWorld \<times> Workspace result" where
  "submitWorkspaceProvision df eng io ws jid repos creds w =
    (if \<not> df_engine df then failProvision io ws jid ''workflow_engine_unavailable'' ''workspace workflow engine is not configured'' w
     else let spec = prepareSpec df (io_now io) jid (wk_Name ws) repos creds;
              w1 = w\<lparr>dv_builds := (dv_builds w)\<lparr>bw_calls := bw_calls (dv_builds w) @ [CallSubmit spec]\<rparr>\<rparr>
          in case en_Submit eng spec of
               Some msg \<Rightarrow> failProvision io ws jid ''workflow_submit_failed'' msg w1
             | None \<Rightarrow> (ignoringDev (JobStore_UpdateStatus io jid JobStatusRunning [] [] (Some (io_now io)) None) w1, Inr ws))"

definition CreateWorkspace ::
    "ext \<Rightarrow> devConfig \<Rightarrow> engine \<Rightarrow> Actor \<Rightarrow> string \<Rightarrow> string \<Rightarrow> string \<Rightarrow> (nat \<Rightarrow> io) \<Rightarrow> devWorld \<Rightarrow> devWorld \<times> Workspace result" where
  "CreateWorkspace x df eng actor ownerID reqName reqProfile ios w =
    (case checkWorkspace x df (ios 0) ownerID reqName reqProfile w of
       Inl e \<Rightarrow> (w, Inl e)
     | Inr (name, profile, repos, creds) \<Rightarrow>
         let ws = newWorkspace (ios 0) ownerID name profile; jid = io_newID (ios 1)
         in case onDevDb (autoCommit (WorkspaceStore_Create (ios 0) ws)) w of
              (w1, Inl e) \<Rightarrow> (w1, Inl (if e = ErrConflict then ErrWorkspaceNameConflict else e))
            | (w1, Inr _) \<Rightarrow>
                thenD (onDevDb (autoCommit (WorkspaceStore_SetCurrent (ios 0) ownerID (wk_ID ws))) w1) (\<lambda>_ w2.
                thenD (onDevDb (autoCommit (JobStore_Create (ios 1) (prepareJob jid ownerID (wk_ID ws) (io_now (ios 0))))) w2) (\<lambda>_ w3.
                let w4 = ignoringDev (JobStore_AddStep (ios 2) \<lparr>js_ID = io_newID (ios 2), js_JobID = jid, js_Name = ''submit-workspace-provision-workflow'',
                       js_Status = JobStatusQueued, js_Message = ''queued workspace provisioning workflow'', js_CreatedAt = io_now (ios 0), js_StartedAt = None, js_CompletedAt = None\<rparr>) w3
                in thenD (onDevDb (autoCommit (Recorder_Record x (ios 0) actor (successEvent ''workspaces.create'' ''workspace'' (wk_ID ws) None))) w4) (\<lambda>_ w5.
                   submitWorkspaceProvision df eng (ios 3) ws jid repos creds w5))))"

section \<open>Builds of the current workspace\<close>

text \<open>The replacer of \<open>renderTag\<close>: at each position the first of the three marks that matches is replaced.\<close>

fun replaceMarks :: "nat \<Rightarrow> string \<Rightarrow> string \<Rightarrow> string \<Rightarrow> string" where
  "replaceMarks skip wsName target [] = []"
| "replaceMarks (Suc k) wsName target (c # cs) = replaceMarks k wsName target cs"
| "replaceMarks 0 wsName target (c # cs) =
    (if HasPrefix (c # cs) ''{workspace}'' then wsName @ replaceMarks 10 wsName target cs
     else if HasPrefix (c # cs) ''{target}'' then target @ replaceMarks 7 wsName target cs
     else if HasPrefix (c # cs) ''{commit12}'' then replaceMarks 9 wsName target cs
     else c # replaceMarks 0 wsName target cs)"

definition renderTag :: "string \<Rightarrow> Workspace \<Rightarrow> BuildTarget \<Rightarrow> string" where
  "renderTag tmpl ws t = (if TrimSpace tmpl = [] then [] else replaceMarks 0 (wk_Name ws) (bt_Name t) tmpl)"

definition artifactRef :: "string \<Rightarrow> string \<Rightarrow> string" where
  "artifactRef imageRepository imageTag = (if imageRepository = [] \<or> imageTag = [] then [] else imageRepository @ '':'' @ imageTag)"

definition imageTagFor :: "string \<Rightarrow> Workspace \<Rightarrow> BuildTarget \<Rightarrow> string" where
  "imageTagFor reqTag ws t =
    (let tag = TrimSpace reqTag; tag1 = (if tag = [] then renderTag (bt_ImageTagTemplate t) ws t else tag)
     in if tag1 = [] then wk_Name ws @ ''-'' @ bt_Name t else tag1)"

definition buildRequest :: "devConfig \<Rightarrow> string \<Rightarrow> Workspace \<Rightarrow> ResolvedTarget \<Rightarrow> CreateRequest result" where
  "buildRequest df reqTag ws res =
    (let t = rt_Target res
     in andThen (require (\<not> (df_builderImage df = [] \<and> TrimSpace (bt_BuilderImageDigest t) = [])) (ErrMessage ''builderImageDigest is required for builds'')) (\<lambda>_.
        andThen (ResolveBuilderImage (bt_BuilderImageDigest t) (df_builderImage df)) (\<lambda>image.
        Inr \<lparr>cr_SourceRepoURL = re_URL (rt_Repo res), cr_SourceCommitSHA = [], cr_WorkspaceName = wk_Name ws, cr_WorkspaceRepo = re_Name (rt_Repo res),
             cr_Execution = bt_Execution t, cr_Args = (if bt_Args t = [] then None else Some (bt_Args t)), cr_WorkingDirectory = bt_WorkingDirectory t,
             cr_ContainerfilePath = bt_ContainerfilePath t, cr_ImageRepository = bt_ImageRepository t, cr_ImageTag = imageTagFor reqTag ws t,
             cr_BuilderImageDigest = image, cr_SourceCredentialRef = [], cr_SourceCredentialSecret = [], cr_KnownHostsSecret = []\<rparr>)))"

definition buildJob :: "string \<Rightarrow> string \<Rightarrow> string \<Rightarrow> string \<Rightarrow> Build \<Rightarrow> time \<Rightarrow> Job" where
  "buildJob jid ownerID wid target b now =
    \<lparr>jb_ID = jid, jb_OwnerID = ownerID, jb_WorkspaceID = wid, jb_BuildID = b_ID b, jb_Type = JobTypeBuild, jb_Status = jobStatusFromBuild (b_Status b),
     jb_TargetName = target, jb_ArtifactRef = artifactRef (b_ImageRepository b) (b_ImageTag b), jb_ReasonCode = b_ReasonCode b, jb_ErrorMessage = b_ErrorMessage b,
     jb_CreatedAt = now, jb_UpdatedAt = now, jb_StartedAt = b_StartedAt b, jb_CompletedAt = b_CompletedAt b\<rparr>"

definition SubmitBuildForCurrent ::
    "ext \<Rightarrow> devConfig \<Rightarrow> engine \<Rightarrow> Actor \<Rightarrow> string \<Rightarrow> string \<Rightarrow> string \<Rightarrow> string \<Rightarrow> buildIO \<Rightarrow> (nat \<Rightarrow> io) \<Rightarrow> devWorld \<Rightarrow> devWorld \<times> Job result" where
  "SubmitBuildForCurrent x df eng actor ownerID targetName imageTag key bi ios w =
     thenD (Service_CurrentWorkspace x df eng ownerID (ios 0) w) (\<lambda>ws w1.
     if wk_Status ws \<noteq> WorkspaceStatusReady then (w1, Inl ErrWorkspaceNotReady)
     else thenD (reading (ResolveTargetForProfile x (dv_catalog w1) (wk_WorkProfile ws) targetName) w1) (\<lambda>res w1.
     thenD (reading (buildRequest df imageTag ws res) w1) (\<lambda>req w1.
     thenD (onBuilds (Builds_Create x (dv_cfg w1) eng actor ownerID req key bi) w1) (\<lambda>b w2.
     thenD (reading (JobStore_List (ios 1) \<lparr>jf_OwnerID = ownerID, jf_WorkspaceID = wk_ID ws, jf_Type = Some JobTypeBuild, jf_Limit = 200\<rparr> (dv_db w2)) w2) (\<lambda>js w2.
     case List.find (\<lambda>j. jb_BuildID j = b_ID b) js of
       Some j \<Rightarrow> onBuilds (reconcileJob x (dv_cfg w2) (df_engine df) eng (ios 1) j) w2
     | None \<Rightarrow>
         let j = buildJob (io_newID (ios 1)) ownerID (wk_ID ws) (bt_Name (rt_Target res)) b (io_now (ios 1))
         in thenD (onDevDb (autoCommit (JobStore_Create (ios 1) j)) w2) (\<lambda>_ w3.
            (ignoringDev (JobStore_AddStep (ios 2) \<lparr>js_ID = io_newID (ios 2), js_JobID = jb_ID j, js_Name = ''submit-build-workflow'', js_Status = jb_Status j,
               js_Message = ''submitted build workflow'', js_CreatedAt = io_now (ios 1), js_StartedAt = b_StartedAt b, js_CompletedAt = b_CompletedAt b\<rparr>) w3, Inr j)))))))"

definition CurrentWorkspaceBuildStatus :: "ext \<Rightarrow> devConfig \<Rightarrow> engine \<Rightarrow> string \<Rightarrow> (nat \<Rightarrow> io) \<Rightarrow> devWorld \<Rightarrow> devWorld \<times> Job result" where
  "CurrentWorkspaceBuildStatus x df eng userID ios w =
     thenD (Service_CurrentWorkspace x df eng userID (ios 0) w) (\<lambda>ws w1.
     thenD (reading (JobStore_List (ios 1) \<lparr>jf_OwnerID = userID, jf_WorkspaceID = wk_ID ws, jf_Type = Some JobTypeBuild, jf_Limit = 1\<rparr> (dv_db w1)) w1) (\<lambda>js w1.
     case js of [] \<Rightarrow> (w1, Inl ErrNotFound) | j # _ \<Rightarrow> onBuilds (reconcileJob x (dv_cfg w1) (df_engine df) eng (ios 1) j) w1))"

section \<open>Jobs\<close>

text \<open>When reconciling a job fails, ListJobs shows what \<open>reconcileJob\<close> returned beside the error, which is the job as it was.\<close>

fun reconcileJobs :: "ext \<Rightarrow> devConfig \<Rightarrow> engine \<Rightarrow> (nat \<Rightarrow> io) \<Rightarrow> nat \<Rightarrow> Job list \<Rightarrow> devWorld \<Rightarrow> devWorld \<times> Job list" where
  "reconcileJobs x df eng ios k [] w = (w, [])"
| "reconcileJobs x df eng ios k (j # js) w =
    (case onBuilds (reconcileJob x (dv_cfg w) (df_engine df) eng (ios k) j) w of (w1, r) \<Rightarrow>
     case reconcileJobs x df eng ios (Suc k) js w1 of (w2, rest) \<Rightarrow> (w2, (case r of Inl e \<Rightarrow> j | Inr j' \<Rightarrow> j') # rest))"

definition ListJobs :: "ext \<Rightarrow> devConfig \<Rightarrow> engine \<Rightarrow> string \<Rightarrow> bool \<Rightarrow> (nat \<Rightarrow> io) \<Rightarrow> devWorld \<Rightarrow> devWorld \<times> Job list result" where
  "ListJobs x df eng ownerID canAny ios w =
     thenD (reading (JobStore_List (ios 0) \<lparr>jf_OwnerID = (if canAny then [] else ownerID), jf_WorkspaceID = [], jf_Type = None, jf_Limit = 0\<rparr> (dv_db w)) w) (\<lambda>js w1.
     case reconcileJobs x df eng ios 1 js w1 of (w2, js') \<Rightarrow> (w2, Inr js'))"

definition GetJob :: "ext \<Rightarrow> devConfig \<Rightarrow> engine \<Rightarrow> string \<Rightarrow> string \<Rightarrow> bool \<Rightarrow> io \<Rightarrow> devWorld \<Rightarrow> devWorld \<times> Job result" where
  "GetJob x df eng jid ownerID canAny io w =
     thenD (reading (JobStore_Get io jid (dv_db w)) w) (\<lambda>j w1.
     if jb_OwnerID j \<noteq> ownerID \<and> \<not> canAny then (w1, Inl ErrNotFound) else onBuilds (reconcileJob x (dv_cfg w1) (df_engine df) eng io j) w1)"

definition cancelPrepare :: "ext \<Rightarrow> engine \<Rightarrow> Actor \<Rightarrow> Job \<Rightarrow> io \<Rightarrow> devWorld \<Rightarrow> devWorld \<times> unit result" where
  "cancelPrepare x eng actor j io w =
    (let name = workspacePrepareWorkflowName (jb_ID j); w1 = w\<lparr>dv_builds := cancelCall name (dv_builds w)\<rparr>
     in case en_Cancel eng name of
          Inl e \<Rightarrow> if e = ErrWorkflowNotFound
                   then onDevDb (autoCommit (Recorder_Record x io actor (successEvent ''jobs.cancel'' ''job'' (jb_ID j) (Some [(''jobType'', JStr ''workspace_prepare'')])))) w1
                   else (w1, Inl e)
        | Inr _ \<Rightarrow> onDevDb (autoCommit (Recorder_Record x io actor (successEvent ''jobs.cancel'' ''job'' (jb_ID j) (Some [(''jobType'', JStr ''workspace_prepare'')])))) w1)"

definition CancelJob :: "ext \<Rightarrow> devConfig \<Rightarrow> engine \<Rightarrow> Actor \<Rightarrow> string \<Rightarrow> string \<Rightarrow> bool \<Rightarrow> (nat \<Rightarrow> io) \<Rightarrow> devWorld \<Rightarrow> devWorld \<times> Job result" where
  "CancelJob x df eng actor jid ownerID canAny ios w =
     thenD (GetJob x df eng jid ownerID canAny (ios 0) w) (\<lambda>j w1.
     if JobTerminal (jb_Status j) then (w1, Inr j)
     else thenD (if jb_BuildID j \<noteq> [] then thenD (onBuilds (Builds_Cancel x (dv_cfg w1) eng actor (jb_BuildID j) (ios 1)) w1) (\<lambda>_ w2. (w2, Inr ()))
                 else if jb_Type j = JobTypeWorkspacePrepare \<and> df_engine df then cancelPrepare x eng actor j (ios 1) w1
                 else (w1, Inr ())) (\<lambda>_ w2.
          GetJob x df eng jid ownerID canAny (ios 2) w2))"

definition JobSteps :: "ext \<Rightarrow> devConfig \<Rightarrow> engine \<Rightarrow> string \<Rightarrow> string \<Rightarrow> bool \<Rightarrow> (nat \<Rightarrow> io) \<Rightarrow> devWorld \<Rightarrow> devWorld \<times> JobStep list result" where
  "JobSteps x df eng jid ownerID canAny ios w =
     thenD (GetJob x df eng jid ownerID canAny (ios 0) w) (\<lambda>_ w1. (w1, JobStore_ListSteps (ios 1) jid (dv_db w1)))"

definition JobLogs :: "ext \<Rightarrow> devConfig \<Rightarrow> engine \<Rightarrow> string \<Rightarrow> string \<Rightarrow> bool \<Rightarrow> (nat \<Rightarrow> io) \<Rightarrow> devWorld \<Rightarrow> devWorld \<times> string result" where
  "JobLogs x df eng jid ownerID canAny ios w =
     thenD (GetJob x df eng jid ownerID canAny (ios 0) w) (\<lambda>j w1.
     (w1, if jb_BuildID j \<noteq> [] then Builds_Logs eng (jb_BuildID j) (ios 1) (dv_builds w1)
          else if jb_Type j = JobTypeWorkspacePrepare \<and> df_engine df
          then (case en_Logs eng (workspacePrepareWorkflowName (jb_ID j)) of
                  Inl e \<Rightarrow> if e = ErrWorkflowNotFound then Inr [] else Inl e | Inr logs \<Rightarrow> Inr logs)
          else Inr []))"

fun reconcileEachJob :: "ext \<Rightarrow> devConfig \<Rightarrow> engine \<Rightarrow> (nat \<Rightarrow> io) \<Rightarrow> nat \<Rightarrow> Job list \<Rightarrow> devWorld \<Rightarrow> devWorld \<times> unit result" where
  "reconcileEachJob x df eng ios k [] w = (w, Inr ())"
| "reconcileEachJob x df eng ios k (j # js) w =
     thenD (onBuilds (reconcileJob x (dv_cfg w) (df_engine df) eng (ios k) j) w) (\<lambda>_ w1. reconcileEachJob x df eng ios (Suc k) js w1)"

definition Dev_ReconcileAll :: "ext \<Rightarrow> devConfig \<Rightarrow> engine \<Rightarrow> (nat \<Rightarrow> io) \<Rightarrow> devWorld \<Rightarrow> devWorld \<times> unit result" where
  "Dev_ReconcileAll x df eng ios w =
     thenD (reading (JobStore_ListReconcilable (ios 0) (dv_db w)) w) (\<lambda>js w1. reconcileEachJob x df eng ios 1 js w1)"

end
