(* ===== verification/BuildFrame.thy ===== *)
theory BuildFrame
  imports BuildLife
begin

text \<open>
  What the builds service leaves alone. Its operations write the tables of builds, idempotency
  keys, API tokens and audit events and no other. The locale says so for any view of the database
  that does not look at these four; a client interprets it with the tables it is about.
\<close>

locale build_frame =
  fixes view :: "db \<Rightarrow> 'v"
  assumes builds: "view (d\<lparr>db_builds := bs\<rparr>) = view d"
    and idempotency: "view (d\<lparr>db_idempotency := is\<rparr>) = view d"
    and tokens: "view (d\<lparr>db_tokens := ts\<rparr>) = view d"
    and audit: "view (d\<lparr>db_audit := es\<rparr>) = view d"
begin

lemma recorded: "Recorder_Record x io actor e d = Inr d' \<Longrightarrow> view d' = view d"
  by (subst Recorder_Record_InrD(1)) (auto simp: audit)

lemma revoke: "Tokens_Revoke x actor tid io d = (d', r) \<Longrightarrow> view d' = view d"
proof (cases r)
  case (Inr u)
  assume "Tokens_Revoke x actor tid io d = (d', r)"
  then obtain d1 e where 1: "TokenStore_Revoke io tid d = Inr d1" and 2: "Recorder_Record x io actor e d1 = Inr d'"
    unfolding Tokens_Revoke_def Inr by (auto dest!: WithTx_Inr)
  then show ?thesis by (auto simp: TokenStore_Revoke_def Let_def recorded [OF 2] tokens)
qed (auto simp: Tokens_Revoke_def dest: WithTx_Inl)

lemma create_token:
  assumes "Tokens_Create x keys actor owner name ttl scopes io d = (d', r)"
  shows "view d' = view d"
proof (cases r)
  case (Inl e)
  with assms have "d' = d"
    by (auto simp: Tokens_Create_def guarded_def apsnd_def map_prod_def dest!: WithTx_Inl split: sum.splits prod.splits)
  then show ?thesis by simp
next
  case (Inr p)
  then obtain raw t where r: "r = Inr (raw, t)" by (cases p) simp
  have "insertToken x actor io (raw, t) d = Inr ((raw, t), d')"
    using assms unfolding Tokens_Create_def r guarded_Inr by (auto simp: insertToken_def dest!: WithTx_Inr)
  then obtain d1 e where c: "TokenStore_Create io t d = Inr d1" and q: "Recorder_Record x io actor e d1 = Inr d'"
    by (auto simp: insertToken_def)
  then show ?thesis by (auto simp: TokenStore_Create_def recorded [OF q] tokens)
qed

definition keeps :: "buildWorld \<Rightarrow> buildWorld \<Rightarrow> bool" where
  "keeps w w' \<longleftrightarrow> view (bw_db w') = view (bw_db w)"

lemma keeps_refl [simp]: "keeps w w" by (simp add: keeps_def)

lemma keeps_trans: "keeps w v \<Longrightarrow> keeps v u \<Longrightarrow> keeps w u" by (simp add: keeps_def)

lemma keeps_onDb: "(\<And>d d' r. f d = (d', r) \<Longrightarrow> view d' = view d) \<Longrightarrow> keeps w (fst (onDb f w))"
  by (cases "f (bw_db w)") (simp add: keeps_def onDb_def)

lemma keeps_ignoring: "(\<And>d d'. f d = Inr d' \<Longrightarrow> view d' = view d) \<Longrightarrow> keeps w (ignoring f w)"
  by (cases "f (bw_db w)") (simp_all add: keeps_def ignoring_def)

lemma keeps_thenW: "keeps w (fst p) \<Longrightarrow> (\<And>a v. keeps w v \<Longrightarrow> keeps w (fst (f a v))) \<Longrightarrow> keeps w (fst (thenW p f))"
  by (cases "(p, f)" rule: thenW.cases) auto

lemma exec1: "buildsExec1 io name bid f d = Inr d' \<Longrightarrow> view d' = view d"
  by (auto simp: buildsExec1_def builds)

lemma keeps_commit: "(\<And>d d'. f d = Inr d' \<Longrightarrow> view d' = view d) \<Longrightarrow> keeps w (fst (onDb (autoCommit f) w))"
  by (cases "f (bw_db w)") (simp_all add: keeps_def onDb_def autoCommit_def)

lemma keeps_case:
  "keeps w (fst p) \<Longrightarrow> (\<And>v e. keeps w v \<Longrightarrow> keeps w (fst (f v e))) \<Longrightarrow> (\<And>v a. keeps w v \<Longrightarrow> keeps w (fst (g v a)))
   \<Longrightarrow> keeps w (fst (case p of (v, Inl e) \<Rightarrow> f v e | (v, Inr a) \<Rightarrow> g v a))"
  by (cases p; cases "snd p") simp_all

lemma cleanup: "keeps w (cleanupRegistryPush x cfg io b w)"
proof -
  have r: "keeps v (fst (onDb (Tokens_Revoke x cleanupActor tid io) v))" for v tid by (rule keeps_onDb) (rule revoke)
  have s: "keeps v (secretDelete io ns n v)" for v ns n by (simp add: keeps_def secretDelete_def)
  show ?thesis using r s keeps_trans [OF r s] by (auto simp: cleanupRegistryPush_def Let_def split: option.splits)
qed

lemma finish: "keeps w (fst (finishBuild x cfg io b st rs ms w))"
proof (cases "BuildStore_UpdateStatus io (b_ID b) st rs ms None (Some (io_now io)) (bw_db w)")
  case (Inr d)
  then have "keeps w (w\<lparr>bw_db := d\<rparr>)" by (auto simp: keeps_def BuildStore_UpdateStatus_def dest: exec1)
  then show ?thesis using keeps_trans [OF _ cleanup] by (simp add: finishBuild_def Inr Let_def)
qed (simp add: finishBuild_def)

lemma cancel_call: "keeps w (cancelCall n w)" by (simp add: keeps_def cancelCall_def)

lemma reconcile_keeps: "keeps w (fst (reconcile x cfg eng io b w))"
proof -
  have f: "keeps w v \<Longrightarrow> keeps w (fst (finishBuild x cfg io b st rs ms v))" for v st rs ms by (erule keeps_trans [OF _ finish])
  have s: "keeps w v \<Longrightarrow> keeps w (fst (case finishBuild x cfg io b st rs ms v of (w2, Inl e) \<Rightarrow> (w2, Inl e) | (w2, Inr b') \<Rightarrow> (w2, Inr (g b'))))"
    for v st rs ms and g :: "Build \<Rightarrow> Build"
    by (rule keeps_case [OF f]) simp_all
  have u: "BuildStore_UpdateStatus io (b_ID b) st rs ms sa ca (bw_db v) = Inr d \<Longrightarrow> keeps w v \<Longrightarrow> keeps w (v\<lparr>bw_db := d\<rparr>)" for v st rs ms sa ca d
    by (auto simp: keeps_def BuildStore_UpdateStatus_def dest: exec1)
  show ?thesis unfolding reconcile_def Let_def by (auto simp: f s cancel_call split: sum.split Phase.split intro!: u)
qed

lemma get_keeps: "keeps w (fst (Builds_Get x cfg eng bid io w))"
  by (auto simp: Builds_Get_def reconcile_keeps split: sum.splits)

lemma cancel_keeps: "keeps w (fst (Builds_Cancel x cfg eng actor bid io w))"
proof -
  have 1: "keeps v (fst (onDb (autoCommit (BuildStore_RequestCancel io bid)) v))" for v
    by (rule keeps_commit) (auto simp: BuildStore_RequestCancel_def dest: exec1)
  have 2: "keeps v (fst (onDb (autoCommit (Recorder_Record x io actor e)) v))" for v e
    by (rule keeps_commit) (rule recorded)
  show ?thesis
  proof (cases "BuildStore_Get io bid (bw_db w)")
    case (Inr b)
    have "keeps w (fst (thenW (onDb (autoCommit (BuildStore_RequestCancel io bid)) w) (\<lambda>_ w1.
        thenW (onDb (autoCommit (Recorder_Record x io actor (successEvent ''builds.cancel'' ''build'' bid None))) w1) (\<lambda>_ w2.
          reconcile x cfg eng io (b\<lparr>b_CancelRequested := True\<rparr>) w2))))"
      by (intro keeps_thenW 1) (erule keeps_trans [OF _ 2] keeps_trans [OF _ reconcile_keeps])+
    then show ?thesis by (simp add: Builds_Cancel_def Inr)
  qed (simp add: Builds_Cancel_def)
qed

lemma provision: "keeps w (fst (provisionRegistryPush x cfg actor bi b w))"
proof (cases "bc_registryPush cfg")
  case (Some rp)
  have rv: "keeps v (fst (onDb (Tokens_Revoke x actor tid io) v))" for v tid io by (rule keeps_onDb) (rule revoke)
  have tc: "keeps v (fst (onDb (Tokens_Create x k actor ow nm ttl sc io) v))" for v k ow nm ttl sc io by (rule keeps_onDb) (rule create_token)
  have up: "keeps v (fst (secretUpsert io ns n sec (v\<lparr>bw_sensitive := vs\<rparr>)))" for v io ns n sec vs
    by (auto simp: secretUpsert_def keeps_def split: prod.splits)
  have after: "keeps w (fst (case secretUpsert io ns n sec (v\<lparr>bw_sensitive := vs\<rparr>) of
        (w3, Inl e) \<Rightarrow> (fst (onDb (Tokens_Revoke x actor tid io2) w3), Inl e) | (w3, Inr _) \<Rightarrow> (w3, Inr b')))"
    if "keeps w v" for v io ns n sec vs tid io2 and b' :: Build
    by (rule keeps_case [OF keeps_trans [OF that up]]) (simp_all add: keeps_trans [OF _ rv])
  show ?thesis unfolding provisionRegistryPush_def Some option.case
  proof (split sum.split, intro conjI allI impI)
    fix username
    show "keeps w (fst (thenW (onDb (Tokens_Create x (bc_keys cfg) actor (b_OwnerID b) (''bld-'' @ b_ID b)
            (pushTokenTTL (io_now (bi_token bi)) (b_DeadlineAt b)) (Some [''artifacts.read'', ''artifacts.write'']) (bi_token bi)) w)
          (\<lambda>(raw, token) w1.
            let w2 = w1\<lparr>bw_sensitive := normalizeSensitiveValues (bw_sensitive w1 @ [raw])\<rparr>; secretName = registrySecretPrefix @ b_ID b
            in case secretUpsert (bi_token bi) (rp_Namespace rp) secretName (registrySecret rp (b_ID b) secretName username raw) w2 of
                 (w3, Inl e) \<Rightarrow> (fst (onDb (Tokens_Revoke x actor (t_ID token) (bi_revoke bi)) w3), Inl e)
               | (w3, Inr _) \<Rightarrow> (w3, Inr (b\<lparr>b_PushTokenID := t_ID token, b_RegistrySecretName := secretName\<rparr>)))))"
      by (intro keeps_thenW tc, split prod.split, intro allI impI) (simp only: Let_def, rule after)
  qed simp
qed (simp add: provisionRegistryPush_def)

lemma insert_keeps: "keeps w (fst (onDb (insertBuild x actor io r b) w))"
proof (rule keeps_onDb)
  fix d d' q
  assume "insertBuild x actor io r b d = (d', q)"
  then show "view d' = view d"
    by (cases q) (auto simp: insertBuild_def BuildStore_Create_def Let_def builds dest!: WithTx_Inr WithTx_Inl recorded)
qed

lemma submit_keeps: "keeps w (fst (submitBuild x cfg eng io spec b w))"
proof -
  have u: "keeps v (ignoring (BuildStore_UpdateStatus io bid st rs ms sa ca) v)" for v bid st rs ms sa ca
    by (rule keeps_ignoring) (auto simp: BuildStore_UpdateStatus_def dest: exec1)
  have n: "keeps v (ignoring (BuildStore_SetWorkflowName io bid nm) v)" for v bid nm
    by (rule keeps_ignoring) (auto simp: BuildStore_SetWorkflowName_def dest: exec1)
  have c: "keeps w (w\<lparr>bw_calls := cs\<rparr>)" for cs by (simp add: keeps_def)
  show ?thesis
    by (auto simp: submitBuild_def Let_def split: option.splits intro!: keeps_trans [OF keeps_trans [OF c n] u] keeps_trans [OF keeps_trans [OF c cleanup] u])
qed

lemma createBuild_keeps: "keeps w (fst (createBuild x cfg eng actor owner r repo bi w))"
proof (cases "resolveGit x cfg r w")
  case (Inr creds)
  have after: "keeps w (fst (case onDb (insertBuild x actor (bi_create bi) r b) v of
        (w2, Inl e) \<Rightarrow> (cleanupRegistryPush x cfg (bi_revoke bi) b w2, Inl e)
      | (w2, Inr _) \<Rightarrow> (case submitBuild x cfg eng (bi_submit bi) spec b w2 of (w3, b') \<Rightarrow> (w3, Inr b'))))" if "keeps w v" for v b spec
    by (rule keeps_case [OF keeps_trans [OF that insert_keeps]]; simp only: case_prod_unfold fst_conv)
      (erule keeps_trans [OF _ cleanup] keeps_trans [OF _ submit_keeps])+
  show ?thesis unfolding createBuild_def Let_def Inr sum.case by (intro keeps_thenW provision) (rule after)
qed (simp add: createBuild_def)

lemma create_keeps: "keeps w (fst (Builds_Create x cfg eng actor owner r key bi w))"
proof -
  have rs: "keeps v (fst (onDb (IdempotencyStore_Reserve io sc k h ttl) v))" for v io sc k h ttl
  proof (rule keeps_onDb)
    fix d d' q
    assume "IdempotencyStore_Reserve io sc k h ttl d = (d', q)"
    then show "view d' = view d"
      by (cases q) (auto simp: IdempotencyStore_Reserve_def idempotency dest!: WithTx_Inr WithTx_Inl split: option.splits)
  qed
  have cp: "keeps v (ignoring (IdempotencyStore_Complete io sc k st body) v)" for v io sc k st body
    by (rule keeps_ignoring) (auto simp: IdempotencyStore_Complete_def idempotency)
  have cb: "keeps w (fst (thenW (createBuild x cfg eng actor owner r repo bi v) (\<lambda>b w2. (ignoring (IdempotencyStore_Complete io sc k st (b_ID b)) w2, Inr b))))"
    if "keeps w v" for v r repo io sc k st
    by (intro keeps_thenW keeps_trans [OF that createBuild_keeps]) (auto intro: keeps_trans [OF _ cp])
  have found: "keeps w (fst (case found of
        Some e \<Rightarrow> if ir_RequestHash e \<noteq> h then (w1, Inl ErrIdempotencyKeyReused) else if ir_ResponseBody e = [] then (w1, Inl ErrIdempotencyInProgress)
                  else (w1, BuildStore_Get io (ir_ResponseBody e) (bw_db w1))
      | None \<Rightarrow> thenW (createBuild x cfg eng actor owner r repo bi w1) (\<lambda>b w2. (ignoring (IdempotencyStore_Complete io2 sc k st (b_ID b)) w2, Inr b))))"
    if "keeps w w1" for w1 r repo h io io2 sc k st and found :: "IdempotencyRecord option"
    using that cb [OF that] by (simp split: option.split)
  show ?thesis unfolding Builds_Create_def
    by (auto split: sum.splits intro!: keeps_thenW rs found simp: createBuild_keeps)
qed

lemma each_keeps: "keeps w (fst (reconcileEach x cfg eng ios k bs w))"
proof (induction bs arbitrary: k w)
  case (Cons b bs)
  have "keeps w (fst (thenW (reconcileEach x cfg eng ios (Suc k) bs v) (\<lambda>bs' w2. (w2, Inr (b' # bs')))))" if "keeps w v" for v b'
    by (intro keeps_thenW keeps_trans [OF that Cons.IH]) simp
  then show ?case by (simp add: keeps_thenW reconcile_keeps)
qed simp

lemma step_keeps: "build_step x cfg w w' \<Longrightarrow> keeps w w'"
  by (induction rule: build_step.induct)
    (simp_all add: create_keeps get_keeps cancel_keeps Builds_List_def ReconcileAll_def each_keeps keeps_thenW split: sum.split)

end

interpretation dev_tables: build_frame "\<lambda>d. (db_jobs d, db_workspaces d, db_currentWorkspaces d)"
  by unfold_locales simp_all

end
