(* ===== verification/DevLife.thy ===== *)
theory DevLife
  imports DevFlows BuildFrame
begin

text \<open>
  Jobs and workspaces over the life of the service: what every operation of the developer
  workflow service, and of the builds service beside it, does to their rows.
\<close>

section \<open>Rows only move forward\<close>

definition jobIdentity :: "Job \<Rightarrow> string list \<times> JobType \<times> time" where
  "jobIdentity j = ([jb_ID j, jb_OwnerID j, jb_WorkspaceID j, jb_BuildID j, jb_TargetName j, jb_ArtifactRef j], jb_Type j, jb_CreatedAt j)"

text \<open>A job keeps what it is for; a finished job never changes again.\<close>

definition jobFollows :: "Job \<Rightarrow> Job \<Rightarrow> bool" where
  "jobFollows j j' \<longleftrightarrow> jobIdentity j' = jobIdentity j \<and> (JobTerminal (jb_Status j) \<longrightarrow> j' = j)"

definition wsIdentity :: "Workspace \<Rightarrow> string list \<times> time" where
  "wsIdentity v = ([wk_ID v, wk_OwnerID v, wk_Name v, wk_WorkProfile v], wk_CreatedAt v)"

text \<open>A workspace keeps its owner, name and profile; a deleted workspace stays deleted.\<close>

definition wsFollows :: "Workspace \<Rightarrow> Workspace \<Rightarrow> bool" where
  "wsFollows v v' \<longleftrightarrow> wsIdentity v' = wsIdentity v \<and> (wk_DeletedAt v \<noteq> None \<longrightarrow> wk_DeletedAt v' \<noteq> None)"

definition advancesBy :: "('a \<Rightarrow> 'a \<Rightarrow> bool) \<Rightarrow> 'a list \<Rightarrow> 'a list \<Rightarrow> bool" where
  "advancesBy R xs ys \<longleftrightarrow> (\<forall>r\<in>set xs. \<exists>r'\<in>set ys. R r r')"

lemma follows_order [simp]: "jobFollows j j" "wsFollows v v"
  by (simp_all add: jobFollows_def wsFollows_def)

lemma jobFollows_trans: "jobFollows a b \<Longrightarrow> jobFollows b c \<Longrightarrow> jobFollows a c" by (auto simp: jobFollows_def)

lemma wsFollows_trans: "wsFollows a b \<Longrightarrow> wsFollows b c \<Longrightarrow> wsFollows a c" by (auto simp: wsFollows_def)

lemma advancesBy_refl: "(\<And>r. R r r) \<Longrightarrow> advancesBy R xs xs" by (auto simp: advancesBy_def)

lemma advancesBy_trans: "(\<And>a b c. R a b \<Longrightarrow> R b c \<Longrightarrow> R a c) \<Longrightarrow> advancesBy R xs ys \<Longrightarrow> advancesBy R ys zs \<Longrightarrow> advancesBy R xs zs"
  unfolding advancesBy_def by blast

lemma advancesBy_append: "(\<And>r. R r r) \<Longrightarrow> advancesBy R xs (xs @ ys)" by (auto simp: advancesBy_def)

lemma advancesBy_update: "(\<And>r. r \<in> set xs \<Longrightarrow> R r r) \<Longrightarrow> (\<And>r. r \<in> set xs \<Longrightarrow> P r \<Longrightarrow> R r (f r)) \<Longrightarrow> advancesBy R xs (updateWhere P f xs)"
  unfolding advancesBy_def set_updateWhere by (intro ballI, rename_tac r, case_tac "P r") auto

text \<open>What one step does: the rows go on, and the keys of jobs stay distinct.\<close>

definition devGrows :: "db \<Rightarrow> db \<Rightarrow> bool" where
  "devGrows d d' \<longleftrightarrow> (distinct (map jb_ID (db_jobs d)) \<longrightarrow> distinct (map jb_ID (db_jobs d'))
     \<and> advancesBy jobFollows (db_jobs d) (db_jobs d') \<and> advancesBy wsFollows (db_workspaces d) (db_workspaces d'))"

text \<open>The same for a step that touches only the job \<open>jid\<close>.\<close>

definition jobStep :: "string \<Rightarrow> db \<Rightarrow> db \<Rightarrow> bool" where
  "jobStep jid d d' \<longleftrightarrow> map jb_ID (db_jobs d') = map jb_ID (db_jobs d) \<and> advancesBy jobFollows (db_jobs d) (db_jobs d')
     \<and> advancesBy wsFollows (db_workspaces d) (db_workspaces d') \<and> (\<forall>r\<in>set (db_jobs d). jb_ID r \<noteq> jid \<longrightarrow> r \<in> set (db_jobs d'))"

definition devTables :: "db \<Rightarrow> Job list \<times> Workspace list \<times> CurrentWorkspace list" where
  "devTables d = (db_jobs d, db_workspaces d, db_currentWorkspaces d)"

lemma jobStep_refl [simp]: "jobStep jid d d" by (simp add: jobStep_def advancesBy_refl)

lemma jobStep_trans: "jobStep jid d d1 \<Longrightarrow> jobStep jid d1 d2 \<Longrightarrow> jobStep jid d d2"
  unfolding jobStep_def by (auto intro: advancesBy_trans [OF jobFollows_trans] advancesBy_trans [OF wsFollows_trans])

lemma jobStep_grows: "jobStep jid d d' \<Longrightarrow> devGrows d d'" by (simp add: jobStep_def devGrows_def)

lemma devGrows_refl [simp]: "devGrows d d" by (simp add: devGrows_def advancesBy_refl)

lemma devGrows_trans: "devGrows d d1 \<Longrightarrow> devGrows d1 d2 \<Longrightarrow> devGrows d d2"
  unfolding devGrows_def by (auto intro: advancesBy_trans [OF jobFollows_trans] advancesBy_trans [OF wsFollows_trans])

lemma jobStep_same: "db_jobs d' = db_jobs d \<Longrightarrow> advancesBy wsFollows (db_workspaces d) (db_workspaces d') \<Longrightarrow> jobStep jid d d'"
  by (simp add: jobStep_def advancesBy_refl)

lemma jobStep_frame: "dev_tables.keeps w w' \<Longrightarrow> jobStep jid (bw_db w) (bw_db w')"
  by (rule jobStep_same) (simp_all add: dev_tables.keeps_def advancesBy_refl)

section \<open>The statements\<close>

text \<open>An unfinished job: every row with the key is unfinished.\<close>

definition openJob :: "string \<Rightarrow> db \<Rightarrow> bool" where
  "openJob jid d \<longleftrightarrow> (\<forall>r\<in>set (db_jobs d). jb_ID r = jid \<longrightarrow> \<not> JobTerminal (jb_Status r))"

lemma openJobI: "distinct (map jb_ID (db_jobs d)) \<Longrightarrow> j \<in> set (db_jobs d) \<Longrightarrow> \<not> JobTerminal (jb_Status j) \<Longrightarrow> openJob (jb_ID j) d"
  unfolding openJob_def by (metis distinct_map inj_onD)

lemma UpdateStatus_step:
  assumes "JobStore_UpdateStatus io jid st rs ms sa ca d = Inr d'" and "openJob jid d"
  shows "jobStep jid d d'"
proof -
  let ?f = "\<lambda>j. j\<lparr>jb_Status := st, jb_ReasonCode := rs, jb_ErrorMessage := ms, jb_StartedAt := coalesce sa (jb_StartedAt j), jb_CompletedAt := coalesce ca (jb_CompletedAt j), jb_UpdatedAt := io_now io\<rparr>"
  have d': "d' = d\<lparr>db_jobs := updateWhere (\<lambda>j. jb_ID j = jid) ?f (db_jobs d)\<rparr>" using assms(1) by (auto simp: JobStore_UpdateStatus_def)
  have "advancesBy jobFollows (db_jobs d) (db_jobs d')"
    unfolding d' using assms(2) by (simp, intro advancesBy_update) (auto simp: openJob_def jobFollows_def jobIdentity_def)
  moreover have "map jb_ID (db_jobs d') = map jb_ID (db_jobs d)" unfolding d' by (simp, rule map_updateWhere_same) simp
  ultimately show ?thesis unfolding jobStep_def d' by (auto simp: set_updateWhere advancesBy_refl)
qed

lemma WorkspaceUpdate_step:
  assumes "workspacesExec1 io name wid f d = Inr d'" and "\<And>v. wsFollows v (f v)"
  shows "jobStep jid d d'"
  using assms by (auto simp: workspacesExec1_def intro!: jobStep_same advancesBy_update)

lemma ignoring_step: "(\<And>d'. f (bw_db w) = Inr d' \<Longrightarrow> jobStep jid (bw_db w) d') \<Longrightarrow> jobStep jid (bw_db w) (bw_db (ignoring f w))"
  by (cases "f (bw_db w)") (simp_all add: ignoring_def)

lemma sync_step: "syncWorkspaceStatusFromJob io j d = Inr d' \<Longrightarrow> jobStep jid d d'"
  by (auto simp: syncWorkspaceStatusFromJob_def WorkspaceStore_UpdateStatus_def split: if_splits prod.splits
      elim!: WorkspaceUpdate_step simp: wsFollows_def wsIdentity_def)

section \<open>Reconciliation\<close>

lemma storeJob_sync_step:
  assumes "openJob jid (bw_db w)" and "jb_ID j' = jid"
  shows "jobStep jid (bw_db w) (bw_db (ignoring (syncWorkspaceStatusFromJob io j') (if b then storeJob io j' w else w)))"
proof -
  have "jobStep jid (bw_db w) (bw_db (if b then storeJob io j' w else w))"
    using assms by (auto simp: storeJob_def intro!: ignoring_step UpdateStatus_step)
  then show ?thesis by (rule jobStep_trans) (rule ignoring_step, erule sync_step)
qed

lemma preparedJob_ID [simp]: "jb_ID (preparedJob now st j) = jb_ID j"
  by (simp add: preparedJob_def Let_def split: Phase.split)

lemma reconcileJob_step:
  assumes "distinct (map jb_ID (db_jobs (bw_db w)))" and "j \<in> set (db_jobs (bw_db w))"
  shows "jobStep (jb_ID j) (bw_db w) (bw_db (fst (reconcileJob x cfg he eng io j w)))"
proof (cases "JobTerminal (jb_Status j)")
  case False
  note op = openJobI [OF assms False]
  have b: "jobStep (jb_ID j) (bw_db w) (bw_db (fst (reconcileBuildJob x cfg eng io j w)))"
  proof (cases "Builds_Get x cfg eng (jb_BuildID j) io w")
    case (Pair w1 r)
    then have k: "dev_tables.keeps w w1" using dev_tables.get_keeps [of w x cfg eng "jb_BuildID j" io] by simp
    then have "openJob (jb_ID j) (bw_db w1)" using op by (simp add: openJob_def dev_tables.keeps_def)
    then have u: "jobStep (jb_ID j) (bw_db w) (bw_db (ignoring (JobStore_UpdateStatus io (jb_ID j) st rs ms sa ca) w1))" for st rs ms sa ca
      by (intro jobStep_trans [OF jobStep_frame [OF k]] ignoring_step UpdateStatus_step)
    show ?thesis using u jobStep_frame [OF k] by (auto simp: reconcileBuildJob_def Pair Let_def split: sum.splits)
  qed
  have p: "jobStep (jb_ID j) (bw_db w) (bw_db (fst (reconcileWorkspacePrepareJob he eng io j w)))"
  proof (cases "he")
    case True
    let ?nf = "j\<lparr>jb_Status := JobStatusFailed, jb_ReasonCode := ''workflow_not_found'', jb_ErrorMessage := ''workspace workflow was not found'', jb_CompletedAt := Some (io_now io)\<rparr>"
    show ?thesis using True storeJob_sync_step [OF op, of ?nf io True] storeJob_sync_step [OF op, of "preparedJob (io_now io) st j" io "preparedJob (io_now io) st j \<noteq> j" for st]
      by (simp add: reconcileWorkspacePrepareJob_def Let_def split: sum.split)
  qed (simp add: reconcileWorkspacePrepareJob_def)
  show ?thesis using b p by (auto simp: reconcileJob_def False split: JobType.split prod.split)
qed (simp add: reconcileJob_def)


lemma onBuilds_db [simp]: "dv_db (fst (onBuilds f w)) = bw_db (fst (f (dv_builds w)))"
  by (cases "f (dv_builds w)") (simp add: onBuilds_def)

lemma grows_onBuilds_reconcile:
  assumes "distinct (map jb_ID (db_jobs (dv_db w))) \<longrightarrow> j \<in> set (db_jobs (dv_db w))"
  shows "devGrows (dv_db w) (dv_db (fst (onBuilds (reconcileJob x cfg he eng io j) w)))"
  using assms reconcileJob_step [of "dv_builds w" j x cfg he eng io]
  by (cases "distinct (map jb_ID (db_jobs (dv_db w)))") (auto simp: devGrows_def jobStep_def)

definition grown :: "devWorld \<Rightarrow> devWorld \<Rightarrow> bool" where "grown w w' \<longleftrightarrow> devGrows (dv_db w) (dv_db w')"

lemma grown_refl [simp]: "grown w w" by (simp add: grown_def)

lemma grown_trans: "grown w v \<Longrightarrow> grown v u \<Longrightarrow> grown w u" unfolding grown_def by (rule devGrows_trans)

lemma grown_thenD: "grown w (fst p) \<Longrightarrow> (\<And>a v. p = (v, Inr a) \<Longrightarrow> grown w v \<Longrightarrow> grown w (fst (f a v))) \<Longrightarrow> grown w (fst (thenD p f))"
  by (cases "(p, f)" rule: thenD.cases) auto

lemma grown_reading: "(\<And>a. r = Inr a \<Longrightarrow> grown w (fst (f a v))) \<Longrightarrow> grown w v \<Longrightarrow> grown w (fst (thenD (reading r v) f))"
  by (cases r) (simp_all add: reading_def)

lemma grown_commit: "(\<And>d'. f (dv_db w) = Inr d' \<Longrightarrow> devGrows (dv_db w) d') \<Longrightarrow> grown w (fst (onDevDb (autoCommit f) w))"
  by (cases "f (dv_db w)") (simp_all add: grown_def onDevDb_def onBuilds_def onDb_def autoCommit_def)

lemma grown_ignoring: "(\<And>d'. f (dv_db w) = Inr d' \<Longrightarrow> devGrows (dv_db w) d') \<Longrightarrow> grown w (ignoringDev f w)"
  by (cases "f (dv_db w)") (simp_all add: grown_def ignoringDev_def ignoring_def)

lemma record_grows: "Recorder_Record x io actor e d = Inr d' \<Longrightarrow> devGrows d d'"
  using dev_tables.recorded [of x io actor e d d'] by (intro jobStep_grows jobStep_same) (auto simp: advancesBy_refl)

lemma grown_record: "grown w (fst (onDevDb (autoCommit (Recorder_Record x io actor e)) w))"
  by (rule grown_commit) (rule record_grows)

lemma grown_builds: "(\<And>v. dev_tables.keeps v (fst (f v))) \<Longrightarrow> grown w (fst (onBuilds f w))"
  unfolding grown_def onBuilds_db by (rule jobStep_grows [OF jobStep_frame])

text \<open>What the lists hold are rows of the table, each once.\<close>

lemma JobStore_List_rows:
  assumes "JobStore_List io flt d = Inr js"
  shows "set js \<subseteq> set (db_jobs d)" and "distinct (map jb_ID (db_jobs d)) \<Longrightarrow> distinct (map jb_ID js)"
proof -
  define rows where "rows = rev (sort_key (\<lambda>j. RFC3339Nano (jb_CreatedAt j)) (filter (jobSelected flt) (db_jobs d)))"
  have js: "js = take (pageLimit (jf_Limit flt)) rows" using assms by (auto simp: JobStore_List_def rows_def)
  show "set js \<subseteq> set (db_jobs d)" unfolding js by (auto simp: rows_def dest: in_set_takeD)
  show "distinct (map jb_ID js)" if "distinct (map jb_ID (db_jobs d))"
  proof -
    have "distinct (map jb_ID rows)" unfolding rows_def using that by (simp add: rev_map [symmetric] distinct_map_sort_key distinct_map_filter)
    then show ?thesis unfolding js by (simp add: take_map [symmetric])
  qed
qed

lemma JobStore_ListReconcilable_rows:
  assumes "JobStore_ListReconcilable io d = Inr js"
  shows "set js \<subseteq> set (db_jobs d)" and "distinct (map jb_ID (db_jobs d)) \<Longrightarrow> distinct (map jb_ID js)"
  using assms by (auto simp: JobStore_ListReconcilable_def distinct_map_sort_key distinct_map_filter)

lemma JobStore_Get_row: "JobStore_Get io jid d = Inr j \<Longrightarrow> j \<in> set (db_jobs d)"
  by (auto simp: JobStore_Get_def selectFirst_def find_Some_iff split: option.splits)

lemma grown_reconcile: "j \<in> set (db_jobs (dv_db w)) \<Longrightarrow> grown w (fst (onBuilds (reconcileJob x cfg he eng io j) w))"
  unfolding grown_def by (rule grows_onBuilds_reconcile) simp

lemma reconcileWorkspace_grown: "grown w (fst (reconcileWorkspace x df eng io ws w))"
proof (cases "latestWorkspacePrepareJob io (wk_ID ws) (dv_db w)")
  case (Inr j)
  then have "j \<in> set (db_jobs (dv_db w))"
    by (auto simp: latestWorkspacePrepareJob_def dest!: JobStore_List_rows(1) split: list.splits)
  then show ?thesis by (simp add: reconcileWorkspace_def Inr grown_thenD grown_reconcile)
qed (simp add: reconcileWorkspace_def)

text \<open>A job of a list that another job's reconciliation has left alone is still the row it was.\<close>

definition pendingJobs :: "Job list \<Rightarrow> db \<Rightarrow> bool" where
  "pendingJobs js d \<longleftrightarrow> (distinct (map jb_ID (db_jobs d)) \<longrightarrow> distinct (map jb_ID js) \<and> set js \<subseteq> set (db_jobs d))"

lemma pending_step:
  assumes "pendingJobs (j # js) (dv_db w)" and d: "distinct (map jb_ID (db_jobs (dv_db w)))"
  shows "grown w (fst (onBuilds (reconcileJob x cfg he eng io j) w))" and "pendingJobs js (dv_db (fst (onBuilds (reconcileJob x cfg he eng io j) w)))"
    and "distinct (map jb_ID (db_jobs (dv_db (fst (onBuilds (reconcileJob x cfg he eng io j) w)))))"
proof -
  have j: "j \<in> set (db_jobs (dv_db w))" "jb_ID j \<notin> jb_ID ` set js" "set js \<subseteq> set (db_jobs (dv_db w))" "distinct (map jb_ID js)" using assms by (auto simp: pendingJobs_def)
  show "grown w (fst (onBuilds (reconcileJob x cfg he eng io j) w))" by (rule grown_reconcile [OF j(1)])
  have s: "jobStep (jb_ID j) (dv_db w) (dv_db (fst (onBuilds (reconcileJob x cfg he eng io j) w)))"
    using reconcileJob_step [OF d j(1)] by simp
  then show "distinct (map jb_ID (db_jobs (dv_db (fst (onBuilds (reconcileJob x cfg he eng io j) w)))))" using d by (simp add: jobStep_def)
  show "pendingJobs js (dv_db (fst (onBuilds (reconcileJob x cfg he eng io j) w)))" using s j
    by (auto simp: pendingJobs_def jobStep_def) (metis image_eqI subsetD)
qed


lemma grown_trivial: "\<not> distinct (map jb_ID (db_jobs (dv_db w))) \<Longrightarrow> grown w w'"
  by (simp add: grown_def devGrows_def)

lemma pendingI: "JobStore_List io flt d = Inr js \<Longrightarrow> pendingJobs js d" "JobStore_ListReconcilable io d = Inr js \<Longrightarrow> pendingJobs js d"
  unfolding pendingJobs_def using JobStore_List_rows JobStore_ListReconcilable_rows by blast+

lemma pending_thenD:
  assumes "pendingJobs (j # js) (dv_db w)" and f: "\<And>a v. pendingJobs js (dv_db v) \<Longrightarrow> grown v (fst (f a v))"
  shows "grown w (fst (thenD (onBuilds (reconcileJob x cfg he eng io j) w) f))"
proof (cases "distinct (map jb_ID (db_jobs (dv_db w)))")
  case True
  note st = pending_step [OF assms(1) True, of x cfg he eng io]
  show ?thesis
  proof (rule grown_thenD [OF st(1)])
    fix a v
    assume "onBuilds (reconcileJob x cfg he eng io j) w = (v, Inr a)" and g: "grown w v"
    with st(2) have "pendingJobs js (dv_db v)" by (metis fst_conv)
    then show "grown w (fst (f a v))" by (rule grown_trans [OF g f])
  qed
qed (rule grown_trivial)

lemma allFinished_grown: "pendingJobs js (dv_db w) \<Longrightarrow> grown w (fst (allFinished x df eng ios k js w))"
proof (induction js arbitrary: k w)
  case (Cons j js)
  show ?case unfolding allFinished.simps by (rule pending_thenD [OF Cons.prems]) (simp add: Cons.IH)
qed simp

lemma reconcileEachJob_grown: "pendingJobs js (dv_db w) \<Longrightarrow> grown w (fst (reconcileEachJob x df eng ios k js w))"
proof (induction js arbitrary: k w)
  case (Cons j js)
  show ?case unfolding reconcileEachJob.simps by (rule pending_thenD [OF Cons.prems]) (rule Cons.IH)
qed simp

lemma reconcileJobs_grown: "pendingJobs js (dv_db w) \<Longrightarrow> grown w (fst (reconcileJobs x df eng ios k js w))"
proof (induction js arbitrary: k w)
  case (Cons j js)
  show ?case
  proof (cases "distinct (map jb_ID (db_jobs (dv_db w)))")
    case True
    note st = pending_step [OF Cons.prems True, of x "dv_cfg w" "df_engine df" eng "ios k"]
    from grown_trans [OF st(1) Cons.IH [OF st(2)]] show ?thesis by (simp add: case_prod_unfold)
  qed (rule grown_trivial)
qed simp

section \<open>Every operation\<close>

lemma GetWorkspace_grown: "grown w (fst (GetWorkspace x df eng wid owner canAny io w))"
  unfolding GetWorkspace_def by (rule grown_reading) (simp_all add: reconcileWorkspace_grown)

lemma GetJob_grown: "grown w (fst (GetJob x df eng jid owner canAny io w))"
  unfolding GetJob_def by (rule grown_reading) (simp_all add: grown_reconcile JobStore_Get_row)

lemma CurrentWorkspace_grown: "grown w (fst (Service_CurrentWorkspace x df eng uid io w))"
  by (simp add: Service_CurrentWorkspace_def Let_def reconcileWorkspace_grown split: sum.split)

lemma reconcileWorkspaces_grown: "grown w (fst (reconcileWorkspaces x df eng ios k vs w))"
proof (induction vs arbitrary: k w)
  case (Cons v vs)
  have "grown w (fst (thenD (reconcileWorkspaces x df eng ios (Suc k) vs u) (\<lambda>vs' w2. (w2, Inr (v' # vs')))))" if "grown w u" for u v'
    by (rule grown_thenD) (simp_all add: grown_trans [OF that Cons.IH])
  then show ?case unfolding reconcileWorkspaces.simps by (rule grown_thenD [OF reconcileWorkspace_grown])
qed simp

lemma ListWorkspaces_grown: "grown w (fst (ListWorkspaces x df eng owner canAny ios w))"
  unfolding ListWorkspaces_def by (rule grown_reading) (simp_all add: reconcileWorkspaces_grown)

lemma MarkDeleted_grows: "WorkspaceStore_MarkDeleted io wid t d = Inr d' \<Longrightarrow> devGrows d d'"
  unfolding WorkspaceStore_MarkDeleted_def
  by (rule jobStep_grows, erule WorkspaceUpdate_step) (simp add: wsFollows_def wsIdentity_def)

lemma SetCurrent_grows: "WorkspaceStore_SetCurrent io uid wid d = Inr d' \<Longrightarrow> devGrows d d'"
  by (rule jobStep_grows, rule jobStep_same) (auto simp: WorkspaceStore_SetCurrent_def Let_def advancesBy_refl)

lemma DeleteWorkspace_grown: "grown w (fst (DeleteWorkspace x df eng actor wid owner canAny ios w))"
  unfolding DeleteWorkspace_def
proof (rule grown_thenD [OF GetWorkspace_grown], rule grown_reading, rule grown_thenD)
  fix ws v js
  assume v: "grown w v" and js: "JobStore_List (ios 1) \<lparr>jf_OwnerID = [], jf_WorkspaceID = wk_ID ws, jf_Type = None, jf_Limit = 200\<rparr> (dv_db v) = Inr js"
  show "grown w (fst (allFinished x df eng ios 2 js v))" by (rule grown_trans [OF v allFinished_grown [OF pendingI(1) [OF js]]])
  fix u a
  assume u: "grown w u"
  show "grown w (fst (thenD (onDevDb (autoCommit (WorkspaceStore_MarkDeleted (ios 1) (wk_ID ws) (io_now (ios 1)))) u)
      (\<lambda>_ w4. onDevDb (autoCommit (Recorder_Record x (ios 1) actor (successEvent ''workspaces.delete'' ''workspace'' (wk_ID ws) None))) w4)))"
    by (rule grown_thenD) (auto intro: grown_trans [OF u grown_commit] MarkDeleted_grows grown_trans [OF _ grown_record])
qed

lemma SetCurrentWorkspace_grown: "grown w (fst (SetCurrentWorkspace x df eng actor uid wid ios w))"
proof -
  have "grown w (fst (thenD (onDevDb (autoCommit (WorkspaceStore_SetCurrent (ios 1) uid wid)) v) (\<lambda>_ w2.
      thenD (onDevDb (autoCommit (Recorder_Record x (ios 1) actor e)) w2) (\<lambda>_ w3. reconcileWorkspace x df eng (ios 2) ws w3))))" if "grown w v" for v e ws
    by (intro grown_thenD grown_trans [OF that grown_commit] SetCurrent_grows) (auto intro: grown_trans [OF _ grown_record] grown_trans [OF _ reconcileWorkspace_grown])
  then show ?thesis unfolding SetCurrentWorkspace_def by (intro grown_thenD [OF GetWorkspace_grown]) simp
qed

lemma CancelJob_grown: "grown w (fst (CancelJob x df eng actor jid owner canAny ios w))"
proof -
  have b: "grown v (fst (thenD (onBuilds (Builds_Cancel x cfg eng actor bid io) v) (\<lambda>_ w2. (w2, Inr ()))))" for v cfg bid io
    by (rule grown_thenD) (simp_all add: grown_builds dev_tables.cancel_keeps)
  have p: "grown v (fst (cancelPrepare x eng actor j io v))" for v j io
  proof -
    have c: "grown v (v\<lparr>dv_builds := cancelCall n (dv_builds v)\<rparr>)" for n by (simp add: grown_def cancelCall_def)
    show ?thesis by (auto simp: cancelPrepare_def Let_def c intro!: grown_trans [OF c grown_record] split: sum.split)
  qed
  have "grown w (fst (thenD (if q then thenD (onBuilds (Builds_Cancel x (dv_cfg v) eng actor bid (ios 1)) v) (\<lambda>_ w2. (w2, Inr ()))
      else if q' then cancelPrepare x eng actor j (ios 1) v else (v, Inr ())) (\<lambda>_ w2. GetJob x df eng jid owner canAny (ios 2) w2)))" if "grown w v" for v q q' bid j
    using that by (intro grown_thenD) (auto intro: grown_trans [OF _ b] grown_trans [OF _ p] grown_trans [OF _ GetJob_grown])
  then show ?thesis unfolding CancelJob_def by (intro grown_thenD [OF GetJob_grown]) simp
qed


lemma ListJobs_grown: "grown w (fst (ListJobs x df eng owner canAny ios w))"
  unfolding ListJobs_def by (rule grown_reading) (simp_all add: case_prod_unfold reconcileJobs_grown pendingI)

lemma Dev_ReconcileAll_grown: "grown w (fst (Dev_ReconcileAll x df eng ios w))"
  unfolding Dev_ReconcileAll_def by (rule grown_reading) (simp_all add: reconcileEachJob_grown pendingI)

lemma JobStore_Create_grows: "JobStore_Create io j d = Inr d' \<Longrightarrow> devGrows d d'"
  by (auto simp: JobStore_Create_def Let_def devGrows_def advancesBy_append advancesBy_refl)

lemma AddStep_grows: "JobStore_AddStep io st d = Inr d' \<Longrightarrow> devGrows d d' \<and> db_jobs d' = db_jobs d"
  by (auto simp: JobStore_AddStep_def Let_def devGrows_def advancesBy_refl)

lemma JobStore_List_in: "JobStore_List io flt d = Inr js \<Longrightarrow> List.find P js = Some j \<Longrightarrow> j \<in> set (db_jobs d)"
  using JobStore_List_rows(1) by (fastforce simp: find_Some_iff)

lemma SubmitBuild_grown: "grown w (fst (SubmitBuildForCurrent x df eng actor owner target tag key bi ios w))"
proof -
  have job: "grown w (fst (thenD (reading (JobStore_List io flt (dv_db u)) u) (\<lambda>js w2. case List.find P js of
        Some j \<Rightarrow> onBuilds (reconcileJob x (cfg w2) (df_engine df) eng io j) w2
      | None \<Rightarrow> thenD (onDevDb (autoCommit (JobStore_Create io j0)) w2) (\<lambda>_ w3. (ignoringDev (JobStore_AddStep io' st) w3, Inr j0)))))"
    if "grown w u" for u io flt P cfg io' st j0
    using that by (intro grown_reading, auto split: option.split intro!: grown_thenD intro: grown_trans [OF _ grown_commit] JobStore_Create_grows
        grown_trans [OF _ grown_reconcile] JobStore_List_in) (erule grown_trans [OF _ grown_ignoring], simp add: AddStep_grows)
  have cr: "grown w (fst (thenD (onBuilds (Builds_Create x cfg eng actor owner req key bi) v) f))"
    if "grown w v" "\<And>b u. grown w u \<Longrightarrow> grown w (fst (f b u))" for v cfg req f
    by (rule grown_thenD) (use that in \<open>auto intro: grown_trans [OF _ grown_builds] dev_tables.create_keeps\<close>)
  show ?thesis unfolding SubmitBuildForCurrent_def Let_def
    by (intro grown_thenD [OF CurrentWorkspace_grown], split if_split, intro conjI impI, simp, intro grown_reading cr job) assumption+
qed

lemma BuildStatus_grown: "grown w (fst (CurrentWorkspaceBuildStatus x df eng uid ios w))"
proof -
  have "grown w (fst (thenD (reading (JobStore_List io flt (dv_db v)) v) (\<lambda>js w1. case js of [] \<Rightarrow> (w1, Inl ErrNotFound)
      | j # _ \<Rightarrow> onBuilds (reconcileJob x (cfg w1) (df_engine df) eng io' j) w1)))" if "grown w v" for v io flt io' cfg
    using that by (intro grown_reading) (auto split: list.split intro!: grown_trans [OF that grown_reconcile] dest: JobStore_List_rows(1))
  then show ?thesis unfolding CurrentWorkspaceBuildStatus_def by (intro grown_thenD [OF CurrentWorkspace_grown])
qed

lemma syncDependents_db: "dv_db (fst (syncDependentsLocked x w)) = dv_db w"
  by (simp add: syncDependentsLocked_def Let_def SetSensitiveLogValues_def split: sum.split)

lemma Load_grown: "grown w (fst (LoadPersistedCatalog x cx io w))"
  by (auto simp: LoadPersistedCatalog_def grown_def syncDependents_db split: sum.split)

lemma PutBuilderCatalog_grows: "PutBuilderCatalog io r d = Inr d' \<Longrightarrow> devGrows d d'"
  by (rule jobStep_grows, rule jobStep_same) (auto simp: PutBuilderCatalog_def advancesBy_refl)

lemma ReplaceCatalog_grown: "grown w (fst (ReplaceCatalog x cx actor raw io w))"
proof -
  have s: "grown w (fst (syncDependentsLocked x (v\<lparr>dv_catalog := c, dv_contentType := t, dv_updatedAt := n\<rparr>)))" if "grown w v" for v c t n
    using that by (simp add: grown_def syncDependents_db)
  show ?thesis unfolding ReplaceCatalog_def Let_def
    by (auto split: sum.split intro!: grown_thenD grown_commit PutBuilderCatalog_grows s intro: grown_trans [OF _ grown_record])
qed


lemma jobUpdate_grown: "openJob jid (dv_db w) \<Longrightarrow> grown w (ignoringDev (JobStore_UpdateStatus io jid st rs ms sa ca) w)"
  by (rule grown_ignoring) (blast intro: jobStep_grows UpdateStatus_step)

lemma failProvision_grown: "openJob jid (dv_db w) \<Longrightarrow> grown w (fst (failProvision io ws jid reason msg w))"
  unfolding failProvision_def fst_conv
  by (rule grown_trans [OF jobUpdate_grown], assumption, rule grown_ignoring, unfold WorkspaceStore_UpdateStatus_def,
      rule jobStep_grows, erule WorkspaceUpdate_step) (simp add: wsFollows_def wsIdentity_def)

lemma submitProvision_grown:
  assumes "openJob jid (dv_db w)"
  shows "grown w (fst (submitWorkspaceProvision df eng io ws jid repos creds w))"
proof -
  have c: "grown w (w\<lparr>dv_builds := (dv_builds w)\<lparr>bw_calls := cs\<rparr>\<rparr>)" for cs by (simp add: grown_def)
  have o: "openJob jid (dv_db (w\<lparr>dv_builds := (dv_builds w)\<lparr>bw_calls := cs\<rparr>\<rparr>))" for cs using assms by simp
  show ?thesis using failProvision_grown [OF assms] grown_trans [OF c failProvision_grown [OF o]] grown_trans [OF c jobUpdate_grown [OF o]]
    by (simp add: submitWorkspaceProvision_def Let_def split: option.split)
qed

lemma Workspace_Create_grows: "WorkspaceStore_Create io ws d = Inr d' \<Longrightarrow> devGrows d d'"
  by (rule jobStep_grows, rule jobStep_same) (auto simp: WorkspaceStore_Create_def Let_def advancesBy_append)

lemma onDevDb_commit_Inr: "onDevDb (autoCommit f) w = (v, Inr a) \<Longrightarrow> f (dv_db w) = Inr (dv_db v)"
  by (auto simp: onDevDb_def onBuilds_def onDb_def autoCommit_def split: sum.splits)

lemma JobStore_Create_Inr:
  "JobStore_Create io j d = Inr d' \<Longrightarrow> \<exists>j'. db_jobs d' = db_jobs d @ [j'] \<and> jb_Status j' = jb_Status j \<and> jb_ID j \<notin> jb_ID ` set (db_jobs d)"
  by (auto simp: JobStore_Create_def Let_def)

lemma created_open:
  assumes "JobStore_Create io (prepareJob jid owner wid now) d = Inr d'"
  shows "openJob jid d'"
  using JobStore_Create_Inr [OF assms] by (force simp: openJob_def prepareJob_def JobTerminal_def)

lemma CreateWorkspace_grown: "grown w (fst (CreateWorkspace x df eng actor owner name profile ios w))"
proof -
  let ?jid = "io_newID (ios 1)"
  have late: "grown w (fst (thenD (onDevDb (autoCommit (Recorder_Record x (ios 0) actor e)) (ignoringDev (JobStore_AddStep (ios 2) st) v)) (\<lambda>_ w5.
      submitWorkspaceProvision df eng (ios 3) ws ?jid repos creds w5)))"
    if v: "grown w v" "openJob ?jid (dv_db v)" for v e st ws repos creds
  proof -
    let ?v = "ignoringDev (JobStore_AddStep (ios 2) st) v"
    have "db_jobs (dv_db ?v) = db_jobs (dv_db v)" using AddStep_grows by (auto simp: ignoringDev_def ignoring_def split: sum.split)
    then have o: "openJob ?jid (dv_db ?v)" using v(2) by (simp add: openJob_def)
    have g: "grown w ?v" by (rule grown_trans [OF v(1) grown_ignoring]) (simp add: AddStep_grows)
    show ?thesis
    proof (rule grown_thenD [OF grown_trans [OF g grown_record]])
      fix a u
      assume r: "onDevDb (autoCommit (Recorder_Record x (ios 0) actor e)) ?v = (u, Inr a)" and u: "grown w u"
      have "db_jobs (dv_db u) = db_jobs (dv_db ?v)" using dev_tables.recorded [OF onDevDb_commit_Inr [OF r]] by simp
      then have "openJob ?jid (dv_db u)" using o by (simp add: openJob_def)
      then show "grown w (fst (submitWorkspaceProvision df eng (ios 3) ws ?jid repos creds u))" by (rule grown_trans [OF u submitProvision_grown])
    qed
  qed
  have mid: "grown w (fst (thenD (onDevDb (autoCommit (WorkspaceStore_SetCurrent (ios 0) owner wid)) v) (\<lambda>_ w2.
      thenD (onDevDb (autoCommit (JobStore_Create (ios 1) (prepareJob ?jid owner wid (io_now (ios 0))))) w2) (\<lambda>_ w3.
      thenD (onDevDb (autoCommit (Recorder_Record x (ios 0) actor e)) (ignoringDev (JobStore_AddStep (ios 2) st) w3)) (\<lambda>_ w5.
        submitWorkspaceProvision df eng (ios 3) ws ?jid repos creds w5)))))"
    if v: "grown w v" for v wid e st ws repos creds
  proof (rule grown_thenD [OF grown_trans [OF v grown_commit]])
    fix a u
    assume u: "grown w u"
    show "grown w (fst (thenD (onDevDb (autoCommit (JobStore_Create (ios 1) (prepareJob ?jid owner wid (io_now (ios 0))))) u) (\<lambda>_ w3.
        thenD (onDevDb (autoCommit (Recorder_Record x (ios 0) actor e)) (ignoringDev (JobStore_AddStep (ios 2) st) w3)) (\<lambda>_ w5.
          submitWorkspaceProvision df eng (ios 3) ws ?jid repos creds w5))))"
    proof (rule grown_thenD [OF grown_trans [OF u grown_commit]])
      fix b t
      assume c: "onDevDb (autoCommit (JobStore_Create (ios 1) (prepareJob ?jid owner wid (io_now (ios 0))))) u = (t, Inr b)" and t: "grown w t"
      show "grown w (fst (thenD (onDevDb (autoCommit (Recorder_Record x (ios 0) actor e)) (ignoringDev (JobStore_AddStep (ios 2) st) t)) (\<lambda>_ w5.
          submitWorkspaceProvision df eng (ios 3) ws ?jid repos creds w5)))"
        by (rule late [OF t created_open [OF onDevDb_commit_Inr [OF c]]])
    qed (rule JobStore_Create_grows)
  qed (rule SetCurrent_grows)
  show ?thesis
  proof (cases "checkWorkspace x df (ios 0) owner name profile w")
    case (Inr p)
    obtain nm pr repos creds where p: "p = (nm, pr, repos, creds)" by (cases p)
    let ?c = "onDevDb (autoCommit (WorkspaceStore_Create (ios 0) (newWorkspace (ios 0) owner nm pr))) w"
    have g: "grown w (fst ?c)" by (rule grown_commit) (rule Workspace_Create_grows)
    show ?thesis
    proof (cases ?c)
      case (Pair w1 r)
      then show ?thesis using g mid [of w1] unfolding CreateWorkspace_def Inr p Let_def
        by (cases r) (simp_all del: thenD.simps)
    qed
  qed (simp add: CreateWorkspace_def)
qed


section \<open>The life of the service\<close>

inductive dev_step :: "ext \<Rightarrow> catExt \<Rightarrow> devWorld \<Rightarrow> devWorld \<Rightarrow> bool" for x cx where
  load: "dev_step x cx w (fst (LoadPersistedCatalog x cx io w))"
| replace: "dev_step x cx w (fst (ReplaceCatalog x cx actor raw io w))"
| create_workspace: "dev_step x cx w (fst (CreateWorkspace x df eng actor owner name profile ios w))"
| list_workspaces: "dev_step x cx w (fst (ListWorkspaces x df eng owner canAny ios w))"
| get_workspace: "dev_step x cx w (fst (GetWorkspace x df eng wid owner canAny io w))"
| delete_workspace: "dev_step x cx w (fst (DeleteWorkspace x df eng actor wid owner canAny ios w))"
| set_current: "dev_step x cx w (fst (SetCurrentWorkspace x df eng actor uid wid ios w))"
| current: "dev_step x cx w (fst (Service_CurrentWorkspace x df eng uid io w))"
| submit: "dev_step x cx w (fst (SubmitBuildForCurrent x df eng actor owner target tag key bi ios w))"
| build_status: "dev_step x cx w (fst (CurrentWorkspaceBuildStatus x df eng uid ios w))"
| list_jobs: "dev_step x cx w (fst (ListJobs x df eng owner canAny ios w))"
| get_job: "dev_step x cx w (fst (GetJob x df eng jid owner canAny io w))"
| cancel_job: "dev_step x cx w (fst (CancelJob x df eng actor jid owner canAny ios w))"
| reconcile_all: "dev_step x cx w (fst (Dev_ReconcileAll x df eng ios w))"
| builds_service: "build_step x (dv_cfg w) (dv_builds w) b \<Longrightarrow> dev_step x cx w (w\<lparr>dv_builds := b\<rparr>)"

inductive dev_reachable :: "ext \<Rightarrow> catExt \<Rightarrow> devWorld \<Rightarrow> devWorld \<Rightarrow> bool" for x cx where
  start: "dev_reachable x cx w w"
| step: "dev_reachable x cx w w1 \<Longrightarrow> dev_step x cx w1 w2 \<Longrightarrow> dev_reachable x cx w w2"

lemmas operations_grown = Load_grown ReplaceCatalog_grown CreateWorkspace_grown ListWorkspaces_grown GetWorkspace_grown DeleteWorkspace_grown
  SetCurrentWorkspace_grown CurrentWorkspace_grown SubmitBuild_grown BuildStatus_grown ListJobs_grown GetJob_grown CancelJob_grown Dev_ReconcileAll_grown

lemma dev_step_grown: "dev_step x cx w w' \<Longrightarrow> grown w w'"
proof (induction rule: dev_step.induct)
  case (builds_service w b)
  then show ?case using jobStep_grows [OF jobStep_frame [OF dev_tables.step_keeps]] by (simp add: grown_def)
qed (simp_all add: operations_grown)

lemma dev_reachable_grown: "dev_reachable x cx w w' \<Longrightarrow> grown w w'"
  by (induction rule: dev_reachable.induct) (auto intro: grown_trans dev_step_grown)

text \<open>
  C33. Jobs and workspaces only move forward. Whatever requests follow, in the developer workflow
  service or in the builds service beside it, whatever the workflow engine answers and whatever
  fails: no job disappears or changes what it is for, and a finished job never changes again; no
  workspace disappears or changes its owner, name or profile, and a deleted one stays deleted.
\<close>

theorem jobs_and_workspaces_move_forward:
  assumes "dev_reachable x cx w w'" and "distinct (map jb_ID (db_jobs (dv_db w)))"
  shows "advancesBy jobFollows (db_jobs (dv_db w)) (db_jobs (dv_db w')) \<and> advancesBy wsFollows (db_workspaces (dv_db w)) (db_workspaces (dv_db w'))
    \<and> distinct (map jb_ID (db_jobs (dv_db w')))"
  using dev_reachable_grown [OF assms(1)] assms(2) by (simp add: grown_def devGrows_def)

definition sampleDev :: devConfig where
  "sampleDev = \<lparr>df_engine = True, df_provisionerImage = ''p@sha256:1'', df_builderImage = [], df_workspaceRootDir = ''/w'', df_workspaceClaimName = ''c''\<rparr>"

definition sampleDevWorld :: devWorld where
  "sampleDevWorld = \<lparr>dv_builds = sampleWorld, dv_cfg = sampleBuilds, dv_catalog = keptCatalog, dv_contentType = ''application/json'', dv_updatedAt = 0\<rparr>"

definition sampleIOs :: "nat \<Rightarrow> io" where
  "sampleIOs k = sampleIO\<lparr>io_newID := ''n'' @ Itoa (int k), io_eventID := ''v'' @ Itoa (int k)\<rparr>"

definition preparing :: devWorld where
  "preparing = fst (CreateWorkspace sampleExt sampleDev (sampleEngine (Inl ErrWorkflowNotFound)) SystemActor ''u1'' '' Mine '' [] sampleIOs sampleDevWorld)"

definition prepared :: devWorld where
  "prepared = fst (Dev_ReconcileAll sampleExt sampleDev (sampleEngine (Inr \<lparr>ws_Phase = PhaseSucceeded, ws_Message = []\<rparr>)) sampleIOs preparing)"

fun devFacts :: "devWorld \<Rightarrow> (string \<times> JobStatus) list \<times> (string \<times> string \<times> WorkspaceStatus) list" where
  "devFacts w = (map (\<lambda>j. (jb_ID j, jb_Status j)) (db_jobs (dv_db w)), map (\<lambda>v. (wk_ID v, wk_Name v, wk_Status v)) (db_workspaces (dv_db w)))"

lemma preparing_facts: "devFacts preparing = ([(''n1'', JobStatusRunning)], [(''n0'', ''mine'', WorkspaceStatusPending)])"
  by code_simp

lemma prepared_facts: "devFacts prepared = ([(''n1'', JobStatusSucceeded)], [(''n0'', ''mine'', WorkspaceStatusReady)])"
  by code_simp

theorem jobs_and_workspaces_move_forward_witness:
  "advancesBy jobFollows (db_jobs (dv_db preparing)) (db_jobs (dv_db prepared)) \<and> devFacts preparing = ([(''n1'', JobStatusRunning)], [(''n0'', ''mine'', WorkspaceStatusPending)])
   \<and> devFacts prepared = ([(''n1'', JobStatusSucceeded)], [(''n0'', ''mine'', WorkspaceStatusReady)])"
proof -
  have "dev_reachable sampleExt sampleCatExt preparing prepared"
    unfolding prepared_def by (rule dev_reachable.step [OF dev_reachable.start]) (rule dev_step.reconcile_all)
  moreover have "distinct (map jb_ID (db_jobs (dv_db preparing)))" using preparing_facts by (auto simp: Cons_eq_map_conv)
  ultimately show ?thesis using jobs_and_workspaces_move_forward preparing_facts prepared_facts by blast
qed

end
