(* ===== verification/DevGuarantees.thy ===== *)
theory DevGuarantees
  imports DevLife
begin

text \<open>
  What users of the developer workflow service can rely on: nobody without the permission for all
  workspaces reaches those of others, only vetted targets of one's own ready workspace are built,
  and what replacing the catalog does to the values hidden from build output.
\<close>

section \<open>Other people's workspaces and jobs\<close>

definition othersWorkspace :: "string \<Rightarrow> string \<Rightarrow> devWorld \<Rightarrow> bool" where
  "othersWorkspace uid wid w \<longleftrightarrow> list_all (\<lambda>v. wk_ID v = wid \<longrightarrow> wk_OwnerID v \<noteq> uid) (db_workspaces (dv_db w))"

definition othersJob :: "string \<Rightarrow> string \<Rightarrow> devWorld \<Rightarrow> bool" where
  "othersJob uid jid w \<longleftrightarrow> list_all (\<lambda>j. jb_ID j = jid \<longrightarrow> jb_OwnerID j \<noteq> uid) (db_jobs (dv_db w))"

text \<open>Refused: nothing has changed and the answer is an error, ErrNotFound unless the database failed.\<close>

definition refused :: "devWorld \<Rightarrow> devWorld \<times> 'a result \<Rightarrow> bool" where
  "refused w p \<longleftrightarrow> p = (w, Inl ErrNotFound) \<or> (\<exists>op. p = (w, Inl (ErrDriver op)))"

lemma refused_thenD: "refused w p \<Longrightarrow> refused w (thenD p f)"
  by (auto simp: refused_def)

lemma GetWorkspace_refused: "othersWorkspace uid wid w \<Longrightarrow> refused w (GetWorkspace x df eng wid uid False io w)"
  by (cases "io_fault io ''WorkspaceStore.Get''") (auto simp: GetWorkspace_def reading_def refused_def WorkspaceStore_Get_def stmt_def othersWorkspace_def list_all_iff dest!: selectFirst_SomeD split: option.splits)

lemma GetJob_refused: "othersJob uid jid w \<Longrightarrow> refused w (GetJob x df eng jid uid False io w)"
  by (cases "io_fault io ''JobStore.Get''") (auto simp: GetJob_def reading_def refused_def JobStore_Get_def stmt_def othersJob_def list_all_iff dest!: selectFirst_SomeD split: option.splits)

text \<open>
  C34. Strangers reach nothing. For a user without the permission for all workspaces, a workspace
  of somebody else can not be read, deleted or made the current one, and a job of somebody else
  can not be read or cancelled, nor its steps and logs be seen: each request is answered as if
  the row did not exist, and it changes nothing.
\<close>

theorem strangers_reach_nothing:
  assumes "othersWorkspace uid wid w" and "othersJob uid jid w"
  shows "refused w (GetWorkspace x df eng wid uid False io w) \<and> refused w (DeleteWorkspace x df eng actor wid uid False ios w)
    \<and> refused w (SetCurrentWorkspace x df eng actor uid wid ios w) \<and> refused w (GetJob x df eng jid uid False io w)
    \<and> refused w (CancelJob x df eng actor jid uid False ios w) \<and> refused w (JobSteps x df eng jid uid False ios w)
    \<and> refused w (JobLogs x df eng jid uid False ios w)"
  unfolding DeleteWorkspace_def SetCurrentWorkspace_def CancelJob_def JobSteps_def JobLogs_def
  by (intro conjI GetWorkspace_refused GetJob_refused refused_thenD assms)

theorem strangers_reach_nothing_witness:
  "refused preparing (DeleteWorkspace sampleExt sampleDev (sampleEngine (Inl ErrWorkflowNotFound)) SystemActor ''n0'' ''u2'' False sampleIOs preparing)
   \<and> map wk_ID (db_workspaces (dv_db preparing)) = [''n0'']"
proof -
  have "othersWorkspace ''u2'' ''n0'' preparing" "othersJob ''u2'' ''n1'' preparing" by code_simp+
  moreover have "map wk_ID (db_workspaces (dv_db preparing)) = [''n0'']" using preparing_facts by (auto simp: Cons_eq_map_conv)
  ultimately show ?thesis using strangers_reach_nothing [of "''u2''" "''n0''" preparing "''n1''"] by blast
qed

section \<open>Building\<close>

text \<open>Reconciling a job leaves the owner of every workspace and its deletion alone.\<close>

definition wsKey :: "Workspace \<Rightarrow> string \<times> string \<times> string \<times> time option" where
  "wsKey v = (wk_ID v, wk_OwnerID v, wk_WorkProfile v, wk_DeletedAt v)"

definition sameKeys :: "db \<Rightarrow> db \<Rightarrow> bool" where
  "sameKeys d d' \<longleftrightarrow> map wsKey (db_workspaces d') = map wsKey (db_workspaces d)"

lemma ignoring_keys: "(\<And>d'. f (bw_db w) = Inr d' \<Longrightarrow> sameKeys (bw_db w) d') \<Longrightarrow> sameKeys (bw_db w) (bw_db (ignoring f w))"
  by (cases "f (bw_db w)") (simp_all add: ignoring_def sameKeys_def)

lemma job_keys: "JobStore_UpdateStatus io jid st rs ms sa ca d = Inr d' \<Longrightarrow> sameKeys d d'"
  by (auto simp: JobStore_UpdateStatus_def sameKeys_def)

lemma sync_keys: "syncWorkspaceStatusFromJob io j d = Inr d' \<Longrightarrow> sameKeys d d'"
  by (auto simp: syncWorkspaceStatusFromJob_def WorkspaceStore_UpdateStatus_def workspacesExec1_def sameKeys_def wsKey_def
      intro!: map_updateWhere_same split: if_splits prod.splits)

lemma sameKeys_trans: "sameKeys d d1 \<Longrightarrow> sameKeys d1 d2 \<Longrightarrow> sameKeys d d2" by (simp add: sameKeys_def)

lemma storeJob_keys: "sameKeys (bw_db w) (bw_db (ignoring (syncWorkspaceStatusFromJob io j) (if b then storeJob io j w else w)))"
proof -
  have "sameKeys (bw_db w) (bw_db (if b then storeJob io j w else w))"
    using ignoring_keys [of "JobStore_UpdateStatus io (jb_ID j) (jb_Status j) (jb_ReasonCode j) (jb_ErrorMessage j) (jb_StartedAt j) (jb_CompletedAt j)" w] job_keys
    by (auto simp: storeJob_def sameKeys_def)
  then show ?thesis by (rule sameKeys_trans) (rule ignoring_keys, erule sync_keys)
qed

lemma reconcileJob_keys: "sameKeys (bw_db w) (bw_db (fst (reconcileJob x cfg he eng io j w)))"
proof -
  have k: "sameKeys (bw_db w) (bw_db w1)" if "Builds_Get x cfg eng bid io w = (w1, r)" for w1 r bid
    using dev_tables.get_keeps [of w x cfg eng bid io] that by (simp add: dev_tables.keeps_def sameKeys_def)
  have u: "sameKeys (bw_db w) (bw_db (ignoring (JobStore_UpdateStatus io jid st rs ms sa ca) w1))" if "Builds_Get x cfg eng bid io w = (w1, r)" for w1 r bid jid st rs ms sa ca
    by (rule sameKeys_trans [OF k [OF that]]) (rule ignoring_keys, erule job_keys)
  have b: "sameKeys (bw_db w) (bw_db (fst (reconcileBuildJob x cfg eng io j w)))"
    using k u by (auto simp: reconcileBuildJob_def Let_def sameKeys_def [of d d for d] split: prod.split sum.split)
  have p: "sameKeys (bw_db w) (bw_db (fst (reconcileWorkspacePrepareJob he eng io j w)))"
    using storeJob_keys [of w io _ True] storeJob_keys [of w io "preparedJob (io_now io) st j" "preparedJob (io_now io) st j \<noteq> j" for st]
    by (simp add: reconcileWorkspacePrepareJob_def Let_def sameKeys_def [of d d for d] split: sum.split)
  show ?thesis using b p by (auto simp: reconcileJob_def sameKeys_def [of d d for d] split: JobType.split prod.split)
qed

lemma reconcileJob_BuildID: "reconcileJob x cfg he eng io j w = (w', Inr j') \<Longrightarrow> jb_BuildID j' = jb_BuildID j"
  by (auto simp: reconcileJob_def reconcileBuildJob_def reconcileWorkspacePrepareJob_def preparedJob_def Let_def
      split: if_splits JobType.splits prod.splits sum.splits Phase.splits)


lemma thenD_Inr: "thenD p f = (w', Inr b) \<longleftrightarrow> (\<exists>v a. p = (v, Inr a) \<and> f a v = (w', Inr b))"
  by (cases "(p, f)" rule: thenD.cases) auto

lemma reading_Inr [simp]: "reading r w = (v, Inr a) \<longleftrightarrow> v = w \<and> r = Inr a"
  by (auto simp: reading_def)

lemma selectFirst_same_keys:
  "map wsKey ys = map wsKey xs \<Longrightarrow> map_option wsKey (selectFirst (\<lambda>v. wk_ID v = i) ys) = map_option wsKey (selectFirst (\<lambda>v. wk_ID v = i) xs)"
proof (induction xs arbitrary: ys)
  case (Cons v xs)
  then obtain u us where "ys = u # us" "wsKey u = wsKey v" "map wsKey us = map wsKey xs" by (cases ys) auto
  moreover from this have "wk_ID u = wk_ID v" by (simp add: wsKey_def)
  ultimately show ?case using Cons.IH [of us] by (simp add: selectFirst_def)
qed (simp add: selectFirst_def)

lemma onBuilds_Inr: "onBuilds f w = (v, Inr a) \<Longrightarrow> \<exists>b. f (dv_builds w) = (b, Inr a) \<and> v = w\<lparr>dv_builds := b\<rparr>"
  by (auto simp: onBuilds_def split: prod.splits)

lemma reconcileWorkspace_key:
  assumes "reconcileWorkspace x df eng io ws w = (v, Inr ws')" and "WorkspaceStore_Get io wid (dv_db w) = Inr ws"
  shows "wsKey ws' = wsKey ws" and "dv_catalog v = dv_catalog w" and "dv_cfg v = dv_cfg w"
proof -
  have f: "selectFirst (\<lambda>u. wk_ID u = wk_ID ws) (db_workspaces (dv_db w)) = Some ws"
    using assms(2) by (auto simp: WorkspaceStore_Get_def dest: selectFirst_SomeD split: option.splits)
  consider "v = w" "ws' = ws" | j q where "onBuilds (reconcileJob x (dv_cfg w) (df_engine df) eng io j) w = (v, Inr q)" "WorkspaceStore_Get io (wk_ID ws) (dv_db v) = Inr ws'"
  proof (cases "wk_DeletedAt ws = None")
    case True
    show thesis
    proof (cases "latestWorkspacePrepareJob io (wk_ID ws) (dv_db w)")
      case (Inl e)
      then show thesis using assms(1) that(1) True by (cases "e = ErrNotFound") (simp_all add: reconcileWorkspace_def)
    next
      case (Inr j)
      with True assms(1) have "thenD (onBuilds (reconcileJob x (dv_cfg w) (df_engine df) eng io j) w) (\<lambda>_ w1. (w1, WorkspaceStore_Get io (wk_ID ws) (dv_db w1))) = (v, Inr ws')"
        by (simp add: reconcileWorkspace_def)
      then obtain u q where "onBuilds (reconcileJob x (dv_cfg w) (df_engine df) eng io j) w = (u, Inr q)" "(u, WorkspaceStore_Get io (wk_ID ws) (dv_db u)) = (v, Inr ws')"
        unfolding thenD_Inr by (elim exE conjE)
      then show thesis using that(2) [of j q] by auto
    qed
  qed (use assms(1) that in \<open>simp add: reconcileWorkspace_def\<close>)
  then have "wsKey ws' = wsKey ws \<and> dv_catalog v = dv_catalog w \<and> dv_cfg v = dv_cfg w"
  proof cases
    case (2 j q)
    then obtain b where b: "reconcileJob x (dv_cfg w) (df_engine df) eng io j (dv_builds w) = (b, Inr q)" "v = w\<lparr>dv_builds := b\<rparr>" using onBuilds_Inr [OF 2(1)] by (elim exE conjE)
    then have "map wsKey (db_workspaces (dv_db v)) = map wsKey (db_workspaces (dv_db w))"
      using reconcileJob_keys [of "dv_builds w" x "dv_cfg w" "df_engine df" eng io j] by (simp add: sameKeys_def)
    moreover have "selectFirst (\<lambda>u. wk_ID u = wk_ID ws) (db_workspaces (dv_db v)) = Some ws'"
      using 2(2) by (auto simp: WorkspaceStore_Get_def split: option.splits)
    ultimately show ?thesis using selectFirst_same_keys [of "db_workspaces (dv_db v)" "db_workspaces (dv_db w)" "wk_ID ws"] f b(2) by simp
  qed simp
  then show "wsKey ws' = wsKey ws" "dv_catalog v = dv_catalog w" "dv_cfg v = dv_cfg w" by auto
qed

lemma Service_CurrentWorkspace_own:
  assumes "Service_CurrentWorkspace x df eng uid io w = (v, Inr ws)"
  shows "wk_OwnerID ws = uid \<and> wk_DeletedAt ws = None \<and> dv_catalog v = dv_catalog w \<and> dv_cfg v = dv_cfg w"
proof -
  obtain wid ws0 where 0: "WorkspaceStore_Get io wid (dv_db w) = Inr ws0" "wk_OwnerID ws0 = uid" "wk_DeletedAt ws0 = None"
      "reconcileWorkspace x df eng io ws0 w = (v, Inr ws)"
    using assms by (auto simp: Service_CurrentWorkspace_def Let_def andThen_Inr_iff split: sum.splits if_splits)
  from reconcileWorkspace_key [OF 0(4,1)] 0 show ?thesis by (simp add: wsKey_def)
qed

lemma resolved_vetted:
  assumes "catalogSound x c" and "ResolveTargetForProfile x c profile name = Inr res"
  shows "runnable (rt_Target res)" and "\<not> isl (sourceHost x (re_URL (rt_Repo res)))"
proof -
  obtain t P r where f: "List.find (\<lambda>t. P t \<and> answersTo x (normalizeName x name) t) (ct_BuildTargets c) = Some t" and r: "rt_Target res = withContainerfile t"
      "Catalog_Repo x c (normalizeName x (bt_Repo t)) = Some r" "rt_Repo res = r"
    using assms(2) by (auto simp: ResolveTargetForProfile_def split: option.splits)
  then have t: "t \<in> set (ct_BuildTargets c)" by (auto simp: find_Some_iff)
  with assms(1) sound_runnable r show "runnable (rt_Target res)" by (simp add: catalogSound_def)
  from t assms(1) have "normalizeName x (bt_Repo t) \<in> set (repoNames x (ct_Repos c))" by (simp add: catalogSound_def)
  from repo_found [OF assms(1) this] r show "\<not> isl (sourceHost x (re_URL (rt_Repo res)))" by auto
qed

lemma ResolveBuilderImage_pinned: "ResolveBuilderImage ref dflt = Inr img \<Longrightarrow> imageDigestRE img"
  by (auto simp: ResolveBuilderImage_def Let_def validPinnedBuilderImage_def TrimSpace_idem split: if_splits)


definition pinnedImage :: string where "pinnedImage = ''b@sha256:'' @ replicate 64 (CHR ''a'')"

definition readyWorld :: devWorld where
  "readyWorld = prepared\<lparr>dv_cfg := sampleBuilds\<lparr>bc_allowedBuilderImages := [pinnedImage], bc_registryPush := None\<rparr>\<rparr>"

definition submitted :: "devWorld \<times> Job result" where
  "submitted = SubmitBuildForCurrent sampleExt (sampleDev\<lparr>df_builderImage := pinnedImage\<rparr>) (sampleEngine (Inl ErrWorkflowNotFound)) SystemActor ''u1'' ''ui'' [] ''k''
     sampleBuildIO (\<lambda>k. sampleIOs (k + 10)) readyWorld"

lemma submitted_outcome: "map_sum (\<lambda>_. ()) jb_BuildID (snd submitted) = Inr ''b1''"
  by code_simp


section \<open>Replacing the catalog and build output\<close>

lemma onDevDb_outside: "onDevDb f w = (v, r) \<Longrightarrow> bw_secrets (dv_builds v) = bw_secrets (dv_builds w) \<and> bw_sensitive (dv_builds v) = bw_sensitive (dv_builds w)"
  by (auto simp: onDevDb_def onBuilds_def onDb_def split: prod.splits)

lemma outside_then:
  "thenD (onDevDb f w) k = (w', Inr b) \<Longrightarrow>
   \<exists>w1 a. k a w1 = (w', Inr b) \<and> bw_secrets (dv_builds w1) = bw_secrets (dv_builds w) \<and> bw_sensitive (dv_builds w1) = bw_sensitive (dv_builds w)"
  unfolding thenD_Inr using onDevDb_outside [of f w] by blast

lemma sync_then:
  assumes "thenD (syncDependentsLocked x w) k = (w', Inr b)"
  shows "\<exists>w1 a. k a w1 = (w', Inr b) \<and> bw_secrets (dv_builds w1) = bw_secrets (dv_builds w) \<and> bw_sensitive (dv_builds w1) = []"
proof -
  have "bw_sensitive (dv_builds v) = [] \<and> bw_secrets (dv_builds v) = bw_secrets (dv_builds w)" if "syncDependentsLocked x w = (v, Inr u)" for v u
    using that by (auto simp: syncDependentsLocked_def SetSensitiveLogValues_def SensitiveLogValues_def normalizeSensitiveValues_def Let_def split: sum.splits)
  with assms show ?thesis unfolding thenD_Inr by blast
qed

text \<open>
  C36. Replacing the catalog forgets the push tokens. The catalog itself has no values to hide,
  so when a new catalog is accepted, or the stored one is loaded, the list of values that build
  output is searched for is empty afterwards: also of the push tokens that builds still running
  have in their secrets, and the logs of those builds are shown as the engine returns them, but
  for private key blocks.
\<close>

theorem catalog_replacement_forgets_tokens:
  assumes "ReplaceCatalog x cx actor raw io w = (w', Inr st)"
  shows "bw_sensitive (dv_builds w') = [] \<and> bw_secrets (dv_builds w') = bw_secrets (dv_builds w)
    \<and> (\<forall>b logs. BuildStore_Get io' bid (dv_db w') = Inr b \<and> b_WorkflowName b \<noteq> [] \<and> en_Logs eng (b_WorkflowName b) = Inr logs
         \<longrightarrow> Builds_Logs eng bid io' (dv_builds w') = Inr (redactPrivateKeyBlocks logs))"
proof -
  obtain c ty where p: "ParseCatalogDocument x cx raw = Inr (c, ty)" using assms by (cases "ParseCatalogDocument x cx raw") (auto simp: ReplaceCatalog_def)
  have "bw_sensitive (dv_builds w') = [] \<and> bw_secrets (dv_builds w') = bw_secrets (dv_builds w)"
    using assms unfolding ReplaceCatalog_def p sum.case prod.case Let_def by (auto simp only: prod.inject dest!: outside_then sync_then) simp
  then show ?thesis by (simp add: Builds_Logs_def redact_def)
qed

definition midBuildWorld :: devWorld where "midBuildWorld = sampleDevWorld\<lparr>dv_builds := fst sampleCreated\<rparr>"

definition replaced :: "devWorld \<times> CatalogStatus result" where
  "replaced = ReplaceCatalog sampleExt sampleCatExt SystemActor ''doc'' (sampleIOs 30) midBuildWorld"

fun replacedFacts :: "devWorld \<times> CatalogStatus result \<Rightarrow> (unit + string) \<times> (unit + string)" where
  "replacedFacts (w, r) = (map_sum (\<lambda>_. ()) cs_ContentType r, map_sum (\<lambda>_. ()) b_WorkflowName (BuildStore_Get sampleIO ''b1'' (dv_db w)))"

lemma replaced_facts: "replacedFacts replaced = (Inr ''application/json'', Inr ''build-b1'')"
  by code_simp

lemma chatty_log_kept: "redactPrivateKeyBlocks (''push with '' @ fst sampleToken) = ''push with '' @ fst sampleToken"
  by code_simp

lemma replaced_outcome:
  "map_sum (\<lambda>_. ()) cs_ContentType (snd replaced) = Inr ''application/json''"
  "map_sum (\<lambda>_. ()) b_WorkflowName (BuildStore_Get sampleIO ''b1'' (dv_db (fst replaced))) = Inr ''build-b1''"
  using replaced_facts replacedFacts.simps [of "fst replaced" "snd replaced"] unfolding prod.collapse by simp_all

theorem catalog_replacement_forgets_tokens_witness:
  "Builds_Logs chattyEngine ''b1'' sampleIO (dv_builds (fst replaced)) = Inr (''push with '' @ fst sampleToken)
   \<and> map (\<lambda>(n, s). se_Data s ''token'') (bw_secrets (dv_builds (fst replaced))) = [Some (fst sampleToken)]"
proof -
  obtain st where st: "replaced = (fst replaced, Inr st)" using replaced_outcome(1) by (cases "snd replaced") (auto simp: prod_eq_iff)
  obtain b where b: "BuildStore_Get sampleIO ''b1'' (dv_db (fst replaced)) = Inr b" "b_WorkflowName b = ''build-b1''"
    using replaced_outcome(2) by (cases "BuildStore_Get sampleIO ''b1'' (dv_db (fst replaced))") auto
  have "map (\<lambda>(n, s). se_Data s ''token'') (bw_secrets (dv_builds midBuildWorld)) = [Some (fst sampleToken)]"
    using sampleCreated_outcome(3) by (auto simp: midBuildWorld_def)
  moreover have "en_Logs chattyEngine (b_WorkflowName b) = Inr (''push with '' @ fst sampleToken)" by (simp add: chattyEngine_def)
  ultimately show ?thesis
    using catalog_replacement_forgets_tokens [OF st [unfolded replaced_def], folded replaced_def, of sampleIO "''b1''" chattyEngine] b chatty_log_kept by simp
qed

end
