(* ===== verification/MetaBundle.thy ===== *)
theory MetaBundle
  imports DevCatalog Migrations Licensing RegistryAuth
begin

text \<open>
  Metadata bundles (internal/metadatabundle): versions, the validation of a parsed bundle and the
  unpacking of an archive. A Go map is an association list in the order in which the code happens
  to iterate over it. YAML decoding and the file system are outside; what the validation asks of
  the file system is the parameter \<open>fsys\<close>.
\<close>

section \<open>Versions\<close>

definition isDigit :: "char \<Rightarrow> bool" where "isDigit c \<longleftrightarrow> inRange 48 57 (of_char c)"

text \<open>
  The groups of \<open>^(d+).(d+).(d+)(?:[-.].*)?$\<close>: a greedy run of digits is the only one that can
  be followed by the literal dot, and the dot of \<open>.*\<close> does not match a newline.
\<close>

definition digitRun :: "string \<Rightarrow> (string \<times> string) option" where
  "digitRun s = (if takeWhile isDigit s = [] then None else Some (takeWhile isDigit s, dropWhile isDigit s))"

fun digitGroups :: "nat \<Rightarrow> string \<Rightarrow> (string list \<times> string) option" where
  "digitGroups 0 s = Some ([], s)"
| "digitGroups (Suc n) s =
    (case digitRun s of
       None \<Rightarrow> None
     | Some (ds, rest) \<Rightarrow>
         if n = 0 then Some ([ds], rest)
         else (case rest of
                 c # rest' \<Rightarrow> if c = CHR ''.'' then map_option (apfst ((#) ds)) (digitGroups n rest') else None
               | [] \<Rightarrow> None))"

definition softwareVersionPattern :: "string \<Rightarrow> string list option" where
  "softwareVersionPattern v =
    (case digitGroups 3 v of
       None \<Rightarrow> None
     | Some (ds, rest) \<Rightarrow>
         if rest = [] \<or> ((HasPrefix rest ''-'' \<or> HasPrefix rest ''.'') \<and> CHR 0x0A \<notin> set rest) then Some ds else None)"

definition metadataVersionPattern :: "string \<Rightarrow> string list option" where
  "metadataVersionPattern v = (case digitGroups 4 v of Some (ds, []) \<Rightarrow> Some ds | _ \<Rightarrow> None)"

definition NormalizeSoftwareVersion :: "string \<Rightarrow> string result" where
  "NormalizeSoftwareVersion v0 =
    (let v = TrimSpace v0
     in if v = [] then Inl (ErrMessage ''empty software version'')
        else (case softwareVersionPattern v of None \<Rightarrow> Inl (ErrMessage ''invalid software version'') | Some ds \<Rightarrow> Inr (joinWith (CHR ''.'') ds)))"

text \<open>The error of \<open>strconv.Atoi\<close> is ignored: digits beyond the range of an int give its greatest value.\<close>

definition atoiClamped :: "string \<Rightarrow> int" where
  "atoiClamped ds = min (digitsValue ds) (2 ^ 63 - 1)"

definition ParseMetadataVersion :: "string \<Rightarrow> int list result" where
  "ParseMetadataVersion v =
    (case metadataVersionPattern (TrimSpace v) of None \<Rightarrow> Inl (ErrMessage ''invalid metadata version'') | Some ds \<Rightarrow> Inr (map atoiClamped ds))"

definition CompatibleWithSoftware :: "string \<Rightarrow> string \<Rightarrow> unit result" where
  "CompatibleWithSoftware softwareVersion metadataVersion =
     andThen (NormalizeSoftwareVersion softwareVersion) (\<lambda>sw.
     andThen (ParseMetadataVersion metadataVersion) (\<lambda>ns.
     require (joinWith (CHR ''.'') (map Itoa (take 3 ns)) = sw) (ErrMessage ''metadata version is incompatible with software version'')))"

definition BaseMetadataVersion :: "string \<Rightarrow> string result" where
  "BaseMetadataVersion softwareVersion = andThen (NormalizeSoftwareVersion softwareVersion) (\<lambda>sw. Inr (sw @ ''.0''))"

definition DirectoryName :: "string \<Rightarrow> string" where
  "DirectoryName metadataVersion = ''appliance-metadata-bundle-'' @ TrimSpace metadataVersion"

section \<open>Bundles\<close>

record ManifestMetadata =
  mm_SoftwareVersion :: string
  mm_MetadataVersion :: string
  mm_CreatedAt :: string
  mm_Vendor :: string

record Manifest =
  mf_APIVersion :: string
  mf_Kind :: string
  mf_SchemaVersion :: int
  mf_Metadata :: ManifestMetadata
  mf_Sections :: "string list"

record PackageDef =
  pk_InferenceEngine :: string
  pk_DisplayName :: string
  pk_Description :: string
  pk_Capabilities :: "string list"

record AllowedAPI =
  aa_ID :: string
  aa_Function :: string
  aa_Method :: string
  aa_Path :: string

record AutomationDocument =
  ad_DSL :: string
  ad_Namespace :: string
  ad_Name :: string
  ad_InputEndpoint :: string
  ad_OutputEndpoint :: string
  ad_Do :: "string list"
  ad_SectionDir :: string

text \<open>\<open>ad_Do\<close> are the functions the steps call.\<close>

record DebugToolsSection =
  dt_AllowedAPIs :: "(string \<times> AllowedAPI) list"
  dt_Automations :: "(string \<times> AutomationDocument) list"

record Bundle =
  bn_RootDir :: string
  bn_Manifest :: Manifest
  bn_Profiles :: "(string \<times> profileDef) list"
  bn_Capabilities :: "(string \<times> capDef) list"
  bn_Packages :: "(string \<times> PackageDef) list"
  bn_Modules :: "ModuleDescriptor list"
  bn_DebugTools :: "DebugToolsSection option"

record fsys =
  fy_ReadDir :: "string \<Rightarrow> (string \<times> bool) list result"
  fy_Stat :: "string \<Rightarrow> bool"

definition filepath_Join :: "string \<Rightarrow> string \<Rightarrow> string" where
  "filepath_Join a b = (if a = [] then (if b = [] then [] else path_Clean b) else path_Clean (a @ ''/'' @ b))"

definition InputSchemaPath :: "AutomationDocument \<Rightarrow> string" where "InputSchemaPath a = filepath_Join (ad_SectionDir a) (ad_InputEndpoint a)"
definition OutputSchemaPath :: "AutomationDocument \<Rightarrow> string" where "OutputSchemaPath a = filepath_Join (ad_SectionDir a) (ad_OutputEndpoint a)"

section \<open>Validation\<close>

text \<open>A loop that returns at the first element that fails.\<close>

fun eachOk :: "('a \<Rightarrow> unit result) \<Rightarrow> 'a list \<Rightarrow> unit result" where
  "eachOk f [] = Inr ()"
| "eachOk f (v # vs) = andThen (f v) (\<lambda>_. eachOk f vs)"

definition packageIDPattern :: "string \<Rightarrow> bool" where
  "packageIDPattern s = (case s of [] \<Rightarrow> False | c # cs \<Rightarrow> inRange 97 122 (of_char c)
     \<and> list_all (\<lambda>c. inRange 97 122 (of_char c) \<or> isDigit c \<or> c = CHR ''-'') cs)"

fun packageCapabilities :: "(string \<times> capDef) list \<Rightarrow> string set \<Rightarrow> string list \<Rightarrow> unit result" where
  "packageCapabilities caps seen [] = Inr ()"
| "packageCapabilities caps seen (c # cs) =
     andThen (require (map_of caps c \<noteq> None) (ErrMessage ''package references unknown capability'')) (\<lambda>_.
     andThen (require (c \<notin> seen) (ErrMessage ''package repeats capability'')) (\<lambda>_.
     packageCapabilities caps (insert c seen) cs))"

definition inferencePackage :: "string \<Rightarrow> PackageDef \<Rightarrow> unit result" where
  "inferencePackage pid pkg =
    (let engine = TrimSpace (pk_InferenceEngine pkg)
     in andThen (require (packageIDPattern engine) (ErrMessage ''package must declare a valid inference engine'')) (\<lambda>_.
        if pid = ''std-llm'' then require (engine = ''ollama'') (ErrMessage ''standard inference package must use ollama'')
        else if pid = ''acc-llm'' then require (engine = ''vllm'') (ErrMessage ''accelerated inference package must use vllm'')
        else Inl (ErrMessage ''unknown inference package'')))"

definition checkPackage :: "(string \<times> capDef) list \<Rightarrow> string \<times> PackageDef \<Rightarrow> unit result" where
  "checkPackage caps p = (case p of (pid, pkg) \<Rightarrow>
     andThen (require (packageIDPattern pid) (ErrMessage ''invalid package id'')) (\<lambda>_.
     andThen (require (TrimSpace (pk_DisplayName pkg) \<noteq> [] \<and> TrimSpace (pk_Description pkg) \<noteq> [] \<and> pk_Capabilities pkg \<noteq> [])
        (ErrMessage ''package must define displayName, description, and capabilities'')) (\<lambda>_.
     andThen (packageCapabilities caps {} (pk_Capabilities pkg)) (\<lambda>_.
     if ''inference'' \<in> set (pk_Capabilities pkg) then inferencePackage pid pkg else Inr ()))))"

text \<open>The packages that own a capability.\<close>

definition owned :: "(string \<times> PackageDef) list \<Rightarrow> string \<Rightarrow> bool" where
  "owned packages c \<longleftrightarrow> list_ex (\<lambda>p. c \<in> set (pk_Capabilities (snd p))) packages"

definition validatePackageCatalog :: "(string \<times> PackageDef) list \<Rightarrow> (string \<times> capDef) list \<Rightarrow> (string \<times> profileDef) list \<Rightarrow> unit result" where
  "validatePackageCatalog packages caps profiles =
     andThen (require (packages \<noteq> []) (ErrMessage ''packages catalog is empty'')) (\<lambda>_.
     andThen (eachOk (checkPackage caps) packages) (\<lambda>_.
     andThen (eachOk (\<lambda>c. require (owned packages (fst c)) (ErrMessage ''capability is not assigned to a delivery package'')) caps) (\<lambda>_.
     eachOk (\<lambda>p. eachOk (\<lambda>c. require (owned packages c) (ErrMessage ''profile references unassigned capability'')) (pd_Capabilities (snd p))) profiles)))"

definition checkCapability :: "(string \<times> capDef) list \<Rightarrow> string \<times> capDef \<Rightarrow> unit result" where
  "checkCapability caps c =
     andThen (eachOk (\<lambda>d. require (map_of caps d \<noteq> None) (ErrMessage ''capability requires unknown'')) (cd_Requires (snd c))) (\<lambda>_.
     eachOk (\<lambda>d. require (map_of caps d \<noteq> None) (ErrMessage ''capability conflicts with unknown'')) (cd_Conflicts (snd c)))"

definition checkRoute :: "ModuleRoute \<Rightarrow> unit result" where
  "checkRoute r =
    (let external = TrimSpace (mr_ExternalPath r); upstream = TrimSpace (mr_UpstreamPath r); strip = TrimSpace (mr_StripPrefix r)
     in andThen (require (TrimSpace (mr_Method r) \<noteq> [] \<and> HasPrefix external ''/'' \<and> TrimSpace (mr_Permission r) \<noteq> []) (ErrMessage ''module has an invalid route'')) (\<lambda>_.
        if strip \<noteq> [] then require (HasPrefix strip ''/'' \<and> upstream = [] \<and> Contains external ''{path...'') (ErrMessage ''module has an invalid strip-prefix route'')
        else require (HasPrefix upstream ''/'') (ErrMessage ''module has an invalid route'')))"

fun checkModules :: "(string \<times> capDef) list \<Rightarrow> string set \<Rightarrow> ModuleDescriptor list \<Rightarrow> unit result" where
  "checkModules caps seen [] = Inr ()"
| "checkModules caps seen (m # ms) =
    (let name = TrimSpace (mo_Name m)
     in andThen (require (name \<noteq> []) (ErrMessage ''module name is required'')) (\<lambda>_.
        andThen (require (name \<notin> seen) (ErrMessage ''module is duplicated'')) (\<lambda>_.
        andThen (require (TrimSpace (mo_Kind m) \<noteq> [] \<and> TrimSpace (mo_ExecutionMode m) \<noteq> [] \<and> TrimSpace (mo_SecurityClass m) \<noteq> [])
           (ErrMessage ''module must define kind, executionMode, and securityClass'')) (\<lambda>_.
        andThen (eachOk (\<lambda>c. require (map_of caps (TrimSpace c) \<noteq> None) (ErrMessage ''module requires unknown capability'')) (mo_RequiredCapabilities m)) (\<lambda>_.
        andThen (eachOk checkRoute (mo_Routes m)) (\<lambda>_.
        checkModules caps (insert name seen) ms))))))"

text \<open>What a capability of a profile asks of the others; an unknown capability has been refused before.\<close>

definition checkDependencies :: "(string \<times> capDef) list \<Rightarrow> string list \<Rightarrow> string \<Rightarrow> unit result" where
  "checkDependencies caps enabled c = (case map_of caps c of
     None \<Rightarrow> Inr ()
   | Some def \<Rightarrow>
       andThen (eachOk (\<lambda>d. require (d \<in> set enabled) (ErrMessage ''profile capability missing dependency'')) (cd_Requires def)) (\<lambda>_.
       eachOk (\<lambda>d. require (d \<notin> set enabled) (ErrMessage ''profile has conflicting capabilities'')) (cd_Conflicts def)))"

definition checkProfile :: "(string \<times> capDef) list \<Rightarrow> string \<times> profileDef \<Rightarrow> unit result" where
  "checkProfile caps p =
    (let enabled = pd_Capabilities (snd p)
     in andThen (require (enabled \<noteq> []) (ErrMessage ''profile has no capabilities'')) (\<lambda>_.
        andThen (eachOk (\<lambda>c. require (map_of caps c \<noteq> None) (ErrMessage ''profile references unknown capability'')) enabled) (\<lambda>_.
        andThen (require (''base'' \<in> set enabled) (ErrMessage ''profile must include base'')) (\<lambda>_.
        eachOk (checkDependencies caps enabled) enabled))))"

definition validateBundleLocalSchemaPath :: "string \<Rightarrow> unit result" where
  "validateBundleLocalSchemaPath endpoint0 =
    (let endpoint = TrimSpace endpoint0; clean = path_Clean (''/'' @ endpoint)
     in andThen (require (endpoint \<noteq> []) (ErrMessage ''schema endpoint is required'')) (\<lambda>_.
        andThen (require (\<not> Contains endpoint ''://'') (ErrMessage ''remote schema endpoints are not allowed'')) (\<lambda>_.
        andThen (require (clean \<noteq> ''/'' \<and> \<not> Contains clean ''..'') (ErrMessage ''schema endpoint must stay within the bundle section'')) (\<lambda>_.
        require (\<not> HasPrefix endpoint ''/'') (ErrMessage ''schema endpoint must be relative'')))))"

definition checkAllowedAPI :: "string \<times> AllowedAPI \<Rightarrow> unit result" where
  "checkAllowedAPI a =
     andThen (require (TrimSpace (fst a) \<noteq> []) (ErrMessage ''allowed API function must not be empty'')) (\<lambda>_.
     require (TrimSpace (aa_Method (snd a)) \<noteq> [] \<and> TrimSpace (aa_Path (snd a)) \<noteq> []) (ErrMessage ''allowed API must define method and path''))"

definition checkAutomation :: "fsys \<Rightarrow> (string \<times> AllowedAPI) list \<Rightarrow> string \<times> AutomationDocument \<Rightarrow> unit result" where
  "checkAutomation fy apis a = (let a = snd a in
     andThen (require (TrimSpace (ad_DSL a) = ''1.0.3'') (ErrMessage ''automation must declare dsl 1.0.3'')) (\<lambda>_.
     andThen (require (TrimSpace (ad_Namespace a) \<noteq> [] \<and> TrimSpace (ad_Name a) \<noteq> []) (ErrMessage ''automation must define namespace and name'')) (\<lambda>_.
     case ad_Do a of
       [f] \<Rightarrow> andThen (require (map_of apis (TrimSpace f) \<noteq> None) (ErrMessage ''automation references disallowed function'')) (\<lambda>_.
              andThen (validateBundleLocalSchemaPath (ad_InputEndpoint a)) (\<lambda>_.
              andThen (validateBundleLocalSchemaPath (ad_OutputEndpoint a)) (\<lambda>_.
              andThen (require (fy_Stat fy (InputSchemaPath a)) (ErrMessage ''automation missing input schema'')) (\<lambda>_.
              require (fy_Stat fy (OutputSchemaPath a)) (ErrMessage ''automation missing output schema'')))))
     | _ \<Rightarrow> Inl (ErrMessage ''automation must contain exactly one supported do step''))))"

definition validateDebugTools :: "fsys \<Rightarrow> Bundle \<Rightarrow> unit result" where
  "validateDebugTools fy b = (case bn_DebugTools b of
     None \<Rightarrow> Inr ()
   | Some t \<Rightarrow>
       andThen (require (dt_AllowedAPIs t \<noteq> []) (ErrMessage ''allowed-apis.yaml must define at least one API'')) (\<lambda>_.
       andThen (eachOk checkAllowedAPI (dt_AllowedAPIs t)) (\<lambda>_.
       eachOk (checkAutomation fy (dt_AllowedAPIs t)) (dt_Automations t))))"

definition allowedTopDirs :: "string list" where
  "allowedTopDirs = [''profiles'', ''capabilities'', ''activation'', ''ui'', ''notifications'', ''mcp-tools'', ''debug-tools'', ''modules'', ''applications'', ''packages'']"

definition checkEntry :: "string \<times> bool \<Rightarrow> unit result" where
  "checkEntry e = (if fst e = ''bundle.yaml'' then Inr ()
     else if snd e then require (fst e \<in> set allowedTopDirs) (ErrMessage ''unknown top-level directory'')
     else Inl (ErrMessage ''unknown top-level file''))"

definition requiredFiles :: "string list" where
  "requiredFiles = [''profiles/catalog.yaml'', ''capabilities/catalog.yaml'', ''packages/catalog.yaml'', ''modules/catalog.yaml'', ''applications/catalog.yaml'']"

definition validateDirectoryLayout :: "fsys \<Rightarrow> string \<Rightarrow> unit result" where
  "validateDirectoryLayout fy root =
     andThen (fy_ReadDir fy root) (\<lambda>entries.
     andThen (eachOk checkEntry entries) (\<lambda>_.
     andThen (require (''bundle.yaml'' \<in> fst ` set entries) (ErrMessage ''bundle.yaml is required'')) (\<lambda>_.
     eachOk (\<lambda>f. require (fy_Stat fy (filepath_Join root f)) (ErrMessage ''missing required file'')) requiredFiles)))"

definition checkManifest :: "Manifest \<Rightarrow> unit result" where
  "checkManifest m =
     andThen (require (mf_APIVersion m = ''metadata.zon/v1'') (ErrMessage ''unsupported apiVersion'')) (\<lambda>_.
     andThen (require (mf_Kind m = ''ApplianceMetadataBundle'') (ErrMessage ''unsupported kind'')) (\<lambda>_.
     andThen (require (mf_SchemaVersion m = 1) (ErrMessage ''unsupported schemaVersion'')) (\<lambda>_.
     andThen (require (TrimSpace (mm_SoftwareVersion (mf_Metadata m)) \<noteq> []) (ErrMessage ''softwareVersion is required'')) (\<lambda>_.
     andThen (require (TrimSpace (mm_MetadataVersion (mf_Metadata m)) \<noteq> []) (ErrMessage ''metadataVersion is required'')) (\<lambda>_.
     CompatibleWithSoftware (mm_SoftwareVersion (mf_Metadata m)) (mm_MetadataVersion (mf_Metadata m)))))))"

definition ValidateBundle :: "fsys \<Rightarrow> Bundle \<Rightarrow> unit result" where
  "ValidateBundle fy b =
     andThen (checkManifest (bn_Manifest b)) (\<lambda>_.
     andThen (require (bn_Profiles b \<noteq> []) (ErrMessage ''profiles catalog is empty'')) (\<lambda>_.
     andThen (require (bn_Capabilities b \<noteq> []) (ErrMessage ''capabilities catalog is empty'')) (\<lambda>_.
     andThen (validatePackageCatalog (bn_Packages b) (bn_Capabilities b) (bn_Profiles b)) (\<lambda>_.
     andThen (require (bn_Modules b \<noteq> []) (ErrMessage ''modules catalog is empty'')) (\<lambda>_.
     andThen (eachOk (checkCapability (bn_Capabilities b)) (bn_Capabilities b)) (\<lambda>_.
     andThen (checkModules (bn_Capabilities b) {} (bn_Modules b)) (\<lambda>_.
     andThen (eachOk (checkProfile (bn_Capabilities b)) (bn_Profiles b)) (\<lambda>_.
     andThen (if bn_RootDir b \<noteq> [] then validateDirectoryLayout fy (bn_RootDir b) else Inr ()) (\<lambda>_.
     validateDebugTools fy b)))))))))"

text \<open>The grouped report of an installation: each group with what it found.\<close>

record ValidationReport =
  vp_OK :: bool
  vp_Groups :: "(string \<times> err list) list"

definition errorsOf :: "unit result \<Rightarrow> err list" where "errorsOf r = (case r of Inl e \<Rightarrow> [e] | Inr _ \<Rightarrow> [])"

definition ValidateForSoftware :: "fsys \<Rightarrow> Bundle \<Rightarrow> string \<Rightarrow> ValidationReport" where
  "ValidateForSoftware fy b softwareVersion =
    (let schema = errorsOf (ValidateBundle fy b);
         compat = errorsOf (CompatibleWithSoftware softwareVersion (mm_MetadataVersion (mf_Metadata (bn_Manifest b))))
     in \<lparr>vp_OK = (schema = [] \<and> compat = []), vp_Groups = [(''schema'', schema), (''version_compatibility'', compat)]\<rparr>)"

definition ProfileIDs :: "Bundle \<Rightarrow> string list" where "ProfileIDs b = sort (map fst (bn_Profiles b))"

section \<open>Unpacking\<close>

datatype tarType = TypeDir | TypeReg | TypeOther

text \<open>What unpacking does to the file system, in order; each operation may fail.\<close>

datatype fsOp = MkdirAll string | WriteFile string string

fun opPath :: "fsOp \<Rightarrow> string" where
  "opPath (MkdirAll p) = p"
| "opPath (WriteFile p data) = p"

definition filepath_Dir :: "string \<Rightarrow> string" where
  "filepath_Dir p = path_Clean (joinWith (CHR ''/'') (butlast (Split p (CHR ''/'')) @ [[]]))"

text \<open>Operations up to the first that fails.\<close>

fun perform :: "(fsOp \<Rightarrow> bool) \<Rightarrow> fsOp list \<Rightarrow> fsOp list \<times> 'a result \<Rightarrow> fsOp list \<times> 'a result" where
  "perform works [] after = after"
| "perform works (p # ps) after = (if works p then apfst ((#) p) (perform works ps after) else ([], Inl (ErrMessage ''file system'')))"

fun ExtractArchive :: "(fsOp \<Rightarrow> bool) \<Rightarrow> string \<Rightarrow> string \<Rightarrow> (string \<times> tarType \<times> string) list \<Rightarrow> fsOp list \<times> string result" where
  "ExtractArchive works dest topLevel [] = ([], if topLevel = [] then Inl (ErrMessage ''empty archive'') else Inr (filepath_Join dest topLevel))"
| "ExtractArchive works dest topLevel ((hdrName, typeflag, data) # rest) =
    (let name = TrimPrefix (path_Clean (''/'' @ hdrName)) ''/'' in
     if name = [] \<or> name = ''.'' then ExtractArchive works dest topLevel rest
     else if Contains name ''..'' then ([], Inl (ErrMessage ''path traversal rejected''))
     else let first = hd (Split name (CHR ''/'')); target = filepath_Join dest name in
       if topLevel \<noteq> [] \<and> first \<noteq> topLevel then ([], Inl (ErrMessage ''archive must contain exactly one top-level directory''))
       else (case typeflag of
           TypeDir \<Rightarrow> perform works [MkdirAll target] (ExtractArchive works dest first rest)
         | TypeReg \<Rightarrow> perform works [MkdirAll (filepath_Dir target), WriteFile target data] (ExtractArchive works dest first rest)
         | TypeOther \<Rightarrow> ([], Inl (ErrMessage ''unsupported tar entry type''))))"

section \<open>Cleaned paths\<close>

definition plainParts :: "string list \<Rightarrow> bool" where
  "plainParts ps \<longleftrightarrow> list_all (\<lambda>p. p \<noteq> [] \<and> p \<noteq> ''.'' \<and> p \<noteq> ''..'' \<and> CHR ''/'' \<notin> set p) ps"

definition rootedPath :: "string list \<Rightarrow> string" where "rootedPath ps = ''/'' @ joinWith (CHR ''/'') ps"

lemma plainParts_simps [simp]:
  "plainParts []" "plainParts (p # ps) \<longleftrightarrow> p \<noteq> [] \<and> p \<noteq> ''.'' \<and> p \<noteq> ''..'' \<and> CHR ''/'' \<notin> set p \<and> plainParts ps"
  "plainParts (ps @ qs) \<longleftrightarrow> plainParts ps \<and> plainParts qs" "plainParts (rev ps) \<longleftrightarrow> plainParts ps"
  by (auto simp: plainParts_def list_all_iff)

lemma cleanParts_plain:
  "list_all (\<lambda>p. CHR ''/'' \<notin> set p) ps \<Longrightarrow> plainParts acc \<Longrightarrow> plainParts (cleanParts True acc ps)"
  by (induction ps arbitrary: acc) (auto split: list.split)

lemma cleanParts_fixed: "plainParts ps \<Longrightarrow> cleanParts r acc ps = rev acc @ ps"
  by (induction ps arbitrary: acc) auto

lemma cleanParts_append: "plainParts ps \<Longrightarrow> cleanParts r acc (ps @ qs) = cleanParts r (rev ps @ acc) qs"
  by (induction ps arbitrary: acc) auto

lemma Split_plain: "plainParts ps \<Longrightarrow> Split (joinWith (CHR ''/'') ps) (CHR ''/'') = (if ps = [] then [[]] else ps)"
  by (auto intro!: Split_joinWith simp: plainParts_def list_all_iff)

lemma path_Clean_rooted: "\<exists>ps. path_Clean (''/'' @ s) = rootedPath ps \<and> plainParts ps"
proof -
  have "plainParts (cleanParts True [] (Split (''/'' @ s) (CHR ''/'')))"
    by (rule cleanParts_plain) (simp_all add: list_all_iff Split_parts_no_sep del: Split.simps append.simps)
  then show ?thesis by (auto simp: path_Clean_def rootedPath_def Let_def HasPrefix_def simp del: Split.simps)
qed

lemma path_Clean_under:
  assumes "plainParts ds" and "ds \<noteq> []" and "plainParts ps" and "ps \<noteq> []"
  shows "path_Clean (rootedPath ds @ ''/'' @ joinWith (CHR ''/'') ps) = rootedPath (ds @ ps)"
proof -
  have "Split (rootedPath ds @ ''/'' @ joinWith (CHR ''/'') ps) (CHR ''/'') = [] # ds @ ps"
    using Split_append [of "rootedPath ds" "CHR ''/''" "joinWith (CHR ''/'') ps"] assms by (simp add: rootedPath_def Split_plain)
  then show ?thesis using assms by (simp add: path_Clean_def Let_def cleanParts_fixed rootedPath_def HasPrefix_def)
qed

lemma Join_under: "plainParts ds \<Longrightarrow> ds \<noteq> [] \<Longrightarrow> plainParts ps \<Longrightarrow> ps \<noteq> [] \<Longrightarrow> filepath_Join (rootedPath ds) (joinWith (CHR ''/'') ps) = rootedPath (ds @ ps)"
  using path_Clean_under by (simp add: filepath_Join_def rootedPath_def)

lemma Dir_under:
  assumes "plainParts ds" and "ds \<noteq> []" and "plainParts ps" and "ps \<noteq> []"
  shows "filepath_Dir (rootedPath (ds @ ps)) = rootedPath (ds @ butlast ps)"
proof -
  have sp: "Split (rootedPath (ds @ ps)) (CHR ''/'') = [] # ds @ ps" using assms by (simp add: rootedPath_def Split_plain)
  have b: "butlast ([] # ds @ ps) = [] # ds @ butlast ps" using assms(4) by (simp add: butlast_append)
  have g: "plainParts (ds @ butlast ps)" using assms by (auto simp: plainParts_def list_all_iff dest: in_set_butlastD)
  let ?l = "[] # ds @ butlast ps @ [[]]"
  have l: "Split (joinWith (CHR ''/'') ?l) (CHR ''/'') = ?l" by (rule Split_joinWith) (use g in \<open>auto simp: plainParts_def list_all_iff\<close>)
  have "HasPrefix (joinWith (CHR ''/'') ?l) ''/''" using assms(2) by (cases ds) (simp_all add: HasPrefix_def)
  moreover have "cleanParts True [] ?l = ds @ butlast ps" using cleanParts_append [OF g, of True "[]" "[[]]"] by simp
  ultimately show ?thesis unfolding filepath_Dir_def sp b path_Clean_def Let_def by (simp add: l rootedPath_def)
qed

section \<open>Archives stay where they belong\<close>

text \<open>
  What unpacking into a directory may touch: the directory itself, which it may create, and what
  lies below it under one top-level name.
\<close>

definition below :: "string list \<Rightarrow> string \<Rightarrow> fsOp \<Rightarrow> bool" where
  "below ds t op \<longleftrightarrow> (\<exists>ps. plainParts ps \<and> opPath op = rootedPath (ds @ ps) \<and> (ps = [] \<longrightarrow> op = MkdirAll (rootedPath ds)) \<and> (ps \<noteq> [] \<longrightarrow> hd ps = t))"

lemma perform_ops: "op \<in> set (fst (perform works ps after)) \<Longrightarrow> op \<in> set ps \<or> op \<in> set (fst after)"
  by (induction ps) (auto simp: apfst_def map_prod_def split: if_splits prod.splits)

lemma perform_Inr: "perform works ps after = (ops, Inr r) \<Longrightarrow> \<exists>ops'. after = (ops', Inr r)"
  by (induction ps arbitrary: ops) (auto simp: apfst_def map_prod_def split: if_splits prod.splits)

lemma perform_start: "(\<And>op. op \<in> set ps \<Longrightarrow> Q op) \<Longrightarrow> (\<And>op. op \<in> set (fst after) \<Longrightarrow> Q op) \<Longrightarrow> op \<in> set (fst (perform works ps after)) \<Longrightarrow> Q op"
  using perform_ops by blast

lemma entry_below:
  assumes "plainParts ds" and "ds \<noteq> []" and "name = TrimPrefix (path_Clean (''/'' @ h)) ''/''" and "name \<noteq> []"
  shows "below ds (hd (Split name (CHR ''/''))) (MkdirAll (filepath_Join (rootedPath ds) name))"
    and "below ds (hd (Split name (CHR ''/''))) (WriteFile (filepath_Join (rootedPath ds) name) data)"
    and "below ds (hd (Split name (CHR ''/''))) (MkdirAll (filepath_Dir (filepath_Join (rootedPath ds) name)))"
    and "hd (Split name (CHR ''/'')) \<noteq> [] \<and> plainParts [hd (Split name (CHR ''/''))]"
proof -
  obtain ps where ps: "path_Clean (''/'' @ h) = rootedPath ps" "plainParts ps" using path_Clean_rooted by blast
  then have n: "name = joinWith (CHR ''/'') ps" "ps \<noteq> []" using assms(3,4) by (auto simp: rootedPath_def TrimPrefix_def HasPrefix_def)
  then have h: "hd (Split name (CHR ''/'')) = hd ps" using Split_plain [OF ps(2)] by simp
  have j: "filepath_Join (rootedPath ds) name = rootedPath (ds @ ps)" using Join_under [OF assms(1,2) ps(2) n(2)] n(1) by simp
  have b: "plainParts (butlast ps)" using ps(2) by (auto simp: plainParts_def list_all_iff dest: in_set_butlastD)
  have hb: "butlast ps \<noteq> [] \<Longrightarrow> hd (butlast ps) = hd ps" by (cases ps) (auto split: if_splits)
  show "below ds (hd (Split name (CHR ''/''))) (MkdirAll (filepath_Join (rootedPath ds) name))"
    "below ds (hd (Split name (CHR ''/''))) (WriteFile (filepath_Join (rootedPath ds) name) data)"
    unfolding below_def h j using ps(2) n(2) by auto
  show "below ds (hd (Split name (CHR ''/''))) (MkdirAll (filepath_Dir (filepath_Join (rootedPath ds) name)))"
    unfolding below_def h j Dir_under [OF assms(1,2) ps(2) n(2)] using b hb by (intro exI [of _ "butlast ps"]) auto
  show "hd (Split name (CHR ''/'')) \<noteq> [] \<and> plainParts [hd (Split name (CHR ''/''))]" unfolding h using ps(2) n(2) by (cases ps) auto
qed

lemma extract_below:
  assumes "plainParts ds" and "ds \<noteq> []"
  shows "plainParts [t0] \<or> t0 = [] \<Longrightarrow> \<exists>t. (t0 \<noteq> [] \<longrightarrow> t = t0) \<and> (\<forall>op\<in>set (fst (ExtractArchive works (rootedPath ds) t0 es)). below ds t op)
    \<and> (\<forall>d. snd (ExtractArchive works (rootedPath ds) t0 es) = Inr d \<longrightarrow> t \<noteq> [] \<and> d = rootedPath (ds @ [t]))"
proof (induction es arbitrary: t0)
  case Nil
  then show ?case using Join_under [OF assms, of "[t0]"] by auto
next
  case (Cons entry rest)
  obtain h ty data where entry: "entry = (h, ty, data)" by (cases entry)
  define name where "name = TrimPrefix (path_Clean (''/'' @ h)) ''/''"
  define first where "first = hd (Split name (CHR ''/''))"
  define target where "target = filepath_Join (rootedPath ds) name"
  define r where "r = ExtractArchive works (rootedPath ds) first rest"
  have step: "ExtractArchive works (rootedPath ds) t0 (entry # rest) =
      (if name = [] \<or> name = ''.'' then ExtractArchive works (rootedPath ds) t0 rest
       else if Contains name ''..'' then ([], Inl (ErrMessage ''path traversal rejected''))
       else if t0 \<noteq> [] \<and> first \<noteq> t0 then ([], Inl (ErrMessage ''archive must contain exactly one top-level directory''))
       else case ty of TypeDir \<Rightarrow> perform works [MkdirAll target] r
         | TypeReg \<Rightarrow> perform works [MkdirAll (filepath_Dir target), WriteFile target data] r
         | TypeOther \<Rightarrow> ([], Inl (ErrMessage ''unsupported tar entry type'')))"
    unfolding entry ExtractArchive.simps Let_def name_def first_def target_def r_def by (rule refl)
  show ?case
  proof (cases "name = [] \<or> name = ''.'' \<or> Contains name ''..'' \<or> t0 \<noteq> [] \<and> first \<noteq> t0 \<or> ty = TypeOther")
    case True
    then show ?thesis using Cons.IH [OF Cons.prems] unfolding step by auto
  next
    case False
    then have n: "name \<noteq> []" by simp
    note e = entry_below [OF assms name_def n, folded first_def target_def]
    from Cons.IH [of first] e(4) obtain t where "t = first" "\<forall>op\<in>set (fst r). below ds t op" "\<forall>d. snd r = Inr d \<longrightarrow> t \<noteq> [] \<and> d = rootedPath (ds @ [t])"
      unfolding r_def by auto
    then have r: "\<forall>op\<in>set (fst r). below ds first op" "\<forall>d. snd r = Inr d \<longrightarrow> d = rootedPath (ds @ [first])" by auto
    define ops where "ops = (if ty = TypeDir then [MkdirAll target] else [MkdirAll (filepath_Dir target), WriteFile target data])"
    have x: "ExtractArchive works (rootedPath ds) t0 (entry # rest) = perform works ops r"
      using False unfolding step ops_def by (cases ty) auto
    have "below ds first op" if "op \<in> set (fst (perform works ops r))" for op
      using perform_ops [OF that] r(1) e(1-3) by (auto simp: ops_def split: if_splits)
    moreover have "d = rootedPath (ds @ [first])" if "snd (perform works ops r) = Inr d" for d
      using perform_Inr [of works ops r "fst (perform works ops r)" d] that r(2) by (metis prod.collapse snd_conv)
    ultimately show ?thesis unfolding x using False e(4) by auto
  qed
qed

text \<open>
  C38. Unpacking stays where it belongs. Whatever names an archive has, with dots, doubled or
  leading slashes, every directory that unpacking makes and every file it writes lies below the
  directory it unpacks into (which it may create), all under one top-level name, and the
  directory that is returned is that name.
\<close>

theorem extraction_stays_inside:
  assumes "plainParts ds" and "ds \<noteq> []"
  shows "\<exists>t. (\<forall>op\<in>set (fst (ExtractArchive works (rootedPath ds) [] es)). below ds t op)
    \<and> (\<forall>d. snd (ExtractArchive works (rootedPath ds) [] es) = Inr d \<longrightarrow> t \<noteq> [] \<and> d = rootedPath (ds @ [t]))"
  using extract_below [OF assms, of "[]"] by blast

definition oddArchive :: "(string \<times> tarType \<times> string) list" where
  "oddArchive = [(''/../b/'', TypeDir, []), (''b//x/../bundle.yaml'', TypeReg, ''kind''), (''./b/./p/c.yaml'', TypeReg, [])]"

theorem extraction_stays_inside_witness:
  "\<exists>t. (\<forall>op\<in>set (fst (ExtractArchive (\<lambda>_. True) ''/data'' [] oddArchive)). below [''data''] t op)
     \<and> map opPath (fst (ExtractArchive (\<lambda>_. True) ''/data'' [] oddArchive)) = [''/data/b'', ''/data/b'', ''/data/b/bundle.yaml'', ''/data/b/p'', ''/data/b/p/c.yaml'']"
proof -
  have "map opPath (fst (ExtractArchive (\<lambda>_. True) ''/data'' [] oddArchive)) = [''/data/b'', ''/data/b'', ''/data/b/bundle.yaml'', ''/data/b/p'', ''/data/b/p/c.yaml'']"
    by code_simp
  then show ?thesis using extraction_stays_inside [of "[''data'']" "\<lambda>_. True" oddArchive] by (auto simp: rootedPath_def)
qed

section \<open>A validated bundle can be run\<close>

lemma eachOk_iff: "eachOk f vs = Inr () \<longleftrightarrow> (\<forall>v\<in>set vs. f v = Inr ())"
  by (induction vs) (auto simp: andThen_Inr_iff)

text \<open>Names that differ after trimming, and none that is blank.\<close>

definition named :: "(string \<times> 'a) list \<Rightarrow> bool" where
  "named xs \<longleftrightarrow> distinct (map (TrimSpace \<circ> fst) xs) \<and> [] \<notin> set (map (TrimSpace \<circ> fst) xs)"

definition trimmedEntries :: "(string \<times> string list) list \<Rightarrow> (string \<times> string list) list" where
  "trimmedEntries xs = map (\<lambda>(n, items). (TrimSpace n, map TrimSpace items)) xs"

lemma trimCatalog_named:
  assumes "named xs"
  shows "\<exists>r. trimCatalog what acc xs = Inr r \<and> map_of r = map_of acc ++ map_of (trimmedEntries xs)"
  using assms
proof (induction xs arbitrary: acc)
  case (Cons e xs)
  obtain n items where e: "e = (n, items)" by (cases e)
  have n: "TrimSpace n \<noteq> []" "named xs" "TrimSpace n \<notin> fst ` set (trimmedEntries xs)"
    using Cons.prems by (auto simp: named_def e trimmedEntries_def image_iff)
  from Cons.IH [OF n(2)] obtain r where r: "trimCatalog what (AList.update (TrimSpace n) (map TrimSpace items) acc) xs = Inr r"
    "map_of r = map_of (AList.update (TrimSpace n) (map TrimSpace items) acc) ++ map_of (trimmedEntries xs)" by blast
  have none: "map_of (trimmedEntries xs) (TrimSpace n) = None" using n(3) by (simp add: map_of_eq_None_iff)
  have "trimmedEntries (e # xs) = (TrimSpace n, map TrimSpace items) # trimmedEntries xs" by (simp add: e trimmedEntries_def)
  then have "map_of r = map_of acc ++ map_of (trimmedEntries (e # xs))"
    unfolding r(2) by (intro ext) (use none in \<open>auto simp: update_conv' map_add_def split: option.split\<close>)
  then show ?case using r(1) n(1) by (auto simp: e)
qed (simp add: trimmedEntries_def)

definition capabilityCatalogOf :: "Bundle \<Rightarrow> CapabilityCatalog result" where
  "capabilityCatalogOf b = CapabilityCatalogFromMetadata (map (\<lambda>(n, c). (n, cd_Requires c)) (bn_Capabilities b))"

definition profileCatalogOf :: "Bundle \<Rightarrow> ProfileCatalog result" where
  "profileCatalogOf b = ProfileCatalogFromMetadata (map (\<lambda>(n, p). (n, pd_Capabilities p)) (bn_Profiles b))"

definition metaView :: "Bundle \<Rightarrow> metaBundle" where
  "metaView b = \<lparr>mb_MetadataVersion = mm_MetadataVersion (mf_Metadata (bn_Manifest b)), mb_Capabilities = bn_Capabilities b, mb_Profiles = bn_Profiles b\<rparr>"

lemma named_entry:
  assumes "named xs" and "(n, v) \<in> set xs"
  shows "map_of (trimmedEntries (map (\<lambda>(n, v). (n, f v)) xs)) (TrimSpace n) = Some (map TrimSpace (f v))"
proof (rule map_of_is_SomeI)
  have "map fst (trimmedEntries (map (\<lambda>(n, v). (n, f v)) xs)) = map (TrimSpace \<circ> fst) xs" by (simp add: trimmedEntries_def case_prod_beta)
  then show "distinct (map fst (trimmedEntries (map (\<lambda>(n, v). (n, f v)) xs)))" using assms(1) by (simp add: named_def)
  show "(TrimSpace n, map TrimSpace (f v)) \<in> set (trimmedEntries (map (\<lambda>(n, v). (n, f v)) xs))" using assms(2) by (force simp: trimmedEntries_def)
qed

lemma named_map: "named (map (\<lambda>(n, v). (n, f v)) xs) \<longleftrightarrow> named xs"
proof -
  have "TrimSpace \<circ> fst \<circ> (\<lambda>(n, v). (n, f v)) = TrimSpace \<circ> fst" by auto
  then show ?thesis by (simp add: named_def case_prod_beta image_image)
qed

lemma ValidateBundle_parts:
  assumes "ValidateBundle fy b = Inr ()"
  shows "validatePackageCatalog (bn_Packages b) (bn_Capabilities b) (bn_Profiles b) = Inr ()"
    and "checkModules (bn_Capabilities b) {} (bn_Modules b) = Inr ()"
    and "\<forall>p\<in>set (bn_Profiles b). checkProfile (bn_Capabilities b) p = Inr ()"
  using assms by (simp_all add: ValidateBundle_def andThen_Inr_iff eachOk_iff)

lemma checkProfile_iff:
  "checkProfile caps p = Inr () \<longleftrightarrow> pd_Capabilities (snd p) \<noteq> [] \<and> ''base'' \<in> set (pd_Capabilities (snd p))
    \<and> (\<forall>c\<in>set (pd_Capabilities (snd p)). \<exists>def. map_of caps c = Some def \<and> set (cd_Requires def) \<subseteq> set (pd_Capabilities (snd p))
         \<and> set (cd_Conflicts def) \<inter> set (pd_Capabilities (snd p)) = {})"
proof -
  let ?cs = "pd_Capabilities (snd p)"
  have dep: "checkDependencies caps ?cs c = Inr () \<longleftrightarrow> (\<forall>def. map_of caps c = Some def \<longrightarrow> set (cd_Requires def) \<subseteq> set ?cs \<and> set (cd_Conflicts def) \<inter> set ?cs = {})" for c
    by (cases "map_of caps c") (auto simp: checkDependencies_def andThen_Inr_iff eachOk_iff require_def split: if_splits)
  show ?thesis
    by (simp add: checkProfile_def Let_def andThen_Inr_iff eachOk_iff dep require_def) force
qed

lemma checkModules_distinct:
  "checkModules caps seen ms = Inr () \<Longrightarrow> distinct (map (TrimSpace \<circ> mo_Name) ms) \<and> (\<forall>m\<in>set ms. TrimSpace (mo_Name m) \<notin> seen)
    \<and> (\<forall>m\<in>set ms. \<forall>c\<in>set (mo_RequiredCapabilities m). map_of caps (TrimSpace c) \<noteq> None)"
proof (induction ms arbitrary: seen)
  case (Cons m ms)
  then have m: "TrimSpace (mo_Name m) \<notin> seen" "\<forall>c\<in>set (mo_RequiredCapabilities m). map_of caps (TrimSpace c) \<noteq> None"
    and ms: "checkModules caps (insert (TrimSpace (mo_Name m)) seen) ms = Inr ()"
    by (auto simp: Let_def andThen_Inr_iff eachOk_iff require_def split: if_splits)
  from Cons.IH [OF ms] m show ?case by auto
qed simp

definition profileRuns :: "Bundle \<Rightarrow> ProfileCatalog \<Rightarrow> CapabilityCatalog \<Rightarrow> string \<Rightarrow> profileDef \<Rightarrow> bool" where
  "profileRuns b pc cc n p \<longleftrightarrow>
     (\<exists>rp. ResolveProfileWithCatalogs n pc cc = Inr rp \<and> set (rv_Capabilities rp) = TrimSpace ` set (pd_Capabilities p))
     \<and> definitionProblems (metaView b) (pd_Capabilities p) = []
     \<and> (\<forall>c\<in>set (pd_Capabilities p). set (cd_Conflicts (capDefOf (metaView b) c)) \<inter> set (pd_Capabilities p) = {} \<and> owned (bn_Packages b) c)"

lemma checked_profile_resolves:
  assumes "checkProfile caps (n, p) = Inr ()" and "named caps" and "map_of pc (TrimSpace n) = Some (map TrimSpace (pd_Capabilities p))"
    and "map_of cc = map_of (trimmedEntries (map (\<lambda>(n, c). (n, cd_Requires c)) caps))"
  shows "\<exists>rp. ResolveProfileWithCatalogs n pc cc = Inr rp \<and> set (rv_Capabilities rp) = TrimSpace ` set (pd_Capabilities p)"
proof -
  have base: "TrimSpace ''base'' = CapabilityBase" by code_simp
  have "\<exists>deps. map_of cc (TrimSpace c) = Some deps \<and> set deps \<subseteq> TrimSpace ` set (pd_Capabilities p)" if c: "c \<in> set (pd_Capabilities p)" for c
  proof -
    from assms(1) c obtain def where def: "map_of caps c = Some def" "set (cd_Requires def) \<subseteq> set (pd_Capabilities p)" unfolding checkProfile_iff by auto
    have "map_of cc (TrimSpace c) = Some (map TrimSpace (cd_Requires def))" unfolding assms(4) by (rule named_entry [OF assms(2) map_of_SomeD [OF def(1)]])
    with def(2) show ?thesis by auto
  qed
  then have "closedUnder cc (set (map TrimSpace (pd_Capabilities p)))" by (auto simp: closedUnder_def)
  moreover have "CapabilityBase \<in> set (map TrimSpace (pd_Capabilities p))" using assms(1) base unfolding checkProfile_iff by (auto simp: image_iff) metis
  ultimately have "ResolveProfileWithCatalogs n pc cc = Inr \<lparr>rv_Name = TrimSpace n, rv_Capabilities = sort (remdups (map TrimSpace (pd_Capabilities p)))\<rparr>"
    unfolding ResolveProfile_iff using assms(3) by blast
  then show ?thesis by (intro exI conjI) auto
qed

lemma checked_profile_defined:
  assumes "checkProfile (bn_Capabilities b) (n, p) = Inr ()"
  shows "definitionProblems (metaView b) (pd_Capabilities p) = []
    \<and> (\<forall>c\<in>set (pd_Capabilities p). set (cd_Conflicts (capDefOf (metaView b) c)) \<inter> set (pd_Capabilities p) = {})"
proof -
  have "\<exists>def. map_of (mb_Capabilities (metaView b)) c = Some def \<and> capDefOf (metaView b) c = def \<and> set (cd_Requires def) \<subseteq> set (pd_Capabilities p)
      \<and> set (cd_Conflicts def) \<inter> set (pd_Capabilities p) = {}" if "c \<in> set (pd_Capabilities p)" for c
    using assms that unfolding checkProfile_iff by (force simp: metaView_def capDefOf_def)
  then show ?thesis unfolding definitionProblems_none by (metis domI)
qed

text \<open>
  C37. A validated bundle can be run. When a bundle passes the validation, and its profiles and
  capabilities still have different, nonblank names after trimming, its catalogs are accepted and
  every profile resolves, to exactly the capabilities it lists; the check of the profile that
  activation makes finds nothing wrong with its definition, no two of its capabilities are in
  conflict, and each is delivered by some package. No two modules have the same name.
\<close>

theorem validated_bundle_is_runnable:
  assumes "ValidateBundle fy b = Inr ()" and "named (bn_Profiles b)" and "named (bn_Capabilities b)"
  shows "\<exists>pc cc. profileCatalogOf b = Inr pc \<and> capabilityCatalogOf b = Inr cc \<and> (\<forall>(n, p)\<in>set (bn_Profiles b). profileRuns b pc cc n p)
    \<and> distinct (map (TrimSpace \<circ> mo_Name) (bn_Modules b))"
proof -
  note v = ValidateBundle_parts [OF assms(1)]
  obtain pc where pc: "profileCatalogOf b = Inr pc" "map_of pc = map_of (trimmedEntries (map (\<lambda>(n, p). (n, pd_Capabilities p)) (bn_Profiles b)))"
    using trimCatalog_named [of "map (\<lambda>(n, p). (n, pd_Capabilities p)) (bn_Profiles b)" _ "[]"] assms(2)
    unfolding profileCatalogOf_def ProfileCatalogFromMetadata_def named_map by force
  obtain cc where cc: "capabilityCatalogOf b = Inr cc" "map_of cc = map_of (trimmedEntries (map (\<lambda>(n, c). (n, cd_Requires c)) (bn_Capabilities b)))"
    using trimCatalog_named [of "map (\<lambda>(n, c). (n, cd_Requires c)) (bn_Capabilities b)" _ "[]"] assms(3)
    unfolding capabilityCatalogOf_def CapabilityCatalogFromMetadata_def named_map by force
  have "profileRuns b pc cc n p" if np: "(n, p) \<in> set (bn_Profiles b)" for n p
  proof -
    from v(3) np have chk: "checkProfile (bn_Capabilities b) (n, p) = Inr ()" by blast
    have "map_of pc (TrimSpace n) = Some (map TrimSpace (pd_Capabilities p))" unfolding pc(2) by (rule named_entry [OF assms(2) np])
    note r = checked_profile_resolves [OF chk assms(3) this cc(2)]
    have "owned (bn_Packages b) c" if "c \<in> set (pd_Capabilities p)" for c
      using v(1) np that by (auto simp: validatePackageCatalog_def andThen_Inr_iff eachOk_iff require_def split: if_splits)
    with r checked_profile_defined [OF chk] show ?thesis by (simp add: profileRuns_def)
  qed
  with pc(1) cc(1) checkModules_distinct [OF v(2)] show ?thesis by auto
qed

definition homeBundle :: Bundle where
  "homeBundle = \<lparr>bn_RootDir = [],
     bn_Manifest = \<lparr>mf_APIVersion = ''metadata.zon/v1'', mf_Kind = ''ApplianceMetadataBundle'', mf_SchemaVersion = 1,
       mf_Metadata = \<lparr>mm_SoftwareVersion = ''1.2.3-dev'', mm_MetadataVersion = ''1.2.3.7'', mm_CreatedAt = [], mm_Vendor = []\<rparr>, mf_Sections = []\<rparr>,
     bn_Profiles = [(''home'', \<lparr>pd_DisplayName = ''Home'', pd_Description = [], pd_Capabilities = [''files'', ''base'']\<rparr>)],
     bn_Capabilities = [(''base'', zeroCapDef), (''files'', zeroCapDef\<lparr>cd_Requires := [''base'']\<rparr>)],
     bn_Packages = [(''core'', \<lparr>pk_InferenceEngine = [], pk_DisplayName = ''Core'', pk_Description = ''all'', pk_Capabilities = [''base'', ''files'']\<rparr>)],
     bn_Modules = [sampleModule], bn_DebugTools = None\<rparr>"

definition noFiles :: fsys where "noFiles = \<lparr>fy_ReadDir = (\<lambda>_. Inr []), fy_Stat = (\<lambda>_. False)\<rparr>"

theorem validated_bundle_is_runnable_witness:
  "ValidateBundle noFiles homeBundle = Inr () \<and> (\<exists>pc cc. profileCatalogOf homeBundle = Inr pc \<and> capabilityCatalogOf homeBundle = Inr cc
     \<and> profileRuns homeBundle pc cc ''home'' \<lparr>pd_DisplayName = ''Home'', pd_Description = [], pd_Capabilities = [''files'', ''base'']\<rparr>)"
proof -
  have v: "ValidateBundle noFiles homeBundle = Inr ()" by code_simp
  have "named (bn_Profiles homeBundle)" "named (bn_Capabilities homeBundle)" by code_simp+
  from validated_bundle_is_runnable [OF v this] v show ?thesis by (auto simp: homeBundle_def)
qed

section \<open>What the validation does not see\<close>

text \<open>A schema endpoint that leaves the bundle is accepted: the dots are cleaned away before they are looked for.\<close>

lemma escaping_schema_accepted:
  "validateBundleLocalSchemaPath ''../../../etc/shadow'' = Inr ()"
  "filepath_Join ''/data/b/debug-tools'' ''../../../etc/shadow'' = ''/etc/shadow''"
  by code_simp+

text \<open>A capability with a blank name passes the validation, and no catalog can be made of the bundle.\<close>

lemma blank_capability_accepted:
  "ValidateBundle noFiles (homeBundle\<lparr>bn_Capabilities := ('' '', zeroCapDef) # bn_Capabilities homeBundle,
     bn_Packages := [(''core'', \<lparr>pk_InferenceEngine = [], pk_DisplayName = ''Core'', pk_Description = ''all'', pk_Capabilities = ['' '', ''base'', ''files'']\<rparr>)]\<rparr>) = Inr ()
   \<and> isl (capabilityCatalogOf (homeBundle\<lparr>bn_Capabilities := [('' '', zeroCapDef)]\<rparr>))"
  by code_simp

end
