(* ===== verification/Gateway.thy ===== *)
theory Gateway
  imports Reqauth Appliance
begin

text \<open>
  The gates of the HTTP interface: the middleware every protected route runs through
  (httpapi/auth.go, the wrappers of router.go), the check a front proxy asks for
  (forwardauth/policy.go, httpapi/forwardauth.go) and the proxy to the services of enabled
  modules (httpapi/serviceproxy.go). Header names are in their canonical form, as net/http
  gives them to a handler.
\<close>

section \<open>Requests and headers\<close>

type_synonym headers = "(string \<times> string list) list"

definition hGet :: "headers \<Rightarrow> string \<Rightarrow> string" where
  "hGet h k = (case map_of h k of Some (v # _) \<Rightarrow> v | _ \<Rightarrow> [])"

definition hDel :: "string \<Rightarrow> headers \<Rightarrow> headers" where "hDel k h = filter (\<lambda>e. fst e \<noteq> k) h"

definition hSet :: "string \<Rightarrow> string \<Rightarrow> headers \<Rightarrow> headers" where "hSet k v h = (k, [v]) # hDel k h"

text \<open>\<open>rq_PathID\<close> is the path value id of the matched pattern, \<open>rq_ID\<close> and \<open>rq_TraceID\<close> what the context carries.\<close>

record request =
  rq_Method :: string
  rq_Path :: string
  rq_Header :: headers
  rq_PlaybackCookie :: "string option"
  rq_RemoteAddr :: string
  rq_ID :: string
  rq_TraceID :: string
  rq_PathID :: string

text \<open>A handler either writes a problem, with its status and code, or answers.\<close>

datatype 'a reply = Problem int string | Reply 'a

section \<open>The middleware of protected routes\<close>

definition authProblem :: "err \<Rightarrow> 'a reply" where
  "authProblem e = (if e \<noteq> ErrUnauthenticated \<and> e \<noteq> ErrInvalidCredential then Problem 500 ''internal_error'' else Problem 401 ''unauthorized'')"

definition bearerOf :: "request \<Rightarrow> string" where
  "bearerOf r = (case BearerToken (hGet (rq_Header r) ''Authorization'') of None \<Rightarrow> [] | Some raw \<Rightarrow> raw)"

definition RequireAuth :: "ext \<Rightarrow> SessionService \<Rightarrow> io \<Rightarrow> (Principal option \<Rightarrow> request \<Rightarrow> db \<Rightarrow> db \<times> 'a reply) \<Rightarrow> request \<Rightarrow> db \<Rightarrow> db \<times> 'a reply" where
  "RequireAuth x s io nxt r d =
    (case Authenticate x s (bearerOf r) io d of
       (d1, Inl e) \<Rightarrow> (d1, authProblem e)
     | (d1, Inr p) \<Rightarrow> nxt (Some p) r d1)"

definition RequireVideoPlaybackCookie ::
    "ext \<Rightarrow> SessionService \<Rightarrow> io \<Rightarrow> (Principal option \<Rightarrow> request \<Rightarrow> db \<Rightarrow> db \<times> 'a reply) \<Rightarrow> request \<Rightarrow> db \<Rightarrow> db \<times> 'a reply" where
  "RequireVideoPlaybackCookie x s io nxt r d =
    (case rq_PlaybackCookie r of
       None \<Rightarrow> (d, Problem 401 ''unauthorized'')
     | Some value \<Rightarrow>
         if value = [] then (d, Problem 401 ''unauthorized'')
         else (case Authenticate x s value io d of
                 (d1, Inl e) \<Rightarrow> (d1, authProblem e)
               | (d1, Inr p) \<Rightarrow>
                   if pp_AuthMethod p \<noteq> ''session'' then (d1, Problem 401 ''unauthorized'') else nxt (Some p) r d1))"

definition RequirePermission ::
    "string \<Rightarrow> (Principal option \<Rightarrow> request \<Rightarrow> db \<Rightarrow> db \<times> 'a reply) \<Rightarrow> Principal option \<Rightarrow> request \<Rightarrow> db \<Rightarrow> db \<times> 'a reply" where
  "RequirePermission permission nxt po r d =
    (case po of
       None \<Rightarrow> (d, Problem 401 ''unauthorized'')
     | Some p \<Rightarrow> if \<not> HasPermission (pp_Permissions p) permission then (d, Problem 403 ''forbidden'') else nxt po r d)"

definition RequireAnyPermission ::
    "string list \<Rightarrow> (Principal option \<Rightarrow> request \<Rightarrow> db \<Rightarrow> db \<times> 'a reply) \<Rightarrow> Principal option \<Rightarrow> request \<Rightarrow> db \<Rightarrow> db \<times> 'a reply" where
  "RequireAnyPermission permissions nxt po r d =
    (case po of
       None \<Rightarrow> (d, Problem 401 ''unauthorized'')
     | Some p \<Rightarrow> if list_ex (HasPermission (pp_Permissions p)) permissions then nxt po r d else (d, Problem 403 ''forbidden''))"

text \<open>The wrappers a route is registered with.\<close>

datatype wrapper = Protect string | ProtectAny "string list" | AuthenticatedOnly | Playback

definition wrap :: "ext \<Rightarrow> SessionService \<Rightarrow> io \<Rightarrow> wrapper \<Rightarrow> (Principal option \<Rightarrow> request \<Rightarrow> db \<Rightarrow> db \<times> 'a reply) \<Rightarrow> request \<Rightarrow> db \<Rightarrow> db \<times> 'a reply" where
  "wrap x s io wr h =
    (case wr of
       Protect permission \<Rightarrow> RequireAuth x s io (RequirePermission permission h)
     | ProtectAny permissions \<Rightarrow> RequireAuth x s io (RequireAnyPermission permissions h)
     | AuthenticatedOnly \<Rightarrow> RequireAuth x s io h
     | Playback \<Rightarrow> RequireVideoPlaybackCookie x s io (RequireAnyPermission [''video.library.read'', ''video.play''] h))"

section \<open>Identity headers\<close>

definition sortedPermissions :: "string set \<Rightarrow> string list" where "sortedPermissions perms = sorted_list_of_set perms"

definition identityHeaders :: "Principal \<Rightarrow> (string \<times> string) list" where
  "identityHeaders p =
    [(''X-Appliance-User-Id'', pp_UserID p), (''X-Appliance-Username'', pp_Username p),
     (''X-Appliance-Auth-Domain'', if pp_Domain p = [] then AuthDomainLocal else pp_Domain p),
     (''X-Appliance-Auth-Method'', pp_AuthMethod p), (''X-Appliance-Scopes'', joinWith (CHR '','') (sortedPermissions (pp_Permissions p))),
     (''X-Appliance-Roles'', joinWith (CHR '','') (sort (pp_RoleNames p)))]"

definition identityNames :: "string list" where
  "identityNames = [''X-Appliance-User-Id'', ''X-Appliance-Username'', ''X-Appliance-Auth-Domain'', ''X-Appliance-Auth-Method'', ''X-Appliance-Scopes'', ''X-Appliance-Roles'']"

text \<open>A record whose error is ignored.\<close>

definition recordQuietly :: "ext \<Rightarrow> io \<Rightarrow> Actor \<Rightarrow> Event \<Rightarrow> db \<Rightarrow> db" where
  "recordQuietly x io actor e d = (case Recorder_Record x io actor e d of Inl _ \<Rightarrow> d | Inr d1 \<Rightarrow> d1)"

section \<open>The check of a front proxy\<close>

record ForwardDecision =
  de_Allowed :: bool
  de_Capability :: string
  de_Permission :: string
  de_ReasonCode :: string

text \<open>net/url: the path of a request URI and of a URL, when they parse.\<close>

record uriExt =
  ux_requestURI :: "string \<Rightarrow> string option"
  ux_url :: "string \<Rightarrow> string option"
  ux_uupper :: "int \<Rightarrow> int"

definition pathOr :: "string option \<Rightarrow> string \<Rightarrow> string" where
  "pathOr parsed raw = (case parsed of Some path \<Rightarrow> if path = [] then raw else path | None \<Rightarrow> raw)"

definition normalizedPath :: "uriExt \<Rightarrow> string \<Rightarrow> string" where
  "normalizedPath ux rawURI =
    (if rawURI = [] then ''/''
     else if HasPrefix rawURI ''/'' then pathOr (ux_requestURI ux rawURI) rawURI
     else pathOr (ux_url ux rawURI) rawURI)"

definition allow :: "string \<Rightarrow> string \<Rightarrow> ForwardDecision" where
  "allow capability permission = \<lparr>de_Allowed = True, de_Capability = capability, de_Permission = permission, de_ReasonCode = []\<rparr>"

definition refuse :: "string \<Rightarrow> ForwardDecision" where
  "refuse reason = \<lparr>de_Allowed = False, de_Capability = [], de_Permission = [], de_ReasonCode = reason\<rparr>"

definition RequiredPermission :: "uriExt \<Rightarrow> string \<Rightarrow> string \<Rightarrow> string \<Rightarrow> ForwardDecision" where
  "RequiredPermission ux host meth rawURI =
    (let normalizedMethod = ToUpper (ux_uupper ux) (TrimSpace meth); path = normalizedPath ux rawURI
     in if path = ''/mcp'' \<or> HasPrefix path ''/mcp/'' then allow CapabilityBase ''mcp.invoke''
        else if path = ''/v2/'' \<or> path = ''/v2'' \<or> HasPrefix path ''/v2/'' then
          (if normalizedMethod \<in> {''GET'', ''HEAD''} then allow ''artifact'' ''artifacts.read''
           else if normalizedMethod \<in> {''POST'', ''PUT'', ''PATCH''} then allow ''artifact'' ''artifacts.write''
           else if normalizedMethod = ''DELETE'' then allow ''artifact'' ''artifacts.delete''
           else refuse ''unsupported_method'')
        else refuse ''no_matching_policy'')"

fun firstHeader :: "headers \<Rightarrow> string list \<Rightarrow> string" where
  "firstHeader h [] = []"
| "firstHeader h (name # names) = (if TrimSpace (hGet h name) \<noteq> [] then TrimSpace (hGet h name) else firstHeader h names)"

definition checkEvent :: "string \<Rightarrow> string \<Rightarrow> (string \<times> json) list option \<Rightarrow> Event" where
  "checkEvent outcome reasonCode details = \<lparr>ev_Action = ''forward_auth.check'', ev_TargetType = ''route'', ev_TargetID = [], ev_Outcome = outcome,
     ev_ReasonCode = reasonCode, ev_Severity = [], ev_Details = details\<rparr>"

definition recordAnonymous :: "ext \<Rightarrow> io \<Rightarrow> request \<Rightarrow> string \<Rightarrow> string \<Rightarrow> db \<Rightarrow> db" where
  "recordAnonymous x io r outcome reasonCode =
     recordQuietly x io \<lparr>ac_UserID = [], ac_Type = ''anonymous'', ac_AuthMethod = ''forward_auth'', ac_CredentialID = [], ac_RequestID = rq_ID r, ac_SourceAddr = rq_RemoteAddr r\<rparr>
       (checkEvent outcome reasonCode None)"

definition recordPrincipal :: "ext \<Rightarrow> io \<Rightarrow> request \<Rightarrow> Principal \<Rightarrow> string \<Rightarrow> string \<Rightarrow> string \<Rightarrow> string \<Rightarrow> string \<Rightarrow> string \<Rightarrow> db \<Rightarrow> db" where
  "recordPrincipal x io r p outcome reasonCode host meth uri permission =
     recordQuietly x io (Principal_Actor p (rq_ID r) (rq_RemoteAddr r))
       (checkEvent outcome reasonCode (Some ([(''forwardedHost'', JStr host), (''forwardedMethod'', JStr meth), (''forwardedURI'', JStr uri), (''authDomain'', JStr (pp_Domain p))]
          @ (if permission \<noteq> [] then [(''permission'', JStr permission)] else []))))"

text \<open>The answer of a check that passes are the identity headers, with status 200.\<close>

definition ForwardAuth_Check ::
    "ext \<Rightarrow> uriExt \<Rightarrow> SessionService \<Rightarrow> capSet \<Rightarrow> io \<Rightarrow> request \<Rightarrow> db \<Rightarrow> db \<times> (string \<times> string) list reply" where
  "ForwardAuth_Check x ux s capabilities io r d =
    (case Authenticate x s (bearerOf r) io d of
       (d1, Inl e) \<Rightarrow>
         if e = ErrUnauthenticated \<or> e = ErrInvalidCredential
         then (recordAnonymous x io r ''failure'' ''unauthenticated'' d1, Problem 401 ''unauthorized'')
         else (d1, Problem 500 ''internal_error'')
     | (d1, Inr p) \<Rightarrow>
         let host = firstHeader (rq_Header r) [''X-Forwarded-Host'', ''X-Forwarded-Server''];
             meth = firstHeader (rq_Header r) [''X-Forwarded-Method''];
             uri = firstHeader (rq_Header r) [''X-Forwarded-Uri''];
             decision = RequiredPermission ux host meth uri
         in if \<not> de_Allowed decision then (recordPrincipal x io r p ''failure'' (de_ReasonCode decision) host meth uri [] d1, Problem 403 ''forbidden'')
            else if \<not> capEnabled capabilities (de_Capability decision)
            then (recordPrincipal x io r p ''failure'' ''capability_disabled'' host meth uri [] d1, Problem 404 ''not_found'')
            else if \<not> HasPermission (pp_Permissions p) (de_Permission decision)
            then (recordPrincipal x io r p ''failure'' ''insufficient_permission'' host meth uri (de_Permission decision) d1, Problem 403 ''forbidden'')
            else (recordPrincipal x io r p ''success'' ''allowed'' host meth uri (de_Permission decision) d1, Reply (identityHeaders p)))"

section \<open>The proxy to module services\<close>

record ServiceProxyRegistration =
  sr_Name :: string
  sr_Capability :: string
  sr_BaseURL :: string
  sr_Routes :: "RegistryRoute list"
  sr_InternalToken :: string

definition RegistrationsFromRegistry :: "(int \<Rightarrow> int) \<Rightarrow> RegistryService list \<Rightarrow> ServiceProxyRegistration list" where
  "RegistrationsFromRegistry uupper services =
     map (\<lambda>service. \<lparr>sr_Name = TrimSpace (rs_Name service), sr_Capability = rs_Capability service, sr_BaseURL = TrimSpace (rs_BaseURL service),
       sr_Routes = map (\<lambda>r. \<lparr>rr_Method = ToUpper uupper (TrimSpace (rr_Method r)), rr_ExternalPath = TrimSpace (rr_ExternalPath r),
          rr_UpstreamPath = TrimSpace (rr_UpstreamPath r), rr_StripPrefix = TrimSpace (rr_StripPrefix r), rr_Permission = TrimSpace (rr_Permission r)\<rparr>) (rs_Routes service),
       sr_InternalToken = []\<rparr>) services"

definition proxyPattern :: "(int \<Rightarrow> int) \<Rightarrow> RegistryRoute \<Rightarrow> string" where
  "proxyPattern uupper route =
    (let meth = ToUpper uupper (TrimSpace (rr_Method route)); path = TrimSpace (rr_ExternalPath route)
     in if meth = [] \<or> meth = ''ANY'' \<or> meth = ''*'' then path else meth @ '' '' @ path)"

definition stripProxyPrefix :: "string \<Rightarrow> string \<Rightarrow> string" where
  "stripProxyPrefix path0 prefix0 =
    (let path = TrimSpace path0; prfx = TrimSpace prefix0
     in if prfx = [] then path
        else if path = prfx then ''/''
        else if HasPrefix path (prfx @ ''/'') then (let out = TrimPrefix path prfx in if out = [] then ''/'' else out)
        else path)"

definition isMutatingProxyMethod :: "(int \<Rightarrow> int) \<Rightarrow> string \<Rightarrow> bool" where
  "isMutatingProxyMethod uupper meth \<longleftrightarrow> ToUpper uupper (TrimSpace meth) \<in> {''POST'', ''PUT'', ''PATCH'', ''DELETE''}"

definition proxiedMutationAudit :: "string \<Rightarrow> string \<times> string" where
  "proxiedMutationAudit externalPath =
    (if HasPrefix externalPath ''/inference/'' then (''inference.proxy.mutate'', ''inference'')
     else if HasSuffix externalPath ''/host/wifi/enable'' then (''host.wifi.enable'', ''host_wifi'')
     else if HasSuffix externalPath ''/host/wifi'' then (''host.wifi.update'', ''host_wifi'')
     else if HasSuffix externalPath ''/host/wifi-ap'' then (''host.wifi_ap.update'', ''host_wifi_ap'')
     else if HasSuffix externalPath ''/host/mdns'' then (''host.mdns.update'', ''host_mdns'')
     else (''service.proxy.mutate'', ''service_proxy''))"

text \<open>\<open>url.PathEscape\<close>.\<close>

definition hexUpper :: "int \<Rightarrow> char" where
  "hexUpper n = (if n < 10 then char_of (48 + n) else char_of (55 + n))"

definition segmentByte :: "char \<Rightarrow> bool" where
  "segmentByte c \<longleftrightarrow> (let n = of_char c :: int in inRange 48 57 n \<or> inRange 65 90 n \<or> inRange 97 122 n) \<or> c \<in> set ''-_.~$&+=:@''"

definition PathEscape :: "string \<Rightarrow> string" where
  "PathEscape s = concat (map (\<lambda>c. if segmentByte c then [c] else [CHR 0x25, hexUpper (of_char c div 16), hexUpper (of_char c mod 16)]) s)"

definition upstreamPath :: "RegistryRoute \<Rightarrow> request \<Rightarrow> string" where
  "upstreamPath route r =
    (if rr_StripPrefix route \<noteq> [] then stripProxyPrefix (rq_Path r) (rr_StripPrefix route)
     else if rq_PathID r \<noteq> [] then ReplaceAll (rr_UpstreamPath route) ''{id}'' (PathEscape (rq_PathID r))
     else rr_UpstreamPath route)"

text \<open>
  The headers \<open>httputil.ReverseProxy\<close> hands to the rewrite function: without those that the
  request's Connection header names, the hop-by-hop ones and the forwarding ones. (What it does
  with Te, Upgrade and User-Agent afterwards is left out.)
\<close>

definition trimString :: "string \<Rightarrow> string" where
  "trimString s = (let blank = (\<lambda>c. c = CHR '' '' \<or> c = CHR 0x09 \<or> c = CHR 0x0A \<or> c = CHR 0x0D) in rev (dropWhile blank (rev (dropWhile blank s))))"

definition tokenByte :: "char \<Rightarrow> bool" where
  "tokenByte c \<longleftrightarrow> (let n = of_char c :: int in inRange 48 57 n \<or> inRange 65 90 n \<or> inRange 97 122 n) \<or> c \<in> set ''!#$%&*+-.^_|~'' \<or> c = CHR 0x27 \<or> c = CHR 0x60"

fun canonicalBytes :: "bool \<Rightarrow> string \<Rightarrow> string" where
  "canonicalBytes up [] = []"
| "canonicalBytes up (c # cs) =
    (let n = of_char c :: int; c' = (if up \<and> inRange 97 122 n then char_of (n - 32) else if \<not> up \<and> inRange 65 90 n then char_of (n + 32) else c)
     in c' # canonicalBytes (c = CHR ''-'') cs)"

definition canonicalKey :: "string \<Rightarrow> string" where
  "canonicalKey s = (if list_all tokenByte s then canonicalBytes True s else s)"

definition connectionNames :: "headers \<Rightarrow> string list" where
  "connectionNames h = map canonicalKey (filter (\<lambda>t. t \<noteq> []) (map trimString (concat (map (\<lambda>v. Split v (CHR '','')) (case map_of h ''Connection'' of None \<Rightarrow> [] | Some vs \<Rightarrow> vs)))))"

definition hopHeaders :: "string list" where
  "hopHeaders = [''Connection'', ''Proxy-Connection'', ''Keep-Alive'', ''Proxy-Authenticate'', ''Proxy-Authorization'', ''Te'', ''Trailer'', ''Transfer-Encoding'', ''Upgrade'',
     ''Forwarded'', ''X-Forwarded-For'', ''X-Forwarded-Host'', ''X-Forwarded-Proto'']"

definition proxiedHeaders :: "headers \<Rightarrow> headers" where
  "proxiedHeaders h = filter (\<lambda>e. fst e \<notin> set (connectionNames h) \<and> fst e \<notin> set hopHeaders) h"

definition withIdentity :: "Principal \<Rightarrow> headers \<Rightarrow> headers" where
  "withIdentity p h = fold (\<lambda>(k, v). hSet k v) (identityHeaders p) (fold hDel identityNames h)"

text \<open>What is sent to the service: its path and headers. The trace header is named by platformkit/ctxutil.\<close>

definition proxiedRequest :: "string \<Rightarrow> ServiceProxyRegistration \<Rightarrow> RegistryRoute \<Rightarrow> Principal \<Rightarrow> request \<Rightarrow> string \<times> headers" where
  "proxiedRequest traceHeader registration route p r =
    (let h1 = withIdentity p (rq_Header r);
         h2 = (if rq_ID r \<noteq> [] then hSet ''X-Request-Id'' (rq_ID r) h1 else h1);
         h3 = (if rq_TraceID r \<noteq> [] then hSet traceHeader (rq_TraceID r) h2 else h2);
         h4 = proxiedHeaders h3
     in (upstreamPath route r, if sr_InternalToken registration \<noteq> [] then hSet ''X-Appliance-Internal-Auth'' (sr_InternalToken registration) h4 else h4))"

text \<open>The answer has what was sent to the service and its status, 502 when the call failed.\<close>

definition proxyHandler ::
    "ext \<Rightarrow> (int \<Rightarrow> int) \<Rightarrow> string \<Rightarrow> (string \<times> headers \<Rightarrow> int option) \<Rightarrow> ServiceProxyRegistration \<Rightarrow> RegistryRoute \<Rightarrow> io
       \<Rightarrow> Principal option \<Rightarrow> request \<Rightarrow> db \<Rightarrow> db \<times> ((string \<times> headers) \<times> int) reply" where
  "proxyHandler x uupper traceHeader service registration route io po r d =
    (case po of
       None \<Rightarrow> (d, Problem 401 ''unauthorized'')
     | Some p \<Rightarrow>
         if \<not> HasPermission (pp_Permissions p) (rr_Permission route) then (d, Problem 403 ''forbidden'')
         else let sent = proxiedRequest traceHeader registration route p r;
                  status = (case service sent of None \<Rightarrow> 502 | Some st \<Rightarrow> st);
                  action = proxiedMutationAudit (rq_Path r);
                  d1 = (if isMutatingProxyMethod uupper (rq_Method r) \<and> 200 \<le> status \<and> status < 300
                        then recordQuietly x io (Principal_Actor p (rq_ID r) (rq_RemoteAddr r))
                               (successEvent (fst action) (snd action) (rq_Path r)
                                  (Some [(''method'', JStr (rq_Method r)), (''service'', JStr (sr_Name registration)), (''status'', JInt status)])) d
                        else d)
              in (d1, Reply (sent, status)))"

text \<open>A proxied route is registered with \<open>authenticatedOnly\<close>; its service needs an absolute URL.\<close>

definition newServiceProxyHandler ::
    "ext \<Rightarrow> (int \<Rightarrow> int) \<Rightarrow> string \<Rightarrow> (string \<times> headers \<Rightarrow> int option) \<Rightarrow> (string \<Rightarrow> (string \<times> string) option) \<Rightarrow> SessionService
       \<Rightarrow> ServiceProxyRegistration \<Rightarrow> RegistryRoute \<Rightarrow> (io \<Rightarrow> request \<Rightarrow> db \<Rightarrow> db \<times> ((string \<times> headers) \<times> int) reply) result" where
  "newServiceProxyHandler x uupper traceHeader service urlParse s registration route =
    (case urlParse (TrimSpace (sr_BaseURL registration)) of
       None \<Rightarrow> Inl (ErrMessage ''parse proxied service base URL'')
     | Some (scheme, host) \<Rightarrow>
         if scheme = [] \<or> host = [] then Inl (ErrMessage ''proxied service base URL must be absolute'')
         else Inr (\<lambda>io. wrap x s io AuthenticatedOnly (proxyHandler x uupper traceHeader service registration route io)))"

section \<open>What passes the gates\<close>

lemma authenticated_within_roles: "Authenticate x s raw io d = (d', Inr p) \<Longrightarrow> pp_Permissions p \<subseteq> rolePermissions d (pp_UserID p)"
  by (erule Authenticate_Inr) (auto simp: IntersectScopes_def split: option.splits)

lemma RequireAuth_Reply:
  assumes "RequireAuth x s io h r d = (d', Reply a)"
  obtains p d1 where "Authenticate x s (bearerOf r) io d = (d1, Inr p)" and "h (Some p) r d1 = (d', Reply a)"
  using assms by (auto simp: RequireAuth_def authProblem_def split: prod.splits sum.splits if_splits)

text \<open>
  C39. A front proxy is told yes only for what the policy covers. When the check passes, the
  request was authenticated; the forwarded path is the one of the MCP endpoint or of the
  registry, the capability behind it is enabled, the roles of the user grant the permission the
  policy asks for the forwarded method, and the headers handed out are those of the user.
\<close>

theorem forward_auth_follows_policy:
  assumes "ForwardAuth_Check x ux s capabilities io r d = (d', Reply hs)"
  shows "\<exists>p d1. Authenticate x s (bearerOf r) io d = (d1, Inr p) \<and> hs = identityHeaders p
    \<and> (let path = normalizedPath ux (firstHeader (rq_Header r) [''X-Forwarded-Uri'']); meth = ToUpper (ux_uupper ux) (TrimSpace (firstHeader (rq_Header r) [''X-Forwarded-Method'']))
       in (path = ''/mcp'' \<or> HasPrefix path ''/mcp/'') \<and> capEnabled capabilities CapabilityBase \<and> ''mcp.invoke'' \<in> rolePermissions d (pp_UserID p)
        \<or> (path = ''/v2'' \<or> HasPrefix path ''/v2/'') \<and> capEnabled capabilities ''artifact''
          \<and> (meth \<in> {''GET'', ''HEAD''} \<and> ''artifacts.read'' \<in> rolePermissions d (pp_UserID p)
           \<or> meth \<in> {''POST'', ''PUT'', ''PATCH''} \<and> ''artifacts.write'' \<in> rolePermissions d (pp_UserID p)
           \<or> meth = ''DELETE'' \<and> ''artifacts.delete'' \<in> rolePermissions d (pp_UserID p)))"
proof -
  let ?dec = "RequiredPermission ux (firstHeader (rq_Header r) [''X-Forwarded-Host'', ''X-Forwarded-Server'']) (firstHeader (rq_Header r) [''X-Forwarded-Method''])
      (firstHeader (rq_Header r) [''X-Forwarded-Uri''])"
  obtain p d1 where a: "Authenticate x s (bearerOf r) io d = (d1, Inr p)" and dec: "de_Allowed ?dec" "capEnabled capabilities (de_Capability ?dec)" "de_Permission ?dec \<in> pp_Permissions p"
      and hs: "hs = identityHeaders p"
    using assms by (auto simp: ForwardAuth_Check_def Let_def HasPermission_def split: prod.splits sum.splits if_splits)
  have "de_Permission ?dec \<in> rolePermissions d (pp_UserID p)" using dec(3) authenticated_within_roles [OF a] by blast
  then show ?thesis using a hs dec(1,2)
    by (intro exI [of _ p] exI [of _ d1]) (auto simp: RequiredPermission_def Let_def allow_def refuse_def HasPrefix_def split: if_splits)
qed

lemma map_of_filter_key: "map_of (filter (\<lambda>e. Q (fst e)) h) k = (if Q k then map_of h k else None)"
  by (induction h) auto

lemma map_of_hDel: "map_of (hDel k h) k' = (if k' = k then None else map_of h k')"
  using map_of_filter_key [of "\<lambda>n. n \<noteq> k" h k'] by (simp add: hDel_def)

lemma map_of_hSet: "map_of (hSet k v h) k' = (if k' = k then Some [v] else map_of h k')"
  by (simp add: hSet_def map_of_hDel)

lemma withIdentity_names: "k \<in> set identityNames \<Longrightarrow> map_of (withIdentity p h) k = Some [the (map_of (identityHeaders p) k)]"
  by (auto simp: withIdentity_def identityHeaders_def identityNames_def map_of_hSet map_of_hDel)

lemma withIdentity_other: "k \<notin> set identityNames \<Longrightarrow> map_of (withIdentity p h) k = map_of h k"
  by (auto simp: withIdentity_def identityHeaders_def identityNames_def map_of_hSet map_of_hDel)

lemma identity_not_hop: "k \<in> set identityNames \<Longrightarrow> k \<notin> set hopHeaders \<and> k \<noteq> ''X-Request-Id'' \<and> k \<noteq> ''X-Appliance-Internal-Auth''"
  by (auto simp: identityNames_def hopHeaders_def)

lemma proxied_identity:
  assumes "proxiedRequest trace reg route p r = (path, h)" and "k \<in> set identityNames" and "trace \<notin> set identityNames" and "trace \<noteq> ''Connection''"
  shows "map_of h k = (if k \<in> set (connectionNames (rq_Header r)) then None else Some [the (map_of (identityHeaders p) k)])"
proof -
  define h3 where "h3 = (let h1 = withIdentity p (rq_Header r); h2 = (if rq_ID r \<noteq> [] then hSet ''X-Request-Id'' (rq_ID r) h1 else h1)
     in if rq_TraceID r \<noteq> [] then hSet trace (rq_TraceID r) h2 else h2)"
  have h: "h = (if sr_InternalToken reg \<noteq> [] then hSet ''X-Appliance-Internal-Auth'' (sr_InternalToken reg) (proxiedHeaders h3) else proxiedHeaders h3)"
    using assms(1) by (auto simp: proxiedRequest_def h3_def Let_def)
  have "map_of h3 ''Connection'' = map_of (rq_Header r) ''Connection''"
    using assms(4) by (simp add: h3_def Let_def map_of_hSet withIdentity_other identityNames_def)
  then have c: "connectionNames h3 = connectionNames (rq_Header r)" by (simp add: connectionNames_def)
  have "map_of h3 k = Some [the (map_of (identityHeaders p) k)]"
    using assms(2,3) identity_not_hop [OF assms(2)] by (auto simp: h3_def Let_def map_of_hSet withIdentity_names)
  then have "map_of (proxiedHeaders h3) k = (if k \<in> set (connectionNames (rq_Header r)) then None else Some [the (map_of (identityHeaders p) k)])"
    using identity_not_hop [OF assms(2)] map_of_filter_key [of "\<lambda>n. n \<notin> set (connectionNames h3) \<and> n \<notin> set hopHeaders" h3 k] by (simp add: proxiedHeaders_def c)
  then show ?thesis using identity_not_hop [OF assms(2)] by (simp add: h map_of_hSet)
qed

text \<open>
  C40. What reaches a module's service is authorized and carries the caller's identity. When a
  proxied request is sent on, it was authenticated and the roles of its user grant the permission
  of the route; whatever identity headers the client sent, each one the service sees is the
  user's own. A client can only make the proxy leave one out, by naming it in its Connection
  header. A registration with an internal token always sends that token.
\<close>

theorem proxied_request_is_authorized:
  assumes "newServiceProxyHandler x uupper trace service urlParse s reg route = Inr handler" and "handler io r d = (d', Reply ((path, h), status))"
    and "trace \<notin> set identityNames" and "trace \<noteq> ''Connection''"
  shows "\<exists>p d1. Authenticate x s (bearerOf r) io d = (d1, Inr p) \<and> rr_Permission route \<in> rolePermissions d (pp_UserID p)
    \<and> (\<forall>k\<in>set identityNames. map_of h k = (if k \<in> set (connectionNames (rq_Header r)) then None else Some [the (map_of (identityHeaders p) k)]))
    \<and> (sr_InternalToken reg \<noteq> [] \<longrightarrow> map_of h ''X-Appliance-Internal-Auth'' = Some [sr_InternalToken reg])"
proof -
  have "RequireAuth x s io (proxyHandler x uupper trace service reg route io) r d = (d', Reply ((path, h), status))"
    using assms(1,2) by (auto simp: newServiceProxyHandler_def wrap_def split: option.splits prod.splits if_splits)
  then obtain p d1 where a: "Authenticate x s (bearerOf r) io d = (d1, Inr p)"
    and b: "proxyHandler x uupper trace service reg route io (Some p) r d1 = (d', Reply ((path, h), status))" by (rule RequireAuth_Reply)
  from b have perm: "rr_Permission route \<in> pp_Permissions p" and sent: "proxiedRequest trace reg route p r = (path, h)"
    by (auto simp: proxyHandler_def HasPermission_def Let_def split: if_splits)
  have "rr_Permission route \<in> rolePermissions d (pp_UserID p)" using perm authenticated_within_roles [OF a] by blast
  moreover have "sr_InternalToken reg \<noteq> [] \<longrightarrow> map_of h ''X-Appliance-Internal-Auth'' = Some [sr_InternalToken reg]"
    using sent by (auto simp: proxiedRequest_def Let_def map_of_hSet)
  ultimately show ?thesis using a proxied_identity [OF sent _ assms(3,4)] by blast
qed

section \<open>A client that lies\<close>

definition gateDb :: db where
  "gateDb = ownerDb\<lparr>db_permissions := [\<lparr>p_Name = ''mcp.invoke'', p_Description = []\<rparr>], db_rolePermissions := [\<lparr>rp_RoleID = ''r1'', rp_Permission = ''mcp.invoke''\<rparr>],
     db_tokens := map (\<lambda>t. t\<lparr>t_Scopes := None\<rparr>) (db_tokens ownerDb)\<rparr>"

definition gateRequest :: request where
  "gateRequest = \<lparr>rq_Method = ''GET'', rq_Path = ''/x'', rq_Header = [(''Authorization'', [''Bearer '' @ sampleRaw]), (''X-Appliance-User-Id'', [''root'']),
     (''Connection'', [''close, x-appliance-roles'']), (''X-Forwarded-Uri'', [''/mcp/tools'']), (''X-Forwarded-Method'', [''POST''])],
     rq_PlaybackCookie = None, rq_RemoteAddr = ''10.0.0.1'', rq_ID = ''q'', rq_TraceID = [], rq_PathID = []\<rparr>"

definition plainURIs :: uriExt where "plainURIs = \<lparr>ux_requestURI = Some, ux_url = Some, ux_uupper = (\<lambda>r. r)\<rparr>"

definition gateChecked :: "(string \<times> string) list reply" where
  "gateChecked = snd (ForwardAuth_Check sampleExt plainURIs sampleService [''base''] sampleIO gateRequest gateDb)"

lemma gateChecked_headers:
  "(case gateChecked of Reply hs \<Rightarrow> map_of hs ''X-Appliance-User-Id'' = Some ''u1'' \<and> map_of hs ''X-Appliance-Scopes'' = Some ''mcp.invoke'' | _ \<Rightarrow> False)"
  by code_simp

theorem forward_auth_follows_policy_witness:
  "\<exists>p d1 hs. gateChecked = Reply hs \<and> hs = identityHeaders p \<and> pp_UserID p = ''u1'' \<and> Authenticate sampleExt sampleService (bearerOf gateRequest) sampleIO gateDb = (d1, Inr p)"
proof -
  obtain hs where hs: "gateChecked = Reply hs" "map_of hs ''X-Appliance-User-Id'' = Some ''u1''" using gateChecked_headers by (auto split: reply.splits)
  then have "ForwardAuth_Check sampleExt plainURIs sampleService [''base''] sampleIO gateRequest gateDb
      = (fst (ForwardAuth_Check sampleExt plainURIs sampleService [''base''] sampleIO gateRequest gateDb), Reply hs)"
    by (simp add: gateChecked_def prod_eq_iff)
  from forward_auth_follows_policy [OF this] obtain p d1 where
    "Authenticate sampleExt sampleService (bearerOf gateRequest) sampleIO gateDb = (d1, Inr p)" "hs = identityHeaders p" by blast
  with hs show ?thesis by (auto simp: identityHeaders_def)
qed

definition gateRoute :: RegistryRoute where
  "gateRoute = \<lparr>rr_Method = ''GET'', rr_ExternalPath = ''/x'', rr_UpstreamPath = ''/up'', rr_StripPrefix = [], rr_Permission = ''mcp.invoke''\<rparr>"

definition gateService :: ServiceProxyRegistration where
  "gateService = \<lparr>sr_Name = ''tools'', sr_Capability = ''base'', sr_BaseURL = ''http://tools'', sr_Routes = [gateRoute], sr_InternalToken = ''t''\<rparr>"

definition gateHandler :: "io \<Rightarrow> request \<Rightarrow> db \<Rightarrow> db \<times> ((string \<times> headers) \<times> int) reply" where
  "gateHandler io = wrap sampleExt sampleService io AuthenticatedOnly (proxyHandler sampleExt (\<lambda>r. r) ''Traceparent'' (\<lambda>_. Some 200) gateService gateRoute io)"

lemma gateHandler_sends:
  "(case snd (gateHandler sampleIO gateRequest gateDb) of Reply ((path, h), status) \<Rightarrow> path = ''/up'' \<and> map_of h ''X-Appliance-User-Id'' = Some [''u1''] \<and> map_of h ''X-Appliance-Roles'' = None
      | _ \<Rightarrow> False)"
  by code_simp

theorem proxied_request_is_authorized_witness:
  "\<exists>h status p d1. snd (gateHandler sampleIO gateRequest gateDb) = Reply ((''/up'', h), status) \<and> map_of h ''X-Appliance-User-Id'' = Some [''u1'']
     \<and> map_of h ''X-Appliance-Roles'' = None \<and> map_of h ''X-Appliance-Internal-Auth'' = Some [''t'']
     \<and> Authenticate sampleExt sampleService (bearerOf gateRequest) sampleIO gateDb = (d1, Inr p) \<and> ''mcp.invoke'' \<in> rolePermissions gateDb (pp_UserID p)"
proof -
  have mk: "newServiceProxyHandler sampleExt (\<lambda>r. r) ''Traceparent'' (\<lambda>_. Some 200) (\<lambda>_. Some (''http'', ''tools'')) sampleService gateService gateRoute = Inr gateHandler"
    by (simp add: newServiceProxyHandler_def gateHandler_def fun_eq_iff)
  obtain h status where r: "snd (gateHandler sampleIO gateRequest gateDb) = Reply ((''/up'', h), status)" "map_of h ''X-Appliance-User-Id'' = Some [''u1'']" "map_of h ''X-Appliance-Roles'' = None"
    using gateHandler_sends by (auto split: reply.splits prod.splits)
  then have "gateHandler sampleIO gateRequest gateDb = (fst (gateHandler sampleIO gateRequest gateDb), Reply ((''/up'', h), status))" by (simp add: prod_eq_iff)
  from proxied_request_is_authorized [OF mk this] obtain p d1 where "Authenticate sampleExt sampleService (bearerOf gateRequest) sampleIO gateDb = (d1, Inr p)"
    "''mcp.invoke'' \<in> rolePermissions gateDb (pp_UserID p)" "map_of h ''X-Appliance-Internal-Auth'' = Some [''t'']"
    by (auto simp: identityNames_def gateRoute_def gateService_def)
  with r show ?thesis by blast
qed

end
