(* ===== verification/Spec2Isabelle.thy ===== *)
theory Spec2Isabelle
  imports WebUI Dns AuditExport BuildGuarantees Migrations ListCursor Licensing DevGuarantees MetaBundle Gateway
begin

text \<open>
  \<^bold>\<open>Verification of the appliance control plane\<close>

  The control plane (\<open>services/controlplane\<close>, Go) is the server that administers the appliance:
  it keeps users, roles, sessions and API tokens in an SQL database, records every change in a
  hash-chained audit trail, hands out registry tokens and browser grants, publishes LAN DNS
  records, runs container builds and developer workspaces on a workflow engine, and decides by
  license and metadata bundle which modules are enabled. This development models the packages
  under \<open>services/controlplane/internal\<close> that hold this logic, as executable functions, one per
  function or method of the source and under its name, and proves what they promise. Names that
  would clash carry the service first (\<open>Users_Disable\<close>, \<open>Builds_Create\<close>, \<open>Dns_Upsert\<close>).

  \<^bold>\<open>How the program is modelled.\<close>

  \<^item> A Go string or byte slice is a HOL string, a list of bytes; \<open>GoLib\<close> has UTF-8 decoding and
    the functions of package strings on it, decimal and RFC 3339 text and the JSON encoder, and
    \<open>Base64\<close> the URL-safe encoding. Times are nanoseconds since 1970, counters that may wrap
    are 64-bit words (\<open>ListCursor\<close>), other ints are unbounded where the code can not reach
    their limits, and Go maps are association lists in the order of iteration.
  \<^item> A fallible function returns a sum: \<open>Inl\<close> an error of the type \<open>err\<close> (sentinels such as
    \<open>ErrNotFound\<close>, a driver error, or a message), \<open>Inr\<close> the value. Messages are fixed texts
    without the names they quote.
  \<^item> The database is one record of tables (\<open>Store\<close>), with unique keys, foreign keys and nulls as
    in the migrations. A store method is a function from a database to a result. \<open>WithTx\<close> runs a
    function and keeps its result or nothing, \<open>autoCommit\<close> is a statement on its own, and
    \<open>thenTx\<close>, \<open>thenW\<close> and \<open>thenD\<close> chain requests that commit in several steps, so that a later
    failure keeps what was committed before.
  \<^item> What an operation takes from outside is an argument: \<open>io\<close> has the clock, random bytes, fresh
    identifiers and, per statement, whether it fails; operations that read the clock or draw
    identifiers several times take several. \<open>ext\<close> has cryptography, the JSON decoders, url.Parse
    and the Unicode tables beyond ASCII; \<open>engine\<close> the workflow engine; \<open>licExt\<close>, \<open>catExt\<close>,
    \<open>uriExt\<close> and \<open>fsys\<close> what their components ask of decoders, URL parsing and the file system.
    The documented behaviour a theorem needs of them is a named hypothesis, and its witness has a
    concrete instance (\<open>sampleExt\<close>).
  \<^item> The optional parts of a service (recorder, syncer, credential store) are modelled as the
    server wires them; logging is left out; paths are joined below clean directories.

  \<^bold>\<open>The theories, and what they show.\<close>

  \<^item> \<open>Prelude\<close>, \<open>GoLib\<close>, \<open>Base64\<close>, \<open>Extern\<close>: the shared types, result combinators, the Go
    library and the outside.
  \<^item> \<open>Store\<close>, \<open>IdentityStore\<close>, \<open>Schema\<close> (storage, storage/sqlstore): every method of the identity
    stores; the step relation \<open>store_step\<close> and the invariant \<open>schema_ok\<close> of all reachable databases.
  \<^item> \<open>Migrations\<close> (store.go, migrate.go): placeholders for PostgreSQL equal a reference definition;
    however often migrating fails, the schema is that of a prefix and a calm run completes it.
  \<^item> \<open>AuditTrail\<close>, \<open>AuditExport\<close> (logging, audit, auditops, sqlstore/audit.go): the chain of every
    reachable trail verifies, its last hash binds the history, retention removes only what a
    checkpoint covers, and the export ends with every event. The locale \<open>audited_op\<close> is the
    contract of an audited operation: it changes nothing, or succeeds with its event recorded; the
    services interpret it.
  \<^item> \<open>Credentials\<close>, \<open>SessionJWT\<close>, \<open>Sessions\<close>, \<open>SessionLimits\<close> (authn): credentials round-trip,
    session tokens, login, refresh with reuse detection, throttling. The locale
    \<open>credential_codec\<close> is the contract of the opaque credentials.
  \<^item> \<open>Authz\<close>, \<open>Users\<close>, \<open>Tokens\<close>, \<open>Reqauth\<close> (authz, roles, users, bootstrap, tokens, reqauth): the
    locale \<open>role_store\<close> and the permissions computed from it, administrators that can not be
    lost, built-in roles that do not change, password resets, API tokens, and their composition: an
    authenticated principal has only what its roles grant, and a user cut off stays out.
  \<^item> \<open>Gateway\<close> (httpapi/auth.go, forwardauth.go, serviceproxy.go, forwardauth): what passes the
    check for a front proxy and what the service proxy sends on, down to the identity headers.
  \<^item> \<open>RegistryAuth\<close>, \<open>WebUI\<close>, \<open>Dns\<close> (registryauth, webui, dnsrecords): scopes and an abstract
    monitor that the registry checks refine, grants used once, the published zone.
  \<^item> \<open>BuilderGit\<close>, \<open>Redaction\<close>, \<open>BuildStore\<close>, \<open>Builds\<close>, \<open>BuildLife\<close>, \<open>BuildGuarantees\<close>,
    \<open>BuildFrame\<close> (buildergit, builds, sqlstore): Git credentials behind the locale of a secret
    manager, the build service with its engine, secrets and idempotency keys as the step relation
    \<open>build_step\<close>; builds only move forward, tokens are never shown and end with the build.
  \<^item> \<open>DevCatalog\<close>, \<open>DevStore\<close>, \<open>DevFlows\<close>, \<open>DevLife\<close>, \<open>DevGuarantees\<close> (devflows,
    sqlstore/developer.go, buildercatalog.go): the catalog and what its validation gives, the
    workspaces and jobs on top of the build service as the step relation \<open>dev_step\<close>. The locale
    \<open>build_frame\<close> says what the build service leaves alone, and \<open>DevLife\<close> rests on its
    interpretation.
  \<^item> \<open>Appliance\<close>, \<open>Licensing\<close>, \<open>MetaBundle\<close> (appliance, serviceregistry, licensing, profiles,
    notifications, metadatabundle): profiles, modules and routes, the license state, activation,
    and the validation of bundles: every profile of a bundle that passes it resolves and passes
    the definition check of activation. Unpacking an archive stays inside its directory.
  \<^item> \<open>ListCursor\<close> (listcursor): signed cursors and the bounds of their decoder.

  \<^bold>\<open>Fuel and termination.\<close> All functions are total. \<open>parseGroups\<close> of \<open>Dns\<close> has fuel for nine
  groups, one more than an IPv6 address may have. The export loop of \<open>AuditExport\<close> is a
  \<open>partial_function\<close>, and that it ends is proved. Everything else recurses on its data or has a
  measure.

  \<^bold>\<open>Concurrency.\<close> Requests run as whole steps of the step relations, except where the code commits
  in several transactions and a theorem is about the interleaving: the administrator check
  (\<open>SetUserRoles_check\<close> and \<open>SetUserRoles_write\<close>), grants (\<open>consumeTarget\<close> and
  \<open>consumeCommit\<close>) and the export, whose queries each see the database of their own moment.

  \<^bold>\<open>Not modelled.\<close> The HTTP handlers that decode requests and format answers and the table of
  routes; process configuration and wiring; installing and rolling back metadata bundles and
  running automations, which are file system and HTTP operations around the validation that is
  modelled; clients of other systems (inference, applications on Kubernetes, the artifact server,
  the workflow controller, the MCP tools), whose answers are the subject of those systems; file
  and video storage. Of the other services of the repository (host agent, inference manager, UI,
  gateways, SDK, tests) nothing is modelled: they drive external programs, processes and HTTP
  connections.
\<close>

end
